(* ===== verification/SM_Prelude.thy ===== *)
theory SM_Prelude
  imports Main "HOL-Library.Word"
begin

text \<open>
  Shared vocabulary of the development: machine integers and bytes, the outcome of a
  fallible Rust function (\<open>anyhow::Result\<close> plus the panics a \<open>Result\<close> does not show),
  the state-and-outcome monad in which every \<open>async fn\<close> of the services is written, and a
  small calculus for that monad (inversion of a successful run, and the relations between
  the world before and the world after that a computation keeps).
\<close>

section \<open>Machine integers and bytes\<close>

type_synonym u8 = "8 word"
type_synonym u32 = "32 word"
type_synonym u64 = "64 word"
type_synonym bytes = "8 word list"

text \<open>
  A Rust string is UTF-8; the model keeps its bytes, one \<open>char\<close> per byte, so
  \<open>length\<close> is \<open>str::len\<close> and \<open>as_bytes\<close> only changes the type.
\<close>

definition as_bytes :: "string \<Rightarrow> bytes" where
  "as_bytes s = map of_char s"

lemma unat_of_char_byte [simp]: "unat (of_char c :: 8 word) = of_char c"
proof -
  have "(of_char c :: 8 word) = word_of_nat (of_char c)"
    by (simp add: of_nat_of_char)
  moreover have "(of_char c :: nat) < 256"
    using of_char_mod_256 [of c, where ?'a = nat] by (metis mod_less_divisor zero_less_numeral)
  ultimately show ?thesis
    by (simp add: unat_of_nat)
qed

lemma of_char_byte_inject [simp]: "(of_char c :: 8 word) = of_char d \<longleftrightarrow> c = d"
  by (metis of_char_eq_iff unat_of_char_byte)

lemma as_bytes_inject [simp]: "as_bytes s = as_bytes t \<longleftrightarrow> s = t"
  by (simp add: as_bytes_def inj_map_eq_map inj_def)

section \<open>Outcomes\<close>

text \<open>
  An \<open>anyhow::Error\<close> is a message under a stack of contexts; its \<open>Display\<close>, which is what
  the services show and store, prints the outermost entry only.
\<close>

datatype error = Message string | Context string error

fun error_to_string :: "error \<Rightarrow> string" where
  "error_to_string (Message s) = s"
| "error_to_string (Context c e) = c"

text \<open>
  \<open>Panic\<close> is a Rust panic (\<open>unwrap\<close> of nothing, an index out of range, an arithmetic
  overflow, \<open>todo!\<close>): unlike an \<open>Err\<close> it is not caught by \<open>if let Err(e)\<close>.
\<close>

datatype 'a outcome = Ok 'a | Err error | Panic string

fun is_ok :: "'a outcome \<Rightarrow> bool" where
  "is_ok (Ok _) = True"
| "is_ok _ = False"

fun and_then :: "'a outcome \<Rightarrow> ('a \<Rightarrow> 'b outcome) \<Rightarrow> 'b outcome" where
  "and_then (Ok a) f = f a"
| "and_then (Err e) f = Err e"
| "and_then (Panic p) f = Panic p"

definition bail :: "string \<Rightarrow> 'a outcome" where
  "bail msg = Err (Message msg)"

definition ensure :: "bool \<Rightarrow> string \<Rightarrow> unit outcome" where
  "ensure b msg = (if b then Ok () else bail msg)"

fun ok_or :: "'a option \<Rightarrow> string \<Rightarrow> 'a outcome" where
  "ok_or (Some a) msg = Ok a"
| "ok_or None msg = bail msg"

fun unwrap_opt :: "'a option \<Rightarrow> 'a outcome" where
  "unwrap_opt (Some a) = Ok a"
| "unwrap_opt None = Panic ''called `Option::unwrap()` on a `None` value''"

fun unwrap_res :: "'a outcome \<Rightarrow> 'a outcome" where
  "unwrap_res (Ok a) = Ok a"
| "unwrap_res (Err e) = Panic ''called `Result::unwrap()` on an `Err` value''"
| "unwrap_res (Panic p) = Panic p"

fun with_context :: "string \<Rightarrow> 'a outcome \<Rightarrow> 'a outcome" where
  "with_context c (Ok a) = Ok a"
| "with_context c (Err e) = Err (Context c e)"
| "with_context c (Panic p) = Panic p"

text \<open>What a call into a library or a peer returns: its error rendered as text, or a value.\<close>

fun external :: "string + 'a \<Rightarrow> 'a outcome" where
  "external (Inl e) = bail e"
| "external (Inr a) = Ok a"

text \<open>\<open>iter().map(f).collect::<Result<Vec<_>, _>>()\<close>: the first failure ends the traversal.\<close>

fun collect :: "('a \<Rightarrow> 'b outcome) \<Rightarrow> 'a list \<Rightarrow> 'b list outcome" where
  "collect f [] = Ok []"
| "collect f (x # xs) =
     and_then (f x) (\<lambda>y. and_then (collect f xs) (\<lambda>ys. Ok (y # ys)))"

lemma and_then_Ok_iff [simp]: "and_then r f = Ok b \<longleftrightarrow> (\<exists>a. r = Ok a \<and> f a = Ok b)"
  by (cases r) auto

lemma ensure_Ok_iff [simp]: "ensure b msg = Ok u \<longleftrightarrow> b"
  by (simp add: ensure_def bail_def)

lemma ensure_True [simp]: "ensure True msg = Ok ()"
  by (simp add: ensure_def)

lemma ensure_False [simp]: "ensure False msg = bail msg"
  by (simp add: ensure_def)

lemma bail_neq_Ok [simp]: "bail msg \<noteq> Ok a" "Ok a \<noteq> bail msg" "bail msg \<noteq> Panic p"
  by (simp_all add: bail_def)

lemma and_then_bail [simp]: "and_then (bail msg) f = bail msg"
  by (simp add: bail_def)

lemma ok_or_Ok_iff [simp]: "ok_or x msg = Ok a \<longleftrightarrow> x = Some a"
  by (cases x) auto

lemma unwrap_opt_Ok_iff [simp]: "unwrap_opt x = Ok a \<longleftrightarrow> x = Some a"
  by (cases x) auto

lemma unwrap_res_Ok_iff [simp]: "unwrap_res r = Ok a \<longleftrightarrow> r = Ok a"
  by (cases r) auto

lemma with_context_Ok_iff [simp]: "with_context c r = Ok a \<longleftrightarrow> r = Ok a"
  by (cases r) auto

lemma external_Ok_iff [simp]: "external r = Ok a \<longleftrightarrow> r = Inr a"
  by (cases r) auto

lemma is_ok_iff: "is_ok r \<longleftrightarrow> (\<exists>a. r = Ok a)"
  by (cases r) auto

lemma collect_Ok_iff: "collect f xs = Ok ys \<longleftrightarrow> list_all2 (\<lambda>x y. f x = Ok y) xs ys"
  by (induction xs arbitrary: ys) (auto simp: list_all2_Cons1)

lemma collect_map_Ok: "(\<And>x. x \<in> set xs \<Longrightarrow> f (g x) = Ok x) \<Longrightarrow> collect f (map g xs) = Ok xs"
  by (induction xs) auto

section \<open>Computations over a world\<close>

type_synonym ('s, 'a) io = "'s \<Rightarrow> 'a outcome \<times> 's"

definition returnM :: "'a \<Rightarrow> ('s, 'a) io" where
  "returnM a s = (Ok a, s)"

text \<open>
  \<open>bindM m (\<lambda>x. k)\<close> is \<open>let x = m.await?; k\<close>: an error or a panic of \<open>m\<close> ends the
  function, with the effects \<open>m\<close> has had on the world.
\<close>

definition bindM :: "('s, 'a) io \<Rightarrow> ('a \<Rightarrow> ('s, 'b) io) \<Rightarrow> ('s, 'b) io" where
  "bindM m f s =
     (case m s of
        (Ok a, t) \<Rightarrow> f a t
      | (Err e, t) \<Rightarrow> (Err e, t)
      | (Panic p, t) \<Rightarrow> (Panic p, t))"

text \<open>A pure fallible step (\<open>r?\<close>).\<close>

definition lift :: "'a outcome \<Rightarrow> ('s, 'a) io" where
  "lift r s = (r, s)"

definition contextM :: "string \<Rightarrow> ('s, 'a) io \<Rightarrow> ('s, 'a) io" where
  "contextM c m s = (case m s of (r, t) \<Rightarrow> (with_context c r, t))"

text \<open>\<open>if let Err(e) = m.await\<close>: an error is a value for the caller, a panic is not.\<close>

definition catchM :: "('s, 'a) io \<Rightarrow> ('s, error + 'a) io" where
  "catchM m s =
     (case m s of
        (Ok a, t) \<Rightarrow> (Ok (Inr a), t)
      | (Err e, t) \<Rightarrow> (Ok (Inl e), t)
      | (Panic p, t) \<Rightarrow> (Panic p, t))"

text \<open>\<open>for x in xs { f(x).await? }\<close>, and the same with a variable that the body updates.\<close>

fun for_each :: "('a \<Rightarrow> ('s, unit) io) \<Rightarrow> 'a list \<Rightarrow> ('s, unit) io" where
  "for_each f [] = returnM ()"
| "for_each f (x # xs) = bindM (f x) (\<lambda>_. for_each f xs)"

fun fold_each :: "('a \<Rightarrow> 'v \<Rightarrow> ('s, 'v) io) \<Rightarrow> 'a list \<Rightarrow> 'v \<Rightarrow> ('s, 'v) io" where
  "fold_each f [] v = returnM v"
| "fold_each f (x # xs) v = bindM (f x v) (fold_each f xs)"

lemma bindM_Ok_iff:
  "bindM m f s = (Ok b, u) \<longleftrightarrow> (\<exists>a t. m s = (Ok a, t) \<and> f a t = (Ok b, u))"
  by (auto simp: bindM_def split: prod.splits outcome.splits)

lemma lift_Ok_iff: "lift r s = (Ok a, t) \<longleftrightarrow> r = Ok a \<and> t = s"
  by (auto simp: lift_def)

lemma returnM_Ok_iff: "returnM a s = (Ok b, t) \<longleftrightarrow> b = a \<and> t = s"
  by (auto simp: returnM_def)

lemma contextM_Ok_iff: "contextM c m s = (Ok a, t) \<longleftrightarrow> m s = (Ok a, t)"
  by (auto simp: contextM_def split: prod.splits)

lemma catchM_Ok_iff:
  "catchM m s = (Ok r, t) \<longleftrightarrow>
     (case r of Inr a \<Rightarrow> m s = (Ok a, t) | Inl e \<Rightarrow> m s = (Err e, t))"
  by (cases r) (auto simp: catchM_def split: prod.splits outcome.splits)

lemmas run_Ok_iffs = bindM_Ok_iff lift_Ok_iff returnM_Ok_iff contextM_Ok_iff

lemma bindM_step_Ok: "m s = (Ok a, t) \<Longrightarrow> bindM m f s = f a t"
  by (simp add: bindM_def)

lemma bindM_step_Err: "m s = (Err e, t) \<Longrightarrow> bindM m f s = (Err e, t)"
  by (simp add: bindM_def)

lemma bindM_step_Panic: "m s = (Panic p, t) \<Longrightarrow> bindM m f s = (Panic p, t)"
  by (simp add: bindM_def)

lemma bindM_lift_Ok [simp]: "bindM (lift (Ok a)) f = f a"
  by (simp add: bindM_def lift_def fun_eq_iff)

lemma bindM_lift_bail [simp]: "bindM (lift (bail e)) f = lift (bail e)"
  by (simp add: bindM_def lift_def bail_def fun_eq_iff)

lemma bindM_lift_Panic [simp]: "bindM (lift (Panic e)) f = lift (Panic e)"
  by (simp add: bindM_def lift_def fun_eq_iff)

lemma bindM_lift_Err [simp]: "bindM (lift (Err e)) f = lift (Err e)"
  by (simp add: bindM_def lift_def fun_eq_iff)

lemma bindM_returnM [simp]: "bindM (returnM a) f = f a"
  by (simp add: bindM_def returnM_def fun_eq_iff)

lemma bindM_assoc: "bindM (bindM m f) g = bindM m (\<lambda>a. bindM (f a) g)"
  by (auto simp: bindM_def fun_eq_iff split: prod.splits outcome.splits)

lemma bindM_case_prod:
  "bindM (case p of (x, y) \<Rightarrow> h x y) g = (case p of (x, y) \<Rightarrow> bindM (h x y) g)"
  by (cases p) simp

section \<open>Relations a computation keeps\<close>

text \<open>
  \<open>keeps R m\<close>: whatever the outcome, the world after \<open>m\<close> is related by \<open>R\<close> to the world
  before. For a reflexive and transitive \<open>R\<close> this is compositional; the locale below is
  interpreted for every such relation of the development (the committed database is
  untouched, sequences never decrease, the log only grows).
\<close>

named_theorems keeps_intros

definition keeps :: "('s \<Rightarrow> 's \<Rightarrow> bool) \<Rightarrow> ('s, 'a) io \<Rightarrow> bool" where
  "keeps R m \<longleftrightarrow> (\<forall>s. R s (snd (m s)))"

lemma keepsI: "(\<And>s r t. m s = (r, t) \<Longrightarrow> R s t) \<Longrightarrow> keeps R m"
  unfolding keeps_def by (metis prod.collapse)

lemma keepsD: "keeps R m \<Longrightarrow> m s = (r, t) \<Longrightarrow> R s t"
  unfolding keeps_def by (metis snd_conv)

locale frame_relation =
  fixes R :: "'s \<Rightarrow> 's \<Rightarrow> bool"
  assumes R_refl: "R s s"
    and R_trans: "R s t \<Longrightarrow> R t u \<Longrightarrow> R s u"
begin

lemma keeps_returnM [keeps_intros]: "keeps R (returnM a)"
  by (simp add: keeps_def returnM_def R_refl)

lemma keeps_lift [keeps_intros]: "keeps R (lift r)"
  by (simp add: keeps_def lift_def R_refl)

lemma keeps_bindM [keeps_intros]:
  assumes "keeps R m" and "\<And>a. keeps R (f a)"
  shows "keeps R (bindM m f)"
proof (rule keepsI)
  fix s r u
  assume run: "bindM m f s = (r, u)"
  obtain ra t where m: "m s = (ra, t)"
    by (cases "m s")
  then have "R s t"
    using assms(1) by (rule keepsD [rotated])
  moreover have "R t u"
  proof (cases ra)
    case (Ok a)
    with run m have "f a t = (r, u)"
      by (simp add: bindM_def)
    with assms(2) show ?thesis
      by (rule keepsD)
  next
    case (Err e)
    with run m show ?thesis
      by (simp add: bindM_def R_refl)
  next
    case (Panic p)
    with run m show ?thesis
      by (simp add: bindM_def R_refl)
  qed
  ultimately show "R s u"
    by (rule R_trans)
qed

lemma keeps_contextM [keeps_intros]: "keeps R m \<Longrightarrow> keeps R (contextM c m)"
  by (simp add: keeps_def contextM_def split_beta)

lemma keeps_catchM [keeps_intros]: "keeps R m \<Longrightarrow> keeps R (catchM m)"
  by (auto simp: keeps_def catchM_def split: prod.splits outcome.splits)
    (metis snd_conv)+

lemma keeps_fold_each [keeps_intros]:
  assumes "\<And>x v. keeps R (f x v)"
  shows "keeps R (fold_each f xs v)"
  by (induction xs arbitrary: v) (auto intro!: keeps_returnM keeps_bindM assms)

lemma keeps_for_each [keeps_intros]:
  assumes "\<And>x. keeps R (f x)"
  shows "keeps R (for_each f xs)"
  by (induction xs) (auto intro!: keeps_returnM keeps_bindM assms)

end

lemma keeps_if [keeps_intros]:
  "keeps R m \<Longrightarrow> keeps R n \<Longrightarrow> keeps R (if b then m else n)"
  by simp

lemma keeps_case_option [keeps_intros]:
  "keeps R m \<Longrightarrow> (\<And>x. keeps R (f x)) \<Longrightarrow> keeps R (case opt of None \<Rightarrow> m | Some x \<Rightarrow> f x)"
  by (cases opt) auto

lemma keeps_case_sum [keeps_intros]:
  "(\<And>x. keeps R (f x)) \<Longrightarrow> (\<And>y. keeps R (g y)) \<Longrightarrow>
    keeps R (case z of Inl x \<Rightarrow> f x | Inr y \<Rightarrow> g y)"
  by (cases z) auto

lemma keeps_case_prod [keeps_intros]:
  "(\<And>x y. keeps R (f x y)) \<Longrightarrow> keeps R (case p of (x, y) \<Rightarrow> f x y)"
  by (cases p) auto

lemma keeps_case_prod_app [keeps_intros]:
  "(\<And>x y. keeps R (f x y z)) \<Longrightarrow> keeps R ((case p of (x, y) \<Rightarrow> f x y) z)"
  by (cases p) auto

lemma keeps_Let [keeps_intros]: "(\<And>x. keeps R (f x)) \<Longrightarrow> keeps R (let x = e in f x)"
  by simp

end
