(* ===== verification/Rust_Text.thy ===== *)
theory Rust_Text
  imports SM_Prelude
begin

text \<open>
  The operations of Rust's standard library on strings and integers that the program uses:
  \<open>str::trim\<close>, \<open>str::split\<close>, \<open>str::contains\<close>, decimal rendering and parsing of unsigned
  integers, \<open>to_be_bytes\<close> and its inverse, \<open>str::from_utf8\<close>. The locale \<open>text_codec\<close>
  is the contract between a type's \<open>Display\<close> and its \<open>FromStr\<close>.
\<close>

section \<open>Trimming\<close>

text \<open>
  \<open>str::trim\<close> drops characters with the Unicode property White\_Space. In UTF-8 such a
  character is one, two or three bytes; \<open>ws_prefix s\<close> is the rest of \<open>s\<close> after one of
  them.
\<close>

definition byte_of :: "char \<Rightarrow> nat" where
  "byte_of c = of_char c"

fun ws_prefix :: "string \<Rightarrow> string option" where
  "ws_prefix [] = None"
| "ws_prefix (a # s) =
     (let x = byte_of a in
      if x \<in> {9, 10, 11, 12, 13, 32} then Some s
      else (case s of
        [] \<Rightarrow> None
      | b # s' \<Rightarrow>
         (let y = byte_of b in
          if x = 194 \<and> y \<in> {133, 160} then Some s'
          else (case s' of
            [] \<Rightarrow> None
          | c # s'' \<Rightarrow>
             (let z = byte_of c in
              if x = 225 \<and> y = 154 \<and> z = 128
                \<or> x = 226 \<and> y = 128 \<and> (128 \<le> z \<and> z \<le> 138 \<or> z \<in> {168, 169, 175})
                \<or> x = 226 \<and> y = 129 \<and> z = 159
                \<or> x = 227 \<and> y = 128 \<and> z = 128
              then Some s'' else None)))))"

text \<open>The same table read from the end of the string.\<close>

definition ws_suffix :: "string \<Rightarrow> string option" where
  "ws_suffix s =
     (case rev s of
        [] \<Rightarrow> None
      | c # r \<Rightarrow>
         if ws_prefix [c] = Some [] then Some (rev r)
         else (case r of
           [] \<Rightarrow> None
         | b # r' \<Rightarrow>
            if ws_prefix [b, c] = Some [] then Some (rev r')
            else (case r' of
              [] \<Rightarrow> None
            | a # r'' \<Rightarrow> if ws_prefix [a, b, c] = Some [] then Some (rev r'') else None)))"

lemma ws_prefix_shorter: "ws_prefix s = Some t \<Longrightarrow> length t < length s"
  by (induction s rule: ws_prefix.induct)
    (auto simp: Let_def split: if_splits list.splits)

lemma ws_suffix_shorter: "ws_suffix s = Some t \<Longrightarrow> length t < length s"
proof -
  assume "ws_suffix s = Some t"
  moreover have "length s = length (rev s)"
    by simp
  ultimately show ?thesis
    by (auto simp: ws_suffix_def simp del: length_rev split: if_splits list.splits)
qed

function trim_start :: "string \<Rightarrow> string" where
  "trim_start s = (case ws_prefix s of None \<Rightarrow> s | Some t \<Rightarrow> trim_start t)"
  by pat_completeness auto
termination
  by (relation "measure length") (auto dest: ws_prefix_shorter)

function trim_end :: "string \<Rightarrow> string" where
  "trim_end s = (case ws_suffix s of None \<Rightarrow> s | Some t \<Rightarrow> trim_end t)"
  by pat_completeness auto
termination
  by (relation "measure length") (auto dest: ws_suffix_shorter)

declare trim_start.simps [simp del] trim_end.simps [simp del]

definition trim :: "string \<Rightarrow> string" where
  "trim s = trim_end (trim_start s)"

definition is_plain_char :: "char \<Rightarrow> bool" where
  "is_plain_char c \<longleftrightarrow> 32 < byte_of c \<and> byte_of c < 128"

lemma ws_prefix_plain: "is_plain_char c \<Longrightarrow> ws_prefix (c # s) = None"
  by (auto simp: is_plain_char_def Let_def split: list.splits)

declare ws_prefix.simps(2) [simp del]

lemma trim_start_plain: "is_plain_char c \<Longrightarrow> trim_start (c # s) = c # s"
  by (simp add: trim_start.simps ws_prefix_plain)

lemma ws_suffix_plain:
  assumes "is_plain_char c"
  shows "ws_suffix (s @ [c]) = None"
proof -
  have last: "ws_prefix [c] \<noteq> Some []"
    using assms by (simp add: ws_prefix_plain)
  moreover have "ws_prefix [b, c] \<noteq> Some []" for b
    using assms by (auto simp: is_plain_char_def Let_def ws_prefix.simps)
  moreover have "ws_prefix [a, b, c] \<noteq> Some []" for a b
    using assms by (auto simp: is_plain_char_def Let_def ws_prefix.simps)
  ultimately show ?thesis
    by (simp add: ws_suffix_def split: list.splits)
qed

lemma trim_end_plain: "is_plain_char c \<Longrightarrow> trim_end (s @ [c]) = s @ [c]"
  by (simp add: trim_end.simps ws_suffix_plain)

lemma trim_plain_ends:
  assumes "s \<noteq> []" "is_plain_char (hd s)" "is_plain_char (last s)"
  shows "trim s = s"
proof -
  have "trim_start s = s"
    using assms by (cases s) (simp_all add: trim_start_plain)
  moreover have "trim_end s = s"
    using assms trim_end_plain [of "last s" "butlast s"] by simp
  ultimately show ?thesis
    by (simp add: trim_def)
qed

section \<open>Searching and splitting\<close>

definition str_contains :: "string \<Rightarrow> char \<Rightarrow> bool" where
  "str_contains s c \<longleftrightarrow> c \<in> set s"

text \<open>\<open>s.split(c).collect()\<close>: never empty; an absent separator gives one piece.\<close>

fun split_on :: "char \<Rightarrow> string \<Rightarrow> string list" where
  "split_on c [] = [[]]"
| "split_on c (x # xs) =
     (if x = c then [] # split_on c xs
      else (case split_on c xs of [] \<Rightarrow> [[x]] | p # ps \<Rightarrow> (x # p) # ps))"

lemma split_on_neq_Nil [simp]: "split_on c s \<noteq> []"
  by (induction s) (auto split: list.splits)

lemma split_on_none: "c \<notin> set s \<Longrightarrow> split_on c s = [s]"
  by (induction s) auto

lemma split_on_append:
  "split_on c (s @ c # t) = split_on c s @ split_on c t"
proof (induction s)
  case (Cons x s)
  then show ?case
    by (cases "split_on c s") auto
qed simp

lemma split_on_sep: "c \<notin> set s \<Longrightarrow> split_on c (s @ c # t) = s # split_on c t"
  by (simp add: split_on_append split_on_none)

lemma last_split_on: "c \<notin> set t \<Longrightarrow> last (split_on c (s @ c # t)) = t"
  by (simp add: split_on_append split_on_none)

lemma split_on_pieces: "p \<in> set (split_on c s) \<Longrightarrow> c \<notin> set p"
proof (induction s arbitrary: p)
  case (Cons x s)
  then show ?case
    by (cases "split_on c s") (auto split: if_splits)
qed simp

section \<open>Unsigned decimals\<close>

definition digit_char :: "nat \<Rightarrow> char" where
  "digit_char d = char_of (48 + d)"

definition is_digit :: "char \<Rightarrow> bool" where
  "is_digit c \<longleftrightarrow> 48 \<le> byte_of c \<and> byte_of c \<le> 57"

definition digit_value :: "char \<Rightarrow> nat" where
  "digit_value c = byte_of c - 48"

fun show_nat :: "nat \<Rightarrow> string" where
  "show_nat n =
     (if n < 10 then [digit_char n] else show_nat (n div 10) @ [digit_char (n mod 10)])"

declare show_nat.simps [simp del]

definition digits_value :: "string \<Rightarrow> nat" where
  "digits_value s = foldl (\<lambda>acc c. 10 * acc + digit_value c) 0 s"

lemma byte_of_digit_char [simp]: "d < 10 \<Longrightarrow> byte_of (digit_char d) = 48 + d"
  by (simp add: byte_of_def digit_char_def)

lemma digit_char_is_digit [simp]: "d < 10 \<Longrightarrow> is_digit (digit_char d)"
  by (simp add: is_digit_def)

lemma digit_value_digit_char [simp]: "d < 10 \<Longrightarrow> digit_value (digit_char d) = d"
  by (simp add: digit_value_def)

lemma digits_value_snoc [simp]: "digits_value (s @ [c]) = 10 * digits_value s + digit_value c"
  by (simp add: digits_value_def)

lemma digits_value_Nil [simp]: "digits_value [] = 0"
  by (simp add: digits_value_def)

lemma show_nat_digits: "\<forall>c \<in> set (show_nat n). is_digit c"
  by (induction n rule: show_nat.induct) (subst show_nat.simps, auto)

lemma show_nat_neq_Nil [simp]: "show_nat n \<noteq> []"
  by (subst show_nat.simps) simp

lemma digits_value_show_nat [simp]: "digits_value (show_nat n) = n"
proof (induction n rule: show_nat.induct)
  case (1 n)
  show ?case
  proof (cases "n < 10")
    case True
    then show ?thesis
      using digits_value_snoc [of "[]" "digit_char n"]
      by (subst show_nat.simps) simp
  next
    case False
    with 1 show ?thesis
      by (subst show_nat.simps) simp
  qed
qed

lemma show_nat_inject [simp]: "show_nat m = show_nat n \<longleftrightarrow> m = n"
  by (metis digits_value_show_nat)

lemma is_digit_plain: "is_digit c \<Longrightarrow> is_plain_char c"
  by (simp add: is_digit_def is_plain_char_def)

lemma show_nat_no: "\<not> is_digit c \<Longrightarrow> c \<notin> set (show_nat n)"
  using show_nat_digits by blast

text \<open>
  \<open>str::parse::<u64>()\<close>: one leading plus sign is accepted (not on its own), then at least one
  ASCII digit and nothing else, and the value must fit.
\<close>

definition parse_unsigned :: "nat \<Rightarrow> string \<Rightarrow> nat outcome" where
  "parse_unsigned bound s =
     (if s = [] then bail ''cannot parse integer from empty string''
      else
        let ds = (if hd s = CHR ''+'' \<and> tl s \<noteq> [] then tl s else s)
        in if \<not> list_all is_digit ds then bail ''invalid digit found in string''
           else if bound \<le> digits_value ds then bail ''number too large to fit in target type''
           else Ok (digits_value ds))"

definition parse_u64 :: "string \<Rightarrow> u64 outcome" where
  "parse_u64 s = and_then (parse_unsigned (2 ^ 64) s) (\<lambda>n. Ok (word_of_nat n))"

definition show_u64 :: "u64 \<Rightarrow> string" where
  "show_u64 n = show_nat (unat n)"

lemma hd_show_nat_not_plus: "hd (show_nat n) \<noteq> CHR ''+''"
proof
  assume "hd (show_nat n) = CHR ''+''"
  then have "is_digit (CHR ''+'')"
    using show_nat_digits [of n] by (metis hd_in_set show_nat_neq_Nil)
  then show False
    by (simp add: is_digit_def byte_of_def)
qed

lemma parse_unsigned_show_nat: "n < bound \<Longrightarrow> parse_unsigned bound (show_nat n) = Ok n"
  using show_nat_digits [of n]
  by (simp add: parse_unsigned_def hd_show_nat_not_plus list_all_iff)

lemma parse_unsigned_bound: "parse_unsigned bound s = Ok n \<Longrightarrow> n < bound"
  by (auto simp: parse_unsigned_def Let_def split: if_splits)

lemma parse_u64_show_u64 [simp]: "parse_u64 (show_u64 n) = Ok n"
proof -
  have "unat n < 2 ^ 64"
    using unsigned_less [of n] by simp
  then show ?thesis
    by (simp add: parse_u64_def show_u64_def parse_unsigned_show_nat)
qed

fun parse_bool :: "string \<Rightarrow> bool outcome" where
  "parse_bool s =
     (if s = ''true'' then Ok True else if s = ''false'' then Ok False
      else bail ''provided string was not `true` or `false`'')"

section \<open>Big-endian bytes\<close>

definition to_be_bytes :: "nat \<Rightarrow> nat \<Rightarrow> bytes" where
  "to_be_bytes n v = rev (map (\<lambda>i. word_of_nat (v div 256 ^ i)) [0..<n])"

definition from_be_bytes :: "bytes \<Rightarrow> nat" where
  "from_be_bytes bs = foldl (\<lambda>acc b. 256 * acc + unat b) 0 bs"

lemma length_to_be_bytes [simp]: "length (to_be_bytes n v) = n"
  by (simp add: to_be_bytes_def)

lemma from_be_bytes_snoc: "from_be_bytes (bs @ [b]) = 256 * from_be_bytes bs + unat b"
  by (simp add: from_be_bytes_def)

lemma to_be_bytes_Suc: "to_be_bytes (Suc n) v = to_be_bytes n (v div 256) @ [word_of_nat v]"
proof -
  have "map (\<lambda>i. word_of_nat (v div 256 ^ i)) [0..<Suc n]
      = (word_of_nat v :: 8 word) # map (\<lambda>i. word_of_nat (v div 256 div 256 ^ i)) [0..<n]"
    by (simp add: upt_conv_Cons map_Suc_upt [symmetric] div_mult2_eq del: upt_Suc)
  then show ?thesis
    unfolding to_be_bytes_def by simp
qed

lemma from_be_to_be: "v < 256 ^ n \<Longrightarrow> from_be_bytes (to_be_bytes n v) = v"
proof (induction n arbitrary: v)
  case 0
  then show ?case
    by (simp add: from_be_bytes_def to_be_bytes_def)
next
  case (Suc n)
  then have "v div 256 < 256 ^ n"
    by (simp add: less_mult_imp_div_less mult.commute)
  then show ?case
    by (simp add: to_be_bytes_Suc from_be_bytes_snoc Suc.IH unat_of_nat)
qed

lemma to_be_bytes_inject:
  "v < 256 ^ n \<Longrightarrow> w < 256 ^ n \<Longrightarrow> to_be_bytes n v = to_be_bytes n w \<longleftrightarrow> v = w"
  by (metis from_be_to_be)

lemma from_be_bytes_less: "from_be_bytes bs < 256 ^ length bs"
proof (induction bs rule: rev_induct)
  case (snoc b bs)
  have "unat b < 256"
    using unsigned_less [where 'a = nat, of b] by simp
  with snoc show ?case
    by (simp add: from_be_bytes_snoc)
qed (simp add: from_be_bytes_def)

lemma to_be_from_be: "to_be_bytes (length bs) (from_be_bytes bs) = bs"
proof (induction bs rule: rev_induct)
  case (snoc b bs)
  have "unat b < 256"
    using unsigned_less [where 'a = nat, of b] by simp
  moreover have "word_of_nat (256 * n + m) = (word_of_nat m :: u8)" for n m
    by (simp add: word_unat_eq_iff unat_of_nat del: of_nat_add of_nat_mult)
  ultimately show ?case
    using snoc by (simp add: from_be_bytes_snoc to_be_bytes_Suc del: of_nat_add)
qed (simp add: to_be_bytes_def)

section \<open>UTF-8\<close>

text \<open>\<open>str::from_utf8\<close>: well-formed UTF-8 only (no overlong forms, no surrogates).\<close>

fun utf8_valid :: "nat list \<Rightarrow> bool" where
  "utf8_valid [] = True"
| "utf8_valid (a # s) =
     (if a < 128 then utf8_valid s
      else (case s of
        [] \<Rightarrow> False
      | b # s1 \<Rightarrow>
         if 194 \<le> a \<and> a \<le> 223 then 128 \<le> b \<and> b \<le> 191 \<and> utf8_valid s1
         else (case s1 of
           [] \<Rightarrow> False
         | c # s2 \<Rightarrow>
            if 224 \<le> a \<and> a \<le> 239 then
              (if a = 224 then 160 \<le> b else 128 \<le> b) \<and>
              (if a = 237 then b \<le> 159 else b \<le> 191) \<and>
              128 \<le> c \<and> c \<le> 191 \<and> utf8_valid s2
            else (case s2 of
              [] \<Rightarrow> False
            | d # s3 \<Rightarrow>
               240 \<le> a \<and> a \<le> 244 \<and>
               (if a = 240 then 144 \<le> b else 128 \<le> b) \<and>
               (if a = 244 then b \<le> 143 else b \<le> 191) \<and>
               128 \<le> c \<and> c \<le> 191 \<and> 128 \<le> d \<and> d \<le> 191 \<and> utf8_valid s3))))"

definition from_utf8 :: "bytes \<Rightarrow> string outcome" where
  "from_utf8 bs =
     (if utf8_valid (map unat bs) then Ok (map (\<lambda>b. char_of (unat b)) bs)
      else bail ''invalid utf-8 sequence'')"

lemma from_utf8_as_bytes:
  assumes "utf8_valid (map byte_of s)"
  shows "from_utf8 (as_bytes s) = Ok s"
proof -
  have "map unat (as_bytes s) = map byte_of s"
    by (simp add: as_bytes_def byte_of_def)
  moreover have "map (\<lambda>b. char_of (unat b)) (as_bytes s) = s"
    by (simp add: as_bytes_def o_def)
  ultimately show ?thesis
    using assms by (simp add: from_utf8_def)
qed

lemma utf8_valid_ascii: "\<forall>n \<in> set ns. n < 128 \<Longrightarrow> utf8_valid ns"
  by (induction ns) auto

declare utf8_valid.simps(2) [simp del]

section \<open>The contract of Display and FromStr\<close>

text \<open>
  A type with a rendering and a parser such that parsing what was rendered gives the value
  back (for the values the code can build, \<open>valid\<close>). The rendering is then injective, which
  is what makes it usable as a database key.
\<close>

locale text_codec =
  fixes show_text :: "'a \<Rightarrow> string"
    and parse_text :: "string \<Rightarrow> 'a outcome"
    and valid :: "'a \<Rightarrow> bool"
  assumes parse_show: "valid x \<Longrightarrow> parse_text (show_text x) = Ok x"
    and parse_valid: "parse_text s = Ok x \<Longrightarrow> valid x"
begin

lemma show_inject:
  assumes "valid x" "valid y"
  shows "show_text x = show_text y \<longleftrightarrow> x = y"
proof
  assume "show_text x = show_text y"
  then show "x = y"
    using parse_show [OF assms(1)] parse_show [OF assms(2)] by (metis outcome.inject(1))
qed simp

lemma reparse: "parse_text s = Ok x \<Longrightarrow> parse_text (show_text x) = Ok x"
  by (rule parse_show, rule parse_valid)

lemma collect_show:
  "list_all valid xs \<Longrightarrow> collect parse_text (map show_text xs) = Ok xs"
  by (rule collect_map_Ok) (simp add: list_all_iff parse_show)

end

interpretation u64_text: text_codec show_u64 parse_u64 "\<lambda>_. True"
  by unfold_locales simp_all

end
