(* ===== verification/Pattern.thy ===== *)
theory Pattern
  imports Rust_Text
begin

text \<open>
  The regular expressions the identifiers are checked against. A pattern is matched as a
  whole (both patterns of the program are anchored at each end), by derivatives, which is
  executable; \<open>denotes\<close> is the meaning of a pattern, and \<open>is_match_denotes\<close> says that the
  matcher computes it.
\<close>

datatype pattern =
    Nothing
  | Blank
  | Class "char \<Rightarrow> bool"
  | Either pattern pattern
  | Then pattern pattern
  | Many pattern

text \<open>\<open>r+\<close>\<close>

definition Some_of :: "pattern \<Rightarrow> pattern" where
  "Some_of r = Then r (Many r)"

fun nullable :: "pattern \<Rightarrow> bool" where
  "nullable Nothing = False"
| "nullable Blank = True"
| "nullable (Class p) = False"
| "nullable (Either r q) = (nullable r \<or> nullable q)"
| "nullable (Then r q) = (nullable r \<and> nullable q)"
| "nullable (Many r) = True"

fun after :: "char \<Rightarrow> pattern \<Rightarrow> pattern" where
  "after c Nothing = Nothing"
| "after c Blank = Nothing"
| "after c (Class p) = (if p c then Blank else Nothing)"
| "after c (Either r q) = Either (after c r) (after c q)"
| "after c (Then r q) =
     (if nullable r then Either (Then (after c r) q) (after c q) else Then (after c r) q)"
| "after c (Many r) = Then (after c r) (Many r)"

fun is_match :: "pattern \<Rightarrow> string \<Rightarrow> bool" where
  "is_match r [] = nullable r"
| "is_match r (c # s) = is_match (after c r) s"

inductive denotes :: "pattern \<Rightarrow> string \<Rightarrow> bool" where
  blank: "denotes Blank []"
| char_class: "p c \<Longrightarrow> denotes (Class p) [c]"
| either_left: "denotes r s \<Longrightarrow> denotes (Either r q) s"
| either_right: "denotes q s \<Longrightarrow> denotes (Either r q) s"
| sequence: "denotes r s \<Longrightarrow> denotes q t \<Longrightarrow> denotes (Then r q) (s @ t)"
| many_none: "denotes (Many r) []"
| many_more: "denotes r s \<Longrightarrow> s \<noteq> [] \<Longrightarrow> denotes (Many r) t \<Longrightarrow> denotes (Many r) (s @ t)"

inductive_simps denotes_Nothing [simp]: "denotes Nothing s"
inductive_simps denotes_Blank [simp]: "denotes Blank s"
inductive_simps denotes_Class [simp]: "denotes (Class p) s"
inductive_simps denotes_Either [simp]: "denotes (Either r q) s"
inductive_simps denotes_Then: "denotes (Then r q) s"
inductive_cases denotes_ManyE: "denotes (Many r) s"

lemma nullable_denotes: "nullable r \<longleftrightarrow> denotes r []"
proof (induction r)
  case (Many r)
  show ?case
    by (simp add: denotes.many_none)
qed (auto simp: denotes_Then)

lemma denotes_Many_Cons:
  "denotes (Many r) (c # s) \<longleftrightarrow> (\<exists>t u. s = t @ u \<and> denotes r (c # t) \<and> denotes (Many r) u)"
proof
  assume "denotes (Many r) (c # s)"
  then show "\<exists>t u. s = t @ u \<and> denotes r (c # t) \<and> denotes (Many r) u"
    by (rule denotes_ManyE) (auto simp: Cons_eq_append_conv)
next
  assume "\<exists>t u. s = t @ u \<and> denotes r (c # t) \<and> denotes (Many r) u"
  then show "denotes (Many r) (c # s)"
    using denotes.many_more by fastforce
qed

lemma after_denotes: "denotes (after c r) s \<longleftrightarrow> denotes r (c # s)"
proof (induction r arbitrary: s)
  case (Then r q)
  show ?case
    by (auto simp: denotes_Then Then.IH nullable_denotes Cons_eq_append_conv)
next
  case (Many r)
  show ?case
    by (auto simp: denotes_Then Many.IH denotes_Many_Cons)
qed auto

theorem is_match_denotes: "is_match r s \<longleftrightarrow> denotes r s"
  by (induction s arbitrary: r) (simp_all add: nullable_denotes after_denotes)

lemma denotes_Many_Class: "denotes (Many (Class p)) s \<longleftrightarrow> list_all p s"
proof (induction s)
  case Nil
  show ?case
    by (simp add: denotes.many_none)
next
  case (Cons c s)
  then show ?case
    by (auto simp: denotes_Many_Cons)
qed

lemma denotes_Then_Class:
  "denotes (Then (Class p) q) s \<longleftrightarrow> (\<exists>c t. s = c # t \<and> p c \<and> denotes q t)"
proof
  assume "\<exists>c t. s = c # t \<and> p c \<and> denotes q t"
  then obtain c t where "s = [c] @ t" "p c" "denotes q t"
    by auto
  then show "denotes (Then (Class p) q) s"
    by (metis denotes.char_class denotes.sequence)
qed (auto simp: denotes_Then)

lemma denotes_Some_of_Class:
  "denotes (Some_of (Class p)) s \<longleftrightarrow> s \<noteq> [] \<and> list_all p s"
  by (auto simp: Some_of_def denotes_Then_Class denotes_Many_Class neq_Nil_conv)

end
