(* ===== verification/Identifier.thy ===== *)
theory Identifier
  imports Pattern
begin

text \<open>
  ICS24 identifiers: \<open>solo-machine-core/src/ibc/core/ics24_host/identifier.rs\<close>. The
  validated \<open>Identifier\<close>, its four length-bounded newtypes (the macro \<open>impl_id!\<close>), chain
  identifiers with their revision number, and the random generation of new identifiers.
\<close>

section \<open>Identifiers\<close>

definition MAX_IDENTIFIER_LEN :: nat where
  "MAX_IDENTIFIER_LEN = 64"

datatype ident = Identifier string

text \<open>\<open>Display\<close>, \<open>Deref\<close> and \<open>From<Identifier> for String\<close>: the text of an identifier.\<close>

fun ident_str :: "ident \<Rightarrow> string" where
  "ident_str (Identifier s) = s"

lemma Identifier_ident_str [simp]: "Identifier (ident_str i) = i"
  by (cases i) simp

lemma ident_str_inject: "ident_str i = ident_str j \<longleftrightarrow> i = j"
  by (cases i; cases j) simp

definition in_range :: "char \<Rightarrow> char \<Rightarrow> char \<Rightarrow> bool" where
  "in_range lo hi c \<longleftrightarrow> byte_of lo \<le> byte_of c \<and> byte_of c \<le> byte_of hi"

definition is_alphanumeric :: "char \<Rightarrow> bool" where
  "is_alphanumeric c \<longleftrightarrow>
     in_range (CHR ''a'') (CHR ''z'') c \<or> in_range (CHR ''A'') (CHR ''Z'') c \<or>
     in_range (CHR ''0'') (CHR ''9'') c"

definition is_id_char :: "char \<Rightarrow> bool" where
  "is_id_char c \<longleftrightarrow> is_alphanumeric c \<or> c \<in> set ''._+-#[]<>''"

definition VALID_ID_PATTERN :: pattern where
  "VALID_ID_PATTERN = Some_of (Class is_id_char)"

definition validate_length :: "ident \<Rightarrow> nat \<Rightarrow> nat \<Rightarrow> unit outcome" where
  "validate_length i mn mx =
     (let id_len = length (ident_str i) in
      ensure (id_len \<ge> mn \<and> id_len \<le> mx)
        (''identifier '' @ ident_str i @ '' has invalid length: '' @ show_nat id_len
         @ '', must be between '' @ show_nat mn @ ''-'' @ show_nat mx @ '' characters''))"

definition identifier_from_str :: "string \<Rightarrow> ident outcome" where
  "identifier_from_str s =
     and_then (ensure (trim s \<noteq> []) ''identifier cannot be blank'') (\<lambda>_.
     and_then (ensure (\<not> str_contains s (CHR ''/''))
        (''identifier '' @ s @ '' cannot contain separator '/'' @ [CHR 0x27])) (\<lambda>_.
     and_then (ensure (is_match VALID_ID_PATTERN s)
        (''identifier '' @ s @ '' must contain only alphanumeric or the following characters: '.', '_', '+', '-', '#', '[', ']', '<', '>'' @ [CHR 0x27])) (\<lambda>_.
     let i = Identifier s in
     and_then (validate_length i 1 MAX_IDENTIFIER_LEN) (\<lambda>_. Ok i))))"

definition valid_identifier :: "ident \<Rightarrow> bool" where
  "valid_identifier i \<longleftrightarrow>
     ident_str i \<noteq> [] \<and> length (ident_str i) \<le> 64 \<and> list_all is_id_char (ident_str i)"

lemma id_char_plain: "is_id_char c \<Longrightarrow> is_plain_char c"
  by (auto simp: is_id_char_def is_alphanumeric_def in_range_def is_plain_char_def byte_of_def)

lemma id_char_not_slash: "is_id_char c \<Longrightarrow> c \<noteq> CHR ''/''"
  by (auto simp: is_id_char_def is_alphanumeric_def in_range_def byte_of_def)

lemma digit_id_char: "is_digit c \<Longrightarrow> is_id_char c"
  by (simp add: is_id_char_def is_alphanumeric_def in_range_def is_digit_def byte_of_def)

lemma trim_id_chars:
  assumes "s \<noteq> []" "list_all is_id_char s"
  shows "trim s = s"
  using assms by (auto intro!: trim_plain_ends id_char_plain simp: list_all_iff)

lemma identifier_from_str_Ok_iff:
  "identifier_from_str s = Ok i \<longleftrightarrow> i = Identifier s \<and> valid_identifier i"
proof -
  have "is_match VALID_ID_PATTERN s \<longleftrightarrow> s \<noteq> [] \<and> list_all is_id_char s"
    by (simp add: is_match_denotes VALID_ID_PATTERN_def denotes_Some_of_Class)
  moreover have "\<not> str_contains s (CHR ''/'')" if "list_all is_id_char s"
    using that id_char_not_slash by (auto simp: str_contains_def list_all_iff)
  ultimately show ?thesis
    by (auto simp: identifier_from_str_def validate_length_def valid_identifier_def
        MAX_IDENTIFIER_LEN_def Let_def trim_id_chars Suc_le_eq)
qed

interpretation identifier_text: text_codec ident_str identifier_from_str valid_identifier
proof
  fix i
  assume "valid_identifier i"
  then show "identifier_from_str (ident_str i) = Ok i"
    by (simp add: identifier_from_str_Ok_iff)
next
  fix s i
  assume "identifier_from_str s = Ok i"
  then show "valid_identifier i"
    by (auto simp: identifier_from_str_Ok_iff)
qed

section \<open>Length-bounded identifiers\<close>

text \<open>\<open>impl_id!\<close>: parse an identifier, then check the bounds of the kind of identifier.\<close>

definition bounded_from_str :: "(ident \<Rightarrow> 'a) \<Rightarrow> nat \<Rightarrow> string \<Rightarrow> 'a outcome" where
  "bounded_from_str mk min_len s =
     and_then (identifier_from_str s) (\<lambda>i.
     and_then (validate_length i min_len MAX_IDENTIFIER_LEN) (\<lambda>_. Ok (mk i)))"

datatype client_id = ClientId (client_ident: ident)
datatype connection_id = ConnectionId (connection_ident: ident)
datatype channel_id = ChannelId (channel_ident: ident)
datatype port_id = PortId (port_ident: ident)

definition client_id_from_str :: "string \<Rightarrow> client_id outcome" where
  "client_id_from_str = bounded_from_str ClientId 9"

definition connection_id_from_str :: "string \<Rightarrow> connection_id outcome" where
  "connection_id_from_str = bounded_from_str ConnectionId 10"

definition channel_id_from_str :: "string \<Rightarrow> channel_id outcome" where
  "channel_id_from_str = bounded_from_str ChannelId 8"

definition port_id_from_str :: "string \<Rightarrow> port_id outcome" where
  "port_id_from_str = bounded_from_str PortId 2"

definition client_str :: "client_id \<Rightarrow> string" where
  "client_str c = ident_str (client_ident c)"

definition connection_str :: "connection_id \<Rightarrow> string" where
  "connection_str c = ident_str (connection_ident c)"

definition channel_str :: "channel_id \<Rightarrow> string" where
  "channel_str c = ident_str (channel_ident c)"

definition port_str :: "port_id \<Rightarrow> string" where
  "port_str p = ident_str (port_ident p)"

definition valid_bounded :: "nat \<Rightarrow> ident \<Rightarrow> bool" where
  "valid_bounded mn i \<longleftrightarrow> valid_identifier i \<and> mn \<le> length (ident_str i)"

definition valid_client :: "client_id \<Rightarrow> bool" where
  "valid_client c \<longleftrightarrow> valid_bounded 9 (client_ident c)"

definition valid_connection :: "connection_id \<Rightarrow> bool" where
  "valid_connection c \<longleftrightarrow> valid_bounded 10 (connection_ident c)"

definition valid_channel :: "channel_id \<Rightarrow> bool" where
  "valid_channel c \<longleftrightarrow> valid_bounded 8 (channel_ident c)"

definition valid_port :: "port_id \<Rightarrow> bool" where
  "valid_port p \<longleftrightarrow> valid_bounded 2 (port_ident p)"

lemma bounded_from_str_Ok_iff:
  "bounded_from_str mk mn s = Ok x \<longleftrightarrow> x = mk (Identifier s) \<and> valid_bounded mn (Identifier s)"
  by (auto simp: bounded_from_str_def identifier_from_str_Ok_iff validate_length_def
      valid_bounded_def valid_identifier_def MAX_IDENTIFIER_LEN_def Let_def)

interpretation client_text: text_codec client_str client_id_from_str valid_client
  by unfold_locales
    (auto simp: client_id_from_str_def bounded_from_str_Ok_iff client_str_def valid_client_def
      split: client_id.splits)

interpretation connection_text: text_codec connection_str connection_id_from_str valid_connection
  by unfold_locales
    (auto simp: connection_id_from_str_def bounded_from_str_Ok_iff connection_str_def
      valid_connection_def split: connection_id.splits)

interpretation channel_text: text_codec channel_str channel_id_from_str valid_channel
  by unfold_locales
    (auto simp: channel_id_from_str_def bounded_from_str_Ok_iff channel_str_def
      valid_channel_def split: channel_id.splits)

interpretation port_text: text_codec port_str port_id_from_str valid_port
  by unfold_locales
    (auto simp: port_id_from_str_def bounded_from_str_Ok_iff port_str_def valid_port_def
      split: port_id.splits)

section \<open>Chain identifiers\<close>

record chain_id =
  ci_id :: ident
  ci_version :: u64

definition VALID_CHAIN_ID_PATTERN :: pattern where
  "VALID_CHAIN_ID_PATTERN =
     Then (Some_of (Class (\<lambda>c. c \<noteq> CHR 0x0A)))
    (Then (Class (\<lambda>c. c \<noteq> CHR ''-''))
    (Then (Class (\<lambda>c. c = CHR ''-''))
    (Then (Class (in_range (CHR ''1'') (CHR ''9'')))
          (Many (Class (in_range (CHR ''0'') (CHR ''9'')))))))"

definition chain_id_from_str :: "string \<Rightarrow> chain_id outcome" where
  "chain_id_from_str s =
     and_then (identifier_from_str s) (\<lambda>i.
     and_then (validate_length i 1 MAX_IDENTIFIER_LEN) (\<lambda>_.
     let version =
       (if is_match VALID_CHAIN_ID_PATTERN (ident_str i)
        then (case parse_u64 (last (split_on (CHR ''-'') (ident_str i))) of
                Ok v \<Rightarrow> v
              | _ \<Rightarrow> 0)
        else 0)
     in Ok \<lparr>ci_id = i, ci_version = version\<rparr>))"

definition chain_str :: "chain_id \<Rightarrow> string" where
  "chain_str c = ident_str (ci_id c)"

text \<open>
  What the version is meant to be, said without the pattern: a chain id is \<open>name-revision\<close>
  when the part after its last dash is a positive decimal without leading zeros and the part
  before it has at least two characters and does not end in a dash; then the version is that
  decimal, or 0 if it does not fit 64 bits. Every other chain id has version 0.
\<close>

definition revision_of :: "string \<Rightarrow> u64" where
  "revision_of s =
     (let d = rev (takeWhile (\<lambda>c. c \<noteq> CHR ''-'') (rev s));
          n = butlast (rev (dropWhile (\<lambda>c. c \<noteq> CHR ''-'') (rev s)))
      in if 2 \<le> length n \<and> last n \<noteq> CHR ''-'' \<and>
            d \<noteq> [] \<and> list_all is_digit d \<and> hd d \<noteq> CHR ''0'' \<and> digits_value d < 2 ^ 64
         then word_of_nat (digits_value d) else 0)"

definition valid_chain :: "chain_id \<Rightarrow> bool" where
  "valid_chain c \<longleftrightarrow> valid_identifier (ci_id c) \<and> ci_version c = revision_of (chain_str c)"

lemma denotes_chain_pattern:
  "denotes VALID_CHAIN_ID_PATTERN s \<longleftrightarrow>
     (\<exists>n c d. s = n @ c # CHR ''-'' # d \<and> n \<noteq> [] \<and> list_all (\<lambda>x. x \<noteq> CHR 0x0A) n \<and>
        c \<noteq> CHR ''-'' \<and> d \<noteq> [] \<and> in_range (CHR ''1'') (CHR ''9'') (hd d) \<and>
        list_all (in_range (CHR ''0'') (CHR ''9'')) (tl d))"
proof -
  have tail: "denotes (Then (Class (in_range (CHR ''1'') (CHR ''9'')))
        (Many (Class (in_range (CHR ''0'') (CHR ''9''))))) d \<longleftrightarrow>
      d \<noteq> [] \<and> in_range (CHR ''1'') (CHR ''9'') (hd d) \<and>
      list_all (in_range (CHR ''0'') (CHR ''9'')) (tl d)" for d
    by (auto simp: denotes_Then_Class denotes_Many_Class neq_Nil_conv)
  show ?thesis
    unfolding VALID_CHAIN_ID_PATTERN_def
    by (subst denotes_Then)
      (auto simp: denotes_Some_of_Class denotes_Then_Class [of _ "Then _ (Then _ _)"]
        denotes_Then_Class [where p = "\<lambda>c. c = CHR ''-''"] tail, blast)
qed

lemma digit_ranges:
  "in_range (CHR ''0'') (CHR ''9'') c \<longleftrightarrow> is_digit c"
  "in_range (CHR ''1'') (CHR ''9'') c \<longleftrightarrow> is_digit c \<and> c \<noteq> CHR ''0''"
proof -
  show "in_range (CHR ''0'') (CHR ''9'') c \<longleftrightarrow> is_digit c"
    by (simp add: in_range_def is_digit_def byte_of_def)
  have "c = CHR ''0'' \<longleftrightarrow> byte_of c = byte_of (CHR ''0'')"
    unfolding byte_of_def by (rule of_char_eq_iff [symmetric])
  then show "in_range (CHR ''1'') (CHR ''9'') c \<longleftrightarrow> is_digit c \<and> c \<noteq> CHR ''0''"
    by (auto simp: in_range_def is_digit_def byte_of_def)
qed

lemma parse_u64_digits:
  assumes "d \<noteq> []" "list_all is_digit d"
  shows "parse_u64 d =
    (if digits_value d < 2 ^ 64 then Ok (word_of_nat (digits_value d))
     else bail ''number too large to fit in target type'')"
proof -
  have "hd d \<noteq> CHR ''+''"
    using assms by (cases d) (auto simp: is_digit_def byte_of_def)
  with assms show ?thesis
    by (simp add: parse_u64_def parse_unsigned_def)
qed

lemma revision_of_no_dash: "CHR ''-'' \<notin> set s \<Longrightarrow> revision_of s = 0"
proof -
  assume no: "CHR ''-'' \<notin> set s"
  have no_tail: "dropWhile (\<lambda>c. c \<noteq> CHR ''-'') (rev s) = []"
    by (simp only: dropWhile_eq_Nil_conv) (use no in auto)
  show ?thesis
    unfolding revision_of_def Let_def no_tail by simp
qed

lemma revision_of_dash:
  assumes "CHR ''-'' \<notin> set d"
  shows "revision_of (m @ CHR ''-'' # d) =
     (if 2 \<le> length m \<and> last m \<noteq> CHR ''-'' \<and> d \<noteq> [] \<and> list_all is_digit d \<and> hd d \<noteq> CHR ''0'' \<and>
         digits_value d < 2 ^ 64
      then word_of_nat (digits_value d) else 0)"
proof -
  have all: "c \<noteq> CHR ''-''" if "c \<in> set (rev d)" for c
    using assms that by auto
  have "takeWhile (\<lambda>c. c \<noteq> CHR ''-'') (rev d @ CHR ''-'' # rev m) = rev d"
    by (subst takeWhile_append2) (use all in simp_all)
  moreover have "dropWhile (\<lambda>c. c \<noteq> CHR ''-'') (rev d @ CHR ''-'' # rev m) = CHR ''-'' # rev m"
    by (subst dropWhile_append2) (use all in simp_all)
  ultimately show ?thesis
    unfolding revision_of_def Let_def by simp
qed

lemma chain_pattern_dash:
  assumes "CHR ''-'' \<notin> set d" "list_all is_id_char m"
  shows "is_match VALID_CHAIN_ID_PATTERN (m @ CHR ''-'' # d) \<longleftrightarrow>
     2 \<le> length m \<and> last m \<noteq> CHR ''-'' \<and> d \<noteq> [] \<and> list_all is_digit d \<and> hd d \<noteq> CHR ''0''"
    (is "?match \<longleftrightarrow> ?shape")
proof
  assume ?match
  then obtain n c d' where eq: "m @ CHR ''-'' # d = (n @ [c]) @ CHR ''-'' # d'"
    and n: "n \<noteq> []" and c: "c \<noteq> CHR ''-''" and d': "d' \<noteq> []"
    and hd_d: "in_range (CHR ''1'') (CHR ''9'') (hd d')"
    and tl_d: "list_all (in_range (CHR ''0'') (CHR ''9'')) (tl d')"
    by (auto simp: is_match_denotes denotes_chain_pattern)
  have digits: "list_all is_digit d'"
    using d' hd_d tl_d by (cases d') (auto simp: digit_ranges list_all_iff)
  then have "CHR ''-'' \<notin> set d'"
    by (auto simp: list_all_iff is_digit_def byte_of_def)
  with eq assms(1) have "m = n @ [c]" "d = d'"
    by (auto simp: append_eq_append_conv2 Cons_eq_append_conv append_eq_Cons_conv)
  with n c d' digits hd_d show ?shape
    by (cases n) (auto simp: digit_ranges)
next
  assume shape: ?shape
  then have m: "m = butlast m @ [last m]" and "butlast m \<noteq> []"
    by (cases m rule: rev_cases; force)+
  moreover have "list_all (\<lambda>x. x \<noteq> CHR 0x0A) (butlast m)"
    using assms(2) in_set_butlastD
    by (fastforce simp: list_all_iff is_id_char_def is_alphanumeric_def in_range_def byte_of_def)
  moreover have "in_range (CHR ''1'') (CHR ''9'') (hd d)"
    "list_all (in_range (CHR ''0'') (CHR ''9'')) (tl d)"
    using shape by (cases d, auto simp: digit_ranges list_all_iff)+
  moreover have "m @ CHR ''-'' # d = butlast m @ last m # CHR ''-'' # d"
  proof -
    have "m @ CHR ''-'' # d = (butlast m @ [last m]) @ CHR ''-'' # d"
      by (simp only: m [symmetric])
    then show ?thesis
      by simp
  qed
  ultimately show ?match
    unfolding is_match_denotes denotes_chain_pattern using shape by blast
qed

lemma chain_version_eq:
  assumes "valid_identifier i"
  shows "(if is_match VALID_CHAIN_ID_PATTERN (ident_str i)
          then (case parse_u64 (last (split_on (CHR ''-'') (ident_str i))) of Ok v \<Rightarrow> v | _ \<Rightarrow> 0)
          else 0) = revision_of (ident_str i)"
proof (cases "CHR ''-'' \<in> set (ident_str i)")
  case True
  then obtain m d where s: "ident_str i = m @ CHR ''-'' # d" and d: "CHR ''-'' \<notin> set d"
    using split_list_last by metis
  with assms have m: "list_all is_id_char m"
    by (simp add: valid_identifier_def)
  show ?thesis
    using parse_u64_digits [of d]
    by (auto simp: s d m chain_pattern_dash revision_of_dash last_split_on bail_def)
next
  case False
  then have "\<not> is_match VALID_CHAIN_ID_PATTERN (ident_str i)"
    by (auto simp: is_match_denotes denotes_chain_pattern)
  with False show ?thesis
    by (simp add: revision_of_no_dash)
qed

lemma chain_id_from_str_Ok_iff:
  "chain_id_from_str s = Ok c \<longleftrightarrow>
     c = \<lparr>ci_id = Identifier s, ci_version = revision_of s\<rparr> \<and> valid_identifier (Identifier s)"
  using chain_version_eq [of "Identifier s"]
  by (auto simp: chain_id_from_str_def identifier_from_str_Ok_iff validate_length_def
      MAX_IDENTIFIER_LEN_def valid_identifier_def Suc_le_eq Let_def)

text \<open>Evaluation goes by the specification of the version.\<close>

lemma chain_id_from_str_code [code]:
  "chain_id_from_str s =
     and_then (identifier_from_str s) (\<lambda>i. Ok \<lparr>ci_id = i, ci_version = revision_of (ident_str i)\<rparr>)"
proof (cases "identifier_from_str s")
  case (Ok i)
  then have "valid_identifier i"
    by (rule identifier_text.parse_valid)
  with chain_version_eq [OF this] Ok show ?thesis
    by (simp add: chain_id_from_str_def validate_length_def MAX_IDENTIFIER_LEN_def
        valid_identifier_def Suc_le_eq Let_def)
qed (simp_all add: chain_id_from_str_def)

interpretation chain_text: text_codec chain_str chain_id_from_str valid_chain
  by unfold_locales
    (auto simp: chain_id_from_str_Ok_iff chain_str_def valid_chain_def)

section \<open>Generated identifiers\<close>

text \<open>
  \<open>Identifier::generate\<close>: a prefix, a dash and \<open>suffix_len\<close> samples of the random number
  generator's \<open>Alphanumeric\<close> distribution; the generator is not part of the program and is a
  parameter: \<open>sample k\<close> is the \<open>k\<close>-th character drawn.
\<close>

definition identifier_generate :: "(nat \<Rightarrow> char) \<Rightarrow> string \<Rightarrow> nat \<Rightarrow> ident outcome" where
  "identifier_generate sample prefix suffix_len =
     (let suffix = map sample [0..<suffix_len]
      in identifier_from_str (prefix @ ''-'' @ suffix))"

datatype client_type = Tendermint

fun client_id_generate :: "(nat \<Rightarrow> char) \<Rightarrow> client_type \<Rightarrow> client_id outcome" where
  "client_id_generate sample Tendermint =
     and_then (unwrap_res (identifier_generate sample ''07-tendermint'' 4)) (\<lambda>i. Ok (ClientId i))"

definition connection_id_generate :: "(nat \<Rightarrow> char) \<Rightarrow> connection_id outcome" where
  "connection_id_generate sample =
     and_then (unwrap_res (identifier_generate sample ''connection'' 4)) (\<lambda>i. Ok (ConnectionId i))"

definition channel_id_generate :: "(nat \<Rightarrow> char) \<Rightarrow> channel_id outcome" where
  "channel_id_generate sample =
     and_then (unwrap_res (identifier_generate sample ''channel'' 4)) (\<lambda>i. Ok (ChannelId i))"

text \<open>The documented behaviour of the distribution: every sample is a letter or a digit.\<close>

definition alphanumeric_source :: "(nat \<Rightarrow> char) \<Rightarrow> bool" where
  "alphanumeric_source sample \<longleftrightarrow> (\<forall>k. is_alphanumeric (sample k))"

lemma identifier_generate_Ok:
  assumes "alphanumeric_source sample" "list_all is_id_char prefix" "length prefix + n < 64"
  shows "identifier_generate sample prefix n = Ok (Identifier (prefix @ ''-'' @ map sample [0..<n]))"
proof -
  have "list_all is_id_char (map sample [0..<n])"
    using assms(1) by (simp add: list_all_iff alphanumeric_source_def is_id_char_def)
  with assms show ?thesis
    by (simp add: identifier_generate_def identifier_from_str_Ok_iff valid_identifier_def
        is_id_char_def [of "CHR ''-''"])
qed

lemma generated_prefix_chars:
  "list_all is_id_char ''07-tendermint''" "list_all is_id_char ''connection''"
  "list_all is_id_char ''channel''"
  by (simp_all add: is_id_char_def is_alphanumeric_def in_range_def byte_of_def)

lemma client_id_generate_Ok:
  assumes "alphanumeric_source sample"
  shows "\<exists>c. client_id_generate sample Tendermint = Ok c \<and> valid_client c"
  using identifier_generate_Ok [OF assms generated_prefix_chars(1), of 4]
  by (auto simp: valid_client_def valid_bounded_def identifier_generate_def
      identifier_from_str_Ok_iff)

lemma connection_id_generate_Ok:
  assumes "alphanumeric_source sample"
  shows "\<exists>c. connection_id_generate sample = Ok c \<and> valid_connection c"
  using identifier_generate_Ok [OF assms generated_prefix_chars(2), of 4]
  by (auto simp: connection_id_generate_def valid_connection_def valid_bounded_def
      identifier_generate_def identifier_from_str_Ok_iff)

lemma channel_id_generate_Ok:
  assumes "alphanumeric_source sample"
  shows "\<exists>c. channel_id_generate sample = Ok c \<and> valid_channel c"
  using identifier_generate_Ok [OF assms generated_prefix_chars(3), of 4]
  by (auto simp: channel_id_generate_def valid_channel_def valid_bounded_def
      identifier_generate_def identifier_from_str_Ok_iff)

section \<open>Merkle prefixes\<close>

record merkle_prefix =
  key_prefix :: bytes

definition merkle_prefix_of :: "ident \<Rightarrow> merkle_prefix" where
  "merkle_prefix_of i = \<lparr>key_prefix = as_bytes (ident_str i)\<rparr>"

definition identifier_of_prefix :: "merkle_prefix \<Rightarrow> ident outcome" where
  "identifier_of_prefix p = and_then (from_utf8 (key_prefix p)) identifier_from_str"

lemma identifier_prefix_roundtrip:
  assumes "valid_identifier i"
  shows "identifier_of_prefix (merkle_prefix_of i) = Ok i"
proof -
  have "\<forall>n \<in> set (map byte_of (ident_str i)). n < 128"
    using assms id_char_plain
    by (auto simp: valid_identifier_def list_all_iff is_plain_char_def)
  then have "from_utf8 (as_bytes (ident_str i)) = Ok (ident_str i)"
    by (intro from_utf8_as_bytes utf8_valid_ascii)
  with assms show ?thesis
    by (simp add: identifier_of_prefix_def merkle_prefix_of_def identifier_text.parse_show)
qed

end
