(* ===== verification/Height.thy ===== *)
theory Height
  imports Rust_Text
begin

text \<open>
  ICS02 heights: \<open>solo-machine-core/src/ibc/core/ics02_client/height.rs\<close>, the trait
  \<open>IHeight\<close> on the protobuf \<open>Height\<close>. The comparison of the trait is shown to be a linear
  order by making heights an instance of \<open>linorder\<close> with it.
\<close>

section \<open>Heights and their operations\<close>

datatype height = Height (revision_number: u64) (revision_height: u64)

datatype ordering = Less | Equal | Greater

definition u64_cmp :: "u64 \<Rightarrow> u64 \<Rightarrow> ordering" where
  "u64_cmp a b = (if a < b then Less else if a = b then Equal else Greater)"

definition u64_checked_add :: "u64 \<Rightarrow> u64 \<Rightarrow> u64 option" where
  "u64_checked_add a b = (if unat a + unat b < 2 ^ 64 then Some (a + b) else None)"

definition u64_checked_sub :: "u64 \<Rightarrow> u64 \<Rightarrow> u64 option" where
  "u64_checked_sub a b = (if unat b \<le> unat a then Some (a - b) else None)"

definition height_zero :: height where
  "height_zero = Height 0 0"

definition height_is_zero :: "height \<Rightarrow> bool" where
  "height_is_zero h \<longleftrightarrow> revision_height h = 0"

definition height_checked_add :: "height \<Rightarrow> u64 \<Rightarrow> height option" where
  "height_checked_add h rhs =
     (case u64_checked_add (revision_height h) rhs of
        None \<Rightarrow> None
      | Some rh \<Rightarrow> Some (Height (revision_number h) rh))"

definition height_checked_sub :: "height \<Rightarrow> u64 \<Rightarrow> height option" where
  "height_checked_sub h rhs =
     (case u64_checked_sub (revision_height h) rhs of
        None \<Rightarrow> None
      | Some rh \<Rightarrow> Some (Height (revision_number h) rh))"

definition height_cmp :: "height \<Rightarrow> height \<Rightarrow> ordering" where
  "height_cmp a b =
     (case u64_cmp (revision_number a) (revision_number b) of
        Equal \<Rightarrow> u64_cmp (revision_height a) (revision_height b)
      | Greater \<Rightarrow> Greater
      | Less \<Rightarrow> Less)"

definition height_to_string :: "height \<Rightarrow> string" where
  "height_to_string h = show_u64 (revision_number h) @ ''-'' @ show_u64 (revision_height h)"

definition height_from_str :: "string \<Rightarrow> height outcome" where
  "height_from_str s =
     (let split = split_on (CHR ''-'') s in
      and_then (ensure (length split = 2)
        ''height should be of format {revision_number}-{revision_height}'') (\<lambda>_.
      and_then (with_context ''invalid revision number'' (parse_u64 (split ! 0))) (\<lambda>rn.
      and_then (with_context ''invalid revision height'' (parse_u64 (split ! 1))) (\<lambda>rh.
      Ok (Height rn rh)))))"

text \<open>
  \<open>to_block_height\<close> hands the revision height to tendermint's \<open>BlockHeight::try_from\<close>, which
  is not part of the program: the parameter \<open>try_from\<close>.
\<close>

definition to_block_height :: "(u64 \<Rightarrow> string + 'bh) \<Rightarrow> height \<Rightarrow> 'bh outcome" where
  "to_block_height try_from h =
     (case try_from (revision_height h) of
        Inl e \<Rightarrow> bail (''invalid block height: '' @ e)
      | Inr b \<Rightarrow> Ok b)"

section \<open>The order of heights\<close>

instantiation height :: linorder
begin

definition less_eq_height :: "height \<Rightarrow> height \<Rightarrow> bool" where
  "less_eq_height a b \<longleftrightarrow> height_cmp a b \<noteq> Greater"

definition less_height :: "height \<Rightarrow> height \<Rightarrow> bool" where
  "less_height a b \<longleftrightarrow> height_cmp a b = Less"

instance
  by standard
    (auto simp: less_eq_height_def less_height_def height_cmp_def u64_cmp_def
      split: if_splits height.splits intro: height.expand)

end

lemma height_less_eq_iff:
  "a \<le> b \<longleftrightarrow>
     revision_number a < revision_number b \<or>
     revision_number a = revision_number b \<and> revision_height a \<le> revision_height b"
  by (auto simp: less_eq_height_def height_cmp_def u64_cmp_def)

lemma u64_checked_add_Some_iff:
  "u64_checked_add a b = Some c \<longleftrightarrow> unat c = unat a + unat b"
proof
  assume "u64_checked_add a b = Some c"
  then show "unat c = unat a + unat b"
    by (auto simp: u64_checked_add_def unat_word_ariths split: if_splits)
next
  assume c: "unat c = unat a + unat b"
  then have "unat a + unat b < 2 ^ 64"
    using unsigned_less [of c, where ?'a = nat] by simp
  moreover from this have "unat (a + b) = unat a + unat b"
    by (simp add: unat_word_ariths)
  with c have "c = a + b"
    by (simp add: word_unat_eq_iff)
  ultimately show "u64_checked_add a b = Some c"
    by (simp add: u64_checked_add_def)
qed

lemma u64_checked_sub_Some_iff:
  "u64_checked_sub a b = Some c \<longleftrightarrow> unat a = unat c + unat b"
  by (auto simp: u64_checked_sub_def unat_sub word_le_nat_alt word_unat_eq_iff split: if_splits)

section \<open>Heights as text\<close>

lemma show_u64_no_dash: "CHR ''-'' \<notin> set (show_u64 n)"
  unfolding show_u64_def by (rule show_nat_no) (simp add: is_digit_def byte_of_def)

lemma height_from_str_Ok_iff:
  "height_from_str s = Ok h \<longleftrightarrow>
     (\<exists>a b. s = a @ CHR ''-'' # b \<and> CHR ''-'' \<notin> set a \<and> CHR ''-'' \<notin> set b \<and>
        parse_u64 a = Ok (revision_number h) \<and> parse_u64 b = Ok (revision_height h))"
proof
  assume h: "height_from_str s = Ok h"
  then have two: "length (split_on (CHR ''-'') s) = 2"
    by (auto simp: height_from_str_def Let_def)
  have "CHR ''-'' \<in> set s"
  proof (rule ccontr)
    assume "CHR ''-'' \<notin> set s"
    with two show False
      by (simp add: split_on_none)
  qed
  then obtain a b where s: "s = a @ CHR ''-'' # b" and a: "CHR ''-'' \<notin> set a"
    by (metis split_list_first)
  with two have "length (split_on (CHR ''-'') b) = 1"
    by (simp add: split_on_sep)
  then obtain p where p: "split_on (CHR ''-'') b = [p]"
    by (auto simp: length_Suc_conv)
  have b: "CHR ''-'' \<notin> set b"
  proof
    assume "CHR ''-'' \<in> set b"
    then obtain c d where "b = c @ CHR ''-'' # d" "CHR ''-'' \<notin> set c"
      by (metis split_list_first)
    with p show False
      by (simp add: split_on_sep)
  qed
  from h s a b show "\<exists>a b. s = a @ CHR ''-'' # b \<and> CHR ''-'' \<notin> set a \<and> CHR ''-'' \<notin> set b \<and>
        parse_u64 a = Ok (revision_number h) \<and> parse_u64 b = Ok (revision_height h)"
    by (intro exI [of _ a] exI [of _ b])
      (auto simp: height_from_str_def Let_def split_on_sep split_on_none)
next
  assume "\<exists>a b. s = a @ CHR ''-'' # b \<and> CHR ''-'' \<notin> set a \<and> CHR ''-'' \<notin> set b \<and>
        parse_u64 a = Ok (revision_number h) \<and> parse_u64 b = Ok (revision_height h)"
  then show "height_from_str s = Ok h"
    by (cases h) (auto simp: height_from_str_def Let_def split_on_sep split_on_none)
qed

interpretation height_text: text_codec height_to_string height_from_str "\<lambda>_. True"
proof
  fix h
  show "height_from_str (height_to_string h) = Ok h"
    unfolding height_from_str_Ok_iff
    by (intro exI [of _ "show_u64 (revision_number h)"] exI [of _ "show_u64 (revision_height h)"])
      (simp add: height_to_string_def show_u64_no_dash)
qed simp

end
