(* ===== verification/Host_Path.thy ===== *)
theory Host_Path
  imports Identifier Height
begin

text \<open>
  ICS24 paths: \<open>solo-machine-core/src/ibc/core/ics24_host/path.rs\<close>. A path is a Merkle path,
  a list of keys; each kind of path is built from one formatted key, and \<open>apply_prefix\<close> puts
  the prefix of the counterparty's store in front. The keys are the primary keys of the
  \<open>ibc_data\<close> table and part of what the machine signs, so that two different objects never
  have the same key is what keeps them apart.
\<close>

section \<open>Paths\<close>

datatype path = Path (key_path: "string list")

definition path_new_from_str :: "string \<Rightarrow> path" where
  "path_new_from_str s = Path [s]"

definition apply_prefix :: "path \<Rightarrow> string \<Rightarrow> path outcome" where
  "apply_prefix p prefix =
     and_then (ensure (trim prefix \<noteq> []) ''prefix cannot be empty'') (\<lambda>_.
     Ok (Path (trim prefix # key_path p)))"

definition get_key :: "path \<Rightarrow> nat \<Rightarrow> string option" where
  "get_key p i = (if i < length (key_path p) then Some (key_path p ! i) else None)"

definition path_len :: "path \<Rightarrow> nat" where
  "path_len p = length (key_path p)"

definition path_is_empty :: "path \<Rightarrow> bool" where
  "path_is_empty p \<longleftrightarrow> key_path p = []"

text \<open>\<open>impl_path!\<close>: the consuming variant of \<open>apply_prefix\<close>.\<close>

definition with_prefix :: "path \<Rightarrow> string \<Rightarrow> path outcome" where
  "with_prefix p prefix = and_then (apply_prefix p prefix) Ok"

definition client_type_path :: "client_id \<Rightarrow> path" where
  "client_type_path c = path_new_from_str (''clients/'' @ client_str c @ ''/clientType'')"

definition client_state_path :: "client_id \<Rightarrow> path" where
  "client_state_path c = path_new_from_str (''clients/'' @ client_str c @ ''/clientState'')"

definition consensus_state_path :: "client_id \<Rightarrow> height \<Rightarrow> path" where
  "consensus_state_path c h =
     path_new_from_str (''clients/'' @ client_str c @ ''/consensusStates/'' @ height_to_string h)"

definition connection_path :: "connection_id \<Rightarrow> path" where
  "connection_path c = path_new_from_str (''connections/'' @ connection_str c)"

definition channel_path :: "port_id \<Rightarrow> channel_id \<Rightarrow> path" where
  "channel_path p c =
     path_new_from_str (''channelEnds/ports/'' @ port_str p @ ''/channels/'' @ channel_str c)"

definition packet_commitment_path :: "port_id \<Rightarrow> channel_id \<Rightarrow> u64 \<Rightarrow> path" where
  "packet_commitment_path p c n =
     path_new_from_str (''commitments/ports/'' @ port_str p @ ''/channels/'' @ channel_str c
       @ ''/sequences/'' @ show_u64 n)"

definition denom_trace :: "port_id \<Rightarrow> channel_id \<Rightarrow> ident \<Rightarrow> path" where
  "denom_trace p c d =
     path_new_from_str (port_str p @ ''/'' @ channel_str c @ ''/'' @ ident_str d)"

definition packet_acknowledgement_path :: "port_id \<Rightarrow> channel_id \<Rightarrow> u64 \<Rightarrow> path" where
  "packet_acknowledgement_path p c n =
     path_new_from_str (''acks/ports/'' @ port_str p @ ''/channels/'' @ channel_str c
       @ ''/sequences/'' @ show_u64 n)"

section \<open>Keys determine what they name\<close>

text \<open>Every object that has a path, with the path the code builds for it.\<close>

datatype host_object =
    Client_Type client_id
  | Client_State client_id
  | Consensus_State client_id height
  | Connection_End connection_id
  | Channel_End port_id channel_id
  | Packet_Commitment port_id channel_id u64
  | Packet_Acknowledgement port_id channel_id u64

fun object_path :: "host_object \<Rightarrow> path" where
  "object_path (Client_Type c) = client_type_path c"
| "object_path (Client_State c) = client_state_path c"
| "object_path (Consensus_State c h) = consensus_state_path c h"
| "object_path (Connection_End c) = connection_path c"
| "object_path (Channel_End p c) = channel_path p c"
| "object_path (Packet_Commitment p c n) = packet_commitment_path p c n"
| "object_path (Packet_Acknowledgement p c n) = packet_acknowledgement_path p c n"

fun valid_object :: "host_object \<Rightarrow> bool" where
  "valid_object (Client_Type c) = valid_client c"
| "valid_object (Client_State c) = valid_client c"
| "valid_object (Consensus_State c h) = valid_client c"
| "valid_object (Connection_End c) = valid_connection c"
| "valid_object (Channel_End p c) = (valid_port p \<and> valid_channel c)"
| "valid_object (Packet_Commitment p c n) = (valid_port p \<and> valid_channel c)"
| "valid_object (Packet_Acknowledgement p c n) = (valid_port p \<and> valid_channel c)"

text \<open>The key split at its separators: a different list of pieces for every object.\<close>

fun object_pieces :: "host_object \<Rightarrow> string list" where
  "object_pieces (Client_Type c) = [''clients'', client_str c, ''clientType'']"
| "object_pieces (Client_State c) = [''clients'', client_str c, ''clientState'']"
| "object_pieces (Consensus_State c h) =
     [''clients'', client_str c, ''consensusStates'', height_to_string h]"
| "object_pieces (Connection_End c) = [''connections'', connection_str c]"
| "object_pieces (Channel_End p c) =
     [''channelEnds'', ''ports'', port_str p, ''channels'', channel_str c]"
| "object_pieces (Packet_Commitment p c n) =
     [''commitments'', ''ports'', port_str p, ''channels'', channel_str c, ''sequences'', show_u64 n]"
| "object_pieces (Packet_Acknowledgement p c n) =
     [''acks'', ''ports'', port_str p, ''channels'', channel_str c, ''sequences'', show_u64 n]"

lemma valid_ident_no_slash: "valid_identifier i \<Longrightarrow> CHR ''/'' \<notin> set (ident_str i)"
  using id_char_not_slash by (auto simp: valid_identifier_def list_all_iff)

lemma no_slash [simp]:
  "valid_client c \<Longrightarrow> CHR ''/'' \<notin> set (client_str c)"
  "valid_connection k \<Longrightarrow> CHR ''/'' \<notin> set (connection_str k)"
  "valid_channel n \<Longrightarrow> CHR ''/'' \<notin> set (channel_str n)"
  "valid_port p \<Longrightarrow> CHR ''/'' \<notin> set (port_str p)"
  by (simp_all add: valid_client_def valid_connection_def valid_channel_def valid_port_def
      valid_bounded_def client_str_def connection_str_def channel_str_def port_str_def
      valid_ident_no_slash)

lemma show_u64_no_slash [simp]: "CHR ''/'' \<notin> set (show_u64 m)"
  unfolding show_u64_def by (rule show_nat_no) (simp add: is_digit_def byte_of_def)

lemma height_no_slash [simp]: "CHR ''/'' \<notin> set (height_to_string h)"
  by (simp add: height_to_string_def)

lemma show_u64_inject [simp]: "show_u64 m = show_u64 n \<longleftrightarrow> m = n"
  by (simp add: u64_text.show_inject)

lemma height_to_string_inject [simp]: "height_to_string h = height_to_string k \<longleftrightarrow> h = k"
  by (simp add: height_text.show_inject)

definition object_key :: "host_object \<Rightarrow> string" where
  "object_key x = hd (key_path (object_path x))"

lemma get_key_object_path [simp]: "get_key (object_path x) 0 = Some (object_key x)"
  by (cases x)
    (simp_all add: object_key_def get_key_def path_new_from_str_def client_type_path_def
      client_state_path_def consensus_state_path_def connection_path_def channel_path_def
      packet_commitment_path_def packet_acknowledgement_path_def)

text \<open>A formatted key, one literal or hole at a time.\<close>

lemma split_on_cons_sep: "split_on c (c # t) = [] # split_on c t"
  by simp

lemmas split_key = split_on_sep [where c = "CHR ''/''"] split_on_none [where c = "CHR ''/''"]

lemma object_key_pieces:
  assumes "valid_object x"
  shows "split_on (CHR ''/'') (object_key x) = object_pieces x"
  using assms
  by (cases x)
    (simp_all add: object_key_def path_new_from_str_def client_type_path_def
      client_state_path_def consensus_state_path_def connection_path_def channel_path_def
      packet_commitment_path_def packet_acknowledgement_path_def split_key)

lemma object_pieces_inject:
  assumes "valid_object x" "valid_object y" "object_pieces x = object_pieces y"
  shows "x = y"
  using assms
  by (cases x; cases y)
    (simp_all add: client_text.show_inject connection_text.show_inject channel_text.show_inject
      port_text.show_inject)

lemma object_key_inject [simp]:
  assumes "valid_object x" "valid_object y"
  shows "object_key x = object_key y \<longleftrightarrow> x = y"
  using object_pieces_inject [OF assms] object_key_pieces assms by metis

text \<open>A signed path: the prefix of the counterparty's store, then the key.\<close>

lemma apply_prefix_ibc: "apply_prefix p ''ibc'' = Ok (Path (''ibc'' # key_path p))"
proof -
  have "trim ''ibc'' = ''ibc''"
    by (rule trim_plain_ends) (simp_all add: is_plain_char_def byte_of_def)
  then show ?thesis
    by (simp add: apply_prefix_def)
qed

lemma prefixed_object_key:
  "and_then (apply_prefix (object_path x) ''ibc'') (\<lambda>p. ok_or (get_key p 1) msg) = Ok (object_key x)"
  by (cases x)
    (simp_all add: apply_prefix_ibc object_key_def get_key_def path_new_from_str_def
      client_type_path_def client_state_path_def consensus_state_path_def connection_path_def
      channel_path_def packet_commitment_path_def packet_acknowledgement_path_def)

end
