(* ===== verification/Protobuf.thy ===== *)
theory Protobuf
  imports Host_Path
begin

text \<open>
  The protobuf messages the program builds, reads and stores. Their Rust types are generated
  (crate \<open>ibc-proto\<close>); the model keeps the fields the program sets, as records, and the
  type URLs under which the program packs them into \<open>Any\<close>
  (\<open>impl_any_conversion!\<close> in \<open>proto.rs\<close> and its uses under \<open>ibc/\<close> and \<open>cosmos/\<close>).
\<close>

section \<open>Common messages\<close>

type_synonym i32 = "32 word"

record any =
  type_url :: string
  any_value :: bytes

record fraction =
  numerator :: u64
  denominator :: u64

record proto_duration =
  dur_seconds :: int
  dur_nanos :: int

record coin =
  coin_denom :: string
  coin_amount :: string

section \<open>ICS23 proof specifications\<close>

datatype hash_op = NoHash | Sha256

datatype length_op = NoPrefix | VarProto

record leaf_op =
  lo_hash :: hash_op
  lo_prehash_key :: hash_op
  lo_prehash_value :: hash_op
  lo_length :: length_op
  lo_prefix :: bytes

record inner_spec =
  is_child_order :: "nat list"
  is_child_size :: nat
  is_min_prefix_length :: nat
  is_max_prefix_length :: nat
  is_empty_child :: bytes
  is_hash :: hash_op

record proof_spec =
  ps_leaf_spec :: "leaf_op option"
  ps_inner_spec :: "inner_spec option"
  ps_max_depth :: nat
  ps_min_depth :: nat
  ps_prehash_key_before_comparison :: bool

definition tendermint_spec :: proof_spec where
  "tendermint_spec =
     \<lparr>ps_leaf_spec = Some \<lparr>lo_hash = Sha256, lo_prehash_key = NoHash, lo_prehash_value = Sha256,
        lo_length = VarProto, lo_prefix = [0]\<rparr>,
      ps_inner_spec = Some \<lparr>is_child_order = [0, 1], is_child_size = 32,
        is_min_prefix_length = 1, is_max_prefix_length = 1, is_empty_child = [],
        is_hash = Sha256\<rparr>,
      ps_max_depth = 0, ps_min_depth = 0, ps_prehash_key_before_comparison = False\<rparr>"

definition iavl_spec :: proof_spec where
  "iavl_spec =
     \<lparr>ps_leaf_spec = Some \<lparr>lo_hash = Sha256, lo_prehash_key = NoHash, lo_prehash_value = Sha256,
        lo_length = VarProto, lo_prefix = [0]\<rparr>,
      ps_inner_spec = Some \<lparr>is_child_order = [0, 1], is_child_size = 33,
        is_min_prefix_length = 4, is_max_prefix_length = 12, is_empty_child = [],
        is_hash = Sha256\<rparr>,
      ps_max_depth = 0, ps_min_depth = 0, ps_prehash_key_before_comparison = False\<rparr>"

definition proof_specs :: "proof_spec list" where
  "proof_specs = [iavl_spec, tendermint_spec]"

section \<open>Tendermint client\<close>

record tm_client_state =
  tcs_chain_id :: string
  tcs_trust_level :: "fraction option"
  tcs_trusting_period :: "proto_duration option"
  tcs_unbonding_period :: "proto_duration option"
  tcs_max_clock_drift :: "proto_duration option"
  tcs_frozen_height :: "height option"
  tcs_latest_height :: "height option"
  tcs_proof_specs :: "proof_spec list"
  tcs_upgrade_path :: "string list"
  tcs_allow_update_after_expiry :: bool
  tcs_allow_update_after_misbehaviour :: bool

record proto_timestamp =
  ts_seconds :: int
  ts_nanos :: int

record tm_consensus_state =
  tcon_root :: "bytes option"
  tcon_timestamp :: "proto_timestamp option"
  tcon_next_validators_hash :: bytes

section \<open>Solo machine client\<close>

record sm_consensus_state =
  scon_public_key :: "any option"
  scon_diversifier :: string
  scon_timestamp :: u64

record sm_client_state =
  scs_sequence :: u64
  scs_is_frozen :: bool
  scs_consensus_state :: "sm_consensus_state option"

record sm_header =
  sh_timestamp :: u64
  sh_signature :: bytes
  sh_new_public_key :: "any option"
  sh_new_diversifier :: string

record header_data =
  hd_new_pub_key :: "any option"
  hd_new_diversifier :: string

record sign_bytes =
  sb_sequence :: u64
  sb_timestamp :: u64
  sb_diversifier :: string
  sb_path :: bytes
  sb_data :: bytes

record timestamped_signature_data =
  tsd_signature_data :: bytes
  tsd_timestamp :: u64

section \<open>Connections and channels\<close>

datatype connection_state = Conn_Uninitialized | Conn_Init | Conn_Tryopen | Conn_Open

fun connection_state_i32 :: "connection_state \<Rightarrow> i32" where
  "connection_state_i32 Conn_Uninitialized = 0"
| "connection_state_i32 Conn_Init = 1"
| "connection_state_i32 Conn_Tryopen = 2"
| "connection_state_i32 Conn_Open = 3"

datatype channel_state = Chan_Uninitialized | Chan_Init | Chan_Tryopen | Chan_Open | Chan_Closed

fun channel_state_i32 :: "channel_state \<Rightarrow> i32" where
  "channel_state_i32 Chan_Uninitialized = 0"
| "channel_state_i32 Chan_Init = 1"
| "channel_state_i32 Chan_Tryopen = 2"
| "channel_state_i32 Chan_Open = 3"
| "channel_state_i32 Chan_Closed = 4"

datatype channel_order = Order_None | Order_Unordered | Order_Ordered

fun channel_order_i32 :: "channel_order \<Rightarrow> i32" where
  "channel_order_i32 Order_None = 0"
| "channel_order_i32 Order_Unordered = 1"
| "channel_order_i32 Order_Ordered = 2"

record connection_counterparty =
  cc_client_id :: string
  cc_connection_id :: string
  cc_prefix :: "merkle_prefix option"

record connection_version =
  cv_identifier :: string
  cv_features :: "string list"

record connection_end =
  ce_client_id :: string
  ce_versions :: "connection_version list"
  ce_state :: i32
  ce_counterparty :: "connection_counterparty option"
  ce_delay_period :: u64

record channel_counterparty =
  chc_port_id :: string
  chc_channel_id :: string

record channel =
  ch_state :: i32
  ch_ordering :: i32
  ch_counterparty :: "channel_counterparty option"
  ch_connection_hops :: "string list"
  ch_version :: string
  ch_upgrade_sequence :: u64

record packet =
  pk_sequence :: u64
  pk_source_port :: string
  pk_source_channel :: string
  pk_destination_port :: string
  pk_destination_channel :: string
  pk_data :: bytes
  pk_timeout_height :: "height option"
  pk_timeout_timestamp :: u64

text \<open>\<open>Channel::set_state\<close> and \<open>ConnectionEnd::set_state\<close> of the generated types.\<close>

definition set_channel_state :: "channel_state \<Rightarrow> channel \<Rightarrow> channel" where
  "set_channel_state st c = c\<lparr>ch_state := channel_state_i32 st\<rparr>"

definition set_connection_state :: "connection_state \<Rightarrow> connection_end \<Rightarrow> connection_end" where
  "set_connection_state st c = c\<lparr>ce_state := connection_state_i32 st\<rparr>"

section \<open>Messages of the transactions\<close>

record msg_create_client =
  mcc_client_state :: "any option"
  mcc_consensus_state :: "any option"
  mcc_signer :: string

record msg_update_client =
  muc_client_id :: string
  muc_client_message :: "any option"
  muc_signer :: string

record msg_connection_open_init =
  mcoi_client_id :: string
  mcoi_counterparty :: "connection_counterparty option"
  mcoi_version :: "connection_version option"
  mcoi_delay_period :: u64
  mcoi_signer :: string

record msg_connection_open_ack =
  mcoa_connection_id :: string
  mcoa_counterparty_connection_id :: string
  mcoa_version :: "connection_version option"
  mcoa_client_state :: "any option"
  mcoa_proof_height :: "height option"
  mcoa_proof_try :: bytes
  mcoa_proof_client :: bytes
  mcoa_proof_consensus :: bytes
  mcoa_consensus_height :: "height option"
  mcoa_signer :: string
  mcoa_host_consensus_state_proof :: bytes

record msg_channel_open_init =
  mchi_port_id :: string
  mchi_channel :: "channel option"
  mchi_signer :: string

record msg_channel_close_init =
  mchc_port_id :: string
  mchc_channel_id :: string
  mchc_signer :: string

record msg_channel_open_ack =
  mcha_port_id :: string
  mcha_channel_id :: string
  mcha_counterparty_channel_id :: string
  mcha_counterparty_version :: string
  mcha_proof_height :: "height option"
  mcha_proof_try :: bytes
  mcha_signer :: string

record msg_recv_packet =
  mrp_packet :: "packet option"
  mrp_proof_commitment :: bytes
  mrp_proof_height :: "height option"
  mrp_signer :: string

record msg_transfer =
  mt_source_port :: string
  mt_source_channel :: string
  mt_token :: "coin option"
  mt_sender :: string
  mt_receiver :: string
  mt_timeout_height :: "height option"
  mt_timeout_timestamp :: u64
  mt_memo :: string

record msg_acknowledgement =
  ma_packet :: "packet option"
  ma_acknowledgement :: bytes
  ma_proof_acked :: bytes
  ma_proof_height :: "height option"
  ma_signer :: string

section \<open>Transactions, accounts, keys and signatures\<close>

record tx_body =
  tb_messages :: "any list"
  tb_memo :: string
  tb_timeout_height :: u64

record signer_info =
  si_public_key :: "any option"
  si_mode :: "i32 option"
  si_sequence :: u64

record tx_fee =
  tf_amount :: "coin list"
  tf_gas_limit :: u64
  tf_payer :: string
  tf_granter :: string

record auth_info =
  ai_signer_infos :: "signer_info list"
  ai_fee :: "tx_fee option"

record sign_doc =
  sd_body_bytes :: bytes
  sd_auth_info_bytes :: bytes
  sd_chain_id :: string
  sd_account_number :: u64

record tx_raw =
  tr_body_bytes :: bytes
  tr_auth_info_bytes :: bytes
  tr_signatures :: "bytes list"

record base_account =
  ba_address :: string
  ba_account_number :: u64
  ba_sequence :: u64

record eth_account =
  ea_base_account :: "base_account option"
  ea_code_hash :: string

text \<open>The four public key messages: raw key bytes, or a threshold over packed keys.\<close>

datatype pub_key_message =
    Secp256k1_PubKey bytes
  | Eth_Secp256k1_PubKey bytes
  | Ed25519_PubKey bytes
  | Legacy_Amino_PubKey u32 "any list"

record compact_bit_array =
  extra_bits_stored :: u32
  elems :: bytes

text \<open>\<open>signature_descriptor::Data\<close>: \<open>None\<close> is a missing \<open>sum\<close>.\<close>

datatype signature_data =
    Single_Signature i32 bytes
  | Multi_Signature "compact_bit_array option" "signature_data option list"

datatype proto_msg =
    P_Tm_Client_State tm_client_state
  | P_Tm_Consensus_State tm_consensus_state
  | P_Sm_Client_State sm_client_state
  | P_Sm_Consensus_State sm_consensus_state
  | P_Sm_Header sm_header
  | P_Header_Data header_data
  | P_Sign_Bytes sign_bytes
  | P_Timestamped_Signature timestamped_signature_data
  | P_Signature_Data signature_data
  | P_Connection_End connection_end
  | P_Channel channel
  | P_Create_Client msg_create_client
  | P_Update_Client msg_update_client
  | P_Connection_Open_Init msg_connection_open_init
  | P_Connection_Open_Ack msg_connection_open_ack
  | P_Channel_Open_Init msg_channel_open_init
  | P_Channel_Close_Init msg_channel_close_init
  | P_Channel_Open_Ack msg_channel_open_ack
  | P_Recv_Packet msg_recv_packet
  | P_Transfer msg_transfer
  | P_Acknowledgement msg_acknowledgement
  | P_Tx_Body tx_body
  | P_Auth_Info auth_info
  | P_Sign_Doc sign_doc
  | P_Tx_Raw tx_raw
  | P_Base_Account base_account
  | P_Eth_Account eth_account
  | P_Pub_Key pub_key_message

section \<open>Type URLs\<close>

definition MSG_CREATE_CLIENT_URL :: string where
  "MSG_CREATE_CLIENT_URL = ''/ibc.core.client.v1.MsgCreateClient''"

definition MSG_UPDATE_CLIENT_URL :: string where
  "MSG_UPDATE_CLIENT_URL = ''/ibc.core.client.v1.MsgUpdateClient''"

definition MSG_CONNECTION_OPEN_INIT_URL :: string where
  "MSG_CONNECTION_OPEN_INIT_URL = ''/ibc.core.connection.v1.MsgConnectionOpenInit''"

definition MSG_CONNECTION_OPEN_ACK_URL :: string where
  "MSG_CONNECTION_OPEN_ACK_URL = ''/ibc.core.connection.v1.MsgConnectionOpenAck''"

definition MSG_CHANNEL_OPEN_INIT_URL :: string where
  "MSG_CHANNEL_OPEN_INIT_URL = ''/ibc.core.channel.v1.MsgChannelOpenInit''"

definition MSG_CHANNEL_CLOSE_INIT_URL :: string where
  "MSG_CHANNEL_CLOSE_INIT_URL = ''/ibc.core.channel.v1.MsgChannelCloseInit''"

definition MSG_CHANNEL_OPEN_ACK_URL :: string where
  "MSG_CHANNEL_OPEN_ACK_URL = ''/ibc.core.channel.v1.MsgChannelOpenAck''"

definition MSG_RECV_PACKET_URL :: string where
  "MSG_RECV_PACKET_URL = ''/ibc.core.channel.v1.MsgRecvPacket''"

definition MSG_ACKNOWLEDGEMENT_URL :: string where
  "MSG_ACKNOWLEDGEMENT_URL = ''/ibc.core.channel.v1.MsgAcknowledgement''"

definition MSG_TRANSFER_URL :: string where
  "MSG_TRANSFER_URL = ''/ibc.applications.transfer.v1.MsgTransfer''"

definition SM_CLIENT_STATE_URL :: string where
  "SM_CLIENT_STATE_URL = ''/ibc.lightclients.solomachine.v3.ClientState''"

definition SM_CONSENSUS_STATE_URL :: string where
  "SM_CONSENSUS_STATE_URL = ''/ibc.lightclients.solomachine.v3.ConsensusState''"

definition SM_HEADER_URL :: string where
  "SM_HEADER_URL = ''/ibc.lightclients.solomachine.v3.Header''"

definition TM_CLIENT_STATE_URL :: string where
  "TM_CLIENT_STATE_URL = ''/ibc.lightclients.tendermint.v1.ClientState''"

definition BASE_ACCOUNT_TYPE_URL :: string where
  "BASE_ACCOUNT_TYPE_URL = ''/cosmos.auth.v1beta1.BaseAccount''"

definition ETH_ACCOUNT_TYPE_URL :: string where
  "ETH_ACCOUNT_TYPE_URL = ''/ethermint.types.v1.EthAccount''"

definition SECP256K1_PUB_KEY_TYPE_URL :: string where
  "SECP256K1_PUB_KEY_TYPE_URL = ''/cosmos.crypto.secp256k1.PubKey''"

definition ETH_SECP256K1_PUB_KEY_TYPE_URL :: string where
  "ETH_SECP256K1_PUB_KEY_TYPE_URL = ''/ethermint.crypto.v1.ethsecp256k1.PubKey''"

definition ED25519_PUB_KEY_TYPE_URL :: string where
  "ED25519_PUB_KEY_TYPE_URL = ''/cosmos.crypto.ed25519.PubKey''"

definition MULTISIG_PUB_KEY_TYPE_URL :: string where
  "MULTISIG_PUB_KEY_TYPE_URL = ''/cosmos.crypto.multisig.LegacyAminoPubKey''"

lemmas pub_key_urls =
  SECP256K1_PUB_KEY_TYPE_URL_def ETH_SECP256K1_PUB_KEY_TYPE_URL_def ED25519_PUB_KEY_TYPE_URL_def
  MULTISIG_PUB_KEY_TYPE_URL_def

section \<open>Encoding and packing\<close>

text \<open>
  The libraries under the program: the protobuf codec, hashes, signature schemes, bech32, hex
  and JSON. They are parameters of the model. Fallible calls return their error as text.
\<close>

datatype k256_key = K256_Key (sec1_bytes: bytes)
datatype ed25519_key = Ed25519_Key (ed25519_bytes: bytes)

datatype json = J_String string | J_Object "(string \<times> json) list"

record libs =
  encode :: "proto_msg \<Rightarrow> string + bytes"
  decode_channel :: "bytes \<Rightarrow> string + channel"
  decode_connection :: "bytes \<Rightarrow> string + connection_end"
  decode_tm_client_state :: "bytes \<Rightarrow> string + tm_client_state"
  decode_base_account :: "bytes \<Rightarrow> string + base_account"
  decode_eth_account :: "bytes \<Rightarrow> string + eth_account"
  decode_secp256k1_pub_key :: "bytes \<Rightarrow> string + bytes"
  decode_eth_secp256k1_pub_key :: "bytes \<Rightarrow> string + bytes"
  decode_ed25519_pub_key :: "bytes \<Rightarrow> string + bytes"
  decode_legacy_amino_pub_key :: "bytes \<Rightarrow> string + u32 \<times> any list"
  sha256 :: "bytes \<Rightarrow> bytes"
  ripemd160 :: "bytes \<Rightarrow> bytes"
  keccak256 :: "bytes \<Rightarrow> bytes"
  k256_from_sec1 :: "bytes \<Rightarrow> string + k256_key"
  k256_uncompressed :: "k256_key \<Rightarrow> bytes"
  k256_signature :: "bytes \<Rightarrow> string + bytes"
  k256_verify :: "k256_key \<Rightarrow> bytes \<Rightarrow> bytes \<Rightarrow> string + unit"
  ed25519_from_bytes :: "bytes \<Rightarrow> string + ed25519_key"
  ed25519_verify :: "ed25519_key \<Rightarrow> bytes \<Rightarrow> bytes \<Rightarrow> string + unit"
  hrp_parse :: "string \<Rightarrow> string + string"
  bech32_encode :: "string \<Rightarrow> bytes \<Rightarrow> string + string"
  hex_encode :: "bytes \<Rightarrow> string"
  hex_encode_upper :: "bytes \<Rightarrow> string"
  hex_decode :: "string \<Rightarrow> string + bytes"
  json_to_vec :: "json \<Rightarrow> string + bytes"

definition proto_encode :: "'x libs_scheme \<Rightarrow> proto_msg \<Rightarrow> bytes outcome" where
  "proto_encode L m = with_context ''unable to encode protobuf message'' (external (encode L m))"

end
