(* ===== verification/Bit_Array.thy ===== *)
theory Bit_Array
  imports Protobuf
begin

text \<open>
  The compact bit array of a multisignature:
  \<open>solo-machine-core/src/cosmos/bit_array.rs\<close>. Indexing and subtraction are written with
  their panics (the release profile keeps overflow checks on); \<open>bits\<close> is the list of Booleans
  the array stands for, and the operations are shown to compute on it for a well-formed array.
\<close>

unbundle bit_operations_syntax

section \<open>Operations\<close>

definition MASK :: u8 where
  "MASK = 0x80"

text \<open>\<open>a - b\<close> on \<open>usize\<close>, and \<open>xs[i]\<close>.\<close>

definition usize_sub :: "nat \<Rightarrow> nat \<Rightarrow> nat outcome" where
  "usize_sub a b = (if b \<le> a then Ok (a - b) else Panic ''attempt to subtract with overflow'')"

definition index :: "'a list \<Rightarrow> nat \<Rightarrow> 'a outcome" where
  "index xs i = (if i < length xs then Ok (xs ! i) else Panic ''index out of bounds'')"

definition bit_array_len :: "compact_bit_array \<Rightarrow> nat outcome" where
  "bit_array_len ba =
     (if extra_bits_stored ba = 0 then Ok (length (elems ba) * 8)
      else and_then (usize_sub (length (elems ba)) 1) (\<lambda>n.
           Ok (n * 8 + unat (extra_bits_stored ba))))"

definition bit_array_is_empty :: "compact_bit_array \<Rightarrow> bool outcome" where
  "bit_array_is_empty ba = and_then (bit_array_len ba) (\<lambda>n. Ok (n = 0))"

definition bit_array_get :: "compact_bit_array \<Rightarrow> nat \<Rightarrow> bool outcome" where
  "bit_array_get ba i =
     and_then (bit_array_len ba) (\<lambda>n.
     if i \<ge> n then Ok False
     else and_then (index (elems ba) (drop_bit 3 i)) (\<lambda>b.
          Ok ((b AND drop_bit (i AND 7) MASK) > 0)))"

fun count_true :: "compact_bit_array \<Rightarrow> nat list \<Rightarrow> nat \<Rightarrow> nat outcome" where
  "count_true ba [] acc = Ok acc"
| "count_true ba (i # is) acc =
     and_then (bit_array_get ba i) (\<lambda>b. count_true ba is (if b then acc + 1 else acc))"

definition num_true_bits_before :: "compact_bit_array \<Rightarrow> nat \<Rightarrow> nat outcome" where
  "num_true_bits_before ba i = count_true ba [0..<i] 0"

section \<open>The bits an array stands for\<close>

definition byte_bits :: "u8 \<Rightarrow> bool list" where
  "byte_bits b = map (\<lambda>k. bit b (7 - k)) [0..<8]"

definition bits :: "compact_bit_array \<Rightarrow> bool list" where
  "bits ba =
     (let all = concat (map byte_bits (elems ba)) in
      if extra_bits_stored ba = 0 then all
      else take ((length (elems ba) - 1) * 8 + unat (extra_bits_stored ba)) all)"

text \<open>At least one element if there are extra bits, and the extra bits fit the last element.\<close>

definition well_formed :: "compact_bit_array \<Rightarrow> bool" where
  "well_formed ba \<longleftrightarrow>
     extra_bits_stored ba = 0 \<or> elems ba \<noteq> [] \<and> unat (extra_bits_stored ba) \<le> 8"

lemma length_byte_bits [simp]: "length (byte_bits b) = 8"
  by (simp add: byte_bits_def)

lemma length_all_bits: "length (concat (map byte_bits es)) = 8 * length es"
  by (induction es) simp_all

lemma nth_all_bits:
  "i < 8 * length es \<Longrightarrow> concat (map byte_bits es) ! i = bit (es ! (i div 8)) (7 - i mod 8)"
proof (induction es arbitrary: i)
  case (Cons e es)
  show ?case
  proof (cases "i < 8")
    case True
    then show ?thesis
      by (simp add: nth_append byte_bits_def)
  next
    case False
    then have "i div 8 = Suc ((i - 8) div 8)" "(i - 8) mod 8 = i mod 8"
      by (simp_all add: le_div_geq le_mod_geq)
    with False Cons show ?thesis
      by (simp add: nth_append)
  qed
qed simp

lemma length_bits: "well_formed ba \<Longrightarrow> bit_array_len ba = Ok (length (bits ba))"
  by (cases "elems ba")
    (auto simp: bit_array_len_def bits_def well_formed_def Let_def length_all_bits usize_sub_def)

lemma bits_within:
  assumes "well_formed ba" "i < length (bits ba)"
  shows "i < 8 * length (elems ba)" "bits ba ! i = bit (elems ba ! (i div 8)) (7 - i mod 8)"
  using assms by (auto simp: bits_def Let_def length_all_bits nth_all_bits split: if_splits)

lemma mask_bit: "k < 8 \<Longrightarrow> (b AND drop_bit k MASK) > 0 \<longleftrightarrow> bit b (7 - k)" for b :: u8
proof -
  assume k: "k < 8"
  then have "k = 0 \<or> k = 1 \<or> k = 2 \<or> k = 3 \<or> k = 4 \<or> k = 5 \<or> k = 6 \<or> k = 7"
    by arith
  then have "drop_bit k MASK = 2 ^ (7 - k)"
    unfolding MASK_def by (elim disjE) simp_all
  then show ?thesis
    using and_exp_eq_0_iff_not_bit [of b "7 - k"] by (simp add: word_greater_zero_iff)
qed

lemma bit_array_get_bits:
  assumes "well_formed ba"
  shows "bit_array_get ba i = Ok (i < length (bits ba) \<and> bits ba ! i)"
proof (cases "i < length (bits ba)")
  case True
  then have "i < 8 * length (elems ba)"
    by (rule bits_within [OF assms])
  then have "drop_bit 3 i < length (elems ba)" "drop_bit 3 i = i div 8"
    by (simp_all add: drop_bit_eq_div less_mult_imp_div_less mult.commute)
  moreover have "i AND 7 = i mod 8"
    using take_bit_eq_mask [of 3 i] by (simp add: take_bit_eq_mod mask_eq_exp_minus_1)
  ultimately show ?thesis
    using assms True bits_within [OF assms True]
    by (simp add: bit_array_get_def length_bits index_def mask_bit)
next
  case False
  with assms show ?thesis
    by (simp add: bit_array_get_def length_bits)
qed

lemma count_true_bits:
  assumes "well_formed ba"
  shows "count_true ba is acc = Ok (acc + length (filter (\<lambda>i. i < length (bits ba) \<and> bits ba ! i) is))"
  by (induction "is" arbitrary: acc) (simp_all add: bit_array_get_bits [OF assms])

lemma filter_nth_take:
  "length (filter (\<lambda>i. i < length xs \<and> xs ! i) [0..<n]) = length (filter id (take n xs))"
proof (induction n)
  case (Suc n)
  then show ?case
    by (cases "n < length xs") (simp_all add: take_Suc_conv_app_nth)
qed simp

lemma num_true_bits_before_bits:
  assumes "well_formed ba"
  shows "num_true_bits_before ba i = Ok (length (filter id (take i (bits ba))))"
  by (simp add: num_true_bits_before_def count_true_bits [OF assms] filter_nth_take)

end
