(* ===== verification/Public_Key.thy ===== *)
theory Public_Key
  imports Bit_Array
begin

text \<open>
  Public keys, their addresses, their packing into \<open>Any\<close> and the verification of signatures:
  \<open>solo-machine-core/src/cosmos/crypto.rs\<close> and the files of \<open>cosmos/crypto/\<close>. The model has
  the code of the \<open>ethermint\<close> feature; without it the \<open>Eth_Secp256k1\<close> cases are absent.
\<close>

section \<open>Key types\<close>

datatype public_key_algo = Algo_Eth_Secp256k1 | Algo_Secp256k1

definition public_key_algo_from_str :: "string \<Rightarrow> public_key_algo outcome" where
  "public_key_algo_from_str s =
     (if s = ''eth-secp256k1'' then Ok Algo_Eth_Secp256k1
      else if s = ''secp256k1'' then Ok Algo_Secp256k1
      else bail (''invalid public key algorithm: '' @ s))"

datatype public_key =
    Eth_Secp256k1 k256_key
  | Secp256k1 k256_key
  | Ed25519 ed25519_key
  | Multisig (threshold: u32) (public_keys: "public_key list")

section \<open>Packing\<close>

text \<open>\<open>impl_any_conversion!\<close>\<close>

definition impl_to_any :: "'x libs_scheme \<Rightarrow> string \<Rightarrow> proto_msg \<Rightarrow> any outcome" where
  "impl_to_any L url m =
     and_then (proto_encode L m) (\<lambda>v. Ok \<lparr>type_url = url, any_value = v\<rparr>)"

definition impl_from_any :: "string \<Rightarrow> (bytes \<Rightarrow> string + 'a) \<Rightarrow> any \<Rightarrow> 'a outcome" where
  "impl_from_any url decode a =
     and_then (ensure (type_url a = url)
       (''invalid type url for `Any` type: expected `'' @ url @ ''` and found `'' @ type_url a @ ''`'')) (\<lambda>_.
     external (decode (any_value a)))"

definition secp256k1_from_verifying_key :: "k256_key \<Rightarrow> pub_key_message" where
  "secp256k1_from_verifying_key k = Secp256k1_PubKey (sec1_bytes k)"

definition secp256k1_try_from_pub_key :: "'x libs_scheme \<Rightarrow> bytes \<Rightarrow> k256_key outcome" where
  "secp256k1_try_from_pub_key L key =
     with_context ''unable to parse verifying key from sec1 bytes'' (external (k256_from_sec1 L key))"

definition eth_from_verifying_key :: "k256_key \<Rightarrow> pub_key_message" where
  "eth_from_verifying_key k = Eth_Secp256k1_PubKey (sec1_bytes k)"

definition eth_try_from_pub_key :: "'x libs_scheme \<Rightarrow> bytes \<Rightarrow> k256_key outcome" where
  "eth_try_from_pub_key L key =
     with_context ''unable to parse verifying key from sec1 bytes'' (external (k256_from_sec1 L key))"

definition ed25519_from_verifying_key :: "ed25519_key \<Rightarrow> pub_key_message" where
  "ed25519_from_verifying_key k = Ed25519_PubKey (ed25519_bytes k)"

definition ed25519_try_from_pub_key :: "'x libs_scheme \<Rightarrow> bytes \<Rightarrow> ed25519_key outcome" where
  "ed25519_try_from_pub_key L key =
     (if length key \<noteq> 32 then bail (''invalid ed25519 public key length: '' @ show_nat (length key))
      else with_context ''unable to parse ed25519 public key from bytes''
             (external (ed25519_from_bytes L key)))"

fun public_key_to_any :: "'x libs_scheme \<Rightarrow> public_key \<Rightarrow> any outcome"
  and multisig_to_message :: "'x libs_scheme \<Rightarrow> u32 \<Rightarrow> public_key list \<Rightarrow> pub_key_message outcome"
  and public_keys_to_any :: "'x libs_scheme \<Rightarrow> public_key list \<Rightarrow> any list outcome" where
  "public_key_to_any L (Eth_Secp256k1 key) =
     impl_to_any L ETH_SECP256K1_PUB_KEY_TYPE_URL (P_Pub_Key (eth_from_verifying_key key))"
| "public_key_to_any L (Secp256k1 key) =
     impl_to_any L SECP256K1_PUB_KEY_TYPE_URL (P_Pub_Key (secp256k1_from_verifying_key key))"
| "public_key_to_any L (Ed25519 key) =
     impl_to_any L ED25519_PUB_KEY_TYPE_URL (P_Pub_Key (ed25519_from_verifying_key key))"
| "public_key_to_any L (Multisig t ks) =
     and_then (multisig_to_message L t ks) (\<lambda>m.
     impl_to_any L MULTISIG_PUB_KEY_TYPE_URL (P_Pub_Key m))"
| "multisig_to_message L t ks =
     and_then (public_keys_to_any L ks) (\<lambda>as. Ok (Legacy_Amino_PubKey t as))"
| "public_keys_to_any L [] = Ok []"
| "public_keys_to_any L (k # ks) =
     and_then (public_key_to_any L k) (\<lambda>a.
     and_then (public_keys_to_any L ks) (\<lambda>as. Ok (a # as)))"

text \<open>
  Unpacking recurses on the keys inside a multisignature key, which are found by decoding
  bytes; since the decoder is a parameter, the depth is bounded by fuel and running out of it
  is \<open>None\<close>. \<open>public_key_roundtrip_mutual\<close> below says how much is enough.
\<close>

fun public_key_from_any :: "nat \<Rightarrow> 'x libs_scheme \<Rightarrow> any \<Rightarrow> public_key outcome option"
  and public_keys_from_any :: "nat \<Rightarrow> 'x libs_scheme \<Rightarrow> any list \<Rightarrow> public_key list outcome option" where
  "public_key_from_any 0 L a = None"
| "public_key_from_any (Suc n) L a =
     (if type_url a = ETH_SECP256K1_PUB_KEY_TYPE_URL then
        Some (and_then (external (decode_eth_secp256k1_pub_key L (any_value a))) (\<lambda>key.
              and_then (eth_try_from_pub_key L key) (\<lambda>k. Ok (Eth_Secp256k1 k))))
      else if type_url a = SECP256K1_PUB_KEY_TYPE_URL then
        Some (and_then (external (decode_secp256k1_pub_key L (any_value a))) (\<lambda>key.
              and_then (secp256k1_try_from_pub_key L key) (\<lambda>k. Ok (Secp256k1 k))))
      else if type_url a = ED25519_PUB_KEY_TYPE_URL then
        Some (and_then (external (decode_ed25519_pub_key L (any_value a))) (\<lambda>key.
              and_then (ed25519_try_from_pub_key L key) (\<lambda>k. Ok (Ed25519 k))))
      else if type_url a = MULTISIG_PUB_KEY_TYPE_URL then
        (case decode_legacy_amino_pub_key L (any_value a) of
          Inl e \<Rightarrow> Some (bail e)
        | Inr (t, as) \<Rightarrow>
            map_option (\<lambda>r. and_then r (\<lambda>ks. Ok (Multisig t ks))) (public_keys_from_any n L as))
      else Some (bail (''unknown type url for `Any` type: `'' @ type_url a @ ''`'')))"
| "public_keys_from_any n L [] = Some (Ok [])"
| "public_keys_from_any n L (a # as) =
     (case public_key_from_any n L a of
        None \<Rightarrow> None
      | Some (Ok k) \<Rightarrow> map_option (\<lambda>r. and_then r (\<lambda>ks. Ok (k # ks))) (public_keys_from_any n L as)
      | Some (Err e) \<Rightarrow> Some (Err e)
      | Some (Panic p) \<Rightarrow> Some (Panic p))"

section \<open>Rendering and addresses\<close>

fun public_key_encode :: "'x libs_scheme \<Rightarrow> public_key \<Rightarrow> string" where
  "public_key_encode L (Eth_Secp256k1 key) = hex_encode_upper L (sec1_bytes key)"
| "public_key_encode L (Secp256k1 key) = hex_encode_upper L (sec1_bytes key)"
| "public_key_encode L (Ed25519 key) = hex_encode_upper L (ed25519_bytes key)"
| "public_key_encode L (Multisig t ks) = ''unsupported key type''"

text \<open>\<open>&bytes[n..]\<close> and \<open>&bytes[..n]\<close> panic when \<open>n\<close> is past the end.\<close>

definition slice_from :: "nat \<Rightarrow> bytes \<Rightarrow> bytes outcome" where
  "slice_from n bs = (if n \<le> length bs then Ok (drop n bs) else Panic ''slice index out of range'')"

definition slice_to :: "nat \<Rightarrow> bytes \<Rightarrow> bytes outcome" where
  "slice_to n bs = (if n \<le> length bs then Ok (take n bs) else Panic ''slice index out of range'')"

fun address_bytes :: "'x libs_scheme \<Rightarrow> public_key \<Rightarrow> bytes outcome" where
  "address_bytes L (Eth_Secp256k1 key) =
     and_then (slice_from 1 (k256_uncompressed L key)) (\<lambda>point. slice_from 12 (keccak256 L point))"
| "address_bytes L (Secp256k1 key) = Ok (ripemd160 L (sha256 L (sec1_bytes key)))"
| "address_bytes L (Ed25519 key) = Ok (sha256 L (ed25519_bytes key))"
| "address_bytes L (Multisig t ks) =
     and_then (multisig_to_message L t ks) (\<lambda>m.
     and_then (proto_encode L (P_Pub_Key m)) (\<lambda>bs. slice_to 20 (sha256 L bs)))"

definition public_key_address :: "'x libs_scheme \<Rightarrow> public_key \<Rightarrow> string outcome" where
  "public_key_address L k = and_then (address_bytes L k) (\<lambda>bs. Ok (hex_encode L bs))"

definition account_address :: "'x libs_scheme \<Rightarrow> public_key \<Rightarrow> string \<Rightarrow> string outcome" where
  "account_address L k prefix =
     and_then (with_context ''invalid hrp for account address'' (external (hrp_parse L prefix))) (\<lambda>hrp.
     and_then (address_bytes L k) (\<lambda>bs. external (bech32_encode L hrp bs)))"

section \<open>Verification\<close>

text \<open>
  \<open>verify_signature\<close>, \<open>verify_multi_signature\<close> and the loop of the latter over the keys of
  the multisignature key: \<open>i\<close> is the loop variable and \<open>si\<close> is \<open>signature_index\<close>. The loop
  runs to the size of the bit array, which has been checked to be the number of keys.
\<close>

function (sequential) verify_signature ::
    "'x libs_scheme \<Rightarrow> public_key \<Rightarrow> bytes \<Rightarrow> signature_data \<Rightarrow> unit outcome"
  and verify_multi_signature ::
    "'x libs_scheme \<Rightarrow> u32 \<Rightarrow> public_key list \<Rightarrow> bytes \<Rightarrow> compact_bit_array option \<Rightarrow>
     signature_data option list \<Rightarrow> unit outcome"
  and verify_keys ::
    "'x libs_scheme \<Rightarrow> public_key list \<Rightarrow> nat \<Rightarrow> nat \<Rightarrow> bytes \<Rightarrow> compact_bit_array \<Rightarrow>
     signature_data option list \<Rightarrow> unit outcome" where
  "verify_signature L (Secp256k1 key) msg (Single_Signature mode sig) =
     and_then (external (k256_signature L sig)) (\<lambda>signature.
     external (k256_verify L key msg signature))"
| "verify_signature L (Ed25519 key) msg (Single_Signature mode sig) =
     and_then (ensure (length sig = 64) ''signature lendth should be equal to 64'') (\<lambda>_.
     external (ed25519_verify L key msg sig))"
| "verify_signature L (Multisig t ks) msg (Multi_Signature bitarray signatures) =
     verify_multi_signature L t ks msg bitarray signatures"
| "verify_signature L (Eth_Secp256k1 key) msg (Single_Signature mode sig) =
     and_then (external (k256_signature L sig)) (\<lambda>signature.
     external (k256_verify L key msg signature))"
| "verify_signature L _ msg _ = bail ''invalid public key for signature type''"
| "verify_multi_signature L t ks msg bitarray signatures =
     and_then (ok_or bitarray ''missing bit array from signature data'') (\<lambda>bit_array.
     and_then (bit_array_len bit_array) (\<lambda>size.
     and_then (ensure (length ks = size) (''bit array size is incorrect '' @ show_nat size)) (\<lambda>_.
     and_then (ensure (length signatures \<ge> unat t \<and> length signatures \<le> size)
       (''signature size is incorrect '' @ show_nat (length signatures))) (\<lambda>_.
     and_then (num_true_bits_before bit_array size) (\<lambda>have_bits.
     and_then (ensure (have_bits \<ge> unat t)
       (''minimum number of signatures not set, have '' @ show_nat have_bits @ '', expected ''
        @ show_nat (unat t))) (\<lambda>_.
     verify_keys L ks 0 0 msg bit_array signatures))))))"
| "verify_keys L [] i si msg bit_array signatures = Ok ()"
| "verify_keys L (k # ks) i si msg bit_array signatures =
     and_then (bit_array_get bit_array i) (\<lambda>b.
     if b then
       and_then (index signatures si) (\<lambda>signature.
       and_then (ok_or signature ''missing signature data'') (\<lambda>sd.
       and_then (verify_signature L k msg sd) (\<lambda>_.
       verify_keys L ks (i + 1) (si + 1) msg bit_array signatures)))
     else verify_keys L ks (i + 1) si msg bit_array signatures)"
  by pat_completeness auto
termination
  by (relation "measure (\<lambda>x. case x of
        Inl (L, k, msg, sd) \<Rightarrow> 2 * size k
      | Inr (Inl (L, t, ks, rest)) \<Rightarrow> 2 * size_list size ks + 1
      | Inr (Inr (L, ks, rest)) \<Rightarrow> 2 * size_list size ks)")
    auto

section \<open>Packing and unpacking\<close>

text \<open>
  What the program relies on: a decoder undoes the encoder, a key is read back from its own
  bytes, and an Ed25519 key has 32 of them.
\<close>

definition key_codec_laws :: "'x libs_scheme \<Rightarrow> bool" where
  "key_codec_laws L \<longleftrightarrow>
     (\<forall>b bs. encode L (P_Pub_Key (Secp256k1_PubKey b)) = Inr bs \<longrightarrow>
        decode_secp256k1_pub_key L bs = Inr b) \<and>
     (\<forall>b bs. encode L (P_Pub_Key (Eth_Secp256k1_PubKey b)) = Inr bs \<longrightarrow>
        decode_eth_secp256k1_pub_key L bs = Inr b) \<and>
     (\<forall>b bs. encode L (P_Pub_Key (Ed25519_PubKey b)) = Inr bs \<longrightarrow>
        decode_ed25519_pub_key L bs = Inr b) \<and>
     (\<forall>t as bs. encode L (P_Pub_Key (Legacy_Amino_PubKey t as)) = Inr bs \<longrightarrow>
        decode_legacy_amino_pub_key L bs = Inr (t, as)) \<and>
     (\<forall>k. k256_from_sec1 L (sec1_bytes k) = Inr k) \<and>
     (\<forall>k. length (ed25519_bytes k) = 32 \<longrightarrow> ed25519_from_bytes L (ed25519_bytes k) = Inr k)"

fun ed25519_keys_sized :: "public_key \<Rightarrow> bool" where
  "ed25519_keys_sized (Ed25519 k) = (length (ed25519_bytes k) = 32)"
| "ed25519_keys_sized (Multisig t ks) = list_all ed25519_keys_sized ks"
| "ed25519_keys_sized _ = True"

lemma public_key_roundtrip_mutual:
  shows "key_codec_laws L \<Longrightarrow> public_key_to_any L k = Ok a \<Longrightarrow> ed25519_keys_sized k \<Longrightarrow>
      size k < n \<Longrightarrow> public_key_from_any n L a = Some (Ok k)"
    and "key_codec_laws L \<Longrightarrow> multisig_to_message L t ks = Ok m \<Longrightarrow>
      list_all ed25519_keys_sized ks \<Longrightarrow> size_list size ks < n \<Longrightarrow>
      \<exists>as. m = Legacy_Amino_PubKey t as \<and> public_keys_from_any n L as = Some (Ok ks)"
    and "key_codec_laws L \<Longrightarrow> public_keys_to_any L ks = Ok as \<Longrightarrow>
      list_all ed25519_keys_sized ks \<Longrightarrow> size_list size ks < n \<Longrightarrow>
      public_keys_from_any n L as = Some (Ok ks)"
proof (induction L k and L t ks and L ks arbitrary: a n and m n and as n
    rule: public_key_to_any_multisig_to_message_public_keys_to_any.induct)
  case (4 L t ks)
  from "4.prems" obtain n' where n: "n = Suc n'"
    by (cases n) auto
  from "4.prems" obtain m where m: "multisig_to_message L t ks = Ok m"
    and a: "impl_to_any L MULTISIG_PUB_KEY_TYPE_URL (P_Pub_Key m) = Ok a"
    by auto
  have "list_all ed25519_keys_sized ks" "size_list size ks < n'"
    using "4.prems" n by auto
  with "4.IH" m "4.prems"(1)
  obtain as where as: "m = Legacy_Amino_PubKey t as" "public_keys_from_any n' L as = Some (Ok ks)"
    by blast
  with a n "4.prems"(1) show ?case
    by (auto simp: impl_to_any_def proto_encode_def key_codec_laws_def pub_key_urls)
next
  case (7 L k ks)
  then show ?case
    by fastforce
qed (auto simp: impl_to_any_def proto_encode_def key_codec_laws_def pub_key_urls
      gr0_conv_Suc eth_from_verifying_key_def secp256k1_from_verifying_key_def
      ed25519_from_verifying_key_def eth_try_from_pub_key_def secp256k1_try_from_pub_key_def
      ed25519_try_from_pub_key_def)

section \<open>The fuel of unpacking\<close>

text \<open>
  The keys packed inside a multisignature key are part of its bytes, so shorter than them; then
  the length of the bytes bounds the depth of the recursion.
\<close>

definition nested_shorter :: "'x libs_scheme \<Rightarrow> bool" where
  "nested_shorter L \<longleftrightarrow>
     (\<forall>bs t as. decode_legacy_amino_pub_key L bs = Inr (t, as) \<longrightarrow>
        (\<forall>a \<in> set as. length (any_value a) < length bs))"

lemma public_keys_from_any_total:
  assumes "\<And>a. a \<in> set as \<Longrightarrow> public_key_from_any n L a \<noteq> None"
  shows "public_keys_from_any n L as \<noteq> None"
  using assms by (induction as) (auto split: option.splits outcome.splits)

lemma public_key_from_any_total:
  assumes "nested_shorter L"
  shows "length (any_value a) < n \<Longrightarrow> public_key_from_any n L a \<noteq> None"
proof (induction n arbitrary: a)
  case (Suc n)
  have "public_keys_from_any n L as \<noteq> None"
    if "decode_legacy_amino_pub_key L (any_value a) = Inr (t, as)" for t as
  proof (rule public_keys_from_any_total)
    fix b
    assume "b \<in> set as"
    with assms that have "length (any_value b) < length (any_value a)"
      unfolding nested_shorter_def by blast
    with Suc.prems show "public_key_from_any n L b \<noteq> None"
      by (intro Suc.IH) simp
  qed
  then show ?case
    by (auto split: sum.splits)
qed simp

section \<open>Keys as text\<close>

text \<open>
  How the serializer writes an ECDSA key and reads it back: the hex of its SEC1 bytes, in upper
  case. A key that was registered for a chain is stored as the same text (\<open>public_key_encode\<close>).
\<close>

definition serialize_verifying_key :: "'x libs_scheme \<Rightarrow> k256_key \<Rightarrow> string" where
  "serialize_verifying_key L key = hex_encode_upper L (sec1_bytes key)"

definition deserialize_verifying_key :: "'x libs_scheme \<Rightarrow> string \<Rightarrow> k256_key outcome" where
  "deserialize_verifying_key L text =
     and_then (external (hex_decode L text)) (\<lambda>bs. external (k256_from_sec1 L bs))"

lemma verifying_key_text_roundtrip:
  assumes "key_codec_laws L" "\<And>bs. hex_decode L (hex_encode_upper L bs) = Inr bs"
  shows "deserialize_verifying_key L (serialize_verifying_key L key) = Ok key"
  using assms by (simp add: deserialize_verifying_key_def serialize_verifying_key_def key_codec_laws_def)

lemma stored_key_text:
  assumes "key_codec_laws L" "\<And>bs. hex_decode L (hex_encode_upper L bs) = Inr bs"
  shows "deserialize_verifying_key L (public_key_encode L (Secp256k1 key)) = Ok key"
    "deserialize_verifying_key L (public_key_encode L (Eth_Secp256k1 key)) = Ok key"
  using verifying_key_text_roundtrip [OF assms] by (simp_all add: serialize_verifying_key_def)

end
