(* ===== verification/Chain_Model.thy ===== *)
theory Chain_Model
  imports Public_Key
begin

text \<open>
  The state kept about an IBC enabled chain: \<open>solo-machine-core/src/model/chain.rs\<close> and
  \<open>model/chain/chain_keys.rs\<close>, types and conversions. A value of a \<open>Json<_>\<close> column is kept
  as itself: the JSON codec of sqlx and serde is trusted. A \<open>DateTime<Utc>\<close> is a number of
  nanoseconds since the Unix epoch.
\<close>

section \<open>Types\<close>

type_synonym datetime = int

definition unix_timestamp :: "datetime \<Rightarrow> int" where
  "unix_timestamp t = t div 1000000000"

record std_duration =
  d_secs :: u64
  d_subsec_nanos :: u32

text \<open>\<open>rust_decimal::Decimal\<close>: mantissa and scale; its text format is a parameter.\<close>

record decimal =
  mantissa :: int
  scale :: nat

definition decimal_default :: decimal where
  "decimal_default = \<lparr>mantissa = 0, scale = 0\<rparr>"

record ratio =
  numer :: u64
  denom :: u64

type_synonym node_id = bytes

record fee =
  fee_amount :: decimal
  fee_denom :: ident
  fee_gas_limit :: u64

record chain_config =
  grpc_addr :: string
  rpc_addr :: string
  config_fee :: fee
  trust_level :: ratio
  trusting_period :: std_duration
  max_clock_drift :: std_duration
  rpc_timeout :: std_duration
  diversifier :: string
  port_id :: port_id
  trusted_height :: u64
  trusted_hash :: bytes

record connection_details =
  solo_machine_client_id :: client_id
  tendermint_client_id :: client_id
  solo_machine_connection_id :: connection_id
  tendermint_connection_id :: connection_id
  solo_machine_channel_id :: "channel_id option"
  tendermint_channel_id :: "channel_id option"

record chain =
  c_id :: chain_id
  c_node_id :: node_id
  config :: chain_config
  consensus_timestamp :: datetime
  sequence :: u32
  packet_sequence :: u32
  connection_details :: "connection_details option"
  c_created_at :: datetime
  c_updated_at :: datetime

record raw_chain =
  raw_id :: string
  raw_node_id :: string
  raw_config :: chain_config
  raw_consensus_timestamp :: datetime
  raw_sequence :: int
  raw_packet_sequence :: int
  raw_connection_details :: "connection_details option"
  raw_created_at :: datetime
  raw_updated_at :: datetime

record chain_key =
  k_id :: int
  k_chain_id :: chain_id
  k_public_key :: string
  k_created_at :: datetime

record raw_chain_key =
  rk_id :: int
  rk_chain_id :: string
  rk_public_key :: string
  rk_created_at :: datetime

section \<open>Conversions\<close>

text \<open>
  \<open>u32::try_from(i64)\<close>, and the text format of tendermint's \<open>node::Id\<close> as a pair of
  parameters.
\<close>

definition u32_try_from :: "int \<Rightarrow> u32 outcome" where
  "u32_try_from i =
     (if 0 \<le> i \<and> i < 2 ^ 32 then Ok (word_of_int i)
      else bail ''out of range integral type conversion attempted'')"

lemma u32_try_from_Ok_iff: "u32_try_from i = Ok w \<longleftrightarrow> i = uint w"
proof (cases "0 \<le> i \<and> i < 2 ^ 32")
  case True
  then have "uint (word_of_int i :: u32) = i"
    by (simp add: uint_word_of_int)
  then have "word_of_int i = w \<longleftrightarrow> i = uint w"
    by auto
  with True show ?thesis
    by (simp add: u32_try_from_def)
next
  case False
  then have "i \<noteq> uint w"
    using unsigned_less [of w, where ?'a = int] by auto
  moreover have "u32_try_from i \<noteq> Ok w"
    using False by (auto simp: u32_try_from_def)
  ultimately show ?thesis
    by simp
qed

record node_id_format =
  node_id_to_string :: "node_id \<Rightarrow> string"
  node_id_parse :: "string \<Rightarrow> string + node_id"

definition raw_of_chain :: "'x node_id_format_scheme \<Rightarrow> chain \<Rightarrow> raw_chain" where
  "raw_of_chain F c =
     \<lparr>raw_id = chain_str (c_id c),
      raw_node_id = node_id_to_string F (c_node_id c),
      raw_config = config c,
      raw_consensus_timestamp = consensus_timestamp c,
      raw_sequence = uint (sequence c),
      raw_packet_sequence = uint (packet_sequence c),
      raw_connection_details = connection_details c,
      raw_created_at = c_created_at c,
      raw_updated_at = c_updated_at c\<rparr>"

definition chain_of_raw :: "'x node_id_format_scheme \<Rightarrow> raw_chain \<Rightarrow> chain outcome" where
  "chain_of_raw F raw =
     and_then (chain_id_from_str (raw_id raw)) (\<lambda>id.
     and_then (case node_id_parse F (raw_node_id raw) of
                 Inl e \<Rightarrow> bail (''unable to parse node id: '' @ e)
               | Inr n \<Rightarrow> Ok n) (\<lambda>node.
     and_then (u32_try_from (raw_sequence raw)) (\<lambda>seq.
     and_then (u32_try_from (raw_packet_sequence raw)) (\<lambda>pseq.
     Ok \<lparr>c_id = id, c_node_id = node, config = raw_config raw,
         consensus_timestamp = raw_consensus_timestamp raw, sequence = seq,
         packet_sequence = pseq, connection_details = raw_connection_details raw,
         c_created_at = raw_created_at raw, c_updated_at = raw_updated_at raw\<rparr>))))"

definition raw_of_chain_key :: "chain_key \<Rightarrow> raw_chain_key" where
  "raw_of_chain_key k =
     \<lparr>rk_id = k_id k, rk_chain_id = chain_str (k_chain_id k), rk_public_key = k_public_key k,
      rk_created_at = k_created_at k\<rparr>"

definition chain_key_of_raw :: "raw_chain_key \<Rightarrow> chain_key outcome" where
  "chain_key_of_raw raw =
     and_then (chain_id_from_str (rk_chain_id raw)) (\<lambda>id.
     Ok \<lparr>k_id = rk_id raw, k_chain_id = id, k_public_key = rk_public_key raw,
         k_created_at = rk_created_at raw\<rparr>)"

text \<open>A row that stands for a chain, and the chain it stands for.\<close>

lemma chain_of_raw_Ok_iff:
  "chain_of_raw F raw = Ok c \<longleftrightarrow>
     chain_id_from_str (raw_id raw) = Ok (c_id c) \<and>
     node_id_parse F (raw_node_id raw) = Inr (c_node_id c) \<and>
     raw_config raw = config c \<and> raw_consensus_timestamp raw = consensus_timestamp c \<and>
     raw_sequence raw = uint (sequence c) \<and> raw_packet_sequence raw = uint (packet_sequence c) \<and>
     raw_connection_details raw = connection_details c \<and>
     raw_created_at raw = c_created_at c \<and> raw_updated_at raw = c_updated_at c"
  by (cases c) (auto simp: chain_of_raw_def u32_try_from_Ok_iff split: sum.splits)

lemma chain_of_raw_ok_iff:
  "is_ok (chain_of_raw F raw) \<longleftrightarrow>
     is_ok (chain_id_from_str (raw_id raw)) \<and> (\<exists>n. node_id_parse F (raw_node_id raw) = Inr n) \<and>
     0 \<le> raw_sequence raw \<and> raw_sequence raw < 2 ^ 32 \<and>
     0 \<le> raw_packet_sequence raw \<and> raw_packet_sequence raw < 2 ^ 32"
  by (auto simp: chain_of_raw_def is_ok_iff u32_try_from_def split: sum.splits)

definition node_id_laws :: "'x node_id_format_scheme \<Rightarrow> bool" where
  "node_id_laws F \<longleftrightarrow> (\<forall>n. node_id_parse F (node_id_to_string F n) = Inr n)"

lemma chain_of_raw_of_chain:
  assumes "node_id_laws F" "valid_chain (c_id c)"
  shows "chain_of_raw F (raw_of_chain F c) = Ok c"
  using assms by (simp add: chain_of_raw_Ok_iff raw_of_chain_def node_id_laws_def chain_text.parse_show)

lemma chain_key_of_raw_of_chain_key:
  "valid_chain (k_chain_id k) \<Longrightarrow> chain_key_of_raw (raw_of_chain_key k) = Ok k"
  by (simp add: chain_key_of_raw_def raw_of_chain_key_def chain_text.parse_show)

section \<open>Denominations\<close>

definition get_ibc_denom :: "'x libs_scheme \<Rightarrow> chain \<Rightarrow> ident \<Rightarrow> string outcome" where
  "get_ibc_denom L c d =
     and_then (ensure (connection_details c \<noteq> None)
       ''connection is not established with given chain'') (\<lambda>_.
     and_then (unwrap_opt (connection_details c)) (\<lambda>details.
     and_then (ensure (solo_machine_channel_id details \<noteq> None)
       (''can'' @ [CHR 0x27] @ ''t find solo machine channel, channel is already closed'')) (\<lambda>_.
     and_then (unwrap_opt (solo_machine_channel_id details)) (\<lambda>channel.
     and_then (unwrap_opt (get_key (denom_trace (port_id (config c)) channel d) 0)) (\<lambda>key.
     Ok (''ibc/'' @ hex_encode_upper L (sha256 L (as_bytes key))))))))"

lemma get_ibc_denom_eq:
  "get_ibc_denom L c d =
     (case connection_details c of
        None \<Rightarrow> bail ''connection is not established with given chain''
      | Some details \<Rightarrow>
         (case solo_machine_channel_id details of
            None \<Rightarrow> bail (''can'' @ [CHR 0x27] @ ''t find solo machine channel, channel is already closed'')
          | Some channel \<Rightarrow>
              Ok (''ibc/'' @ hex_encode_upper L (sha256 L (as_bytes
                (port_str (port_id (config c)) @ ''/'' @ channel_str channel @ ''/'' @ ident_str d))))))"
  by (simp add: get_ibc_denom_def denom_trace_def path_new_from_str_def get_key_def
      split: option.splits)

end
