(* ===== verification/Operation_Model.thy ===== *)
theory Operation_Model
  imports Chain_Model
begin

text \<open>
  Account operations: the types and conversions of \<open>solo-machine-core/src/model/operation.rs\<close>.
  An amount is a \<open>U256\<close>, stored as its 32 big-endian bytes.
\<close>

type_synonym u256 = "256 word"

definition u256_to_big_endian :: "u256 \<Rightarrow> bytes" where
  "u256_to_big_endian n = to_be_bytes 32 (unat n)"

definition u256_from_big_endian :: "bytes \<Rightarrow> u256" where
  "u256_from_big_endian bs = word_of_nat (from_be_bytes bs)"

definition u256_to_string :: "u256 \<Rightarrow> string" where
  "u256_to_string n = show_nat (unat n)"

lemma u256_big_endian_roundtrip [simp]: "u256_from_big_endian (u256_to_big_endian n) = n"
proof -
  have "unat n < 256 ^ 32"
    using unsigned_less [of n, where ?'a = nat] by simp
  then show ?thesis
    by (simp add: u256_from_big_endian_def u256_to_big_endian_def from_be_to_be)
qed

lemma length_u256_to_big_endian [simp]: "length (u256_to_big_endian n) = 32"
  by (simp add: u256_to_big_endian_def)

lemma u256_big_endian_bytes:
  "length bs = 32 \<Longrightarrow> u256_to_big_endian (u256_from_big_endian bs) = bs"
  using from_be_bytes_less [of bs] to_be_from_be [of bs]
  by (simp add: u256_to_big_endian_def u256_from_big_endian_def unat_of_nat)

datatype operation_type = Mint chain_id | Burn chain_id

fun operation_type_to_string :: "operation_type \<Rightarrow> string" where
  "operation_type_to_string (Mint chain) = ''mint ['' @ chain_str chain @ '']''"
| "operation_type_to_string (Burn chain) = ''burn ['' @ chain_str chain @ '']''"

record operation =
  o_id :: int
  o_request_id :: "string option"
  o_address :: string
  o_denom :: ident
  o_amount :: u256
  o_operation_type :: operation_type
  o_transaction_hash :: string
  o_created_at :: datetime

record raw_operation =
  ro_id :: int
  ro_request_id :: "string option"
  ro_address :: string
  ro_denom :: string
  ro_amount :: bytes
  ro_operation_type :: operation_type
  ro_transaction_hash :: string
  ro_created_at :: datetime

definition raw_of_operation :: "operation \<Rightarrow> raw_operation" where
  "raw_of_operation op =
     \<lparr>ro_id = o_id op, ro_request_id = o_request_id op, ro_address = o_address op,
      ro_denom = ident_str (o_denom op), ro_amount = u256_to_big_endian (o_amount op),
      ro_operation_type = o_operation_type op, ro_transaction_hash = o_transaction_hash op,
      ro_created_at = o_created_at op\<rparr>"

definition operation_of_raw :: "raw_operation \<Rightarrow> operation outcome" where
  "operation_of_raw op =
     and_then (ensure (length (ro_amount op) = 32)
       (''expected amount in u256 little endian bytes '' @ show_nat (length (ro_amount op)))) (\<lambda>_.
     and_then (identifier_from_str (ro_denom op)) (\<lambda>d.
     Ok \<lparr>o_id = ro_id op, o_request_id = ro_request_id op, o_address = ro_address op,
         o_denom = d, o_amount = u256_from_big_endian (ro_amount op),
         o_operation_type = ro_operation_type op,
         o_transaction_hash = ro_transaction_hash op, o_created_at = ro_created_at op\<rparr>))"

lemma operation_of_raw_of_operation:
  "valid_identifier (o_denom op) \<Longrightarrow> operation_of_raw (raw_of_operation op) = Ok op"
  by (simp add: operation_of_raw_def raw_of_operation_def identifier_text.parse_show)

lemma raw_of_operation_of_raw:
  "operation_of_raw raw = Ok op \<Longrightarrow> raw_of_operation op = raw \<and> length (ro_amount raw) = 32"
  by (auto simp: operation_of_raw_def raw_of_operation_def u256_big_endian_bytes
      identifier_from_str_Ok_iff)

end
