(* ===== verification/Event.thy ===== *)
theory Event
  imports Operation_Model
begin

text \<open>The events of \<open>solo-machine-core/src/event.rs\<close>.\<close>

datatype event =
    TokensMinted chain_id "string option" string u256 ident string
  | TokensBurnt chain_id "string option" string u256 ident string
  | SignerUpdated chain_id public_key public_key
  | CreatedSoloMachineClient client_id
  | CreatedTendermintClient client_id
  | InitializedConnectionOnTendermint connection_id
  | InitializedConnectionOnSoloMachine connection_id
  | ConfirmedConnectionOnTendermint connection_id
  | ConfirmedConnectionOnSoloMachine connection_id
  | InitializedChannelOnTendermint channel_id
  | CloseChannelInitOnSoloMachine string channel_id
  | InitializedChannelOnSoloMachine channel_id
  | ConfirmedChannelOnTendermint channel_id
  | ConfirmedChannelOnSoloMachine channel_id
  | ConnectionEstablished chain_id connection_details
  | ChainAdded chain_id
  | Event_Warning string

end
