(* ===== verification/Abci.thy ===== *)
theory Abci
  imports Event
begin

text \<open>
  Reading the response of a broadcast transaction: the helpers at the end of
  \<open>solo-machine-core/src/service/ibc_service.rs\<close>. The response types belong to
  \<open>tendermint\<close>; the model keeps the fields the program reads.
\<close>

section \<open>Responses\<close>

text \<open>
  An attribute of a chain of version 0.34 is a pair of byte strings, later ones are text;
  \<open>key_str\<close> and \<open>value_str\<close> fail on bytes that are not UTF-8.
\<close>

datatype event_attribute = V034 bytes bytes | V037 string string

fun key_str :: "event_attribute \<Rightarrow> string outcome" where
  "key_str (V034 k v) = from_utf8 k"
| "key_str (V037 k v) = Ok k"

fun value_str :: "event_attribute \<Rightarrow> string outcome" where
  "value_str (V034 k v) = from_utf8 v"
| "value_str (V037 k v) = Ok v"

record abci_event =
  kind :: string
  attributes :: "event_attribute list"

record tx_response =
  check_code :: u32
  check_log :: string
  deliver_code :: u32
  deliver_log :: string
  tx_events :: "abci_event list"
  tx_hash :: string

text \<open>\<open>{:?}\<close> of events and of attributes comes from derived code: parameters.\<close>

record abci_libs = libs +
  debug_events :: "abci_event list \<Rightarrow> string"
  debug_tags :: "event_attribute list \<Rightarrow> string"

section \<open>Success and attributes\<close>

definition ensure_response_success :: "tx_response \<Rightarrow> string outcome" where
  "ensure_response_success r =
     and_then (ensure (check_code r = 0)
       (''check_tx response contains error code: '' @ check_log r)) (\<lambda>_.
     and_then (ensure (deliver_code r = 0)
       (''deliver_tx response contains error code: '' @ deliver_log r)) (\<lambda>_.
     Ok (tx_hash r)))"

fun find_attribute :: "event_attribute list \<Rightarrow> string \<Rightarrow> string option outcome" where
  "find_attribute [] key = Ok None"
| "find_attribute (tag # tags) key =
     and_then (key_str tag) (\<lambda>k.
     if k = key then and_then (value_str tag) (\<lambda>v. Ok (Some v))
     else find_attribute tags key)"

definition get_attribute ::
    "'x abci_libs_scheme \<Rightarrow> event_attribute list \<Rightarrow> string \<Rightarrow> string outcome" where
  "get_attribute L tags key =
     and_then (find_attribute tags key) (\<lambda>found.
     ok_or found (key @ '' not found in tags: '' @ debug_tags L tags))"

fun last_attribute ::
    "'x abci_libs_scheme \<Rightarrow> abci_event list \<Rightarrow> string \<Rightarrow> string \<Rightarrow> string option \<Rightarrow>
     string option outcome" where
  "last_attribute L [] event_type key attribute = Ok attribute"
| "last_attribute L (event # events) event_type key attribute =
     (if kind event = event_type then
        and_then (get_attribute L (attributes event) key) (\<lambda>v.
        last_attribute L events event_type key (Some v))
      else last_attribute L events event_type key attribute)"

definition extract_attribute ::
    "'x abci_libs_scheme \<Rightarrow> abci_event list \<Rightarrow> string \<Rightarrow> string \<Rightarrow> string outcome" where
  "extract_attribute L events event_type key =
     and_then (last_attribute L events event_type key None) (\<lambda>attribute.
     ok_or attribute (event_type @ '':'' @ key @ '' not found in tendermint response events: ''
       @ debug_events L events))"

lemma ex_list_all2_Cons_last:
  "(\<exists>vs. list_all2 P (x # xs) vs \<and> r = (if vs = [] then a else Some (last vs))) \<longleftrightarrow>
   (\<exists>v vs. P x v \<and> list_all2 P xs vs \<and> r = Some (last (v # vs)))"
proof (intro iffI; elim exE conjE)
  fix vs
  assume "list_all2 P (x # xs) vs" "r = (if vs = [] then a else Some (last vs))"
  then show "\<exists>v vs. P x v \<and> list_all2 P xs vs \<and> r = Some (last (v # vs))"
    by (cases vs) (simp_all only: list_all2_Cons, auto)
next
  fix v vs
  assume "P x v" "list_all2 P xs vs" "r = Some (last (v # vs))"
  then show "\<exists>vs. list_all2 P (x # xs) vs \<and> r = (if vs = [] then a else Some (last vs))"
    by (intro exI [of _ "v # vs"]) simp
qed

lemma last_attribute_Ok_iff:
  "last_attribute L events ty key a0 = Ok r \<longleftrightarrow>
     (\<exists>vs. list_all2 (\<lambda>e v. get_attribute L (attributes e) key = Ok v)
              (filter (\<lambda>e. kind e = ty) events) vs \<and>
           r = (if vs = [] then a0 else Some (last vs)))"
proof (induction events arbitrary: a0)
  case (Cons e events)
  show ?case
  proof (cases "kind e = ty")
    case True
    have "last_attribute L (e # events) ty key a0 = Ok r \<longleftrightarrow>
        (\<exists>v vs. get_attribute L (attributes e) key = Ok v \<and>
           list_all2 (\<lambda>e v. get_attribute L (attributes e) key = Ok v)
              (filter (\<lambda>e. kind e = ty) events) vs \<and> r = Some (last (v # vs)))"
      by (auto simp: True Cons.IH)
    then show ?thesis
      by (simp only: True filter.simps simp_thms if_True ex_list_all2_Cons_last)
  qed (simp add: Cons.IH)
qed auto

text \<open>The value is taken from the last event of the kind, and every one of them has the key.\<close>

lemma extract_attribute_Ok_iff:
  "extract_attribute L events ty key = Ok v \<longleftrightarrow>
     (\<exists>vs. list_all2 (\<lambda>e v. get_attribute L (attributes e) key = Ok v)
              (filter (\<lambda>e. kind e = ty) events) vs \<and> vs \<noteq> [] \<and> v = last vs)"
  by (auto simp: extract_attribute_def last_attribute_Ok_iff split: if_splits)

lemma find_attribute_Some_iff:
  "find_attribute tags key = Ok (Some v) \<longleftrightarrow>
     (\<exists>pre tag post. tags = pre @ tag # post \<and>
        (\<forall>t \<in> set pre. \<exists>k. key_str t = Ok k \<and> k \<noteq> key) \<and>
        key_str tag = Ok key \<and> value_str tag = Ok v)"
    (is "_ \<longleftrightarrow> ?found tags")
proof (induction tags)
  case (Cons t tags)
  have split: "?found (t # tags) \<longleftrightarrow>
      key_str t = Ok key \<and> value_str t = Ok v \<or>
      (\<exists>k. key_str t = Ok k \<and> k \<noteq> key) \<and> ?found tags"
  proof (intro iffI; (elim disjE exE conjE)?)
    fix pre tag post
    assume "t # tags = pre @ tag # post" "\<forall>t \<in> set pre. \<exists>k. key_str t = Ok k \<and> k \<noteq> key"
      "key_str tag = Ok key" "value_str tag = Ok v"
    then show "key_str t = Ok key \<and> value_str t = Ok v \<or>
        (\<exists>k. key_str t = Ok k \<and> k \<noteq> key) \<and> ?found tags"
      by (cases pre) auto
  next
    assume "key_str t = Ok key" "value_str t = Ok v"
    then show "?found (t # tags)"
      by (intro exI [of _ "[]"] exI [of _ t] exI [of _ tags]) simp
  next
    fix k pre tag post
    assume "key_str t = Ok k" "k \<noteq> key" "tags = pre @ tag # post"
      "\<forall>t \<in> set pre. \<exists>k. key_str t = Ok k \<and> k \<noteq> key"
      "key_str tag = Ok key" "value_str tag = Ok v"
    then show "?found (t # tags)"
      by (intro exI [of _ "t # pre"] exI [of _ tag] exI [of _ post]) simp
  qed
  show ?case
    unfolding split Cons.IH [symmetric] by auto
qed simp

section \<open>Packets\<close>

fun collect_attributes ::
    "event_attribute list \<Rightarrow> (string \<rightharpoonup> string) \<Rightarrow> (string \<rightharpoonup> string) outcome" where
  "collect_attributes [] m = Ok m"
| "collect_attributes (tag # tags) m =
     and_then (key_str tag) (\<lambda>k.
     and_then (value_str tag) (\<lambda>v.
     collect_attributes tags (m(k \<mapsto> v))))"

text \<open>\<open>attributes.remove(key)\<close>: every key is asked for once, so nothing else sees the removal.\<close>

definition remove_attribute :: "(string \<rightharpoonup> string) \<Rightarrow> string \<Rightarrow> string outcome" where
  "remove_attribute m key = ok_or (m key) (''`'' @ key @ ''` is missing from packet data'')"

definition packet_of_attributes ::
    "'x libs_scheme \<Rightarrow> (string \<rightharpoonup> string) \<Rightarrow> packet outcome" where
  "packet_of_attributes L m =
     and_then (remove_attribute m ''packet_sequence'') (\<lambda>seq.
     and_then (with_context ''invalid `packet_sequence`'' (parse_u64 seq)) (\<lambda>pseq.
     and_then (remove_attribute m ''packet_src_port'') (\<lambda>src_port.
     and_then (remove_attribute m ''packet_src_channel'') (\<lambda>src_channel.
     and_then (remove_attribute m ''packet_dst_port'') (\<lambda>dst_port.
     and_then (remove_attribute m ''packet_dst_channel'') (\<lambda>dst_channel.
     and_then (remove_attribute m ''packet_data_hex'') (\<lambda>hex.
     and_then (external (hex_decode L hex)) (\<lambda>data.
     and_then (remove_attribute m ''packet_timeout_height'') (\<lambda>th.
     and_then (with_context ''invalid `packet_timeout_height`'' (height_from_str th)) (\<lambda>theight.
     and_then (remove_attribute m ''packet_timeout_timestamp'') (\<lambda>tt.
     and_then (with_context ''invalid `packet_timeout_timestamp`'' (parse_u64 tt)) (\<lambda>ttime.
     Ok \<lparr>pk_sequence = pseq, pk_source_port = src_port, pk_source_channel = src_channel,
         pk_destination_port = dst_port, pk_destination_channel = dst_channel, pk_data = data,
         pk_timeout_height = Some theight, pk_timeout_timestamp = ttime\<rparr>))))))))))))"

definition packet_of_event :: "'x libs_scheme \<Rightarrow> abci_event \<Rightarrow> packet outcome" where
  "packet_of_event L event =
     and_then (collect_attributes (attributes event) Map.empty) (packet_of_attributes L)"

definition extract_packets :: "'x libs_scheme \<Rightarrow> tx_response \<Rightarrow> packet list outcome" where
  "extract_packets L r =
     collect (packet_of_event L) (filter (\<lambda>e. kind e = ''send_packet'') (tx_events r))"

end
