(* ===== verification/Host_Properties.thy ===== *)
theory Host_Properties
  imports Abci Bit_Array Operation_Model
begin

text \<open>
  The properties of the host layer: identifiers, chain identifiers, heights, paths, the events
  of a transaction response, byte encodings and bit arrays.
\<close>

section \<open>Identifiers\<close>

text \<open>C34: An identifier is accepted exactly when it has between 1 and 64 characters, all of
  them alphanumeric or one of the nine punctuation characters, and then it is kept as it
  was written; the checks on blanks and separators in front reject nothing more.\<close>

theorem identifier_accepted:
  "identifier_from_str s = Ok i \<longleftrightarrow>
     i = Identifier s \<and> 1 \<le> length s \<and> length s \<le> 64 \<and> list_all is_id_char s"
  by (cases i) (auto simp: identifier_from_str_Ok_iff valid_identifier_def Suc_le_eq)

text \<open>C35: Client, connection, channel and port identifiers are the identifiers of at least
  9, 10, 8 and 2 characters, and each is parsed back from its own text.\<close>

theorem bounded_identifiers:
  "(client_id_from_str s = Ok c \<longleftrightarrow>
      client_str c = s \<and> 9 \<le> length s \<and> length s \<le> 64 \<and> list_all is_id_char s) \<and>
   (connection_id_from_str s = Ok k \<longleftrightarrow>
      connection_str k = s \<and> 10 \<le> length s \<and> length s \<le> 64 \<and> list_all is_id_char s) \<and>
   (channel_id_from_str s = Ok n \<longleftrightarrow>
      channel_str n = s \<and> 8 \<le> length s \<and> length s \<le> 64 \<and> list_all is_id_char s) \<and>
   (port_id_from_str s = Ok p \<longleftrightarrow>
      port_str p = s \<and> 2 \<le> length s \<and> length s \<le> 64 \<and> list_all is_id_char s)"
  by (intro conjI)
    (cases c, cases "client_ident c", cases k, cases "connection_ident k", cases n,
      cases "channel_ident n", cases p, cases "port_ident p",
      auto simp: client_id_from_str_def connection_id_from_str_def channel_id_from_str_def
        port_id_from_str_def bounded_from_str_Ok_iff valid_bounded_def valid_identifier_def
        client_str_def connection_str_def channel_str_def port_str_def)+

text \<open>C33: A chain identifier is accepted exactly when it is an identifier, and its version is the
  revision its text names: the positive decimal without leading zeros after the last dash, if
  at least two characters precede that dash, the last of them no dash, and the decimal fits 64
  bits; otherwise 0. The regular expression and the two parsers of the code compute this.\<close>

theorem chain_identifier_revision:
  "chain_id_from_str s = Ok c \<longleftrightarrow>
     chain_str c = s \<and> ci_version c = revision_of s \<and>
     1 \<le> length s \<and> length s \<le> 64 \<and> list_all is_id_char s"
  by (cases "ci_id c")
    (auto simp: chain_id_from_str_Ok_iff chain_str_def valid_identifier_def Suc_le_eq)

text \<open>Whatever letters and digits the generator draws, the client, connection and channel
  identifiers it makes are valid: generation never panics, and each identifier is parsed back
  from its text.\<close>

lemma generated_identifiers_valid:
  assumes "alphanumeric_source sample"
  shows "\<exists>c k n. client_id_generate sample Tendermint = Ok c \<and> connection_id_generate sample = Ok k \<and>
     channel_id_generate sample = Ok n \<and> client_id_from_str (client_str c) = Ok c \<and>
     connection_id_from_str (connection_str k) = Ok k \<and> channel_id_from_str (channel_str n) = Ok n"
  using client_id_generate_Ok [OF assms] connection_id_generate_Ok [OF assms]
    channel_id_generate_Ok [OF assms]
  by (auto simp: client_text.parse_show connection_text.parse_show channel_text.parse_show)

text \<open>A valid identifier turned into a Merkle prefix and read back is the same identifier.\<close>

lemma merkle_prefix_roundtrip:
  assumes "identifier_from_str s = Ok i"
  shows "identifier_of_prefix (merkle_prefix_of i) = Ok i"
  using assms by (intro identifier_prefix_roundtrip) (rule identifier_text.parse_valid)

section \<open>Heights and paths\<close>

text \<open>A height is parsed from exactly two decimal numbers of 64 bits around a single dash,
  and every height is parsed back from its own text.\<close>

lemma height_text_format:
  "(height_from_str s = Ok h \<longleftrightarrow>
      (\<exists>a b. s = a @ ''-'' @ b \<and> CHR ''-'' \<notin> set a \<and> CHR ''-'' \<notin> set b \<and>
         parse_u64 a = Ok (revision_number h) \<and> parse_u64 b = Ok (revision_height h))) \<and>
   height_from_str (height_to_string h) = Ok h"
  by (simp add: height_from_str_Ok_iff height_text.parse_show)

text \<open>Adding to and subtracting from a height change its revision height by that number
  or, when the result does not fit 64 bits, give nothing; they never wrap around, and the
  revision number stays.\<close>

lemma height_arithmetic_checked:
  "(height_checked_add h n = Some k \<longleftrightarrow>
      revision_number k = revision_number h \<and>
      unat (revision_height k) = unat (revision_height h) + unat n) \<and>
   (height_checked_sub h n = Some k \<longleftrightarrow>
      revision_number k = revision_number h \<and>
      unat (revision_height h) = unat (revision_height k) + unat n)"
proof -
  have "height_checked_add h n = Some k \<longleftrightarrow> revision_number k = revision_number h \<and>
      u64_checked_add (revision_height h) n = Some (revision_height k)"
    by (cases k) (auto simp: height_checked_add_def split: option.splits)
  moreover have "height_checked_sub h n = Some k \<longleftrightarrow> revision_number k = revision_number h \<and>
      u64_checked_sub (revision_height h) n = Some (revision_height k)"
    by (cases k) (auto simp: height_checked_sub_def split: option.splits)
  ultimately show ?thesis
    by (simp add: u64_checked_add_Some_iff u64_checked_sub_Some_iff)
qed

text \<open>The comparison of heights is the lexicographic order of revision number and revision
  height.\<close>

lemma height_comparison_lexicographic:
  "height_cmp a b =
     (if (unat (revision_number a), unat (revision_height a)) =
         (unat (revision_number b), unat (revision_height b)) then Equal
      else if unat (revision_number a) < unat (revision_number b) \<or>
         unat (revision_number a) = unat (revision_number b) \<and>
         unat (revision_height a) < unat (revision_height b) then Less
      else Greater)"
  by (auto simp: height_cmp_def u64_cmp_def word_less_nat_alt word_unat_eq_iff)

text \<open>C11: Two different objects of the host never share a path: client types, client states,
  consensus states, connection ends, channel ends, packet commitments and acknowledgements of
  valid identifiers are kept apart by the keys under which they are stored and signed.\<close>

theorem paths_determine_objects:
  assumes "valid_object x" "valid_object y"
  shows "get_key (object_path x) 0 = get_key (object_path y) 0 \<longleftrightarrow> x = y"
  using assms by simp

theorem paths_determine_objects_witness:
  "get_key (connection_path (ConnectionId (Identifier ''connection-1''))) 0 \<noteq>
     get_key (channel_path (PortId (Identifier ''transfer'')) (ChannelId (Identifier ''channel-1''))) 0"
  using paths_determine_objects [of "Connection_End (ConnectionId (Identifier ''connection-1''))"
      "Channel_End (PortId (Identifier ''transfer'')) (ChannelId (Identifier ''channel-1''))"]
  by (simp add: valid_connection_def valid_port_def valid_channel_def valid_bounded_def
      valid_identifier_def is_id_char_def is_alphanumeric_def in_range_def byte_of_def)

text \<open>The key of a prefixed path, which is what the machine signs, is the very key under
  which the object is stored, for every kind of object.\<close>

lemma signed_key_is_stored_key:
  "\<exists>p key. apply_prefix (object_path x) ''ibc'' = Ok p \<and> get_key p 1 = Some key \<and>
     get_key (object_path x) 0 = Some key"
  using prefixed_object_key [of x "''''"] by auto

section \<open>Responses of the chain\<close>

text \<open>The value extracted for a key is the one in the last event of the kind; every event of
  the kind must have the key, and there must be at least one, or extraction fails.\<close>

lemma attribute_from_last_event:
  "extract_attribute L events ty key = Ok v \<longleftrightarrow>
     (\<exists>vs. list_all2 (\<lambda>e v. get_attribute L (attributes e) key = Ok v)
        (filter (\<lambda>e. kind e = ty) events) vs \<and> vs \<noteq> [] \<and> last vs = v)"
  by (auto simp: extract_attribute_Ok_iff)

section \<open>Stored amounts and bit arrays\<close>

text \<open>A row of the operations table is read as an operation exactly when it is the row that
  operation is stored as, the 256-bit amount in 32 big-endian bytes, and the denomination is a
  valid identifier: what is written is read back, and any other row is refused.\<close>

lemma operation_row_codec:
  "operation_of_raw raw = Ok op \<longleftrightarrow>
     raw = raw_of_operation op \<and> identifier_from_str (ident_str (o_denom op)) = Ok (o_denom op)"
  using raw_of_operation_of_raw [of raw op] operation_of_raw_of_operation [of op]
  by (auto simp: identifier_from_str_Ok_iff operation_of_raw_def)

text \<open>C31: On a well-formed bit array the byte-level operations compute on the bits it stands for:
  its length, the bit at every index (no index is out of bounds), and the number of set bits
  before an index; none of them panics.\<close>

theorem bit_array_refines_bits:
  assumes "well_formed ba"
  shows "bit_array_len ba = Ok (length (bits ba)) \<and>
     bit_array_get ba i = Ok (i < length (bits ba) \<and> bits ba ! i) \<and>
     num_true_bits_before ba i = Ok (length (filter id (take i (bits ba))))"
  using assms by (simp add: length_bits bit_array_get_bits num_true_bits_before_bits)

theorem bit_array_refines_bits_witness:
  "num_true_bits_before \<lparr>extra_bits_stored = 3, elems = [0xFF, 0xA0]\<rparr> 11 = Ok 10"
  using bit_array_refines_bits [of "\<lparr>extra_bits_stored = 3, elems = [0xFF, 0xA0]\<rparr>" 11]
  by (simp add: well_formed_def bits_def byte_bits_def upt_rec)

text \<open>A bit array with extra bits but no elements, which can be decoded from a message, makes
  even the length computation panic.\<close>

lemma bit_array_without_elements_panics:
  "(\<exists>m. bit_array_len ba = Panic m) \<longleftrightarrow> extra_bits_stored ba \<noteq> 0 \<and> elems ba = []"
  by (cases "elems ba") (auto simp: bit_array_len_def usize_sub_def)

end
