(* ===== verification/Multisig.thy ===== *)
theory Multisig
  imports Public_Key
begin

text \<open>
  What the verification of a multisignature establishes: which signature is checked against
  which key, and when it accepts.
\<close>

section \<open>Positions of the set bits\<close>

definition signers_from :: "compact_bit_array \<Rightarrow> nat \<Rightarrow> nat \<Rightarrow> nat list" where
  "signers_from ba i n = filter (\<lambda>j. bit_array_get ba j = Ok True) [i..<i + n]"

text \<open>The positions of the keys a bit array marks as having signed.\<close>

definition signers_of :: "compact_bit_array \<Rightarrow> nat \<Rightarrow> nat list" where
  "signers_of ba n = signers_from ba 0 n"

lemma signers_from_0 [simp]: "signers_from ba i 0 = []"
  by (simp add: signers_from_def)

lemma signers_from_Suc:
  "signers_from ba i (Suc n) =
     (if bit_array_get ba i = Ok True then i # signers_from ba (Suc i) n
      else signers_from ba (Suc i) n)"
  by (simp add: signers_from_def upt_conv_Cons del: upt_Suc)

text \<open>The bits of the first \<open>n\<close> positions can all be read.\<close>

definition readable :: "compact_bit_array \<Rightarrow> nat \<Rightarrow> nat \<Rightarrow> bool" where
  "readable ba i n \<longleftrightarrow> (\<forall>j \<in> {i..<i + n}. is_ok (bit_array_get ba j))"

lemma readable_0 [simp]: "readable ba i 0"
  by (simp add: readable_def)

lemma readable_Suc: "readable ba i (Suc n) \<longleftrightarrow> is_ok (bit_array_get ba i) \<and> readable ba (Suc i) n"
proof -
  have "{i..<i + Suc n} = insert i {Suc i..<Suc i + n}"
    by auto
  then show ?thesis
    by (simp add: readable_def)
qed

lemma count_true_Ok_iff:
  "count_true ba [i..<i + n] acc = Ok m \<longleftrightarrow>
     readable ba i n \<and> m = acc + length (signers_from ba i n)"
proof (induction n arbitrary: i acc)
  case (Suc n)
  have "[i..<i + Suc n] = i # [Suc i..<Suc i + n]"
    by (simp add: upt_conv_Cons del: upt_Suc)
  then show ?case
    by (cases "bit_array_get ba i")
      (auto simp: readable_Suc signers_from_Suc Suc.IH [of "Suc i", unfolded add_Suc]
        simp del: upt_Suc)
qed auto

lemma num_true_bits_before_Ok_iff:
  "num_true_bits_before ba n = Ok m \<longleftrightarrow> readable ba 0 n \<and> m = length (signers_of ba n)"
  using count_true_Ok_iff [of ba 0 n 0 m] by (simp add: num_true_bits_before_def signers_of_def)

section \<open>The loop over the keys\<close>

text \<open>The signature present at a position is a valid one for the key.\<close>

definition signed_by :: "'x libs_scheme \<Rightarrow> public_key \<Rightarrow> bytes \<Rightarrow> signature_data option \<Rightarrow> bool" where
  "signed_by L k msg sg \<longleftrightarrow> (\<exists>sd. sg = Some sd \<and> verify_signature L k msg sd = Ok ())"

lemma index_Ok_iff: "index xs i = Ok x \<longleftrightarrow> i < length xs \<and> xs ! i = x"
  by (auto simp: index_def)

lemma list_all2_take:
  "list_all2 P xs (take (length xs) ys) \<longleftrightarrow>
     length xs \<le> length ys \<and> (\<forall>j < length xs. P (xs ! j) (ys ! j))"
  by (auto simp: list_all2_conv_all_nth)

lemma drop_nth: "n < length xs \<Longrightarrow> drop n xs = xs ! n # drop (Suc n) xs"
  by (simp add: Cons_nth_drop_Suc)

lemma check_signature_Ok_iff:
  "and_then (ok_or sg e) (\<lambda>sd. and_then (verify_signature L k msg sd) (\<lambda>_. r)) = Ok () \<longleftrightarrow>
     signed_by L k msg sg \<and> r = Ok ()"
  by (auto simp: signed_by_def)

lemma verify_keys_Ok_iff:
  "verify_keys L ks i si msg ba sigs = Ok () \<longleftrightarrow>
     readable ba i (length ks) \<and>
     list_all2 (\<lambda>j sg. signed_by L (ks ! (j - i)) msg sg) (signers_from ba i (length ks))
       (take (length (signers_from ba i (length ks))) (drop si sigs))"
proof (induction ks arbitrary: i si)
  case (Cons k ks)
  let ?rest = "signers_from ba (Suc i) (length ks)"
  have shift: "list_all2 (\<lambda>j sg. signed_by L ((k # ks) ! (j - i)) msg sg) ?rest l \<longleftrightarrow>
      list_all2 (\<lambda>j sg. signed_by L (ks ! (j - Suc i)) msg sg) ?rest l" for l
    by (rule list.rel_cong [OF refl refl]) (auto simp: signers_from_def nth_Cons')
  show ?case
  proof (cases "bit_array_get ba i")
    case (Ok b)
    then show ?thesis
      by (cases b; cases "si < length sigs")
        (simp_all add: signers_from_Suc readable_Suc index_def drop_nth Cons.IH shift
          check_signature_Ok_iff conj_ac del: and_then_Ok_iff)
  qed (simp_all add: readable_Suc)
qed simp

section \<open>The whole check\<close>

lemma verify_multi_signature_Ok_iff:
  "verify_multi_signature L t ks msg bitarray sigs = Ok () \<longleftrightarrow>
     (\<exists>ba. bitarray = Some ba \<and> bit_array_len ba = Ok (length ks) \<and> readable ba 0 (length ks) \<and>
        unat t \<le> length sigs \<and> length sigs \<le> length ks \<and> unat t \<le> length (signers_of ba (length ks)) \<and>
        list_all2 (\<lambda>j sg. signed_by L (ks ! j) msg sg) (signers_of ba (length ks))
          (take (length (signers_of ba (length ks))) sigs))"
  by (auto simp: verify_keys_Ok_iff num_true_bits_before_Ok_iff signers_of_def)

text \<open>With fewer signatures than marked keys the loop runs past the end of the signatures.\<close>

lemma verify_keys_runs_out:
  assumes "readable ba i (length ks)"
    and "length (drop si sigs) < length (signers_from ba i (length ks))"
    and "list_all2 (\<lambda>j sg. signed_by L (ks ! (j - i)) msg sg)
      (take (length (drop si sigs)) (signers_from ba i (length ks))) (drop si sigs)"
  shows "verify_keys L ks i si msg ba sigs = Panic ''index out of bounds''"
  using assms
proof (induction ks arbitrary: i si)
  case (Cons k ks)
  let ?rest = "signers_from ba (Suc i) (length ks)"
  have shift: "list_all2 (\<lambda>j sg. signed_by L ((k # ks) ! (j - i)) msg sg) (take n ?rest) l \<longleftrightarrow>
      list_all2 (\<lambda>j sg. signed_by L (ks ! (j - Suc i)) msg sg) (take n ?rest) l" for n l
    by (rule list.rel_cong [OF refl refl]) (auto simp: signers_from_def nth_Cons' dest!: in_set_takeD)
  from Cons.prems(1) obtain b where b: "bit_array_get ba i = Ok b"
    by (auto simp: readable_Suc is_ok_iff)
  show ?case
  proof (cases "b \<and> si < length sigs")
    case True
    then have "signed_by L k msg (sigs ! si)"
      and rest: "verify_keys L ks (Suc i) (Suc si) msg ba sigs = Panic ''index out of bounds''"
      using Cons.prems b by (auto simp: signers_from_Suc readable_Suc drop_nth shift intro!: Cons.IH)
    then show ?thesis
      using True b by (auto simp: index_def signed_by_def)
  next
    case False
    then show ?thesis
      using Cons.prems b by (auto simp: signers_from_Suc readable_Suc index_def shift intro!: Cons.IH)
  qed
qed simp

lemma verify_multi_signature_panics:
  assumes "bit_array_len ba = Ok (length ks)" "readable ba 0 (length ks)"
    and "unat t \<le> length sigs" "length sigs < length (signers_of ba (length ks))"
    and "list_all2 (\<lambda>j sg. signed_by L (ks ! j) msg sg)
      (take (length sigs) (signers_of ba (length ks))) sigs"
  shows "verify_multi_signature L t ks msg (Some ba) sigs = Panic ''index out of bounds''"
proof -
  have "length (signers_of ba (length ks)) \<le> length ks"
    unfolding signers_of_def signers_from_def by (rule order_trans [OF length_filter_le]) simp
  moreover have "num_true_bits_before ba (length ks) = Ok (length (signers_of ba (length ks)))"
    using assms(2) by (simp add: num_true_bits_before_Ok_iff)
  moreover have "verify_keys L ks 0 0 msg ba sigs = Panic ''index out of bounds''"
    using verify_keys_runs_out [of ba 0 ks 0 sigs L msg] assms by (simp add: signers_of_def)
  ultimately show ?thesis
    using assms by (simp add: bail_def)
qed

lemma well_formed_readable: "well_formed ba \<Longrightarrow> readable ba i n"
  by (simp add: readable_def bit_array_get_bits)

end
