(* ===== verification/World.thy ===== *)
theory World
  imports Abci
begin

text \<open>
  What the services run against: the database with its tables (the migrations under
  \<open>solo-machine-core/*-migrations\<close>), database transactions, the signer, and the peers
  (\<open>env\<close>: a tendermint RPC node, a gRPC node, a light client, a clock, a random number
  generator and the receiver of events). Every interaction with a peer takes one tick, so a
  peer may answer differently each time and may fail at any of them; the log records what
  the program made leave its process. The clock \<open>now\<close> is the one of the database
  (\<open>CURRENT_TIMESTAMP\<close>), with whatever resolution that has.
\<close>

section \<open>The database\<close>

record database =
  chains :: "string \<rightharpoonup> raw_chain"
  chain_keys :: "raw_chain_key list"
  next_key_id :: int
  ibc_data :: "string \<rightharpoonup> bytes"
  operations :: "raw_operation list"
  next_operation_id :: int

definition empty_database :: database where
  "empty_database =
     \<lparr>chains = Map.empty, chain_keys = [], next_key_id = 1, ibc_data = Map.empty,
      operations = [], next_operation_id = 1\<rparr>"

section \<open>Signers\<close>

datatype sign_message = SignBytes bytes | SignDoc bytes

fun message_type :: "sign_message \<Rightarrow> string" where
  "message_type (SignBytes _) = ''sign-bytes''"
| "message_type (SignDoc _) = ''sign-doc''"

fun message_bytes :: "sign_message \<Rightarrow> bytes" where
  "message_bytes (SignBytes b) = b"
| "message_bytes (SignDoc b) = b"

datatype address_algo = Addr_Secp256k1 | Addr_Eth_Secp256k1

fun address_algo_to_string :: "address_algo \<Rightarrow> string" where
  "address_algo_to_string Addr_Secp256k1 = ''secp256k1''"
| "address_algo_to_string Addr_Eth_Secp256k1 = ''eth-secp256k1''"

definition address_algo_from_str :: "string \<Rightarrow> address_algo outcome" where
  "address_algo_from_str s =
     (if s = ''secp256k1'' then Ok Addr_Secp256k1
      else if s = ''eth-secp256k1'' then Ok Addr_Eth_Secp256k1
      else bail (''invalid address generation algorithm: '' @ s))"

text \<open>The traits \<open>ToPublicKey\<close> and \<open>Signer\<close>: any implementation of them.\<close>

record signer =
  to_public_key :: "public_key outcome"
  get_account_prefix :: string
  to_account_address :: "string outcome"
  sign_with :: "nat \<Rightarrow> string option \<Rightarrow> sign_message \<Rightarrow> bytes outcome"

text \<open>A reference to a signer, or a shared one (\<open>Arc\<close>), forwards every method.\<close>

definition forwarded :: "signer \<Rightarrow> signer" where
  "forwarded S =
     \<lparr>to_public_key = to_public_key S, get_account_prefix = get_account_prefix S,
      to_account_address = to_account_address S, sign_with = sign_with S\<rparr>"

lemma forwarded [simp]: "forwarded S = S"
  by (simp add: forwarded_def)

section \<open>Peers\<close>

record node_status =
  network :: string
  status_node_id :: node_id
  catching_up :: bool
  latest_block_height :: u64

record tm_header =
  header_height :: u64
  header_app_hash :: bytes
  header_time_seconds :: int
  header_time_nanos :: int
  header_next_validators_hash :: bytes

text \<open>A light client is what it was built from.\<close>

record light_client =
  lc_node_id :: node_id
  lc_rpc_addr :: string
  lc_trusting_period :: std_duration
  lc_clock_drift :: std_duration
  lc_rpc_timeout :: std_duration
  lc_trusted_height :: u64
  lc_trusted_hash :: bytes

record env = abci_libs +
  db_fault :: "nat \<Rightarrow> string option"
  now :: "nat \<Rightarrow> datetime"
  rng_alphanumeric :: "nat \<Rightarrow> nat \<Rightarrow> char"
  node_format :: node_id_format
  http_client_new :: "string \<Rightarrow> string + unit"
  broadcast :: "nat \<Rightarrow> string \<Rightarrow> bytes \<Rightarrow> string + tx_response"
  rpc_status :: "nat \<Rightarrow> string \<Rightarrow> string + node_status"
  grpc_connect :: "nat \<Rightarrow> string \<Rightarrow> string + unit"
  query_account :: "nat \<Rightarrow> string \<Rightarrow> string \<Rightarrow> string + any option"
  query_staking_params :: "nat \<Rightarrow> string \<Rightarrow> string + proto_duration option option"
  query_balance :: "nat \<Rightarrow> string \<Rightarrow> string \<Rightarrow> string \<Rightarrow> string + coin option"
  decimal_to_string :: "decimal \<Rightarrow> string"
  decimal_parse :: "string \<Rightarrow> string + decimal"
  duration_to_proto :: "std_duration \<Rightarrow> string + proto_duration"
  trust_threshold_new :: "u64 \<Rightarrow> u64 \<Rightarrow> string + unit"
  trust_primary_at :: "nat \<Rightarrow> light_client \<Rightarrow> string + unit"
  verify_to_highest :: "nat \<Rightarrow> light_client \<Rightarrow> string + tm_header"
  notifier :: bool
  notifier_send :: "nat \<Rightarrow> string option"

section \<open>The world and its primitive steps\<close>

datatype action =
    A_Sign "string option" sign_message
  | A_Broadcast string bytes
  | A_Notify event
  | A_Commit

record world =
  w_db :: database
  w_tx :: "database option"
  w_ticks :: nat
  w_log :: "action list"

type_synonym 'a run = "(world, 'a) io"

definition next_tick :: "nat run" where
  "next_tick w = (Ok (w_ticks w), w\<lparr>w_ticks := w_ticks w + 1\<rparr>)"

definition call :: "(nat \<Rightarrow> string + 'a) \<Rightarrow> 'a run" where
  "call f = bindM next_tick (\<lambda>n. lift (external (f n)))"

definition emit :: "action \<Rightarrow> unit run" where
  "emit a w = (Ok (), w\<lparr>w_log := w_log w @ [a]\<rparr>)"

text \<open>\<open>notify_event\<close> of \<open>event.rs\<close>; sending fails once the receiver is gone.\<close>

definition notify_event :: "env \<Rightarrow> event \<Rightarrow> unit run" where
  "notify_event E event =
     (if notifier E then
        bindM next_tick (\<lambda>n.
        case notifier_send E n of
          Some e \<Rightarrow> lift (bail (''unable to send event to notifier: '' @ e))
        | None \<Rightarrow> emit (A_Notify event))
      else returnM ())"

definition broadcast_tx_commit :: "env \<Rightarrow> string \<Rightarrow> bytes \<Rightarrow> tx_response run" where
  "broadcast_tx_commit E addr bs =
     bindM (emit (A_Broadcast addr bs)) (\<lambda>_. call (\<lambda>n. broadcast E n addr bs))"

definition signer_sign :: "signer \<Rightarrow> string option \<Rightarrow> sign_message \<Rightarrow> bytes run" where
  "signer_sign S request_id msg =
     bindM (emit (A_Sign request_id msg)) (\<lambda>_.
     bindM next_tick (\<lambda>n. lift (sign_with S n request_id msg)))"

section \<open>SQL\<close>

text \<open>
  A statement runs on the pool or inside the open transaction, whose changes are invisible
  outside until it commits. A transaction that is dropped before (an early return, a panic)
  is rolled back: \<open>scoped\<close> is the end of the scope that owns it. A computation has the
  database to itself; requests that share it are the subject of \<open>Concurrency\<close>.
\<close>

datatype executor = Pool | Tx

fun view :: "executor \<Rightarrow> world \<Rightarrow> database" where
  "view Pool w = w_db w"
| "view Tx w = (case w_tx w of Some d \<Rightarrow> d | None \<Rightarrow> w_db w)"

fun write_back :: "executor \<Rightarrow> database \<Rightarrow> world \<Rightarrow> world" where
  "write_back Pool d w = w\<lparr>w_db := d\<rparr>"
| "write_back Tx d w = w\<lparr>w_tx := Some d\<rparr>"

definition run_sql ::
    "env \<Rightarrow> executor \<Rightarrow> (datetime \<Rightarrow> database \<Rightarrow> string + 'a \<times> database) \<Rightarrow> 'a run" where
  "run_sql E ex stmt w =
     (let n = w_ticks w; w' = w\<lparr>w_ticks := n + 1\<rparr> in
      case db_fault E n of
        Some e \<Rightarrow> (bail e, w')
      | None \<Rightarrow>
          (case stmt (now E n) (view ex w) of
             Inl e \<Rightarrow> (bail e, w')
           | Inr (a, d) \<Rightarrow> (Ok a, write_back ex d w')))"

text \<open>A statement that reads.\<close>

definition query_sql :: "env \<Rightarrow> executor \<Rightarrow> (database \<Rightarrow> 'a) \<Rightarrow> 'a run" where
  "query_sql E ex q w =
     (let n = w_ticks w; w' = w\<lparr>w_ticks := n + 1\<rparr> in
      case db_fault E n of
        Some e \<Rightarrow> (bail e, w')
      | None \<Rightarrow> (Ok (q (view ex w)), w'))"

definition begin_transaction :: "env \<Rightarrow> unit run" where
  "begin_transaction E w =
     (let n = w_ticks w; w' = w\<lparr>w_ticks := n + 1\<rparr> in
      case db_fault E n of
        Some e \<Rightarrow> (Err (Context ''unable to begin database transaction'' (Message e)), w')
      | None \<Rightarrow> (Ok (), w'\<lparr>w_tx := Some (w_db w)\<rparr>))"

definition commit_transaction :: "env \<Rightarrow> string \<Rightarrow> unit run" where
  "commit_transaction E ctx w =
     (let n = w_ticks w; w' = w\<lparr>w_ticks := n + 1, w_tx := None\<rparr> in
      case db_fault E n of
        Some e \<Rightarrow> (Err (Context ctx (Message e)), w')
      | None \<Rightarrow> (Ok (), w'\<lparr>w_db := view Tx w, w_log := w_log w @ [A_Commit]\<rparr>))"

definition scoped :: "'a run \<Rightarrow> 'a run" where
  "scoped m w = (case m w of (r, t) \<Rightarrow> (r, t\<lparr>w_tx := None\<rparr>))"

section \<open>Successful steps\<close>

lemma next_tick_run [simp]: "next_tick w = (Ok (w_ticks w), w\<lparr>w_ticks := w_ticks w + 1\<rparr>)"
  by (simp add: next_tick_def)

lemma emit_run [simp]: "emit a w = (Ok (), w\<lparr>w_log := w_log w @ [a]\<rparr>)"
  by (simp add: emit_def)

lemma call_Ok_iff:
  "call f s = (Ok a, t) \<longleftrightarrow> f (w_ticks s) = Inr a \<and> t = s\<lparr>w_ticks := w_ticks s + 1\<rparr>"
  by (auto simp: call_def run_Ok_iffs)

lemma notify_event_Ok:
  assumes "notify_event E ev s = (Ok u, t)"
  shows "w_db t = w_db s" "w_tx t = w_tx s"
    "w_log t = (if notifier E then w_log s @ [A_Notify ev] else w_log s)"
  using assms
  by (auto simp: notify_event_def run_Ok_iffs split: if_splits option.splits)

lemma broadcast_Ok_iff:
  "broadcast_tx_commit E addr bs s = (Ok r, t) \<longleftrightarrow>
     broadcast E (w_ticks s) addr bs = Inr r \<and>
     t = s\<lparr>w_ticks := w_ticks s + 1, w_log := w_log s @ [A_Broadcast addr bs]\<rparr>"
  by (auto simp: broadcast_tx_commit_def run_Ok_iffs call_Ok_iff)

lemma signer_sign_Ok_iff:
  "signer_sign S rid msg s = (Ok sig, t) \<longleftrightarrow>
     sign_with S (w_ticks s) rid msg = Ok sig \<and>
     t = s\<lparr>w_ticks := w_ticks s + 1, w_log := w_log s @ [A_Sign rid msg]\<rparr>"
  by (auto simp: signer_sign_def run_Ok_iffs)

lemma run_sql_Ok_iff:
  "run_sql E ex stmt s = (Ok a, t) \<longleftrightarrow>
     db_fault E (w_ticks s) = None \<and>
     (\<exists>d. stmt (now E (w_ticks s)) (view ex s) = Inr (a, d) \<and>
          t = write_back ex d (s\<lparr>w_ticks := w_ticks s + 1\<rparr>))"
  by (auto simp: run_sql_def Let_def split: option.splits sum.splits)

lemma query_sql_Ok_iff:
  "query_sql E ex q s = (Ok a, t) \<longleftrightarrow>
     db_fault E (w_ticks s) = None \<and> a = q (view ex s) \<and> t = s\<lparr>w_ticks := w_ticks s + 1\<rparr>"
  by (auto simp: query_sql_def Let_def split: option.splits)

lemma begin_transaction_Ok_iff:
  "begin_transaction E s = (Ok u, t) \<longleftrightarrow>
     db_fault E (w_ticks s) = None \<and>
     t = s\<lparr>w_tx := Some (w_db s), w_ticks := w_ticks s + 1\<rparr>"
  by (auto simp: begin_transaction_def Let_def split: option.splits)

lemma commit_transaction_Ok_iff:
  "commit_transaction E c s = (Ok u, t) \<longleftrightarrow>
     db_fault E (w_ticks s) = None \<and>
     t = s\<lparr>w_db := view Tx s, w_tx := None, w_ticks := w_ticks s + 1,
           w_log := w_log s @ [A_Commit]\<rparr>"
  by (auto simp: commit_transaction_def Let_def split: option.splits)

lemma scoped_Ok_iff:
  "scoped m s = (Ok a, t) \<longleftrightarrow> (\<exists>u. m s = (Ok a, u) \<and> t = u\<lparr>w_tx := None\<rparr>)"
  by (auto simp: scoped_def split: prod.splits)

lemmas step_Ok_iffs = call_Ok_iff broadcast_Ok_iff signer_sign_Ok_iff run_sql_Ok_iff
  query_sql_Ok_iff begin_transaction_Ok_iff commit_transaction_Ok_iff

lemma view_ticks [simp]: "view ex (s\<lparr>w_ticks := n\<rparr>) = view ex s"
  by (cases ex) (simp_all split: option.splits)

lemma view_log [simp]: "view ex (s\<lparr>w_log := l\<rparr>) = view ex s"
  by (cases ex) (simp_all split: option.splits)

lemma view_write_back [simp]: "view ex (write_back ex d s) = d"
  by (cases ex) simp_all

section \<open>What a step leaves alone\<close>

text \<open>Neither the database nor the open transaction; the committed database; the log's past.\<close>

definition unchanged :: "world \<Rightarrow> world \<Rightarrow> bool" where
  "unchanged s t \<longleftrightarrow> w_db t = w_db s \<and> w_tx t = w_tx s"

definition same_db :: "world \<Rightarrow> world \<Rightarrow> bool" where
  "same_db s t \<longleftrightarrow> w_db t = w_db s"

definition log_grows :: "world \<Rightarrow> world \<Rightarrow> bool" where
  "log_grows s t \<longleftrightarrow> (\<exists>l. w_log t = w_log s @ l)"

interpretation unchanged_frame: frame_relation unchanged
  by unfold_locales (auto simp: unchanged_def)

interpretation same_db_frame: frame_relation same_db
  by unfold_locales (auto simp: same_db_def)

interpretation log_frame: frame_relation log_grows
  by unfold_locales (force simp: log_grows_def)+

lemma unchanged_view: "unchanged s t \<Longrightarrow> view ex t = view ex s"
  by (cases ex) (auto simp: unchanged_def split: option.splits)

lemma keeps_unchanged_view:
  "keeps unchanged m \<Longrightarrow> m s = (r, t) \<Longrightarrow> view ex t = view ex s"
  by (rule unchanged_view) (rule keepsD)

lemma keeps_same_db_of_unchanged: "keeps unchanged m \<Longrightarrow> keeps same_db m"
  by (simp add: keeps_def unchanged_def same_db_def)

lemma keeps_unchanged_steps [keeps_intros]:
  "keeps unchanged next_tick"
  "keeps unchanged (emit a)"
  "keeps unchanged (query_sql E ex q)"
  by (auto simp: keeps_def unchanged_def query_sql_def Let_def split: option.splits)

lemma keeps_unchanged_call [keeps_intros]: "keeps unchanged (call f)"
  unfolding call_def by (intro keeps_intros)

lemma keeps_unchanged_signer [keeps_intros]: "keeps unchanged (signer_sign S rid msg)"
  unfolding signer_sign_def by (intro keeps_intros)

lemma keeps_unchanged_broadcast [keeps_intros]: "keeps unchanged (broadcast_tx_commit E addr bs)"
  unfolding broadcast_tx_commit_def by (intro keeps_intros)

lemma keeps_unchanged_notify [keeps_intros]: "keeps unchanged (notify_event E ev)"
  unfolding notify_event_def by (intro keeps_intros)

lemma keeps_same_db_steps [keeps_intros]:
  "keeps same_db (run_sql E Tx stmt)"
  "keeps same_db (begin_transaction E)"
  by (auto simp: keeps_def same_db_def run_sql_def begin_transaction_def Let_def
      split: option.splits sum.splits)

lemma keeps_same_db_scoped [keeps_intros]: "keeps same_db m \<Longrightarrow> keeps same_db (scoped m)"
  by (auto simp: keeps_def same_db_def scoped_def split_beta)

section \<open>Atomicity\<close>

text \<open>\<open>atomic m\<close>: when \<open>m\<close> does not succeed, it leaves the committed database as it was.\<close>

named_theorems atomic_intros

definition atomic :: "'a run \<Rightarrow> bool" where
  "atomic m \<longleftrightarrow> (\<forall>s. is_ok (fst (m s)) \<or> w_db (snd (m s)) = w_db s)"

lemma atomicD: "atomic m \<Longrightarrow> m s = (r, t) \<Longrightarrow> \<not> is_ok r \<Longrightarrow> w_db t = w_db s"
  unfolding atomic_def by (metis fst_conv snd_conv)

lemma atomic_of_keeps: "keeps same_db m \<Longrightarrow> atomic m"
  by (simp add: atomic_def keeps_def same_db_def)

lemma atomic_bindM [atomic_intros]:
  assumes "keeps same_db m" "\<And>a. atomic (f a)"
  shows "atomic (bindM m f)"
  unfolding atomic_def
proof
  fix s
  obtain r t where m: "m s = (r, t)"
    by (cases "m s")
  from keepsD [OF assms(1) this] have "w_db t = w_db s"
    by (simp add: same_db_def)
  moreover have "is_ok (fst (f a t)) \<or> w_db (snd (f a t)) = w_db t" for a
    using assms(2) by (simp add: atomic_def)
  ultimately show "is_ok (fst (bindM m f s)) \<or> w_db (snd (bindM m f s)) = w_db s"
    using m by (cases r) (auto simp: bindM_def)
qed

lemma atomic_commit [atomic_intros]: "atomic (commit_transaction E c)"
  by (simp add: atomic_def commit_transaction_def Let_def split: option.splits)

lemma atomic_scoped [atomic_intros]: "atomic m \<Longrightarrow> atomic (scoped m)"
  by (auto simp: atomic_def scoped_def split_beta)

lemma atomic_if [atomic_intros]: "atomic m \<Longrightarrow> atomic n \<Longrightarrow> atomic (if b then m else n)"
  by simp

lemma atomic_case_prod [atomic_intros]:
  "(\<And>x y. atomic (f x y)) \<Longrightarrow> atomic (case p of (x, y) \<Rightarrow> f x y)"
  by (cases p) auto

lemma atomic_case_prod_app [atomic_intros]:
  "(\<And>x y. atomic (f x y z)) \<Longrightarrow> atomic ((case p of (x, y) \<Rightarrow> f x y) z)"
  by (cases p) auto

lemma atomic_case_option [atomic_intros]:
  "atomic m \<Longrightarrow> (\<And>x. atomic (f x)) \<Longrightarrow> atomic (case opt of None \<Rightarrow> m | Some x \<Rightarrow> f x)"
  by (cases opt) auto

text \<open>A successful last step may follow the commit.\<close>

lemma atomic_then_returnM [atomic_intros]:
  assumes "atomic m"
  shows "atomic (bindM m (\<lambda>_. returnM a))"
  unfolding atomic_def
proof
  fix s
  from assms have "is_ok (fst (m s)) \<or> w_db (snd (m s)) = w_db s"
    by (simp add: atomic_def)
  then show "is_ok (fst (bindM m (\<lambda>_. returnM a) s)) \<or>
      w_db (snd (bindM m (\<lambda>_. returnM a) s)) = w_db s"
    by (cases "m s"; cases "fst (m s)") (auto simp: bindM_def returnM_def)
qed

text \<open>From here on a transaction's view is only read through these.\<close>

lemma view_Tx_simps [simp]:
  "view Tx (w\<lparr>w_tx := Some d\<rparr>) = d"
  "view Tx (w\<lparr>w_tx := None\<rparr>) = w_db w"
  "view Tx (w\<lparr>w_db := d, w_tx := None\<rparr>) = d"
  by simp_all

lemma view_no_transaction: "w_tx w = None \<Longrightarrow> view ex w = w_db w"
  by (cases ex) simp_all

declare view.simps(2) [simp del]

end
