(* ===== verification/Account.thy ===== *)
theory Account
  imports World
begin

text \<open>
  Accounts of the IBC enabled chain: \<open>solo-machine-core/src/cosmos/account.rs\<close> and the files
  of \<open>cosmos/account/\<close>, with the \<open>ethermint\<close> feature.
\<close>

datatype account = Base base_account | Eth eth_account

definition eth_get_base_account :: "eth_account \<Rightarrow> base_account option" where
  "eth_get_base_account a = ea_base_account a"

fun get_base_account :: "account \<Rightarrow> base_account option" where
  "get_base_account (Base a) = Some a"
| "get_base_account (Eth a) = eth_get_base_account a"

definition account_from_any :: "'x libs_scheme \<Rightarrow> any \<Rightarrow> account outcome" where
  "account_from_any L v =
     (if type_url v = BASE_ACCOUNT_TYPE_URL then
        and_then (external (decode_base_account L (any_value v))) (\<lambda>a. Ok (Base a))
      else if type_url v = ETH_ACCOUNT_TYPE_URL then
        and_then (external (decode_eth_account L (any_value v))) (\<lambda>a. Ok (Eth a))
      else bail (''unknown type url for `Any` type: `'' @ type_url v @ ''`''))"

fun account_to_any :: "'x libs_scheme \<Rightarrow> account \<Rightarrow> any outcome" where
  "account_to_any L (Base a) = impl_to_any L BASE_ACCOUNT_TYPE_URL (P_Base_Account a)"
| "account_to_any L (Eth a) = impl_to_any L ETH_ACCOUNT_TYPE_URL (P_Eth_Account a)"

definition account_codec_laws :: "'x libs_scheme \<Rightarrow> bool" where
  "account_codec_laws L \<longleftrightarrow>
     (\<forall>a bs. encode L (P_Base_Account a) = Inr bs \<longrightarrow> decode_base_account L bs = Inr a) \<and>
     (\<forall>a bs. encode L (P_Eth_Account a) = Inr bs \<longrightarrow> decode_eth_account L bs = Inr a)"

lemma account_any_roundtrip:
  "account_codec_laws L \<Longrightarrow> account_to_any L a = Ok v \<Longrightarrow> account_from_any L v = Ok a"
  by (cases a) (auto simp: account_codec_laws_def impl_to_any_def proto_encode_def
      account_from_any_def BASE_ACCOUNT_TYPE_URL_def ETH_ACCOUNT_TYPE_URL_def)

end
