(* ===== verification/Sql_Table.thy ===== *)
theory Sql_Table
  imports World
begin

text \<open>
  The statements the program runs against a table with a primary key, on the lookup function
  of the table's rows; \<open>get_tab\<close> and \<open>set_tab\<close> say which table of the database it is. A
  statement returns the number of rows it affected. The dialect is SQLite, the default.
\<close>

section \<open>Statements\<close>

definition insert_row ::
    "('d \<Rightarrow> 'k \<rightharpoonup> 'v) \<Rightarrow> (('k \<rightharpoonup> 'v) \<Rightarrow> 'd \<Rightarrow> 'd) \<Rightarrow> 'k \<Rightarrow> 'v \<Rightarrow> 'd \<Rightarrow> string + nat \<times> 'd" where
  "insert_row get_tab set_tab k v d =
     (case get_tab d k of
        Some _ \<Rightarrow> Inl ''UNIQUE constraint failed''
      | None \<Rightarrow> Inr (1, set_tab ((get_tab d)(k \<mapsto> v)) d))"

definition update_row ::
    "('d \<Rightarrow> 'k \<rightharpoonup> 'v) \<Rightarrow> (('k \<rightharpoonup> 'v) \<Rightarrow> 'd \<Rightarrow> 'd) \<Rightarrow> 'k \<Rightarrow> ('v \<Rightarrow> 'v) \<Rightarrow> 'd \<Rightarrow> string + nat \<times> 'd" where
  "update_row get_tab set_tab k f d =
     (case get_tab d k of
        None \<Rightarrow> Inr (0, d)
      | Some v \<Rightarrow> Inr (1, set_tab ((get_tab d)(k \<mapsto> f v)) d))"

definition update_returning ::
    "('d \<Rightarrow> 'k \<rightharpoonup> 'v) \<Rightarrow> (('k \<rightharpoonup> 'v) \<Rightarrow> 'd \<Rightarrow> 'd) \<Rightarrow> 'k \<Rightarrow> ('v \<Rightarrow> 'v) \<Rightarrow> 'd \<Rightarrow> string + 'v \<times> 'd" where
  "update_returning get_tab set_tab k f d =
     (case get_tab d k of
        None \<Rightarrow> Inl ''no rows returned by a query that expected to return at least one row''
      | Some v \<Rightarrow> Inr (f v, set_tab ((get_tab d)(k \<mapsto> f v)) d))"

text \<open>\<open>ORDER BY id DESC LIMIT l OFFSET o\<close>: a negative limit is no limit, a negative offset is 0.\<close>

definition order_by_id_desc :: "('r \<Rightarrow> int) \<Rightarrow> 'r list \<Rightarrow> 'r list" where
  "order_by_id_desc id_of rows = sort_key (\<lambda>r. - id_of r) rows"

definition limit_offset :: "int \<Rightarrow> int \<Rightarrow> 'r list \<Rightarrow> 'r list" where
  "limit_offset l i rows =
     (let rest = drop (nat i) rows in if l < 0 then rest else take (nat l) rest)"

section \<open>A table with a primary key\<close>

text \<open>
  The contract between the stores and their tables. The clients' lemmas are about statements
  run on an executor, which sees its own writes.
\<close>

locale keyed_table =
  fixes get_tab :: "database \<Rightarrow> 'k \<rightharpoonup> 'v"
    and set_tab :: "('k \<rightharpoonup> 'v) \<Rightarrow> database \<Rightarrow> database"
  assumes get_set: "get_tab (set_tab m d) = m"
    and set_set: "set_tab m (set_tab n d) = set_tab m d"
begin

lemma insert_run:
  assumes "run_sql E ex (\<lambda>now. insert_row get_tab set_tab k (v now)) s = (Ok n, t)"
  shows "n = 1" "get_tab (view ex s) k = None"
    "view ex t = set_tab ((get_tab (view ex s))(k \<mapsto> v (now E (w_ticks s)))) (view ex s)"
  using assms by (auto simp: run_sql_Ok_iff insert_row_def split: option.splits)

lemma update_run:
  assumes "run_sql E ex (\<lambda>now. update_row get_tab set_tab k (f now)) s = (Ok n, t)" and "n = 1"
  obtains v where "get_tab (view ex s) k = Some v"
    "view ex t = set_tab ((get_tab (view ex s))(k \<mapsto> f (now E (w_ticks s)) v)) (view ex s)"
  using assms by (auto simp: run_sql_Ok_iff update_row_def split: option.splits)

lemma update_returning_run:
  assumes "run_sql E ex (\<lambda>now. update_returning get_tab set_tab k (f now)) s = (Ok r, t)"
  obtains v where "get_tab (view ex s) k = Some v" "r = f (now E (w_ticks s)) v"
    "view ex t = set_tab ((get_tab (view ex s))(k \<mapsto> r)) (view ex s)"
  using assms by (auto simp: run_sql_Ok_iff update_returning_def split: option.splits)

text \<open>A row is found after it was written, and no other row changed.\<close>

lemma insert_then_lookup:
  assumes "run_sql E ex (\<lambda>now. insert_row get_tab set_tab k (v now)) s = (Ok n, t)"
  shows "get_tab (view ex t) j =
     (if j = k then Some (v (now E (w_ticks s))) else get_tab (view ex s) j)"
  using insert_run(3) [OF assms] by (simp add: get_set)

lemma update_then_lookup:
  assumes "run_sql E ex (\<lambda>now. update_row get_tab set_tab k (f now)) s = (Ok n, t)"
  shows "get_tab (view ex t) j =
     (if j = k then map_option (f (now E (w_ticks s))) (get_tab (view ex s) k)
      else get_tab (view ex s) j)"
  using assms by (auto simp: run_sql_Ok_iff update_row_def get_set split: option.splits)

text \<open>The key is primary: a second insertion fails, whatever happened in between to others.\<close>

lemma insert_existing_fails:
  assumes "get_tab (view ex s) k \<noteq> None"
  shows "\<exists>e t. run_sql E ex (\<lambda>now. insert_row get_tab set_tab k (v now)) s = (Err e, t) \<and>
      w_db t = w_db s \<and> w_tx t = w_tx s"
  using assms by (auto simp: run_sql_def insert_row_def bail_def Let_def split: option.splits)

end

interpretation chains_table: keyed_table chains "\<lambda>m d. d\<lparr>chains := m\<rparr>"
  by unfold_locales simp_all

interpretation ibc_table: keyed_table ibc_data "\<lambda>m d. d\<lparr>ibc_data := m\<rparr>"
  by unfold_locales simp_all

end
