(* ===== verification/Chain_Store.thy ===== *)
theory Chain_Store
  imports Sql_Table
begin

text \<open>
  The \<open>chains\<close> and \<open>chain_keys\<close> tables: the operations of
  \<open>solo-machine-core/src/model/chain.rs\<close> and \<open>model/chain/chain_keys.rs\<close>.
\<close>

section \<open>Chains\<close>

text \<open>The columns not named by the insertion take the defaults of the migration.\<close>

definition new_raw_chain :: "datetime \<Rightarrow> string \<Rightarrow> string \<Rightarrow> chain_config \<Rightarrow> raw_chain" where
  "new_raw_chain t cid node cfg =
     \<lparr>raw_id = cid, raw_node_id = node, raw_config = cfg, raw_consensus_timestamp = t,
      raw_sequence = 1, raw_packet_sequence = 1, raw_connection_details = None,
      raw_created_at = t, raw_updated_at = t\<rparr>"

definition add_chain :: "env \<Rightarrow> executor \<Rightarrow> chain_id \<Rightarrow> node_id \<Rightarrow> chain_config \<Rightarrow> unit run" where
  "add_chain E ex cid node cfg =
     (let key = chain_str cid; node_text = node_id_to_string (node_format E) node in
      bindM (contextM ''unable to add chain details in database''
        (run_sql E ex (\<lambda>t. insert_row chains (\<lambda>m d. d\<lparr>chains := m\<rparr>) key
           (new_raw_chain t key node_text cfg)))) (\<lambda>rows_affected.
      lift (ensure (rows_affected = 1)
        ''rows_affected should be equal to 1 when adding new chain details'')))"

definition get_chain :: "env \<Rightarrow> executor \<Rightarrow> chain_id \<Rightarrow> chain option run" where
  "get_chain E ex cid =
     bindM (contextM ''unable to query chain from database''
       (query_sql E ex (\<lambda>d. chains d (chain_str cid)))) (\<lambda>row.
     case row of
       None \<Rightarrow> returnM None
     | Some raw \<Rightarrow> bindM (lift (chain_of_raw (node_format E) raw)) (\<lambda>c. returnM (Some c)))"

definition add_connection_details ::
    "env \<Rightarrow> executor \<Rightarrow> chain_id \<Rightarrow> connection_details \<Rightarrow> unit run" where
  "add_connection_details E ex cid details =
     bindM (contextM ''unable to add connection details to chain''
       (run_sql E ex (\<lambda>t. update_row chains (\<lambda>m d. d\<lparr>chains := m\<rparr>) (chain_str cid)
          (\<lambda>raw. raw\<lparr>raw_connection_details := Some details, raw_updated_at := t\<rparr>))))
       (\<lambda>rows_affected.
     lift (ensure (rows_affected = 1)
       ''rows_affected should be equal to 1 when adding connection details to chain''))"

definition increment_sequence :: "env \<Rightarrow> executor \<Rightarrow> chain_id \<Rightarrow> chain run" where
  "increment_sequence E ex cid =
     bindM (contextM ''unable to increment sequence of a chain''
       (run_sql E ex (\<lambda>t. update_returning chains (\<lambda>m d. d\<lparr>chains := m\<rparr>) (chain_str cid)
          (\<lambda>raw. raw\<lparr>raw_sequence := raw_sequence raw + 1, raw_updated_at := t\<rparr>)))) (\<lambda>raw.
     lift (chain_of_raw (node_format E) raw))"

definition increment_packet_sequence :: "env \<Rightarrow> executor \<Rightarrow> chain_id \<Rightarrow> chain run" where
  "increment_packet_sequence E ex cid =
     bindM (contextM ''unable to increment packet sequence of a chain''
       (run_sql E ex (\<lambda>t. update_returning chains (\<lambda>m d. d\<lparr>chains := m\<rparr>) (chain_str cid)
          (\<lambda>raw. raw\<lparr>raw_packet_sequence := raw_packet_sequence raw + 1, raw_updated_at := t\<rparr>))))
       (\<lambda>raw.
     lift (chain_of_raw (node_format E) raw))"

definition get_balance :: "env \<Rightarrow> signer \<Rightarrow> chain \<Rightarrow> ident \<Rightarrow> decimal run" where
  "get_balance E S c d =
     (let addr = grpc_addr (config c) in
      bindM (contextM (''unable to connect to grpc query client at '' @ addr)
        (call (\<lambda>n. grpc_connect E n addr))) (\<lambda>_.
      bindM (lift (get_ibc_denom E c d)) (\<lambda>ibc_denom.
      bindM (lift (to_account_address S)) (\<lambda>address.
      bindM (call (\<lambda>n. query_balance E n addr address ibc_denom)) (\<lambda>balance.
      case balance of
        None \<Rightarrow> returnM decimal_default
      | Some coin \<Rightarrow> lift (external (decimal_parse E (coin_amount coin))))))))"

section \<open>Keys of a chain\<close>

definition insert_chain_key ::
    "datetime \<Rightarrow> string \<Rightarrow> string \<Rightarrow> database \<Rightarrow> string + nat \<times> database" where
  "insert_chain_key t chain key d =
     (if list_ex (\<lambda>r. rk_chain_id r = chain \<and> rk_public_key r = key) (chain_keys d)
      then Inl ''UNIQUE constraint failed''
      else Inr (1, d\<lparr>chain_keys := chain_keys d @
             [\<lparr>rk_id = next_key_id d, rk_chain_id = chain, rk_public_key = key, rk_created_at = t\<rparr>],
             next_key_id := next_key_id d + 1\<rparr>))"

definition add_chain_key :: "env \<Rightarrow> executor \<Rightarrow> chain_id \<Rightarrow> string \<Rightarrow> unit run" where
  "add_chain_key E ex cid key =
     bindM (contextM ''unable to add new chain key''
       (run_sql E ex (\<lambda>t. insert_chain_key t (chain_str cid) key))) (\<lambda>rows_affected.
     lift (ensure (rows_affected = 1)
       ''rows_affected should be equal to 1 when adding new chain key''))"

definition get_chain_keys ::
    "env \<Rightarrow> executor \<Rightarrow> chain_id \<Rightarrow> int \<Rightarrow> int \<Rightarrow> chain_key list run" where
  "get_chain_keys E ex cid lim off =
     bindM (contextM ''unable to query chain keys from database''
       (query_sql E ex (\<lambda>d. limit_offset lim off (order_by_id_desc rk_id
          (filter (\<lambda>r. rk_chain_id r = chain_str cid) (chain_keys d)))))) (\<lambda>rows.
     lift (collect chain_key_of_raw rows))"

section \<open>Effects of the operations\<close>

lemma keeps_get_chain [keeps_intros]: "keeps unchanged (get_chain E ex cid)"
  unfolding get_chain_def by (intro keeps_intros)

lemma keeps_get_chain_keys [keeps_intros]: "keeps unchanged (get_chain_keys E ex cid l i)"
  unfolding get_chain_keys_def by (intro keeps_intros)

lemma keeps_get_balance [keeps_intros]: "keeps unchanged (get_balance E S c d)"
  unfolding get_balance_def by (intro keeps_intros)

lemma keeps_same_db_chain_writes [keeps_intros]:
  "keeps same_db (add_chain E Tx cid node cfg)"
  "keeps same_db (add_connection_details E Tx cid details)"
  "keeps same_db (increment_sequence E Tx cid)"
  "keeps same_db (increment_packet_sequence E Tx cid)"
  "keeps same_db (add_chain_key E Tx cid key)"
  unfolding add_chain_def add_connection_details_def increment_sequence_def
    increment_packet_sequence_def add_chain_key_def Let_def
  by (intro keeps_intros | rule keeps_same_db_of_unchanged)+

lemma get_chain_Ok:
  assumes "get_chain E ex cid s = (Ok c, t)"
  shows "case c of
      None \<Rightarrow> chains (view ex s) (chain_str cid) = None
    | Some ch \<Rightarrow> \<exists>raw. chains (view ex s) (chain_str cid) = Some raw \<and>
        chain_of_raw (node_format E) raw = Ok ch"
    and "unchanged s t"
  using assms
  by (auto simp: get_chain_def run_Ok_iffs query_sql_Ok_iff unchanged_def split: option.splits)

lemma add_chain_Ok:
  assumes "add_chain E ex cid node cfg s = (Ok u, t)"
  shows "chains (view ex s) (chain_str cid) = None"
    "view ex t = (view ex s)\<lparr>chains := (chains (view ex s))(chain_str cid \<mapsto>
       new_raw_chain (now E (w_ticks s)) (chain_str cid) (node_id_to_string (node_format E) node) cfg)\<rparr>"
  using assms chains_table.insert_run [of E ex "chain_str cid"
      "\<lambda>t. new_raw_chain t (chain_str cid) (node_id_to_string (node_format E) node) cfg" s _ t]
  by (auto simp: add_chain_def Let_def run_Ok_iffs)

lemma add_connection_details_Ok:
  assumes "add_connection_details E ex cid details s = (Ok u, t)"
  obtains raw where "chains (view ex s) (chain_str cid) = Some raw"
    "view ex t = (view ex s)\<lparr>chains := (chains (view ex s))(chain_str cid \<mapsto>
       raw\<lparr>raw_connection_details := Some details, raw_updated_at := now E (w_ticks s)\<rparr>)\<rparr>"
  using assms
  by (auto simp: add_connection_details_def run_Ok_iffs elim!: chains_table.update_run)

lemma increment_sequence_Ok:
  assumes "increment_sequence E ex cid s = (Ok c, t)"
  obtains raw raw' where "chains (view ex s) (chain_str cid) = Some raw"
    "raw' = raw\<lparr>raw_sequence := raw_sequence raw + 1, raw_updated_at := now E (w_ticks s)\<rparr>"
    "view ex t = (view ex s)\<lparr>chains := (chains (view ex s))(chain_str cid \<mapsto> raw')\<rparr>"
    "chain_of_raw (node_format E) raw' = Ok c"
  using assms
  by (auto simp: increment_sequence_def run_Ok_iffs elim!: chains_table.update_returning_run)

lemma increment_packet_sequence_Ok:
  assumes "increment_packet_sequence E ex cid s = (Ok c, t)"
  obtains raw raw' where "chains (view ex s) (chain_str cid) = Some raw"
    "raw' = raw\<lparr>raw_packet_sequence := raw_packet_sequence raw + 1,
       raw_updated_at := now E (w_ticks s)\<rparr>"
    "view ex t = (view ex s)\<lparr>chains := (chains (view ex s))(chain_str cid \<mapsto> raw')\<rparr>"
    "chain_of_raw (node_format E) raw' = Ok c"
  using assms
  by (auto simp: increment_packet_sequence_def run_Ok_iffs elim!: chains_table.update_returning_run)

lemma add_chain_key_Ok:
  assumes "add_chain_key E ex cid key s = (Ok u, t)"
  shows "insert_chain_key (now E (w_ticks s)) (chain_str cid) key (view ex s) = Inr (1, view ex t)"
  using assms by (auto simp: add_chain_key_def run_Ok_iffs run_sql_Ok_iff)

end
