(* ===== verification/Ibc_Store.thy ===== *)
theory Ibc_Store
  imports Sql_Table
begin

text \<open>
  The \<open>ibc_data\<close> table, in which the solo machine keeps its side of IBC (the client and
  consensus states of its tendermint clients, connection and channel ends) under the paths
  of ICS24: \<open>solo-machine-core/src/model/ibc.rs\<close>.
\<close>

section \<open>Rows\<close>

definition add :: "env \<Rightarrow> executor \<Rightarrow> string \<Rightarrow> bytes \<Rightarrow> unit run" where
  "add E ex path data =
     bindM (contextM ''unable to add ibc data in database''
       (run_sql E ex (\<lambda>t. insert_row ibc_data (\<lambda>m d. d\<lparr>ibc_data := m\<rparr>) path data)))
       (\<lambda>rows_affected.
     lift (ensure (rows_affected = 1)
       ''rows_affected should be equal to 1 when adding a new ibc data''))"

definition update :: "env \<Rightarrow> executor \<Rightarrow> string \<Rightarrow> bytes \<Rightarrow> unit run" where
  "update E ex path data =
     bindM (contextM ''unable to update ibc data in database''
       (run_sql E ex (\<lambda>t. update_row ibc_data (\<lambda>m d. d\<lparr>ibc_data := m\<rparr>) path (\<lambda>_. data))))
       (\<lambda>rows_affected.
     lift (ensure (rows_affected = 1)
       ''rows_affected should be equal to 1 when updating ibc data''))"

definition get :: "env \<Rightarrow> executor \<Rightarrow> (bytes \<Rightarrow> string + 'm) \<Rightarrow> string \<Rightarrow> 'm option run" where
  "get E ex decode path =
     bindM (query_sql E ex (\<lambda>d. ibc_data d path)) (\<lambda>row.
     case row of
       None \<Rightarrow> returnM None
     | Some data \<Rightarrow>
         bindM (lift (with_context ''unable to decode protobuf bytes for ibc data''
           (external (decode data)))) (\<lambda>m. returnM (Some m)))"

section \<open>Objects\<close>

definition add_tendermint_client_state ::
    "env \<Rightarrow> executor \<Rightarrow> client_id \<Rightarrow> tm_client_state \<Rightarrow> unit run" where
  "add_tendermint_client_state E ex cid cs =
     (let path = client_state_path cid in
      bindM (lift (proto_encode E (P_Tm_Client_State cs))) (\<lambda>data.
      bindM (lift (unwrap_opt (get_key path 0))) (\<lambda>key. add E ex key data)))"

definition get_tendermint_client_state ::
    "env \<Rightarrow> executor \<Rightarrow> client_id \<Rightarrow> tm_client_state option run" where
  "get_tendermint_client_state E ex cid =
     (let path = client_state_path cid in
      bindM (lift (unwrap_opt (get_key path 0))) (\<lambda>key. get E ex (decode_tm_client_state E) key))"

definition add_tendermint_consensus_state ::
    "env \<Rightarrow> executor \<Rightarrow> client_id \<Rightarrow> height \<Rightarrow> tm_consensus_state \<Rightarrow> unit run" where
  "add_tendermint_consensus_state E ex cid h cs =
     (let path = consensus_state_path cid h in
      bindM (lift (proto_encode E (P_Tm_Consensus_State cs))) (\<lambda>data.
      bindM (lift (unwrap_opt (get_key path 0))) (\<lambda>key. add E ex key data)))"

definition add_connection :: "env \<Rightarrow> executor \<Rightarrow> connection_id \<Rightarrow> connection_end \<Rightarrow> unit run" where
  "add_connection E ex cid connection =
     (let path = connection_path cid in
      bindM (lift (proto_encode E (P_Connection_End connection))) (\<lambda>data.
      bindM (lift (unwrap_opt (get_key path 0))) (\<lambda>key. add E ex key data)))"

definition get_connection :: "env \<Rightarrow> executor \<Rightarrow> connection_id \<Rightarrow> connection_end option run" where
  "get_connection E ex cid =
     (let path = connection_path cid in
      bindM (lift (unwrap_opt (get_key path 0))) (\<lambda>key. get E ex (decode_connection E) key))"

definition update_connection ::
    "env \<Rightarrow> executor \<Rightarrow> connection_id \<Rightarrow> connection_end \<Rightarrow> unit run" where
  "update_connection E ex cid connection =
     (let path = connection_path cid in
      bindM (lift (proto_encode E (P_Connection_End connection))) (\<lambda>data.
      bindM (lift (unwrap_opt (get_key path 0))) (\<lambda>key. update E ex key data)))"

definition add_channel :: "env \<Rightarrow> executor \<Rightarrow> port_id \<Rightarrow> channel_id \<Rightarrow> channel \<Rightarrow> unit run" where
  "add_channel E ex pid cid channel =
     (let path = channel_path pid cid in
      bindM (lift (proto_encode E (P_Channel channel))) (\<lambda>data.
      bindM (lift (unwrap_opt (get_key path 0))) (\<lambda>key. add E ex key data)))"

definition get_channel :: "env \<Rightarrow> executor \<Rightarrow> port_id \<Rightarrow> channel_id \<Rightarrow> channel option run" where
  "get_channel E ex pid cid =
     (let path = channel_path pid cid in
      bindM (lift (unwrap_opt (get_key path 0))) (\<lambda>key. get E ex (decode_channel E) key))"

definition update_channel :: "env \<Rightarrow> executor \<Rightarrow> port_id \<Rightarrow> channel_id \<Rightarrow> channel \<Rightarrow> unit run" where
  "update_channel E ex pid cid channel =
     (let path = channel_path pid cid in
      bindM (lift (proto_encode E (P_Channel channel))) (\<lambda>data.
      bindM (lift (unwrap_opt (get_key path 0))) (\<lambda>key. update E ex key data)))"

section \<open>Effects of the row operations\<close>

lemma keeps_get [keeps_intros]: "keeps unchanged (get E ex decode path)"
  unfolding get_def by (intro keeps_intros)

lemma keeps_add_update [keeps_intros]:
  "keeps same_db (add E Tx path data)" "keeps same_db (update E Tx path data)"
  unfolding add_def update_def by (intro keeps_intros | rule keeps_same_db_of_unchanged)+

lemma add_Ok:
  assumes "add E ex path data s = (Ok u, t)"
  shows "ibc_data (view ex s) path = None"
    "view ex t = (view ex s)\<lparr>ibc_data := (ibc_data (view ex s))(path \<mapsto> data)\<rparr>"
  using assms ibc_table.insert_run [of E ex path "\<lambda>_. data" s _ t]
  by (auto simp: add_def run_Ok_iffs)

lemma update_Ok:
  assumes "update E ex path data s = (Ok u, t)"
  shows "ibc_data (view ex s) path \<noteq> None"
    "view ex t = (view ex s)\<lparr>ibc_data := (ibc_data (view ex s))(path \<mapsto> data)\<rparr>"
  using assms by (auto simp: update_def run_Ok_iffs elim!: ibc_table.update_run)

lemma get_Ok:
  assumes "get E ex decode path s = (Ok r, t)"
  shows "case r of None \<Rightarrow> ibc_data (view ex s) path = None
      | Some m \<Rightarrow> \<exists>data. ibc_data (view ex s) path = Some data \<and> decode data = Inr m"
    and "unchanged s t"
  using assms
  by (auto simp: get_def run_Ok_iffs query_sql_Ok_iff unchanged_def split: option.splits)

lemma get_Some_Ok:
  "get E ex decode path s = (Ok (Some m), t) \<Longrightarrow>
     \<exists>data. ibc_data (view ex s) path = Some data \<and> decode data = Inr m"
  using get_Ok(1) [of E ex decode path s "Some m" t] by simp

section \<open>Effects of the typed operations\<close>

lemmas ibc_paths = object_path.simps [symmetric]

lemma keys_of_paths [simp]:
  "get_key (client_state_path c) 0 = Some (object_key (Client_State c))"
  "get_key (consensus_state_path c h) 0 = Some (object_key (Consensus_State c h))"
  "get_key (connection_path k) 0 = Some (object_key (Connection_End k))"
  "get_key (channel_path p n) 0 = Some (object_key (Channel_End p n))"
  unfolding ibc_paths by (rule get_key_object_path)+

lemmas ibc_object_defs = add_tendermint_client_state_def get_tendermint_client_state_def
  add_tendermint_consensus_state_def add_connection_def get_connection_def update_connection_def
  add_channel_def get_channel_def update_channel_def

lemma keeps_ibc_gets [keeps_intros]:
  "keeps unchanged (get_tendermint_client_state E ex cid)"
  "keeps unchanged (get_connection E ex k)"
  "keeps unchanged (get_channel E ex p n)"
  unfolding ibc_object_defs by (intro keeps_intros)+

lemma keeps_ibc_writes [keeps_intros]:
  "keeps same_db (add_tendermint_client_state E Tx c tcs)"
  "keeps same_db (add_tendermint_consensus_state E Tx c h con)"
  "keeps same_db (add_connection E Tx k conn)"
  "keeps same_db (update_connection E Tx k conn)"
  "keeps same_db (add_channel E Tx p n chan)"
  "keeps same_db (update_channel E Tx p n chan)"
  unfolding ibc_object_defs by (intro keeps_intros | rule keeps_same_db_of_unchanged)+

text \<open>\<open>stored d x bs\<close>: the database holds \<open>bs\<close> for the object \<open>x\<close>.\<close>

definition stored :: "database \<Rightarrow> host_object \<Rightarrow> bytes \<Rightarrow> bool" where
  "stored d x bs \<longleftrightarrow> ibc_data d (object_key x) = Some bs"

definition put_object :: "host_object \<Rightarrow> bytes \<Rightarrow> database \<Rightarrow> database" where
  "put_object x bs d = d\<lparr>ibc_data := (ibc_data d)(object_key x \<mapsto> bs)\<rparr>"

lemma put_object_simps [simp]:
  "chains (put_object x bs d) = chains d" "chain_keys (put_object x bs d) = chain_keys d"
  "next_key_id (put_object x bs d) = next_key_id d"
  "operations (put_object x bs d) = operations d"
  "next_operation_id (put_object x bs d) = next_operation_id d"
  by (simp_all add: put_object_def)

lemma ibc_data_put_object [simp]:
  "ibc_data (put_object x bs d) = (ibc_data d)(object_key x \<mapsto> bs)"
  by (simp add: put_object_def)

lemma add_object_Ok:
  shows "add_tendermint_client_state E ex c cs s = (Ok u, t) \<Longrightarrow>
      \<exists>bs. encode E (P_Tm_Client_State cs) = Inr bs \<and>
        ibc_data (view ex s) (object_key (Client_State c)) = None \<and>
        view ex t = put_object (Client_State c) bs (view ex s)"
    and "add_tendermint_consensus_state E ex c h con s = (Ok u, t) \<Longrightarrow>
      \<exists>bs. encode E (P_Tm_Consensus_State con) = Inr bs \<and>
        ibc_data (view ex s) (object_key (Consensus_State c h)) = None \<and>
        view ex t = put_object (Consensus_State c h) bs (view ex s)"
    and "add_connection E ex k conn s = (Ok u, t) \<Longrightarrow>
      \<exists>bs. encode E (P_Connection_End conn) = Inr bs \<and>
        ibc_data (view ex s) (object_key (Connection_End k)) = None \<and>
        view ex t = put_object (Connection_End k) bs (view ex s)"
    and "add_channel E ex p n chan s = (Ok u, t) \<Longrightarrow>
      \<exists>bs. encode E (P_Channel chan) = Inr bs \<and>
        ibc_data (view ex s) (object_key (Channel_End p n)) = None \<and>
        view ex t = put_object (Channel_End p n) bs (view ex s)"
  by (auto simp: ibc_object_defs run_Ok_iffs proto_encode_def put_object_def dest: add_Ok)

lemma update_object_Ok:
  shows "update_connection E ex k conn s = (Ok u, t) \<Longrightarrow>
      \<exists>bs. encode E (P_Connection_End conn) = Inr bs \<and>
        view ex t = put_object (Connection_End k) bs (view ex s)"
    and "update_channel E ex p n chan s = (Ok u, t) \<Longrightarrow>
      \<exists>bs. encode E (P_Channel chan) = Inr bs \<and>
        view ex t = put_object (Channel_End p n) bs (view ex s)"
  by (auto simp: ibc_object_defs run_Ok_iffs proto_encode_def put_object_def dest: update_Ok)

lemma get_object_Ok:
  shows "get_connection E ex k s = (Ok (Some conn), t) \<Longrightarrow>
      \<exists>bs. stored (view ex s) (Connection_End k) bs \<and> decode_connection E bs = Inr conn"
    and "get_channel E ex p n s = (Ok (Some chan), t) \<Longrightarrow>
      \<exists>bs. stored (view ex s) (Channel_End p n) bs \<and> decode_channel E bs = Inr chan"
    and "get_tendermint_client_state E ex c s = (Ok (Some cs), t) \<Longrightarrow>
      \<exists>bs. stored (view ex s) (Client_State c) bs \<and> decode_tm_client_state E bs = Inr cs"
  by (auto simp: ibc_object_defs run_Ok_iffs stored_def dest: get_Some_Ok)

end
