(* ===== verification/Tx_Sign.thy ===== *)
theory Tx_Sign
  imports Account Chain_Store Ibc_Store
begin

text \<open>
  Assembling and signing transactions, and the signatures the solo machine gives in place of
  proofs: the second half of \<open>solo-machine-core/src/transaction_builder.rs\<close> and
  \<open>ibc/core/ics04_channel/packet.rs\<close>.
\<close>

section \<open>Assembling a transaction\<close>

definition to_u64_timestamp :: "datetime \<Rightarrow> u64 outcome" where
  "to_u64_timestamp t =
     with_context ''unable to convert unix timestamp to u64''
       (let s = unix_timestamp t in
        if 0 \<le> s \<and> s < 2 ^ 64 then Ok (word_of_int s)
        else bail ''out of range integral type conversion attempted'')"

text \<open>
  \<open>T: AnyConvert\<close> is the parameter \<open>to_any\<close>; it is applied to every message in order.
\<close>

definition build_tx_body :: "('m \<Rightarrow> any outcome) \<Rightarrow> 'm list \<Rightarrow> string \<Rightarrow> tx_body outcome" where
  "build_tx_body to_any messages memo =
     and_then (collect to_any messages) (\<lambda>anys.
     Ok \<lparr>tb_messages = anys, tb_memo = memo, tb_timeout_height = 0\<rparr>)"

definition build_auth_info :: "env \<Rightarrow> signer \<Rightarrow> chain \<Rightarrow> u64 \<Rightarrow> auth_info outcome" where
  "build_auth_info E S c account_sequence =
     and_then (to_public_key S) (\<lambda>key.
     and_then (public_key_to_any E key) (\<lambda>any_key.
     Ok \<lparr>ai_signer_infos =
           [\<lparr>si_public_key = Some any_key, si_mode = Some 1, si_sequence = account_sequence\<rparr>],
         ai_fee = Some
           \<lparr>tf_amount = [\<lparr>coin_denom = ident_str (fee_denom (config_fee (config c))),
              coin_amount = decimal_to_string E (fee_amount (config_fee (config c)))\<rparr>],
            tf_gas_limit = fee_gas_limit (config_fee (config c)), tf_payer = '''',
            tf_granter = ''''\<rparr>\<rparr>))"

definition get_account_details :: "env \<Rightarrow> signer \<Rightarrow> chain \<Rightarrow> (u64 \<times> u64) run" where
  "get_account_details E S c =
     (let addr = grpc_addr (config c) in
      bindM (contextM (''unable to connect to grpc query client at '' @ addr)
        (call (\<lambda>n. grpc_connect E n addr))) (\<lambda>_.
      bindM (lift (to_account_address S)) (\<lambda>account_address.
      bindM (call (\<lambda>n. query_account E n addr account_address)) (\<lambda>found.
      bindM (lift (ok_or found (''unable to find account with address: '' @ account_address))) (\<lambda>response.
      bindM (lift (account_from_any E response)) (\<lambda>account.
      bindM (lift (ok_or (get_base_account account)
        (''missing base account for address: '' @ account_address))) (\<lambda>base.
      returnM (ba_account_number base, ba_sequence base))))))))"

definition build_signature ::
    "env \<Rightarrow> signer \<Rightarrow> bytes \<Rightarrow> bytes \<Rightarrow> string \<Rightarrow> u64 \<Rightarrow> string option \<Rightarrow> bytes run" where
  "build_signature E S body auth chain_text account_number request_id =
     bindM (lift (proto_encode E (P_Sign_Doc \<lparr>sd_body_bytes = body, sd_auth_info_bytes = auth,
       sd_chain_id = chain_text, sd_account_number = account_number\<rparr>))) (\<lambda>sign_doc_bytes.
     signer_sign S request_id (SignDoc sign_doc_bytes))"

definition build ::
    "env \<Rightarrow> ('m \<Rightarrow> any outcome) \<Rightarrow> signer \<Rightarrow> chain \<Rightarrow> 'm list \<Rightarrow> string \<Rightarrow> string option \<Rightarrow> tx_raw run" where
  "build E to_any S c messages memo request_id =
     bindM (lift (with_context ''unable to build transaction body''
       (build_tx_body to_any messages memo))) (\<lambda>body.
     bindM (lift (proto_encode E (P_Tx_Body body))) (\<lambda>body_bytes.
     bindM (get_account_details E S c) (\<lambda>(account_number, account_sequence).
     bindM (lift (with_context ''unable to build auth info''
       (build_auth_info E S c account_sequence))) (\<lambda>auth.
     bindM (lift (proto_encode E (P_Auth_Info auth))) (\<lambda>auth_bytes.
     bindM (contextM ''unable to sign transaction''
       (build_signature E S body_bytes auth_bytes (chain_str (c_id c)) account_number request_id))
       (\<lambda>signature.
     returnM \<lparr>tr_body_bytes = body_bytes, tr_auth_info_bytes = auth_bytes,
       tr_signatures = [signature]\<rparr>))))))"

section \<open>Signatures in place of proofs\<close>

definition sign :: "env \<Rightarrow> signer \<Rightarrow> string option \<Rightarrow> sign_bytes \<Rightarrow> bytes run" where
  "sign E S request_id sb =
     bindM (lift (proto_encode E (P_Sign_Bytes sb))) (\<lambda>bs.
     bindM (signer_sign S request_id (SignBytes bs)) (\<lambda>signature.
     lift (proto_encode E (P_Signature_Data (Single_Signature 0 signature)))))"

definition timestamped_sign ::
    "env \<Rightarrow> signer \<Rightarrow> chain \<Rightarrow> sign_bytes \<Rightarrow> string option \<Rightarrow> bytes run" where
  "timestamped_sign E S c sb request_id =
     bindM (sign E S request_id sb) (\<lambda>signature_data.
     bindM (lift (to_u64_timestamp (consensus_timestamp c))) (\<lambda>ts.
     lift (proto_encode E (P_Timestamped_Signature
       \<lparr>tsd_signature_data = signature_data, tsd_timestamp = ts\<rparr>))))"

text \<open>
  The sign bytes of the four proofs: the sequence and the diversifier of the chain, its
  consensus timestamp, the prefixed path and the data. (The text of the error of a missing
  key, which shows the path, is never produced: \<open>prefixed_object_key\<close>.)
\<close>

definition make_sign_bytes :: "chain \<Rightarrow> path \<Rightarrow> bytes \<Rightarrow> sign_bytes outcome" where
  "make_sign_bytes c path data =
     and_then (to_u64_timestamp (consensus_timestamp c)) (\<lambda>ts.
     and_then (ok_or (get_key path 1) ''invalid path'') (\<lambda>key.
     Ok \<lparr>sb_sequence = ucast (sequence c), sb_timestamp = ts,
         sb_diversifier = diversifier (config c), sb_path = as_bytes key, sb_data = data\<rparr>))"

definition get_header_proof ::
    "env \<Rightarrow> signer \<Rightarrow> chain \<Rightarrow> any option \<Rightarrow> string \<Rightarrow> string option \<Rightarrow> bytes run" where
  "get_header_proof E S c new_public_key new_diversifier request_id =
     bindM (lift (proto_encode E (P_Header_Data
       \<lparr>hd_new_pub_key = new_public_key, hd_new_diversifier = new_diversifier\<rparr>))) (\<lambda>header_data_bytes.
     bindM (lift (to_u64_timestamp (consensus_timestamp c))) (\<lambda>ts.
     sign E S request_id
       \<lparr>sb_sequence = ucast (sequence c), sb_timestamp = ts,
        sb_diversifier = diversifier (config c), sb_path = as_bytes ''solomachine:header'',
        sb_data = header_data_bytes\<rparr>))"

definition get_connection_proof ::
    "env \<Rightarrow> executor \<Rightarrow> signer \<Rightarrow> chain \<Rightarrow> connection_id \<Rightarrow> string option \<Rightarrow> bytes run" where
  "get_connection_proof E ex S c cid request_id =
     bindM (get_connection E ex cid) (\<lambda>found.
     bindM (lift (ok_or found (''connection with id '' @ connection_str cid @ '' not found''))) (\<lambda>connection.
     bindM (lift (apply_prefix (connection_path cid) ''ibc'')) (\<lambda>path.
     bindM (lift (proto_encode E (P_Connection_End connection))) (\<lambda>connection_bytes.
     bindM (lift (make_sign_bytes c path connection_bytes)) (\<lambda>sb.
     timestamped_sign E S c sb request_id)))))"

definition get_channel_proof ::
    "env \<Rightarrow> executor \<Rightarrow> signer \<Rightarrow> chain \<Rightarrow> channel_id \<Rightarrow> string option \<Rightarrow> bytes run" where
  "get_channel_proof E ex S c cid request_id =
     bindM (get_channel E ex (port_id (config c)) cid) (\<lambda>found.
     bindM (lift (ok_or found (''channel with port id '' @ port_str (port_id (config c))
       @ '' and channel id '' @ channel_str cid @ '' not found''))) (\<lambda>channel.
     bindM (lift (apply_prefix (channel_path (port_id (config c)) cid) ''ibc'')) (\<lambda>path.
     bindM (lift (proto_encode E (P_Channel channel))) (\<lambda>channel_bytes.
     bindM (lift (make_sign_bytes c path channel_bytes)) (\<lambda>sb.
     timestamped_sign E S c sb request_id)))))"

definition commitment_bytes :: "'x libs_scheme \<Rightarrow> packet \<Rightarrow> bytes outcome" where
  "commitment_bytes L p =
     and_then (ok_or (pk_timeout_height p) ''timeout height is not set'') (\<lambda>h.
     Ok (sha256 L
       (to_be_bytes 8 (unat (pk_timeout_timestamp p)) @
        to_be_bytes 8 (unat (revision_number h)) @
        to_be_bytes 8 (unat (revision_height h)) @
        sha256 L (pk_data p))))"

definition details_not_found :: "chain \<Rightarrow> string" where
  "details_not_found c =
     ''connection details for chain with id '' @ chain_str (c_id c) @ '' not found''"

definition get_packet_commitment_proof ::
    "env \<Rightarrow> signer \<Rightarrow> chain \<Rightarrow> packet \<Rightarrow> string option \<Rightarrow> bytes run" where
  "get_packet_commitment_proof E S c p request_id =
     bindM (lift (commitment_bytes E p)) (\<lambda>commitment.
     bindM (lift (ok_or (connection_details c) (details_not_found c))) (\<lambda>details.
     bindM (lift (ensure (tendermint_channel_id details \<noteq> None)
       (''can'' @ [CHR 0x27] @ ''t find tendermint channel id, channel is already closed''))) (\<lambda>_.
     bindM (lift (unwrap_opt (tendermint_channel_id details))) (\<lambda>channel.
     bindM (lift (apply_prefix (packet_commitment_path (port_id (config c)) channel
       (ucast (packet_sequence c))) ''ibc'')) (\<lambda>path.
     bindM (lift (make_sign_bytes c path commitment)) (\<lambda>sb.
     timestamped_sign E S c sb request_id))))))"

definition get_packet_acknowledgement_proof ::
    "env \<Rightarrow> signer \<Rightarrow> chain \<Rightarrow> bytes \<Rightarrow> u64 \<Rightarrow> string option \<Rightarrow> bytes run" where
  "get_packet_acknowledgement_proof E S c acknowledgement pseq request_id =
     bindM (lift (ok_or (connection_details c) (details_not_found c))) (\<lambda>details.
     bindM (lift (ensure (tendermint_channel_id details \<noteq> None)
       (''can'' @ [CHR 0x27] @ ''t find tendermint channel, channel is already closed''))) (\<lambda>_.
     bindM (lift (unwrap_opt (tendermint_channel_id details))) (\<lambda>channel.
     bindM (lift (apply_prefix (packet_acknowledgement_path (port_id (config c)) channel pseq)
       ''ibc'')) (\<lambda>path.
     bindM (lift (make_sign_bytes c path (sha256 E acknowledgement))) (\<lambda>sb.
     timestamped_sign E S c sb request_id)))))"

section \<open>What signing leaves alone\<close>

lemma keeps_get_account_details [keeps_intros]: "keeps unchanged (get_account_details E S c)"
  unfolding get_account_details_def by (intro keeps_intros)

lemma keeps_build_signature [keeps_intros]:
  "keeps unchanged (build_signature E S body auth chain_text account_number request_id)"
  unfolding build_signature_def by (intro keeps_intros)

lemma keeps_build [keeps_intros]:
  "keeps unchanged (build E to_any S c messages memo request_id)"
  unfolding build_def by (intro keeps_intros)

lemma keeps_sign [keeps_intros]: "keeps unchanged (sign E S request_id sb)"
  unfolding sign_def by (intro keeps_intros)

lemma keeps_timestamped_sign [keeps_intros]:
  "keeps unchanged (timestamped_sign E S c sb request_id)"
  unfolding timestamped_sign_def by (intro keeps_intros)

lemma keeps_proofs [keeps_intros]:
  "keeps unchanged (get_header_proof E S c k dv request_id)"
  "keeps unchanged (get_connection_proof E ex S c cid request_id)"
  "keeps unchanged (get_channel_proof E ex S c chid request_id)"
  "keeps unchanged (get_packet_commitment_proof E S c p request_id)"
  "keeps unchanged (get_packet_acknowledgement_proof E S c ack pseq request_id)"
  unfolding get_header_proof_def get_connection_proof_def get_channel_proof_def
    get_packet_commitment_proof_def get_packet_acknowledgement_proof_def
  by (intro keeps_intros)+

section \<open>What a signature covers\<close>

text \<open>
  \<open>signed E rid sb s t\<close>: between \<open>s\<close> and \<open>t\<close> the signer was given the encoding of \<open>sb\<close>, and
  nothing else left the process.
\<close>

definition signed :: "env \<Rightarrow> string option \<Rightarrow> sign_bytes \<Rightarrow> world \<Rightarrow> world \<Rightarrow> bool" where
  "signed E rid sb s t \<longleftrightarrow>
     (\<exists>bs. encode E (P_Sign_Bytes sb) = Inr bs \<and>
        w_log t = w_log s @ [A_Sign rid (SignBytes bs)])"

text \<open>The body of a transaction is this one message.\<close>

definition carries :: "env \<Rightarrow> tx_raw \<Rightarrow> any \<Rightarrow> string \<Rightarrow> bool" where
  "carries E tx a memo \<longleftrightarrow>
     encode E (P_Tx_Body \<lparr>tb_messages = [a], tb_memo = memo, tb_timeout_height = 0\<rparr>)
       = Inr (tr_body_bytes tx)"

lemma proto_encode_Ok_iff [simp]: "proto_encode L m = Ok bs \<longleftrightarrow> encode L m = Inr bs"
  by (simp add: proto_encode_def)

lemma quiet_steps:
  "query_sql E ex q s = (Ok a, t) \<Longrightarrow> w_log t = w_log s"
  "call f s = (Ok b, t) \<Longrightarrow> w_log t = w_log s"
  by (auto simp: query_sql_Ok_iff call_Ok_iff)

lemma get_quiet: "get E ex decode path s = (Ok r, t) \<Longrightarrow> w_log t = w_log s"
  by (auto simp: get_def run_Ok_iffs query_sql_Ok_iff split: option.splits)

lemma get_object_quiet:
  "get_connection E ex k s = (Ok r, t) \<Longrightarrow> w_log t = w_log s"
  "get_channel E ex p n s = (Ok r', t) \<Longrightarrow> w_log t = w_log s"
  "get_tendermint_client_state E ex c s = (Ok r'', t) \<Longrightarrow> w_log t = w_log s"
  by (auto simp: ibc_object_defs run_Ok_iffs dest: get_quiet)

lemma sign_Ok: "sign E S rid sb s = (Ok r, t) \<Longrightarrow> signed E rid sb s t"
  by (auto simp: sign_def run_Ok_iffs signer_sign_Ok_iff signed_def)

lemma timestamped_sign_Ok: "timestamped_sign E S c sb rid s = (Ok r, t) \<Longrightarrow> signed E rid sb s t"
  by (auto simp: timestamped_sign_def run_Ok_iffs dest!: sign_Ok)

text \<open>The sign bytes for an object: its sequence, its key and the bytes proved.\<close>

definition object_sign_bytes :: "chain \<Rightarrow> host_object \<Rightarrow> bytes \<Rightarrow> sign_bytes" where
  "object_sign_bytes c x data =
     \<lparr>sb_sequence = ucast (sequence c),
      sb_timestamp = word_of_int (unix_timestamp (consensus_timestamp c)),
      sb_diversifier = diversifier (config c), sb_path = as_bytes (object_key x), sb_data = data\<rparr>"

lemma to_u64_timestamp_Ok:
  "to_u64_timestamp t = Ok w \<Longrightarrow> w = word_of_int (unix_timestamp t)"
  by (auto simp: to_u64_timestamp_def Let_def split: if_splits)

lemma make_sign_bytes_Ok:
  assumes "apply_prefix (object_path x) ''ibc'' = Ok p" "make_sign_bytes c p data = Ok sb"
  shows "sb = object_sign_bytes c x data"
  using assms prefixed_object_key [of x "''invalid path''"]
  by (auto simp: make_sign_bytes_def object_sign_bytes_def dest!: to_u64_timestamp_Ok)

lemmas make_sign_bytes_objects =
  make_sign_bytes_Ok [where x = "Connection_End k" for k, unfolded object_path.simps]
  make_sign_bytes_Ok [where x = "Channel_End p n" for p n, unfolded object_path.simps]
  make_sign_bytes_Ok [where x = "Packet_Commitment p n i" for p n i, unfolded object_path.simps]
  make_sign_bytes_Ok [where x = "Packet_Acknowledgement p n i" for p n i, unfolded object_path.simps]

lemma signed_from: "signed E rid sb u t \<Longrightarrow> w_log u = w_log s \<Longrightarrow> signed E rid sb s t"
  by (simp add: signed_def)

lemma get_connection_proof_Ok:
  assumes "get_connection_proof E ex S c k rid s = (Ok r, t)"
  obtains bs conn data where "stored (view ex s) (Connection_End k) bs"
    "decode_connection E bs = Inr conn" "encode E (P_Connection_End conn) = Inr data"
    "signed E rid (object_sign_bytes c (Connection_End k) data) s t"
proof -
  from assms obtain conn u p data sb where
    get: "get_connection E ex k s = (Ok (Some conn), u)" and
    p: "apply_prefix (connection_path k) ''ibc'' = Ok p" and
    data: "encode E (P_Connection_End conn) = Inr data" and
    sb: "make_sign_bytes c p data = Ok sb" and
    sig: "timestamped_sign E S c sb rid u = (Ok r, t)"
    by (auto simp: get_connection_proof_def run_Ok_iffs)
  from get_object_Ok(1) [OF get] that data
    signed_from [OF timestamped_sign_Ok [OF sig] get_object_quiet(1) [OF get]]
    make_sign_bytes_objects(1) [OF p sb]
  show thesis
    by blast
qed

lemma get_channel_proof_Ok:
  assumes "get_channel_proof E ex S c n rid s = (Ok r, t)"
  obtains bs chan data where "stored (view ex s) (Channel_End (port_id (config c)) n) bs"
    "decode_channel E bs = Inr chan" "encode E (P_Channel chan) = Inr data"
    "signed E rid (object_sign_bytes c (Channel_End (port_id (config c)) n) data) s t"
proof -
  from assms obtain chan u p data sb where
    get: "get_channel E ex (port_id (config c)) n s = (Ok (Some chan), u)" and
    p: "apply_prefix (channel_path (port_id (config c)) n) ''ibc'' = Ok p" and
    data: "encode E (P_Channel chan) = Inr data" and
    sb: "make_sign_bytes c p data = Ok sb" and
    sig: "timestamped_sign E S c sb rid u = (Ok r, t)"
    by (auto simp: get_channel_proof_def run_Ok_iffs)
  from get_object_Ok(2) [OF get] that data
    signed_from [OF timestamped_sign_Ok [OF sig] get_object_quiet(2) [OF get]]
    make_sign_bytes_objects(2) [OF p sb]
  show thesis
    by blast
qed

lemma get_packet_commitment_proof_Ok:
  assumes "get_packet_commitment_proof E S c p rid s = (Ok r, t)"
  obtains details channel data where "connection_details c = Some details"
    "tendermint_channel_id details = Some channel" "commitment_bytes E p = Ok data"
    "signed E rid (object_sign_bytes c
       (Packet_Commitment (port_id (config c)) channel (ucast (packet_sequence c))) data) s t"
  using assms
  by (auto simp: get_packet_commitment_proof_def run_Ok_iffs
      dest!: make_sign_bytes_objects(3) timestamped_sign_Ok)

lemma get_packet_acknowledgement_proof_Ok:
  assumes "get_packet_acknowledgement_proof E S c ack pseq rid s = (Ok r, t)"
  obtains details channel where "connection_details c = Some details"
    "tendermint_channel_id details = Some channel"
    "signed E rid (object_sign_bytes c
       (Packet_Acknowledgement (port_id (config c)) channel pseq) (sha256 E ack)) s t"
  using assms
  by (auto simp: get_packet_acknowledgement_proof_def run_Ok_iffs
      dest!: make_sign_bytes_objects(4) timestamped_sign_Ok)

lemma get_header_proof_Ok:
  assumes "get_header_proof E S c k dv rid s = (Ok r, t)"
  obtains data where "encode E (P_Header_Data \<lparr>hd_new_pub_key = k, hd_new_diversifier = dv\<rparr>) = Inr data"
    "signed E rid \<lparr>sb_sequence = ucast (sequence c),
       sb_timestamp = word_of_int (unix_timestamp (consensus_timestamp c)),
       sb_diversifier = diversifier (config c), sb_path = as_bytes ''solomachine:header'',
       sb_data = data\<rparr> s t"
  using assms
  by (auto simp: get_header_proof_def run_Ok_iffs dest!: sign_Ok to_u64_timestamp_Ok)

lemma build_Ok:
  assumes "build E to_any S c [m] memo rid s = (Ok tx, t)"
  obtains a doc where "to_any m = Ok a" "carries E tx a memo" "unchanged s t"
    "w_log t = w_log s @ [A_Sign rid (SignDoc doc)]" "length (tr_signatures tx) = 1"
proof -
  have "unchanged s t"
    using keepsD [OF keeps_build assms] .
  moreover from assms obtain body auth account_number account_sequence u v sig bbs abs where
    body: "build_tx_body to_any [m] memo = Ok body" "encode E (P_Tx_Body body) = Inr bbs" and
    acct: "get_account_details E S c s = (Ok (account_number, account_sequence), u)" and
    sig: "build_signature E S bbs abs (chain_str (c_id c)) account_number rid u = (Ok sig, v)" and
    tx: "t = v" "tx = \<lparr>tr_body_bytes = bbs, tr_auth_info_bytes = abs, tr_signatures = [sig]\<rparr>"
    by (auto simp: build_def run_Ok_iffs)
  moreover from acct have "w_log u = w_log s"
    by (auto simp: get_account_details_def Let_def run_Ok_iffs call_Ok_iff)
  ultimately show thesis
    using that
    by (auto simp: build_tx_body_def build_signature_def run_Ok_iffs carries_def signer_sign_Ok_iff)
qed

end
