(* ===== verification/Tx_Messages.thy ===== *)
theory Tx_Messages
  imports Tx_Sign
begin

text \<open>
  The transactions the solo machine sends: the functions \<open>msg_*\<close> of
  \<open>solo-machine-core/src/transaction_builder.rs\<close>. A \<open>&mut Chain\<close> argument is returned beside
  the transaction; \<open>rpc\<close> is the address of the RPC client.
\<close>

definition DEFAULT_TIMEOUT_HEIGHT_OFFSET :: u64 where
  "DEFAULT_TIMEOUT_HEIGHT_OFFSET = 10"

section \<open>Clients\<close>

definition msg_create_solo_machine_client ::
    "env \<Rightarrow> signer \<Rightarrow> chain \<Rightarrow> string \<Rightarrow> string option \<Rightarrow> tx_raw run" where
  "msg_create_solo_machine_client E S c memo request_id =
     bindM (lift (to_public_key S)) (\<lambda>key.
     bindM (lift (public_key_to_any E key)) (\<lambda>any_public_key.
     bindM (lift (to_u64_timestamp (consensus_timestamp c))) (\<lambda>ts.
     let consensus_state = \<lparr>scon_public_key = Some any_public_key,
           scon_diversifier = diversifier (config c), scon_timestamp = ts\<rparr> in
     bindM (lift (impl_to_any E SM_CONSENSUS_STATE_URL (P_Sm_Consensus_State consensus_state)))
       (\<lambda>any_consensus_state.
     let client_state = \<lparr>scs_sequence = ucast (sequence c), scs_is_frozen = False,
           scs_consensus_state = Some consensus_state\<rparr> in
     bindM (lift (impl_to_any E SM_CLIENT_STATE_URL (P_Sm_Client_State client_state)))
       (\<lambda>any_client_state.
     bindM (lift (to_account_address S)) (\<lambda>address.
     build E (\<lambda>m. impl_to_any E MSG_CREATE_CLIENT_URL (P_Create_Client m)) S c
       [\<lparr>mcc_client_state = Some any_client_state, mcc_consensus_state = Some any_consensus_state,
         mcc_signer = address\<rparr>] memo request_id))))))"

definition msg_update_solo_machine_client ::
    "env \<Rightarrow> executor \<Rightarrow> signer \<Rightarrow> chain \<Rightarrow> public_key option \<Rightarrow> string \<Rightarrow> string option \<Rightarrow>
     (tx_raw \<times> chain) run" where
  "msg_update_solo_machine_client E ex S c new_public_key memo request_id =
     (let not_found = ''connection details not found for chain with id '' @ chain_str (c_id c) in
      bindM (lift (ensure (connection_details c \<noteq> None) not_found)) (\<lambda>_.
      bindM (case new_public_key of
               Some key \<Rightarrow> lift (public_key_to_any E key)
             | None \<Rightarrow> bindM (lift (to_public_key S)) (\<lambda>key. lift (public_key_to_any E key)))
        (\<lambda>any_public_key.
      bindM (get_header_proof E S c (Some any_public_key) (diversifier (config c)) request_id)
        (\<lambda>signature.
      bindM (increment_sequence E ex (c_id c)) (\<lambda>c.
      bindM (lift (to_u64_timestamp (consensus_timestamp c))) (\<lambda>ts.
      bindM (lift (impl_to_any E SM_HEADER_URL (P_Sm_Header
        \<lparr>sh_timestamp = ts, sh_signature = signature, sh_new_public_key = Some any_public_key,
         sh_new_diversifier = diversifier (config c)\<rparr>))) (\<lambda>any_header.
      bindM (lift (ok_or (connection_details c)
        (''connection details not found for chain with id '' @ chain_str (c_id c)))) (\<lambda>details.
      bindM (lift (to_account_address S)) (\<lambda>address.
      bindM (build E (\<lambda>m. impl_to_any E MSG_UPDATE_CLIENT_URL (P_Update_Client m)) S c
        [\<lparr>muc_client_id = client_str (solo_machine_client_id details),
          muc_client_message = Some any_header, muc_signer = address\<rparr>] memo request_id) (\<lambda>tx.
      returnM (tx, c)))))))))))"

definition get_unbonding_period :: "env \<Rightarrow> chain \<Rightarrow> proto_duration run" where
  "get_unbonding_period E c =
     (let addr = grpc_addr (config c) in
      bindM (contextM (''unable to connect to grpc query client at '' @ addr)
        (call (\<lambda>n. grpc_connect E n addr))) (\<lambda>_.
      bindM (call (\<lambda>n. query_staking_params E n addr)) (\<lambda>params.
      bindM (lift (ok_or params ''staking params are empty'')) (\<lambda>unbonding_time.
      lift (ok_or unbonding_time ''missing unbonding period in staking params'')))))"

definition get_latest_header :: "env \<Rightarrow> light_client \<Rightarrow> tm_header run" where
  "get_latest_header E lc = call (\<lambda>n. verify_to_highest E n lc)"

definition get_block_height :: "chain \<Rightarrow> tm_header \<Rightarrow> height" where
  "get_block_height c header = Height (ci_version (c_id c)) (header_height header)"

definition from_block_header :: "tm_header \<Rightarrow> tm_consensus_state" where
  "from_block_header header =
     \<lparr>tcon_root = Some (header_app_hash header),
      tcon_timestamp = Some \<lparr>ts_seconds = header_time_seconds header,
        ts_nanos = header_time_nanos header\<rparr>,
      tcon_next_validators_hash = header_next_validators_hash header\<rparr>"

definition msg_create_tendermint_client ::
    "env \<Rightarrow> chain \<Rightarrow> light_client \<Rightarrow> (tm_client_state \<times> tm_consensus_state) run" where
  "msg_create_tendermint_client E c lc =
     bindM (get_unbonding_period E c) (\<lambda>unbonding_period.
     bindM (get_latest_header E lc) (\<lambda>latest_header.
     let latest_height = get_block_height c latest_header in
     bindM (lift (external (duration_to_proto E (trusting_period (config c))))) (\<lambda>tp.
     bindM (lift (external (duration_to_proto E (max_clock_drift (config c))))) (\<lambda>drift.
     returnM
       (\<lparr>tcs_chain_id = chain_str (c_id c),
         tcs_trust_level = Some \<lparr>numerator = numer (trust_level (config c)),
           denominator = denom (trust_level (config c))\<rparr>,
         tcs_trusting_period = Some tp, tcs_unbonding_period = Some unbonding_period,
         tcs_max_clock_drift = Some drift, tcs_frozen_height = Some height_zero,
         tcs_latest_height = Some latest_height, tcs_proof_specs = proof_specs,
         tcs_upgrade_path = [''upgrade'', ''upgradedIBCState''],
         tcs_allow_update_after_expiry = True, tcs_allow_update_after_misbehaviour = True\<rparr>,
        from_block_header latest_header)))))"

section \<open>Connections and channels\<close>

definition connection_version_1 :: connection_version where
  "connection_version_1 =
     \<lparr>cv_identifier = ''1'', cv_features = [''ORDER_ORDERED'', ''ORDER_UNORDERED'']\<rparr>"

definition msg_connection_open_init ::
    "env \<Rightarrow> signer \<Rightarrow> chain \<Rightarrow> client_id \<Rightarrow> client_id \<Rightarrow> string \<Rightarrow> string option \<Rightarrow> tx_raw run" where
  "msg_connection_open_init E S c smc tmc memo request_id =
     bindM (lift (to_account_address S)) (\<lambda>address.
     build E (\<lambda>m. impl_to_any E MSG_CONNECTION_OPEN_INIT_URL (P_Connection_Open_Init m)) S c
       [\<lparr>mcoi_client_id = client_str smc,
         mcoi_counterparty = Some \<lparr>cc_client_id = client_str tmc, cc_connection_id = '''',
           cc_prefix = Some \<lparr>key_prefix = as_bytes ''ibc''\<rparr>\<rparr>,
         mcoi_version = Some connection_version_1, mcoi_delay_period = 0,
         mcoi_signer = address\<rparr>] memo request_id)"

definition msg_connection_open_ack ::
    "env \<Rightarrow> signer \<Rightarrow> chain \<Rightarrow> connection_id \<Rightarrow> client_id \<Rightarrow> connection_id \<Rightarrow> string \<Rightarrow>
     string option \<Rightarrow> (tx_raw \<times> chain) run" where
  "msg_connection_open_ack E S c smk tmc tmk memo request_id =
     bindM (get_tendermint_client_state E Tx tmc) (\<lambda>found.
     bindM (lift (ok_or found (''client for client id '' @ client_str tmc @ '' not found'')))
       (\<lambda>tendermint_client_state.
     let proof_height = Height 0 (ucast (sequence c)) in
     bindM (get_connection_proof E Tx S c tmk request_id) (\<lambda>proof_try.
     bindM (increment_sequence E Tx (c_id c)) (\<lambda>c.
     bindM (lift (impl_to_any E TM_CLIENT_STATE_URL (P_Tm_Client_State tendermint_client_state)))
       (\<lambda>any_client_state.
     bindM (lift (to_account_address S)) (\<lambda>address.
     bindM (build E (\<lambda>m. impl_to_any E MSG_CONNECTION_OPEN_ACK_URL (P_Connection_Open_Ack m)) S c
       [\<lparr>mcoa_connection_id = connection_str smk,
         mcoa_counterparty_connection_id = connection_str tmk,
         mcoa_version = Some connection_version_1, mcoa_client_state = Some any_client_state,
         mcoa_proof_height = Some proof_height, mcoa_proof_try = proof_try,
         mcoa_proof_client = [], mcoa_proof_consensus = [],
         mcoa_consensus_height = tcs_latest_height tendermint_client_state,
         mcoa_signer = address, mcoa_host_consensus_state_proof = []\<rparr>] memo request_id) (\<lambda>tx.
     returnM (tx, c))))))))"

definition msg_channel_open_init ::
    "env \<Rightarrow> signer \<Rightarrow> chain \<Rightarrow> connection_id \<Rightarrow> string \<Rightarrow> string option \<Rightarrow> tx_raw run" where
  "msg_channel_open_init E S c smk memo request_id =
     bindM (lift (to_account_address S)) (\<lambda>address.
     build E (\<lambda>m. impl_to_any E MSG_CHANNEL_OPEN_INIT_URL (P_Channel_Open_Init m)) S c
       [\<lparr>mchi_port_id = port_str (port_id (config c)),
         mchi_channel = Some \<lparr>ch_state = channel_state_i32 Chan_Init,
           ch_ordering = channel_order_i32 Order_Unordered,
           ch_counterparty = Some \<lparr>chc_port_id = port_str (port_id (config c)), chc_channel_id = ''''\<rparr>,
           ch_connection_hops = [connection_str smk], ch_version = ''ics20-1'',
           ch_upgrade_sequence = 0\<rparr>,
         mchi_signer = address\<rparr>] memo request_id)"

definition msg_channel_close_init ::
    "env \<Rightarrow> signer \<Rightarrow> chain \<Rightarrow> string \<Rightarrow> string option \<Rightarrow> tx_raw run" where
  "msg_channel_close_init E S c memo request_id =
     bindM (lift (unwrap_opt (connection_details c))) (\<lambda>details.
     let channel = map_option channel_str (solo_machine_channel_id details) in
     bindM (lift (ensure (channel \<noteq> None) ''channel already closed'')) (\<lambda>_.
     bindM (lift (unwrap_opt channel)) (\<lambda>cid.
     bindM (lift (to_account_address S)) (\<lambda>address.
     build E (\<lambda>m. impl_to_any E MSG_CHANNEL_CLOSE_INIT_URL (P_Channel_Close_Init m)) S c
       [\<lparr>mchc_port_id = port_str (port_id (config c)), mchc_channel_id = cid,
         mchc_signer = address\<rparr>] memo request_id))))"

definition msg_channel_open_ack ::
    "env \<Rightarrow> signer \<Rightarrow> chain \<Rightarrow> channel_id \<Rightarrow> channel_id \<Rightarrow> string \<Rightarrow> string option \<Rightarrow>
     (tx_raw \<times> chain) run" where
  "msg_channel_open_ack E S c smn tmn memo request_id =
     (let proof_height = Height 0 (ucast (sequence c)) in
      bindM (get_channel_proof E Tx S c tmn request_id) (\<lambda>proof_try.
      bindM (increment_sequence E Tx (c_id c)) (\<lambda>c.
      bindM (lift (to_account_address S)) (\<lambda>address.
      bindM (build E (\<lambda>m. impl_to_any E MSG_CHANNEL_OPEN_ACK_URL (P_Channel_Open_Ack m)) S c
        [\<lparr>mcha_port_id = port_str (port_id (config c)), mcha_channel_id = channel_str smn,
          mcha_counterparty_channel_id = channel_str tmn, mcha_counterparty_version = ''ics20-1'',
          mcha_proof_height = Some proof_height, mcha_proof_try = proof_try,
          mcha_signer = address\<rparr>] memo request_id) (\<lambda>tx.
      returnM (tx, c))))))"

section \<open>Token transfers\<close>

definition get_latest_height :: "env \<Rightarrow> chain \<Rightarrow> string \<Rightarrow> height run" where
  "get_latest_height E c rpc =
     bindM (call (\<lambda>n. rpc_status E n rpc)) (\<lambda>status.
     bindM (lift (ensure (\<not> catching_up status)
       (''node at '' @ rpc_addr (config c) @ '' running chain '' @ chain_str (c_id c)
        @ '' not caught up''))) (\<lambda>_.
     bindM (lift (chain_id_from_str (network status))) (\<lambda>cid.
     returnM (Height (ci_version cid) (latest_block_height status)))))"

text \<open>\<open>TokenTransferPacketData\<close>, as JSON.\<close>

definition token_transfer_packet_data ::
    "string \<Rightarrow> string \<Rightarrow> string \<Rightarrow> string \<Rightarrow> string \<Rightarrow> json" where
  "token_transfer_packet_data d amount sender receiver memo =
     J_Object [(''denom'', J_String d), (''amount'', J_String amount), (''sender'', J_String sender),
       (''receiver'', J_String receiver), (''memo'', J_String memo)]"

definition channel_closed :: "string \<Rightarrow> string" where
  "channel_closed what =
     ''can'' @ [CHR 0x27] @ ''t find '' @ what @ '' channel, channel is already closed''"

definition msg_token_send ::
    "env \<Rightarrow> signer \<Rightarrow> string \<Rightarrow> chain \<Rightarrow> u256 \<Rightarrow> ident \<Rightarrow> string \<Rightarrow> string \<Rightarrow> string option \<Rightarrow>
     (tx_raw \<times> chain) run" where
  "msg_token_send E S rpc c amount d receiver memo request_id =
     bindM (lift (ok_or (connection_details c)
       (''connection details not found for chain with id '' @ chain_str (c_id c)))) (\<lambda>details.
     bindM (lift (ensure (solo_machine_channel_id details \<noteq> None) (channel_closed ''solo machine''))) (\<lambda>_.
     bindM (lift (ensure (tendermint_channel_id details \<noteq> None) (channel_closed ''tendermint''))) (\<lambda>_.
     bindM (lift (to_account_address S)) (\<lambda>sender.
     let packet_data = token_transfer_packet_data (ident_str d) (u256_to_string amount) sender
           receiver memo in
     bindM (lift (unwrap_opt (tendermint_channel_id details))) (\<lambda>source_channel.
     bindM (lift (unwrap_opt (solo_machine_channel_id details))) (\<lambda>destination_channel.
     bindM (lift (external (json_to_vec E packet_data))) (\<lambda>data.
     bindM (get_latest_height E c rpc) (\<lambda>latest_height.
     bindM (lift (ok_or (height_checked_add latest_height DEFAULT_TIMEOUT_HEIGHT_OFFSET)
       ''height addition overflow'')) (\<lambda>timeout_height.
     let p = \<lparr>pk_sequence = ucast (packet_sequence c),
           pk_source_port = port_str (port_id (config c)),
           pk_source_channel = channel_str source_channel,
           pk_destination_port = port_str (port_id (config c)),
           pk_destination_channel = channel_str destination_channel,
           pk_data = data, pk_timeout_height = Some timeout_height, pk_timeout_timestamp = 0\<rparr> in
     bindM (get_packet_commitment_proof E S c p request_id) (\<lambda>proof_commitment.
     let proof_height = Height 0 (ucast (sequence c)) in
     bindM (increment_sequence E Tx (c_id c)) (\<lambda>c.
     bindM (increment_packet_sequence E Tx (c_id c)) (\<lambda>c.
     bindM (build E (\<lambda>m. impl_to_any E MSG_RECV_PACKET_URL (P_Recv_Packet m)) S c
       [\<lparr>mrp_packet = Some p, mrp_proof_commitment = proof_commitment,
         mrp_proof_height = Some proof_height, mrp_signer = sender\<rparr>] memo request_id) (\<lambda>tx.
     returnM (tx, c))))))))))))))"

definition msg_token_receive ::
    "env \<Rightarrow> signer \<Rightarrow> chain \<Rightarrow> u256 \<Rightarrow> ident \<Rightarrow> string \<Rightarrow> string \<Rightarrow> string option \<Rightarrow> tx_raw run" where
  "msg_token_receive E S c amount d receiver memo request_id =
     bindM (lift (ok_or (connection_details c)
       (''connection details not found for chain with id '' @ chain_str (c_id c)))) (\<lambda>details.
     bindM (lift (ensure (solo_machine_channel_id details \<noteq> None)
       (''can'' @ [CHR 0x27] @ ''t find solo machine channel, channel is ready closed''))) (\<lambda>_.
     bindM (lift (get_ibc_denom E c d)) (\<lambda>ibc_denom.
     bindM (lift (to_account_address S)) (\<lambda>sender.
     bindM (lift (unwrap_opt (solo_machine_channel_id details))) (\<lambda>source_channel.
     build E (\<lambda>m. impl_to_any E MSG_TRANSFER_URL (P_Transfer m)) S c
       [\<lparr>mt_source_port = port_str (port_id (config c)),
         mt_source_channel = channel_str source_channel,
         mt_token = Some \<lparr>coin_denom = ibc_denom, coin_amount = u256_to_string amount\<rparr>,
         mt_sender = sender, mt_receiver = receiver,
         mt_timeout_height = Some (Height 0 (ucast (sequence c) + 1)), mt_timeout_timestamp = 0,
         mt_memo = memo\<rparr>] memo request_id)))))"

definition acknowledgement_json :: json where
  "acknowledgement_json = J_Object [(''result'', J_String ''AQ=='')]"

definition msg_token_receive_ack ::
    "env \<Rightarrow> executor \<Rightarrow> signer \<Rightarrow> chain \<Rightarrow> packet \<Rightarrow> string \<Rightarrow> string option \<Rightarrow>
     (tx_raw \<times> chain) run" where
  "msg_token_receive_ack E ex S c p memo request_id =
     (let proof_height = Height 0 (ucast (sequence c)) in
      bindM (lift (external (json_to_vec E acknowledgement_json))) (\<lambda>acknowledgement.
      bindM (get_packet_acknowledgement_proof E S c acknowledgement (pk_sequence p) request_id)
        (\<lambda>proof_acked.
      bindM (increment_sequence E ex (c_id c)) (\<lambda>c.
      bindM (lift (to_account_address S)) (\<lambda>address.
      bindM (build E (\<lambda>m. impl_to_any E MSG_ACKNOWLEDGEMENT_URL (P_Acknowledgement m)) S c
        [\<lparr>ma_packet = Some p, ma_acknowledgement = acknowledgement, ma_proof_acked = proof_acked,
          ma_proof_height = Some proof_height, ma_signer = address\<rparr>] memo request_id) (\<lambda>tx.
      returnM (tx, c)))))))"

section \<open>What building leaves alone\<close>

lemma keeps_builders [keeps_intros]:
  "keeps unchanged (msg_create_solo_machine_client E S c memo rid)"
  "keeps unchanged (get_unbonding_period E c)"
  "keeps unchanged (get_latest_header E lc)"
  "keeps unchanged (msg_connection_open_init E S c smc tmc memo rid)"
  "keeps unchanged (msg_channel_open_init E S c smk memo rid)"
  "keeps unchanged (msg_channel_close_init E S c memo rid)"
  "keeps unchanged (get_latest_height E c rpc)"
  "keeps unchanged (msg_token_receive E S c amount d receiver memo rid)"
  unfolding msg_create_solo_machine_client_def get_unbonding_period_def get_latest_header_def
    msg_connection_open_init_def msg_channel_open_init_def msg_channel_close_init_def
    get_latest_height_def msg_token_receive_def Let_def
  by (intro keeps_intros)+

lemma keeps_msg_create_tendermint_client [keeps_intros]:
  "keeps unchanged (msg_create_tendermint_client E c lc)"
  unfolding msg_create_tendermint_client_def Let_def by (intro keeps_intros)

lemma keeps_same_db_builders [keeps_intros]:
  "keeps same_db (msg_update_solo_machine_client E Tx S c key memo rid)"
  "keeps same_db (msg_connection_open_ack E S c smk tmc tmk memo rid)"
  "keeps same_db (msg_channel_open_ack E S c smn tmn memo rid)"
  "keeps same_db (msg_token_send E S rpc c amount d receiver memo rid)"
  "keeps same_db (msg_token_receive_ack E Tx S c p memo rid)"
  unfolding msg_update_solo_machine_client_def msg_connection_open_ack_def
    msg_channel_open_ack_def msg_token_send_def msg_token_receive_ack_def Let_def
  by (intro keeps_intros | rule keeps_same_db_of_unchanged)+

end
