(* ===== verification/Operation_Store.thy ===== *)
theory Operation_Store
  imports Sql_Table
begin

text \<open>
  The \<open>operations\<close> table: the queries of \<open>solo-machine-core/src/model/operation.rs\<close>.
\<close>

definition insert_operation ::
    "datetime \<Rightarrow> string option \<Rightarrow> string \<Rightarrow> string \<Rightarrow> bytes \<Rightarrow> operation_type \<Rightarrow> string \<Rightarrow>
     database \<Rightarrow> string + nat \<times> database" where
  "insert_operation t request_id address d amount ty hash db =
     Inr (1, db\<lparr>operations := operations db @
            [\<lparr>ro_id = next_operation_id db, ro_request_id = request_id, ro_address = address,
              ro_denom = d, ro_amount = amount, ro_operation_type = ty,
              ro_transaction_hash = hash, ro_created_at = t\<rparr>],
            next_operation_id := next_operation_id db + 1\<rparr>)"

definition add_operation ::
    "env \<Rightarrow> executor \<Rightarrow> string option \<Rightarrow> string \<Rightarrow> ident \<Rightarrow> u256 \<Rightarrow> operation_type \<Rightarrow> string \<Rightarrow>
     unit run" where
  "add_operation E ex request_id address d amount ty hash =
     bindM (contextM ''unable to add new account operation to database''
       (run_sql E ex (\<lambda>t. insert_operation t request_id address (ident_str d)
          (u256_to_big_endian amount) ty hash))) (\<lambda>rows_affected.
     lift (ensure (rows_affected = 1)
       ''rows_affected should be equal to 1 when adding a new account operation''))"

definition get_operations :: "env \<Rightarrow> executor \<Rightarrow> string \<Rightarrow> int \<Rightarrow> int \<Rightarrow> operation list run" where
  "get_operations E ex address lim off =
     bindM (contextM ''unable to query account operations from database''
       (query_sql E ex (\<lambda>d. limit_offset lim off (order_by_id_desc ro_id
          (filter (\<lambda>r. ro_address r = address) (operations d)))))) (\<lambda>raw.
     lift (collect operation_of_raw raw))"

section \<open>Effects\<close>

lemma keeps_get_operations [keeps_intros]: "keeps unchanged (get_operations E ex a l i)"
  unfolding get_operations_def by (intro keeps_intros)

lemma add_operation_Ok:
  assumes "add_operation E ex rid a d n ty h s = (Ok u, t)"
  shows "insert_operation (now E (w_ticks s)) rid a (ident_str d) (u256_to_big_endian n) ty h
      (view ex s) = Inr (1, view ex t)"
    and "w_log t = w_log s"
  using assms by (cases ex; auto simp: add_operation_def run_Ok_iffs run_sql_Ok_iff)+

text \<open>
  The table as the program leaves it: identifiers are given out in increasing order.
\<close>

definition well_numbered :: "database \<Rightarrow> bool" where
  "well_numbered d \<longleftrightarrow>
     sorted_wrt (<) (map ro_id (operations d)) \<and>
     list_all (\<lambda>r. ro_id r < next_operation_id d) (operations d)"

lemma insert_operation_well_numbered:
  assumes "well_numbered d" "insert_operation t rid a dn n ty h d = Inr (k, d')"
  shows "well_numbered d'"
  using assms
  by (auto simp: well_numbered_def insert_operation_def sorted_wrt_append list_all_iff) force

text \<open>Rows in increasing order of their identifiers come back newest first.\<close>

lemma insort_key_last: "\<forall>y \<in> set ys. f y < f r \<Longrightarrow> insort_key f r ys = ys @ [r]"
  by (induction ys) auto

lemma order_by_id_desc_rev:
  "sorted_wrt (<) (map f rows) \<Longrightarrow> order_by_id_desc f rows = rev rows"
proof (induction rows)
  case (Cons r rows)
  then have "sort_key (\<lambda>r. - f r) rows = rev rows"
    by (simp add: order_by_id_desc_def)
  with Cons.prems show ?case
    by (simp add: order_by_id_desc_def insort_key_last)
qed (simp add: order_by_id_desc_def)

lemma get_operations_Ok:
  assumes "get_operations E ex a lim off s = (Ok ops, t)" "well_numbered (view ex s)"
  shows "list_all2 (\<lambda>raw op. operation_of_raw raw = Ok op)
      (limit_offset lim off (rev (filter (\<lambda>r. ro_address r = a) (operations (view ex s))))) ops"
proof -
  have "sorted_wrt (<) (map ro_id (filter (\<lambda>r. ro_address r = a) (operations (view ex s))))"
    using assms(2) by (simp add: well_numbered_def sorted_wrt_map sorted_wrt_filter)
  with assms(1) show ?thesis
    by (auto simp: get_operations_def run_Ok_iffs query_sql_Ok_iff collect_Ok_iff
        order_by_id_desc_rev)
qed

end
