(* ===== verification/Ibc_Steps.thy ===== *)
theory Ibc_Steps
  imports Tx_Messages Operation_Store
begin

text \<open>
  The steps of the IBC handshakes: the functions of
  \<open>solo-machine-core/src/service/ibc_service.rs\<close> outside \<open>impl IbcService\<close>. In the names of
  the variables, \<open>sm\<close> is the side of the solo machine's client on the chain and \<open>tm\<close> the
  side of the tendermint client on the solo machine.
\<close>

section \<open>Clients\<close>

definition prepare_light_client :: "env \<Rightarrow> chain \<Rightarrow> string \<Rightarrow> light_client run" where
  "prepare_light_client E c rpc =
     (let cfg = config c in
      bindM (lift (unwrap_res (external
        (trust_threshold_new E (numer (trust_level cfg)) (denom (trust_level cfg)))))) (\<lambda>_.
      let lc = \<lparr>lc_node_id = c_node_id c, lc_rpc_addr = rpc,
            lc_trusting_period = trusting_period cfg, lc_clock_drift = max_clock_drift cfg,
            lc_rpc_timeout = rpc_timeout cfg, lc_trusted_height = trusted_height cfg,
            lc_trusted_hash = trusted_hash cfg\<rparr> in
      bindM (call (\<lambda>n. trust_primary_at E n lc)) (\<lambda>_. returnM lc)))"

definition create_solo_machine_client ::
    "env \<Rightarrow> signer \<Rightarrow> string \<Rightarrow> chain \<Rightarrow> string \<Rightarrow> string option \<Rightarrow> client_id run" where
  "create_solo_machine_client E S rpc c memo request_id =
     bindM (msg_create_solo_machine_client E S c memo request_id) (\<lambda>msg.
     bindM (lift (proto_encode E (P_Tx_Raw msg))) (\<lambda>bs.
     bindM (broadcast_tx_commit E rpc bs) (\<lambda>response.
     bindM (lift (ensure_response_success response)) (\<lambda>_.
     bindM (lift (extract_attribute E (tx_events response) ''create_client'' ''client_id'')) (\<lambda>v.
     lift (client_id_from_str v))))))"

definition create_tendermint_client :: "env \<Rightarrow> light_client \<Rightarrow> chain \<Rightarrow> client_id run" where
  "create_tendermint_client E lc c =
     bindM (msg_create_tendermint_client E c lc) (\<lambda>(client_state, consensus_state).
     bindM next_tick (\<lambda>n.
     bindM (lift (client_id_generate (rng_alphanumeric E n) Tendermint)) (\<lambda>cid.
     bindM (lift (ok_or (tcs_latest_height client_state)
       ''latest height cannot be absent in client state'')) (\<lambda>latest_height.
     bindM (add_tendermint_client_state E Tx cid client_state) (\<lambda>_.
     bindM (add_tendermint_consensus_state E Tx cid latest_height consensus_state) (\<lambda>_.
     returnM cid))))))"

section \<open>Connection handshake\<close>

definition connection_open_init ::
    "env \<Rightarrow> signer \<Rightarrow> string \<Rightarrow> chain \<Rightarrow> client_id \<Rightarrow> client_id \<Rightarrow> string \<Rightarrow> string option \<Rightarrow>
     connection_id run" where
  "connection_open_init E S rpc c smc tmc memo request_id =
     bindM (msg_connection_open_init E S c smc tmc memo request_id) (\<lambda>msg.
     bindM (lift (proto_encode E (P_Tx_Raw msg))) (\<lambda>bs.
     bindM (broadcast_tx_commit E rpc bs) (\<lambda>response.
     bindM (lift (ensure_response_success response)) (\<lambda>_.
     bindM (lift (extract_attribute E (tx_events response) ''connection_open_init'' ''connection_id''))
       (\<lambda>v.
     lift (connection_id_from_str v))))))"

definition try_connection :: "client_id \<Rightarrow> client_id \<Rightarrow> connection_id \<Rightarrow> connection_end" where
  "try_connection tmc smc smk =
     \<lparr>ce_client_id = client_str tmc,
      ce_versions = [connection_version_1],
      ce_state = connection_state_i32 Conn_Tryopen,
      ce_counterparty = Some \<lparr>cc_client_id = client_str smc, cc_connection_id = connection_str smk,
        cc_prefix = Some \<lparr>key_prefix = as_bytes ''ibc''\<rparr>\<rparr>,
      ce_delay_period = 0\<rparr>"

definition connection_open_try ::
    "env \<Rightarrow> executor \<Rightarrow> client_id \<Rightarrow> client_id \<Rightarrow> connection_id \<Rightarrow> connection_id run" where
  "connection_open_try E ex tmc smc smk =
     bindM next_tick (\<lambda>n.
     bindM (lift (connection_id_generate (rng_alphanumeric E n))) (\<lambda>cid.
     bindM (add_connection E ex cid (try_connection tmc smc smk)) (\<lambda>_.
     returnM cid)))"

definition connection_open_ack ::
    "env \<Rightarrow> signer \<Rightarrow> string \<Rightarrow> chain \<Rightarrow> connection_id \<Rightarrow> client_id \<Rightarrow> connection_id \<Rightarrow> string \<Rightarrow>
     string option \<Rightarrow> chain run" where
  "connection_open_ack E S rpc c smk tmc tmk memo request_id =
     bindM (msg_connection_open_ack E S c smk tmc tmk memo request_id) (\<lambda>(msg, c).
     bindM (lift (proto_encode E (P_Tx_Raw msg))) (\<lambda>bs.
     bindM (broadcast_tx_commit E rpc bs) (\<lambda>response.
     bindM (lift (ensure_response_success response)) (\<lambda>_.
     returnM c))))"

definition connection_open_confirm :: "env \<Rightarrow> connection_id \<Rightarrow> unit run" where
  "connection_open_confirm E cid =
     bindM (get_connection E Tx cid) (\<lambda>found.
     bindM (lift (ok_or found
       (''connection for connection id ('' @ connection_str cid @ '') not found''))) (\<lambda>connection.
     update_connection E Tx cid (set_connection_state Conn_Open connection)))"

section \<open>Channel handshake\<close>

definition channel_open_init ::
    "env \<Rightarrow> signer \<Rightarrow> string \<Rightarrow> chain \<Rightarrow> connection_id \<Rightarrow> string \<Rightarrow> string option \<Rightarrow>
     channel_id run" where
  "channel_open_init E S rpc c smk memo request_id =
     bindM (msg_channel_open_init E S c smk memo request_id) (\<lambda>msg.
     bindM (lift (proto_encode E (P_Tx_Raw msg))) (\<lambda>bs.
     bindM (broadcast_tx_commit E rpc bs) (\<lambda>response.
     bindM (lift (ensure_response_success response)) (\<lambda>_.
     bindM (lift (extract_attribute E (tx_events response) ''channel_open_init'' ''channel_id'')) (\<lambda>v.
     lift (channel_id_from_str v))))))"

definition try_channel :: "port_id \<Rightarrow> channel_id \<Rightarrow> connection_id \<Rightarrow> channel" where
  "try_channel pid smn tmk =
     \<lparr>ch_state = channel_state_i32 Chan_Tryopen,
      ch_ordering = channel_order_i32 Order_Unordered,
      ch_counterparty = Some \<lparr>chc_port_id = port_str pid, chc_channel_id = channel_str smn\<rparr>,
      ch_connection_hops = [connection_str tmk], ch_version = ''ics20-1'',
      ch_upgrade_sequence = 0\<rparr>"

definition channel_open_try ::
    "env \<Rightarrow> executor \<Rightarrow> port_id \<Rightarrow> channel_id \<Rightarrow> connection_id \<Rightarrow> channel_id run" where
  "channel_open_try E ex pid smn tmk =
     bindM next_tick (\<lambda>n.
     bindM (lift (channel_id_generate (rng_alphanumeric E n))) (\<lambda>cid.
     bindM (add_channel E ex pid cid (try_channel pid smn tmk)) (\<lambda>_.
     returnM cid)))"

definition channel_open_ack ::
    "env \<Rightarrow> signer \<Rightarrow> string \<Rightarrow> chain \<Rightarrow> channel_id \<Rightarrow> channel_id \<Rightarrow> string \<Rightarrow> string option \<Rightarrow>
     chain run" where
  "channel_open_ack E S rpc c smn tmn memo request_id =
     bindM (msg_channel_open_ack E S c smn tmn memo request_id) (\<lambda>(msg, c).
     bindM (lift (proto_encode E (P_Tx_Raw msg))) (\<lambda>bs.
     bindM (broadcast_tx_commit E rpc bs) (\<lambda>response.
     bindM (lift (ensure_response_success response)) (\<lambda>_.
     returnM c))))"

definition channel_not_found :: "port_id \<Rightarrow> channel_id \<Rightarrow> string" where
  "channel_not_found pid cid =
     ''channel for channel id ('' @ channel_str cid @ '') and port id ('' @ port_str pid
     @ '') not found''"

definition channel_open_confirm :: "env \<Rightarrow> port_id \<Rightarrow> channel_id \<Rightarrow> unit run" where
  "channel_open_confirm E pid cid =
     bindM (get_channel E Tx pid cid) (\<lambda>found.
     bindM (lift (ok_or found (channel_not_found pid cid))) (\<lambda>channel.
     update_channel E Tx pid cid (set_channel_state Chan_Open channel)))"

section \<open>Closing a channel\<close>

definition channel_close_init ::
    "env \<Rightarrow> string \<Rightarrow> signer \<Rightarrow> chain_id \<Rightarrow> string option \<Rightarrow> string \<Rightarrow> string run" where
  "channel_close_init E rpc S cid request_id memo =
     bindM (get_chain E Tx cid) (\<lambda>found.
     bindM (lift (ok_or found (''chain details for '' @ chain_str cid @ '' not found''))) (\<lambda>c.
     bindM (lift (ensure (connection_details c \<noteq> None)
       ''connection is not established with given chain'')) (\<lambda>_.
     bindM (msg_channel_close_init E S c memo request_id) (\<lambda>msg.
     bindM (lift (proto_encode E (P_Tx_Raw msg))) (\<lambda>bs.
     bindM (broadcast_tx_commit E rpc bs) (\<lambda>response.
     bindM (lift (ensure_response_success response)) (\<lambda>_.
     lift (extract_attribute E (tx_events response) ''channel_close_init'' ''channel_id''))))))))"

definition close_channel_confirm ::
    "env \<Rightarrow> port_id \<Rightarrow> channel_id \<Rightarrow> chain_id \<Rightarrow> connection_details \<Rightarrow> unit run" where
  "close_channel_confirm E pid tmn cid new_details =
     bindM (get_channel E Tx pid tmn) (\<lambda>found.
     bindM (lift (ok_or found (channel_not_found pid tmn))) (\<lambda>channel.
     bindM (update_channel E Tx pid tmn (set_channel_state Chan_Closed channel)) (\<lambda>_.
     add_connection_details E Tx cid new_details)))"

section \<open>What the steps leave alone\<close>

lemma keeps_handshake_inits [keeps_intros]:
  "keeps unchanged (prepare_light_client E c rpc)"
  "keeps unchanged (create_solo_machine_client E S rpc c memo rid)"
  "keeps unchanged (connection_open_init E S rpc c smc tmc memo rid)"
  "keeps unchanged (channel_open_init E S rpc c smk memo rid)"
  "keeps unchanged (channel_close_init E rpc S cid rid memo)"
  unfolding prepare_light_client_def create_solo_machine_client_def connection_open_init_def
    channel_open_init_def channel_close_init_def Let_def
  by (intro keeps_intros)+

lemma keeps_same_db_handshakes [keeps_intros]:
  "keeps same_db (create_tendermint_client E lc c)"
  "keeps same_db (connection_open_try E Tx tmc smc smk)"
  "keeps same_db (connection_open_ack E S rpc c smk tmc tmk memo rid)"
  "keeps same_db (connection_open_confirm E k)"
  "keeps same_db (channel_open_try E Tx p smn tmk)"
  "keeps same_db (channel_open_ack E S rpc c smn tmn memo rid)"
  "keeps same_db (channel_open_confirm E p n)"
  "keeps same_db (close_channel_confirm E p n cid details)"
  unfolding create_tendermint_client_def connection_open_try_def connection_open_ack_def
    connection_open_confirm_def channel_open_try_def channel_open_ack_def
    channel_open_confirm_def close_channel_confirm_def
  by (intro keeps_intros | rule keeps_same_db_of_unchanged)+

end
