(* ===== verification/Ibc_Service.thy ===== *)
theory Ibc_Service
  imports Ibc_Steps
begin

text \<open>
  The operations of \<open>IbcService\<close>: \<open>solo-machine-core/src/service/ibc_service.rs\<close>.
\<close>

section \<open>Connecting\<close>

definition rpc_client :: "env \<Rightarrow> chain \<Rightarrow> string run" where
  "rpc_client E c =
     bindM (lift (with_context ''unable to connect to rpc client''
       (external (http_client_new E (rpc_addr (config c)))))) (\<lambda>_.
     returnM (rpc_addr (config c)))"

definition known_chain :: "env \<Rightarrow> executor \<Rightarrow> chain_id \<Rightarrow> chain run" where
  "known_chain E ex cid =
     bindM (get_chain E ex cid) (\<lambda>found.
     lift (ok_or found (''chain details for '' @ chain_str cid @ '' not found'')))"

definition create_new_client ::
    "env \<Rightarrow> signer \<Rightarrow> string \<Rightarrow> string option \<Rightarrow> chain \<Rightarrow> string \<Rightarrow> (client_id \<times> client_id) run" where
  "create_new_client E S memo request_id c rpc =
     bindM (prepare_light_client E c rpc) (\<lambda>lc.
     bindM (create_solo_machine_client E S rpc c memo request_id) (\<lambda>smc.
     bindM (notify_event E (CreatedSoloMachineClient smc)) (\<lambda>_.
     bindM (create_tendermint_client E lc c) (\<lambda>tmc.
     bindM (notify_event E (CreatedTendermintClient tmc)) (\<lambda>_.
     returnM (smc, tmc))))))"

definition create_connection ::
    "env \<Rightarrow> chain \<Rightarrow> signer \<Rightarrow> string \<Rightarrow> client_id \<Rightarrow> client_id \<Rightarrow> string \<Rightarrow> string option \<Rightarrow>
     ((connection_id \<times> connection_id) \<times> chain) run" where
  "create_connection E c S rpc smc tmc memo request_id =
     bindM (connection_open_init E S rpc c smc tmc memo request_id) (\<lambda>smk.
     bindM (notify_event E (InitializedConnectionOnTendermint smk)) (\<lambda>_.
     bindM (connection_open_try E Tx tmc smc smk) (\<lambda>tmk.
     bindM (notify_event E (InitializedConnectionOnSoloMachine tmk)) (\<lambda>_.
     bindM (connection_open_ack E S rpc c smk tmc tmk memo request_id) (\<lambda>c.
     bindM (notify_event E (ConfirmedConnectionOnTendermint smk)) (\<lambda>_.
     bindM (connection_open_confirm E tmk) (\<lambda>_.
     bindM (notify_event E (ConfirmedConnectionOnSoloMachine tmk)) (\<lambda>_.
     returnM ((smk, tmk), c)))))))))"

definition open_channel ::
    "env \<Rightarrow> signer \<Rightarrow> string \<Rightarrow> string option \<Rightarrow> chain \<Rightarrow> string \<Rightarrow> connection_id \<Rightarrow> connection_id \<Rightarrow>
     ((channel_id \<times> channel_id) \<times> chain) run" where
  "open_channel E S memo request_id c rpc smk tmk =
     bindM (channel_open_init E S rpc c smk memo request_id) (\<lambda>smn.
     bindM (notify_event E (InitializedChannelOnTendermint smn)) (\<lambda>_.
     bindM (channel_open_try E Tx (port_id (config c)) smn tmk) (\<lambda>tmn.
     bindM (notify_event E (InitializedChannelOnSoloMachine tmn)) (\<lambda>_.
     bindM (channel_open_ack E S rpc c smn tmn memo request_id) (\<lambda>c.
     bindM (notify_event E (ConfirmedChannelOnTendermint smn)) (\<lambda>_.
     bindM (channel_open_confirm E (port_id (config c)) tmn) (\<lambda>_.
     bindM (notify_event E (ConfirmedChannelOnSoloMachine tmn)) (\<lambda>_.
     returnM ((smn, tmn), c)))))))))"

text \<open>Whether a connection is established, and whether its channel is closed.\<close>

definition connection_status :: "env \<Rightarrow> chain \<Rightarrow> (bool \<times> bool) run" where
  "connection_status E c =
     (case connection_details c of
        None \<Rightarrow> returnM (False, True)
      | Some detail \<Rightarrow>
          (case tendermint_channel_id detail of
             None \<Rightarrow> returnM (True, True)
           | Some tmn \<Rightarrow>
               bindM (get_channel E Tx (port_id (config c)) tmn) (\<lambda>found.
               bindM (lift (ok_or found (channel_not_found (port_id (config c)) tmn))) (\<lambda>channel.
               returnM (True, ch_state channel = channel_state_i32 Chan_Closed)))))"

definition already_connected :: string where
  "already_connected = ''connection is already established with given chain''"

definition connect ::
    "env \<Rightarrow> signer \<Rightarrow> chain_id \<Rightarrow> string option \<Rightarrow> string \<Rightarrow> bool \<Rightarrow> unit run" where
  "connect E S cid request_id memo force = scoped (
     bindM (begin_transaction E) (\<lambda>_.
     bindM (known_chain E Tx cid) (\<lambda>c.
     bindM (connection_status E c) (\<lambda>(already_established, channel_closed).
     bindM (lift (ensure (\<not> (already_established \<and> \<not> channel_closed \<and> \<not> force)) already_connected)) (\<lambda>_.
     bindM (rpc_client E c) (\<lambda>rpc.
     bindM (if \<not> already_established then
              bindM (create_new_client E S memo request_id c rpc) (\<lambda>clients.
              bindM (create_connection E c S rpc (fst clients) (snd clients) memo request_id)
                (\<lambda>(connections, c).
              returnM (clients, connections, c)))
            else
              bindM (lift (ensure (channel_closed \<or> force) already_connected)) (\<lambda>_.
              lift (Panic ''not yet implemented: get solo_chaine_client_id and tendermint_client_id'')))
       (\<lambda>((smc, tmc), (smk, tmk), c).
     bindM (open_channel E S memo request_id c rpc smk tmk) (\<lambda>((smn, tmn), c).
     let details = \<lparr>solo_machine_client_id = smc, tendermint_client_id = tmc,
           solo_machine_connection_id = smk, tendermint_connection_id = tmk,
           solo_machine_channel_id = Some smn, tendermint_channel_id = Some tmn\<rparr> in
     bindM (add_connection_details E Tx (c_id c) details) (\<lambda>_.
     bindM (notify_event E (ConnectionEstablished cid details)) (\<lambda>_.
     commit_transaction E ''unable to commit transaction for creating ibc connection''))))))))))"

section \<open>Closing the channel\<close>

definition close_channel ::
    "env \<Rightarrow> signer \<Rightarrow> chain_id \<Rightarrow> string option \<Rightarrow> string \<Rightarrow> unit run" where
  "close_channel E S cid request_id memo = scoped (
     bindM (begin_transaction E) (\<lambda>_.
     bindM (known_chain E Tx cid) (\<lambda>c.
     bindM (lift (ensure (connection_details c \<noteq> None) ''chain connection details is empty'')) (\<lambda>_.
     bindM (lift (unwrap_opt (connection_details c))) (\<lambda>details.
     bindM (lift (ensure (solo_machine_channel_id details \<noteq> None) (channel_closed ''solo machine''))) (\<lambda>_.
     let new_details = details\<lparr>solo_machine_channel_id := None, tendermint_channel_id := None\<rparr> in
     bindM (lift (unwrap_opt (solo_machine_channel_id details))) (\<lambda>smn.
     bindM (lift (unwrap_opt (tendermint_channel_id details))) (\<lambda>tmn.
     bindM (close_channel_confirm E (port_id (config c)) tmn (c_id c) new_details) (\<lambda>_.
     bindM (rpc_client E c) (\<lambda>rpc.
     bindM (channel_close_init E rpc S cid request_id memo) (\<lambda>closed.
     bindM (lift (ensure (channel_str smn = closed)
       (''closed wrong solo machine channel, expect '' @ channel_str smn @ '', get '' @ closed))) (\<lambda>_.
     bindM (notify_event E (CloseChannelInitOnSoloMachine (chain_str cid) smn)) (\<lambda>_.
     bindM (commit_transaction E ''unable to commit transaction for creating ibc connection'') (\<lambda>_.
     returnM ()))))))))))))))"

section \<open>Transferring tokens\<close>

definition mint ::
    "env \<Rightarrow> signer \<Rightarrow> chain_id \<Rightarrow> string option \<Rightarrow> u256 \<Rightarrow> ident \<Rightarrow> string option \<Rightarrow> string \<Rightarrow>
     string run" where
  "mint E S cid request_id amount d receiver memo = scoped (
     bindM (known_chain E Pool cid) (\<lambda>c.
     bindM (lift (to_account_address S)) (\<lambda>address.
     let receiver = (case receiver of Some r \<Rightarrow> r | None \<Rightarrow> address) in
     bindM (rpc_client E c) (\<lambda>rpc.
     bindM (begin_transaction E) (\<lambda>_.
     bindM (msg_token_send E S rpc c amount d receiver memo request_id) (\<lambda>(msg, c).
     bindM (lift (proto_encode E (P_Tx_Raw msg))) (\<lambda>bs.
     bindM (broadcast_tx_commit E rpc bs) (\<lambda>response.
     bindM (lift (ensure_response_success response)) (\<lambda>transaction_hash.
     bindM (commit_transaction E ''unable to commit transaction for sending tokens over IBC'') (\<lambda>_.
     bindM (lift (extract_attribute E (tx_events response) ''fungible_token_packet'' ''success''))
       (\<lambda>v.
     bindM (lift (parse_bool v)) (\<lambda>success.
     if success then
       bindM (add_operation E Pool request_id receiver d amount (Mint cid) transaction_hash) (\<lambda>_.
       bindM (notify_event E (TokensMinted cid request_id receiver amount d transaction_hash)) (\<lambda>_.
       returnM transaction_hash))
     else
       bindM (lift (extract_attribute E (tx_events response) ''write_acknowledgement''
         ''packet_ack_hex'')) (\<lambda>hex.
       bindM (lift (external (hex_decode E hex))) (\<lambda>data.
       bindM (lift (from_utf8 data)) (\<lambda>error.
       lift (bail (''Failed to mint tokens on IBC enabled chain: '' @ error)))))))))))))))))"

definition process_packet ::
    "env \<Rightarrow> signer \<Rightarrow> string \<Rightarrow> channel_id \<Rightarrow> channel_id \<Rightarrow> string \<Rightarrow> string option \<Rightarrow> packet \<Rightarrow>
     chain \<Rightarrow> chain run" where
  "process_packet E S rpc smn tmn memo request_id p c = scoped (
     bindM (lift (ensure (port_str (port_id (config c)) = pk_source_port p)
       ''invalid source port id'')) (\<lambda>_.
     bindM (lift (ensure (channel_str smn = pk_source_channel p) ''invalid source channel id'')) (\<lambda>_.
     bindM (lift (ensure (port_str (port_id (config c)) = pk_destination_port p)
       ''invalid destination port id'')) (\<lambda>_.
     bindM (lift (ensure (channel_str tmn = pk_destination_channel p)
       ''invalid destination channel id'')) (\<lambda>_.
     bindM (begin_transaction E) (\<lambda>_.
     bindM (msg_token_receive_ack E Tx S c p memo request_id) (\<lambda>(msg, c).
     bindM (lift (proto_encode E (P_Tx_Raw msg))) (\<lambda>bs.
     bindM (broadcast_tx_commit E rpc bs) (\<lambda>response.
     bindM (commit_transaction E ''unable to commit transaction for processing IBC packets'') (\<lambda>_.
     bindM (lift (ensure_response_success response)) (\<lambda>_.
     returnM c)))))))))))"

definition process_packets ::
    "env \<Rightarrow> signer \<Rightarrow> string \<Rightarrow> chain \<Rightarrow> packet list \<Rightarrow> string \<Rightarrow> string option \<Rightarrow> chain run" where
  "process_packets E S rpc c packets memo request_id =
     bindM (lift (ok_or (connection_details c)
       (''connection details for chain with id '' @ chain_str (c_id c) @ '' are missing''))) (\<lambda>details.
     bindM (lift (ensure (tendermint_channel_id details \<noteq> None) (channel_closed ''tendermint''))) (\<lambda>_.
     bindM (lift (ensure (solo_machine_channel_id details \<noteq> None) (channel_closed ''solo machine''))) (\<lambda>_.
     bindM (lift (unwrap_opt (solo_machine_channel_id details))) (\<lambda>smn.
     bindM (lift (unwrap_opt (tendermint_channel_id details))) (\<lambda>tmn.
     fold_each (process_packet E S rpc smn tmn memo request_id) packets c)))))"

definition burn ::
    "env \<Rightarrow> signer \<Rightarrow> chain_id \<Rightarrow> string option \<Rightarrow> u256 \<Rightarrow> ident \<Rightarrow> string \<Rightarrow> string run" where
  "burn E S cid request_id amount d memo =
     bindM (known_chain E Pool cid) (\<lambda>c.
     bindM (rpc_client E c) (\<lambda>rpc.
     bindM (lift (to_account_address S)) (\<lambda>address.
     bindM (msg_token_receive E S c amount d address memo request_id) (\<lambda>msg.
     bindM (lift (proto_encode E (P_Tx_Raw msg))) (\<lambda>bs.
     bindM (broadcast_tx_commit E rpc bs) (\<lambda>response.
     bindM (lift (ensure_response_success response)) (\<lambda>transaction_hash.
     bindM (add_operation E Pool request_id address d amount (Burn cid) transaction_hash) (\<lambda>_.
     bindM (notify_event E (TokensBurnt cid request_id address amount d transaction_hash)) (\<lambda>_.
     bindM (lift (extract_packets E response)) (\<lambda>packets.
     bindM (catchM (process_packets E S rpc c packets memo request_id)) (\<lambda>processed.
     bindM (case processed of
              Inl e \<Rightarrow> notify_event E (Event_Warning (error_to_string e))
            | Inr _ \<Rightarrow> returnM ()) (\<lambda>_.
     returnM transaction_hash))))))))))))"

section \<open>Signers and history\<close>

definition update_signer ::
    "env \<Rightarrow> signer \<Rightarrow> chain_id \<Rightarrow> string option \<Rightarrow> public_key \<Rightarrow> string \<Rightarrow> unit run" where
  "update_signer E S cid request_id new_public_key memo = scoped (
     bindM (begin_transaction E) (\<lambda>_.
     bindM (known_chain E Tx cid) (\<lambda>c.
     bindM (add_chain_key E Tx cid (public_key_encode E new_public_key)) (\<lambda>_.
     bindM (rpc_client E c) (\<lambda>rpc.
     bindM (msg_update_solo_machine_client E Tx S c (Some new_public_key) memo request_id) (\<lambda>(msg, c).
     bindM (lift (proto_encode E (P_Tx_Raw msg))) (\<lambda>bs.
     bindM (broadcast_tx_commit E rpc bs) (\<lambda>response.
     bindM (lift (ensure_response_success response)) (\<lambda>_.
     bindM (commit_transaction E ''unable to commit transaction for receiving tokens over IBC'') (\<lambda>_.
     bindM (lift (to_public_key S)) (\<lambda>old_public_key.
     notify_event E (SignerUpdated cid old_public_key new_public_key))))))))))))"

definition history :: "env \<Rightarrow> signer \<Rightarrow> int \<Rightarrow> int \<Rightarrow> operation list run" where
  "history E S lim off =
     bindM (lift (to_account_address S)) (\<lambda>address.
     get_operations E Pool address lim off)"

section \<open>Failures leave the database alone\<close>

lemma keeps_service_reads [keeps_intros]:
  "keeps unchanged (rpc_client E c)"
  "keeps unchanged (known_chain E ex cid)"
  "keeps unchanged (connection_status E c)"
  "keeps unchanged (history E S lim off)"
  unfolding rpc_client_def known_chain_def connection_status_def history_def
  by (intro keeps_intros)+

lemma keeps_same_db_phases [keeps_intros]:
  "keeps same_db (create_new_client E S memo rid c rpc)"
  "keeps same_db (create_connection E c S rpc smc tmc memo rid)"
  "keeps same_db (open_channel E S memo rid c rpc smk tmk)"
  unfolding create_new_client_def create_connection_def open_channel_def
  by (intro keeps_intros | rule keeps_same_db_of_unchanged)+

lemma atomic_connect: "atomic (connect E S cid rid memo force)"
  unfolding connect_def Let_def by (intro atomic_intros keeps_intros | rule keeps_same_db_of_unchanged)+

lemma atomic_close_channel: "atomic (close_channel E S cid rid memo)"
  unfolding close_channel_def Let_def by (intro atomic_intros keeps_intros | rule keeps_same_db_of_unchanged)+

end
