(* ===== verification/Ibc_Effects.thy ===== *)
theory Ibc_Effects
  imports Ibc_Service
begin

text \<open>
  What the builders and the services do when they succeed: the rows written, the signatures
  given and the transactions sent.
\<close>

section \<open>Shared vocabulary\<close>

text \<open>The transaction \<open>tx\<close> carries one message, packed under its type URL.\<close>

definition delivers :: "env \<Rightarrow> tx_raw \<Rightarrow> string \<Rightarrow> proto_msg \<Rightarrow> string \<Rightarrow> bool" where
  "delivers E tx url msg memo \<longleftrightarrow>
     (\<exists>v. encode E msg = Inr v \<and> carries E tx \<lparr>type_url = url, any_value = v\<rparr> memo)"

text \<open>
  \<open>said E rid sb url msg memo tx s t\<close>: between \<open>s\<close> and \<open>t\<close> the machine signed \<open>sb\<close>, then the
  transaction \<open>tx\<close> carrying \<open>msg\<close>, and nothing else left the process.
\<close>

definition said ::
    "env \<Rightarrow> string option \<Rightarrow> sign_bytes \<Rightarrow> string \<Rightarrow> proto_msg \<Rightarrow> string \<Rightarrow> tx_raw \<Rightarrow>
     world \<Rightarrow> world \<Rightarrow> bool" where
  "said E rid sb url msg memo tx s t \<longleftrightarrow>
     delivers E tx url msg memo \<and>
     (\<exists>bs doc. encode E (P_Sign_Bytes sb) = Inr bs \<and>
        w_log t = w_log s @ [A_Sign rid (SignBytes bs), A_Sign rid (SignDoc doc)])"

text \<open>The id column of a row is its key.\<close>

definition keyed :: "database \<Rightarrow> bool" where
  "keyed d \<longleftrightarrow> (\<forall>k raw. chains d k = Some raw \<longrightarrow> raw_id raw = k)"

definition set_chain :: "string \<Rightarrow> raw_chain \<Rightarrow> database \<Rightarrow> database" where
  "set_chain k raw d = d\<lparr>chains := (chains d)(k \<mapsto> raw)\<rparr>"

lemma set_chain_simps [simp]:
  "chains (set_chain k raw d) = (chains d)(k \<mapsto> raw)"
  "ibc_data (set_chain k raw d) = ibc_data d"
  "chain_keys (set_chain k raw d) = chain_keys d"
  "next_key_id (set_chain k raw d) = next_key_id d"
  "operations (set_chain k raw d) = operations d"
  "next_operation_id (set_chain k raw d) = next_operation_id d"
  "set_chain k raw' (set_chain k raw d) = set_chain k raw' d"
  "set_chain k raw (put_object x bs d) = put_object x bs (set_chain k raw d)"
  by (simp_all add: set_chain_def put_object_def)

lemma stored_set_chain [simp]: "stored (set_chain k raw d) x bs = stored d x bs"
  by (simp add: stored_def)

lemma chain_of_raw_id: "chain_of_raw F raw = Ok c \<Longrightarrow> chain_str (c_id c) = raw_id raw"
  by (auto simp: chain_of_raw_Ok_iff chain_id_from_str_Ok_iff chain_str_def)

lemma quiet_sql: "run_sql E ex stmt s = (Ok a, t) \<Longrightarrow> w_log t = w_log s"
  by (cases ex) (auto simp: run_sql_Ok_iff)

lemma quiet_writes:
  "increment_sequence E ex cid s = (Ok c, t) \<Longrightarrow> w_log t = w_log s"
  "increment_packet_sequence E ex cid s = (Ok c, t) \<Longrightarrow> w_log t = w_log s"
  "add_connection_details E ex cid dt s = (Ok u, t) \<Longrightarrow> w_log t = w_log s"
  "add_chain_key E ex cid key s = (Ok u, t) \<Longrightarrow> w_log t = w_log s"
  "add_chain E ex cid node cfg s = (Ok u, t) \<Longrightarrow> w_log t = w_log s"
  by (auto simp: increment_sequence_def increment_packet_sequence_def add_connection_details_def
      add_chain_key_def add_chain_def Let_def run_Ok_iffs dest: quiet_sql)

text \<open>The row of a chain after its sequence was advanced.\<close>

lemma increment_sequence_row:
  assumes "increment_sequence E Tx cid s = (Ok c', t)"
  obtains raw ts where "chains (view Tx s) (chain_str cid) = Some raw"
    "view Tx t = set_chain (chain_str cid)
       (raw\<lparr>raw_sequence := raw_sequence raw + 1, raw_updated_at := ts\<rparr>) (view Tx s)"
    "chain_of_raw (node_format E) (raw\<lparr>raw_sequence := raw_sequence raw + 1, raw_updated_at := ts\<rparr>)
       = Ok c'"
  using increment_sequence_Ok [OF assms] unfolding set_chain_def by metis

lemma increment_packet_sequence_row:
  assumes "increment_packet_sequence E Tx cid s = (Ok c', t)"
  obtains raw ts where "chains (view Tx s) (chain_str cid) = Some raw"
    "view Tx t = set_chain (chain_str cid)
       (raw\<lparr>raw_packet_sequence := raw_packet_sequence raw + 1, raw_updated_at := ts\<rparr>) (view Tx s)"
    "chain_of_raw (node_format E)
       (raw\<lparr>raw_packet_sequence := raw_packet_sequence raw + 1, raw_updated_at := ts\<rparr>) = Ok c'"
  using increment_packet_sequence_Ok [OF assms] unfolding set_chain_def by metis

lemma build_msg_Ok:
  assumes "build E (\<lambda>m. impl_to_any E url (con m)) S c [m] memo rid s = (Ok tx, t)"
  obtains doc where "delivers E tx url (con m) memo" "unchanged s t"
    "w_log t = w_log s @ [A_Sign rid (SignDoc doc)]"
proof -
  from build_Ok [OF assms] obtain a doc where "impl_to_any E url (con m) = Ok a"
    "carries E tx a memo" "unchanged s t" "w_log t = w_log s @ [A_Sign rid (SignDoc doc)]"
    by blast
  with that show thesis
    by (auto simp: delivers_def impl_to_any_def)
qed

section \<open>Sending tokens\<close>

text \<open>The packet of a transfer.\<close>

definition transfer_packet ::
    "chain \<Rightarrow> channel_id \<Rightarrow> channel_id \<Rightarrow> bytes \<Rightarrow> height \<Rightarrow> packet" where
  "transfer_packet c source destination data h =
     \<lparr>pk_sequence = ucast (packet_sequence c),
      pk_source_port = port_str (port_id (config c)), pk_source_channel = channel_str source,
      pk_destination_port = port_str (port_id (config c)),
      pk_destination_channel = channel_str destination,
      pk_data = data, pk_timeout_height = Some h, pk_timeout_timestamp = 0\<rparr>"

text \<open>The path under which the commitment of a packet is stored by the sender of the packet.\<close>

definition commitment_key :: "packet \<Rightarrow> string" where
  "commitment_key p =
     ''commitments/ports/'' @ pk_source_port p @ ''/channels/'' @ pk_source_channel p
     @ ''/sequences/'' @ show_u64 (pk_sequence p)"

lemma object_key_commitment:
  "object_key (Packet_Commitment (port_id (config c)) source (ucast (packet_sequence c))) =
     commitment_key (transfer_packet c source destination data h)"
  by (simp add: object_key_def packet_commitment_path_def path_new_from_str_def commitment_key_def
      transfer_packet_def)

lemma quiet_get_latest_height: "get_latest_height E c rpc s = (Ok h, t) \<Longrightarrow> w_log t = w_log s"
  by (auto simp: get_latest_height_def run_Ok_iffs call_Ok_iff)

text \<open>
  The sign bytes of a packet: its commitment, under the key of the packet.
\<close>

definition packet_sign_bytes :: "chain \<Rightarrow> packet \<Rightarrow> bytes \<Rightarrow> sign_bytes" where
  "packet_sign_bytes c p data =
     \<lparr>sb_sequence = ucast (sequence c),
      sb_timestamp = word_of_int (unix_timestamp (consensus_timestamp c)),
      sb_diversifier = diversifier (config c), sb_path = as_bytes (commitment_key p),
      sb_data = data\<rparr>"

lemma msg_token_send_Ok:
  assumes run: "msg_token_send E S rpc c amount d receiver memo rid s = (Ok (tx, c'), t)"
    and keyed: "keyed (view Tx s)"
  obtains p data pf sender raw ts where
    "commitment_bytes E p = Ok data" "pk_sequence p = ucast (packet_sequence c)"
    "to_account_address S = Ok sender"
    "said E rid (packet_sign_bytes c p data) MSG_RECV_PACKET_URL (P_Recv_Packet
       \<lparr>mrp_packet = Some p, mrp_proof_commitment = pf,
        mrp_proof_height = Some (Height 0 (ucast (sequence c))), mrp_signer = sender\<rparr>) memo tx s t"
    "json_to_vec E (token_transfer_packet_data (ident_str d) (u256_to_string amount) sender receiver
       memo) = Inr (pk_data p)"
    "chains (view Tx s) (chain_str (c_id c)) = Some raw"
    "view Tx t = set_chain (chain_str (c_id c)) (raw\<lparr>raw_sequence := raw_sequence raw + 1,
       raw_packet_sequence := raw_packet_sequence raw + 1, raw_updated_at := ts\<rparr>) (view Tx s)"
    "chain_of_raw (node_format E) (raw\<lparr>raw_sequence := raw_sequence raw + 1,
       raw_packet_sequence := raw_packet_sequence raw + 1, raw_updated_at := ts\<rparr>) = Ok c'"
    "\<exists>details. connection_details c = Some details \<and> solo_machine_channel_id details \<noteq> None \<and>
       tendermint_channel_id details \<noteq> None"
proof -
  from run obtain details sender source destination data lh h pf c1 u1 u2 u3 u4 where
    details: "connection_details c = Some details" "tendermint_channel_id details = Some source"
      "solo_machine_channel_id details = Some destination" and
    sender: "to_account_address S = Ok sender" and
    json: "json_to_vec E (token_transfer_packet_data (ident_str d) (u256_to_string amount) sender
       receiver memo) = Inr data" and
    height: "get_latest_height E c rpc s = (Ok lh, u1)" and
    proof_run: "get_packet_commitment_proof E S c (transfer_packet c source destination data h) rid u1
       = (Ok pf, u2)" and
    inc: "increment_sequence E Tx (c_id c) u2 = (Ok c1, u3)" and
    pinc: "increment_packet_sequence E Tx (c_id c1) u3 = (Ok c', u4)" and
    build: "build E (\<lambda>m. impl_to_any E MSG_RECV_PACKET_URL (P_Recv_Packet m)) S c'
       [\<lparr>mrp_packet = Some (transfer_packet c source destination data h), mrp_proof_commitment = pf,
         mrp_proof_height = Some (Height 0 (ucast (sequence c))), mrp_signer = sender\<rparr>] memo rid u4
       = (Ok tx, t)"
    unfolding msg_token_send_def Let_def run_Ok_iffs transfer_packet_def by auto
  let ?p = "transfer_packet c source destination data h"
  have v2: "view Tx u2 = view Tx s"
    using keeps_unchanged_view [OF keeps_builders(7) height]
      keeps_unchanged_view [OF keeps_proofs(4) proof_run] by simp
  obtain channel commitment where commitment: "commitment_bytes E ?p = Ok commitment"
    and channel: "tendermint_channel_id details = Some channel"
    and sig0: "signed E rid (object_sign_bytes c
       (Packet_Commitment (port_id (config c)) channel (ucast (packet_sequence c))) commitment) u1 u2"
    by (rule get_packet_commitment_proof_Ok [OF proof_run]) (simp add: details(1))
  have sig: "signed E rid (packet_sign_bytes c ?p commitment) u1 u2"
    using sig0 channel details(2)
    by (simp add: object_sign_bytes_def packet_sign_bytes_def
        object_key_commitment [of c channel destination data h])
  obtain raw ts where raw: "chains (view Tx s) (chain_str (c_id c)) = Some raw"
    and u3: "view Tx u3 = set_chain (chain_str (c_id c))
       (raw\<lparr>raw_sequence := raw_sequence raw + 1, raw_updated_at := ts\<rparr>) (view Tx s)"
    and c1: "chain_of_raw (node_format E)
       (raw\<lparr>raw_sequence := raw_sequence raw + 1, raw_updated_at := ts\<rparr>) = Ok c1"
    by (rule increment_sequence_row [OF inc]) (simp only: v2)
  have id1: "chain_str (c_id c1) = chain_str (c_id c)"
    using chain_of_raw_id [OF c1] keyed raw by (simp add: keyed_def)
  obtain ts2 where u4: "view Tx u4 = set_chain (chain_str (c_id c))
       (raw\<lparr>raw_sequence := raw_sequence raw + 1, raw_packet_sequence := raw_packet_sequence raw + 1,
          raw_updated_at := ts2\<rparr>) (view Tx s)"
    and c': "chain_of_raw (node_format E)
       (raw\<lparr>raw_sequence := raw_sequence raw + 1, raw_packet_sequence := raw_packet_sequence raw + 1,
          raw_updated_at := ts2\<rparr>) = Ok c'"
    by (rule increment_packet_sequence_row [OF pinc]) (auto simp: id1 u3)
  obtain doc where deliver: "delivers E tx MSG_RECV_PACKET_URL (P_Recv_Packet
       \<lparr>mrp_packet = Some ?p, mrp_proof_commitment = pf,
        mrp_proof_height = Some (Height 0 (ucast (sequence c))), mrp_signer = sender\<rparr>) memo"
    and t: "unchanged u4 t" "w_log t = w_log u4 @ [A_Sign rid (SignDoc doc)]"
    by (rule build_msg_Ok [OF build])
  have "said E rid (packet_sign_bytes c ?p commitment) MSG_RECV_PACKET_URL (P_Recv_Packet
       \<lparr>mrp_packet = Some ?p, mrp_proof_commitment = pf,
        mrp_proof_height = Some (Height 0 (ucast (sequence c))), mrp_signer = sender\<rparr>) memo tx s t"
    using deliver t(2) sig quiet_get_latest_height [OF height] quiet_writes(1) [OF inc]
      quiet_writes(2) [OF pinc]
    by (auto simp: said_def signed_def)
  moreover have "view Tx t = view Tx u4"
    using t(1) by (rule unchanged_view)
  ultimately show thesis
    using that [OF commitment _ sender _ _ raw, of pf ts2] json u4 c' details
    by (simp add: transfer_packet_def)
qed

section \<open>Messages with one proof\<close>

definition next_raw :: "raw_chain \<Rightarrow> datetime \<Rightarrow> raw_chain" where
  "next_raw raw ts = raw\<lparr>raw_sequence := raw_sequence raw + 1, raw_updated_at := ts\<rparr>"

lemma next_raw_simps [simp]:
  "raw_id (next_raw raw ts) = raw_id raw" "raw_sequence (next_raw raw ts) = raw_sequence raw + 1"
  "raw_packet_sequence (next_raw raw ts) = raw_packet_sequence raw"
  "raw_config (next_raw raw ts) = raw_config raw"
  "raw_connection_details (next_raw raw ts) = raw_connection_details raw"
  by (simp_all add: next_raw_def)

text \<open>
  \<open>advanced k s t c'\<close>: between \<open>s\<close> and \<open>t\<close> the sequence of the chain \<open>k\<close> was incremented,
  nothing else was written, and \<open>c'\<close> is the chain after it.
\<close>

definition advanced :: "env \<Rightarrow> string \<Rightarrow> world \<Rightarrow> world \<Rightarrow> chain \<Rightarrow> bool" where
  "advanced E k s t c' \<longleftrightarrow>
     (\<exists>raw ts. chains (view Tx s) k = Some raw \<and>
        view Tx t = set_chain k (next_raw raw ts) (view Tx s) \<and>
        chain_of_raw (node_format E) (next_raw raw ts) = Ok c')"

lemma proved_then_built:
  assumes sig: "signed E rid sb s u1" and v1: "view Tx u1 = view Tx s"
    and inc: "increment_sequence E Tx cid u1 = (Ok c', u2)"
    and build: "build E (\<lambda>m. impl_to_any E url (con m)) S c'' [m] memo rid u2 = (Ok tx, t)"
  shows "said E rid sb url (con m) memo tx s t" "advanced E (chain_str cid) s t c'"
proof -
  obtain doc where deliver: "delivers E tx url (con m) memo" and t: "unchanged u2 t"
      "w_log t = w_log u2 @ [A_Sign rid (SignDoc doc)]"
    by (rule build_msg_Ok [OF build])
  show "said E rid sb url (con m) memo tx s t"
    using sig deliver t(2) quiet_writes(1) [OF inc] by (auto simp: said_def signed_def)
  show "advanced E (chain_str cid) s t c'"
    by (rule increment_sequence_row [OF inc])
      (auto simp: advanced_def next_raw_def v1 unchanged_view [OF t(1)])
qed

lemma msg_connection_open_ack_Ok:
  assumes run: "msg_connection_open_ack E S c smk tmc tmk memo rid s = (Ok (tx, c'), t)"
  obtains data m bs conn where
    "stored (view Tx s) (Connection_End tmk) bs" "decode_connection E bs = Inr conn"
    "encode E (P_Connection_End conn) = Inr data"
    "said E rid (object_sign_bytes c (Connection_End tmk) data) MSG_CONNECTION_OPEN_ACK_URL
       (P_Connection_Open_Ack m) memo tx s t"
    "mcoa_proof_height m = Some (Height 0 (ucast (sequence c)))"
    "advanced E (chain_str (c_id c)) s t c'"
proof -
  from run obtain cs pf u1 u2 u3 m any_cs address where
    client: "get_tendermint_client_state E Tx tmc s = (Ok (Some cs), u1)" and
    pf: "get_connection_proof E Tx S c tmk rid u1 = (Ok pf, u2)" and
    inc: "increment_sequence E Tx (c_id c) u2 = (Ok c', u3)" and
    m: "m = \<lparr>mcoa_connection_id = connection_str smk,
         mcoa_counterparty_connection_id = connection_str tmk,
         mcoa_version = Some connection_version_1, mcoa_client_state = Some any_cs,
         mcoa_proof_height = Some (Height 0 (ucast (sequence c))), mcoa_proof_try = pf,
         mcoa_proof_client = [], mcoa_proof_consensus = [],
         mcoa_consensus_height = tcs_latest_height cs,
         mcoa_signer = address, mcoa_host_consensus_state_proof = []\<rparr>" and
    build: "build E (\<lambda>m. impl_to_any E MSG_CONNECTION_OPEN_ACK_URL (P_Connection_Open_Ack m)) S c'
       [m] memo rid u3 = (Ok tx, t)"
    unfolding msg_connection_open_ack_def Let_def run_Ok_iffs by auto
  have v1: "view Tx u1 = view Tx s"
    by (rule keeps_unchanged_view [OF keeps_ibc_gets(1) client])
  have v2: "view Tx u2 = view Tx s"
    using keeps_unchanged_view [OF keeps_proofs(2) pf, of Tx] v1 by simp
  obtain bs conn data where conn: "stored (view Tx s) (Connection_End tmk) bs"
      "decode_connection E bs = Inr conn" "encode E (P_Connection_End conn) = Inr data"
    and sig: "signed E rid (object_sign_bytes c (Connection_End tmk) data) u1 u2"
    by (rule get_connection_proof_Ok [OF pf]) (simp add: v1)
  from sig have "signed E rid (object_sign_bytes c (Connection_End tmk) data) s u2"
    by (rule signed_from) (rule get_object_quiet(3) [OF client])
  from that [OF conn proved_then_built(1) [OF this v2 inc build] _
      proved_then_built(2) [OF this v2 inc build]]
  show thesis
    by (simp add: m)
qed

lemma msg_channel_open_ack_Ok:
  assumes run: "msg_channel_open_ack E S c smn tmn memo rid s = (Ok (tx, c'), t)"
  obtains data m bs chan where
    "stored (view Tx s) (Channel_End (port_id (config c)) tmn) bs" "decode_channel E bs = Inr chan"
    "encode E (P_Channel chan) = Inr data"
    "said E rid (object_sign_bytes c (Channel_End (port_id (config c)) tmn) data)
       MSG_CHANNEL_OPEN_ACK_URL (P_Channel_Open_Ack m) memo tx s t"
    "mcha_proof_height m = Some (Height 0 (ucast (sequence c)))"
    "advanced E (chain_str (c_id c)) s t c'"
proof -
  from run obtain pf u2 u3 m address where
    pf: "get_channel_proof E Tx S c tmn rid s = (Ok pf, u2)" and
    inc: "increment_sequence E Tx (c_id c) u2 = (Ok c', u3)" and
    m: "m = \<lparr>mcha_port_id = port_str (port_id (config c')), mcha_channel_id = channel_str smn,
          mcha_counterparty_channel_id = channel_str tmn, mcha_counterparty_version = ''ics20-1'',
          mcha_proof_height = Some (Height 0 (ucast (sequence c))), mcha_proof_try = pf,
          mcha_signer = address\<rparr>" and
    build: "build E (\<lambda>m. impl_to_any E MSG_CHANNEL_OPEN_ACK_URL (P_Channel_Open_Ack m)) S c'
       [m] memo rid u3 = (Ok tx, t)"
    unfolding msg_channel_open_ack_def Let_def run_Ok_iffs by auto
  have v2: "view Tx u2 = view Tx s"
    by (rule keeps_unchanged_view [OF keeps_proofs(3) pf])
  obtain bs chan data where chan: "stored (view Tx s) (Channel_End (port_id (config c)) tmn) bs"
      "decode_channel E bs = Inr chan" "encode E (P_Channel chan) = Inr data"
    and sig: "signed E rid (object_sign_bytes c (Channel_End (port_id (config c)) tmn) data) s u2"
    by (rule get_channel_proof_Ok [OF pf])
  from that [OF chan proved_then_built(1) [OF sig v2 inc build] _
      proved_then_built(2) [OF sig v2 inc build]]
  show thesis
    by (simp add: m)
qed

lemma msg_token_receive_ack_Ok:
  assumes run: "msg_token_receive_ack E Tx S c p memo rid s = (Ok (tx, c'), t)"
  obtains details channel ack m where
    "connection_details c = Some details" "tendermint_channel_id details = Some channel"
    "json_to_vec E acknowledgement_json = Inr ack"
    "said E rid (object_sign_bytes c
       (Packet_Acknowledgement (port_id (config c)) channel (pk_sequence p)) (sha256 E ack))
       MSG_ACKNOWLEDGEMENT_URL (P_Acknowledgement m) memo tx s t"
    "ma_packet m = Some p" "ma_acknowledgement m = ack"
    "ma_proof_height m = Some (Height 0 (ucast (sequence c)))"
    "advanced E (chain_str (c_id c)) s t c'"
proof -
  from run obtain ack pf u2 u3 m address where
    ack: "json_to_vec E acknowledgement_json = Inr ack" and
    pf: "get_packet_acknowledgement_proof E S c ack (pk_sequence p) rid s = (Ok pf, u2)" and
    inc: "increment_sequence E Tx (c_id c) u2 = (Ok c', u3)" and
    m: "m = \<lparr>ma_packet = Some p, ma_acknowledgement = ack, ma_proof_acked = pf,
          ma_proof_height = Some (Height 0 (ucast (sequence c))), ma_signer = address\<rparr>" and
    build: "build E (\<lambda>m. impl_to_any E MSG_ACKNOWLEDGEMENT_URL (P_Acknowledgement m)) S c'
       [m] memo rid u3 = (Ok tx, t)"
    unfolding msg_token_receive_ack_def Let_def run_Ok_iffs by auto
  have v2: "view Tx u2 = view Tx s"
    by (rule keeps_unchanged_view [OF keeps_proofs(5) pf])
  obtain details channel where details: "connection_details c = Some details"
      "tendermint_channel_id details = Some channel"
    and sig: "signed E rid (object_sign_bytes c
       (Packet_Acknowledgement (port_id (config c)) channel (pk_sequence p)) (sha256 E ack)) s u2"
    by (rule get_packet_acknowledgement_proof_Ok [OF pf])
  from that [OF details ack proved_then_built(1) [OF sig v2 inc build] _ _ _
      proved_then_built(2) [OF sig v2 inc build]]
  show thesis
    by (simp add: m)
qed

lemma msg_update_solo_machine_client_Ok:
  assumes run: "msg_update_solo_machine_client E Tx S c (Some key) memo rid s = (Ok (tx, c'), t)"
  obtains any_key data m sb where
    "public_key_to_any E key = Ok any_key"
    "encode E (P_Header_Data \<lparr>hd_new_pub_key = Some any_key,
       hd_new_diversifier = diversifier (config c)\<rparr>) = Inr data"
    "sb = \<lparr>sb_sequence = ucast (sequence c),
       sb_timestamp = word_of_int (unix_timestamp (consensus_timestamp c)),
       sb_diversifier = diversifier (config c), sb_path = as_bytes ''solomachine:header'',
       sb_data = data\<rparr>"
    "said E rid sb MSG_UPDATE_CLIENT_URL (P_Update_Client m) memo tx s t"
    "advanced E (chain_str (c_id c)) s t c'"
proof -
  from run obtain any_key sig u2 u3 m where
    key: "public_key_to_any E key = Ok any_key" and
    pf: "get_header_proof E S c (Some any_key) (diversifier (config c)) rid s = (Ok sig, u2)" and
    inc: "increment_sequence E Tx (c_id c) u2 = (Ok c', u3)" and
    build: "build E (\<lambda>m. impl_to_any E MSG_UPDATE_CLIENT_URL (P_Update_Client m)) S c'
       [m] memo rid u3 = (Ok tx, t)"
    unfolding msg_update_solo_machine_client_def Let_def run_Ok_iffs option.case by auto
  have v2: "view Tx u2 = view Tx s"
    by (rule keeps_unchanged_view [OF keeps_proofs(1) pf])
  obtain data where data: "encode E (P_Header_Data \<lparr>hd_new_pub_key = Some any_key,
       hd_new_diversifier = diversifier (config c)\<rparr>) = Inr data"
    and sig: "signed E rid \<lparr>sb_sequence = ucast (sequence c),
       sb_timestamp = word_of_int (unix_timestamp (consensus_timestamp c)),
       sb_diversifier = diversifier (config c), sb_path = as_bytes ''solomachine:header'',
       sb_data = data\<rparr> s u2"
    by (rule get_header_proof_Ok [OF pf])
  from that [OF key data refl proved_then_built(1) [OF sig v2 inc build]
      proved_then_built(2) [OF sig v2 inc build]]
  show thesis .
qed

end
