(* ===== verification/Transfer_Effects.thy ===== *)
theory Transfer_Effects
  imports Ibc_Effects
begin

text \<open>What minting, burning and updating the signer do when they succeed.\<close>

section \<open>Common steps\<close>

lemma known_chain_Ok:
  assumes "known_chain E ex cid s = (Ok c, t)"
  obtains raw where "chains (view ex s) (chain_str cid) = Some raw"
    "chain_of_raw (node_format E) raw = Ok c" "unchanged s t" "w_log t = w_log s"
    "chain_str (c_id c) = raw_id raw"
proof -
  from assms obtain raw where "chains (view ex s) (chain_str cid) = Some raw"
    "chain_of_raw (node_format E) raw = Ok c" "t = s\<lparr>w_ticks := w_ticks s + 1\<rparr>"
    by (auto simp: known_chain_def get_chain_def run_Ok_iffs query_sql_Ok_iff split: option.splits)
  with that show thesis
    by (simp add: unchanged_def chain_of_raw_id)
qed

lemma rpc_client_Ok: "rpc_client E c s = (Ok rpc, t) \<Longrightarrow> t = s \<and> rpc = rpc_addr (config c)"
  by (auto simp: rpc_client_def run_Ok_iffs)

lemma ensure_response_success_Ok:
  "ensure_response_success r = Ok h \<longleftrightarrow> check_code r = 0 \<and> deliver_code r = 0 \<and> h = tx_hash r"
  by (auto simp: ensure_response_success_def)

text \<open>Some transaction is accepted by the chain, on check and on delivery.\<close>

definition accepts :: "env \<Rightarrow> bool" where
  "accepts E \<longleftrightarrow>
     (\<exists>n addr bs r. broadcast E n addr bs = Inr r \<and> check_code r = 0 \<and> deliver_code r = 0)"

lemma accepted:
  "broadcast_tx_commit E rpc bs s = (Ok r, t) \<Longrightarrow> ensure_response_success r = Ok h \<Longrightarrow> accepts E"
  by (auto simp: accepts_def broadcast_Ok_iff ensure_response_success_Ok)

definition new_operation ::
    "database \<Rightarrow> datetime \<Rightarrow> string option \<Rightarrow> string \<Rightarrow> ident \<Rightarrow> u256 \<Rightarrow> operation_type \<Rightarrow>
     string \<Rightarrow> raw_operation" where
  "new_operation d t rid address dn amount ty hash =
     raw_of_operation \<lparr>o_id = next_operation_id d, o_request_id = rid, o_address = address,
       o_denom = dn, o_amount = amount, o_operation_type = ty, o_transaction_hash = hash,
       o_created_at = t\<rparr>"

definition record_operation :: "raw_operation \<Rightarrow> database \<Rightarrow> database" where
  "record_operation op d =
     d\<lparr>operations := operations d @ [op], next_operation_id := next_operation_id d + 1\<rparr>"

lemma record_operation_simps [simp]:
  "chains (record_operation op d) = chains d" "ibc_data (record_operation op d) = ibc_data d"
  "chain_keys (record_operation op d) = chain_keys d"
  "operations (record_operation op d) = operations d @ [op]"
  by (simp_all add: record_operation_def)

lemma add_operation_record:
  assumes "add_operation E Pool rid a dn n ty h s = (Ok u, t)"
  obtains ts where "w_db t = record_operation (new_operation (w_db s) ts rid a dn n ty h) (w_db s)"
    "w_log t = w_log s"
proof -
  have "w_db t = record_operation (new_operation (w_db s) (now E (w_ticks s)) rid a dn n ty h) (w_db s)"
    using add_operation_Ok(1) [OF assms]
    by (simp add: insert_operation_def record_operation_def new_operation_def raw_of_operation_def)
  with that add_operation_Ok(2) [OF assms] show thesis
    by blast
qed

section \<open>Minting\<close>

definition mint_advance :: "raw_chain \<Rightarrow> datetime \<Rightarrow> raw_chain" where
  "mint_advance raw ts =
     raw\<lparr>raw_sequence := raw_sequence raw + 1, raw_packet_sequence := raw_packet_sequence raw + 1,
        raw_updated_at := ts\<rparr>"

lemma mint_run:
  assumes run: "mint E S cid rid amount d receiver memo s = (Ok hash, t)"
    and keyed: "keyed (w_db s)"
  obtains raw c tx bs response p data pf sender ts ts2 to where
    "chains (w_db s) (chain_str cid) = Some raw" "chain_of_raw (node_format E) raw = Ok c"
    "to_account_address S = Ok sender" "to = (case receiver of Some r \<Rightarrow> r | None \<Rightarrow> sender)"
    "commitment_bytes E p = Ok data" "pk_sequence p = ucast (packet_sequence c)"
    "json_to_vec E (token_transfer_packet_data (ident_str d) (u256_to_string amount) sender to memo)
       = Inr (pk_data p)"
    "delivers E tx MSG_RECV_PACKET_URL (P_Recv_Packet
       \<lparr>mrp_packet = Some p, mrp_proof_commitment = pf,
        mrp_proof_height = Some (Height 0 (ucast (sequence c))), mrp_signer = sender\<rparr>) memo"
    "encode E (P_Tx_Raw tx) = Inr bs"
    "check_code (response :: tx_response) = 0" "deliver_code response = 0" "tx_hash response = hash"
    "\<exists>sb doc. encode E (P_Sign_Bytes (packet_sign_bytes c p data)) = Inr sb \<and>
       w_log t = w_log s @ [A_Sign rid (SignBytes sb), A_Sign rid (SignDoc doc),
         A_Broadcast (rpc_addr (config c)) bs, A_Commit] @
         (if notifier E then [A_Notify (TokensMinted cid rid to amount d hash)] else [])"
    "w_db t = record_operation (new_operation (w_db s) ts2 rid to d amount (Mint cid) hash)
       (set_chain (chain_str cid) (mint_advance raw ts) (w_db s))"
    "w_tx t = None"
proof -
  let ?to = "\<lambda>address. case receiver of Some r \<Rightarrow> r | None \<Rightarrow> address"
  from run obtain c address rpc s1 s2 s3 tx c' s4 bs response s5 s6 s7 s8 where
    chain: "known_chain E Pool cid s = (Ok c, s1)" and
    address: "to_account_address S = Ok address" and
    rpc: "rpc_client E c s1 = (Ok rpc, s2)" and
    begin_tx: "begin_transaction E s2 = (Ok (), s3)" and
    send: "msg_token_send E S rpc c amount d (?to address) memo rid s3 = (Ok (tx, c'), s4)" and
    bs: "encode E (P_Tx_Raw tx) = Inr bs" and
    response: "broadcast_tx_commit E rpc bs s4 = (Ok response, s5)" and
    success: "ensure_response_success response = Ok hash" and
    commit: "commit_transaction E ''unable to commit transaction for sending tokens over IBC'' s5
       = (Ok (), s6)" and
    op: "add_operation E Pool rid (?to address) d amount (Mint cid) hash s6 = (Ok (), s7)" and
    notify: "notify_event E (TokensMinted cid rid (?to address) amount d hash) s7 = (Ok (), s8)" and
    t: "t = s8\<lparr>w_tx := None\<rparr>"
    unfolding mint_def Let_def scoped_Ok_iff run_Ok_iffs
    by (auto simp: run_Ok_iffs split: if_splits)
  obtain raw where raw: "chains (w_db s) (chain_str cid) = Some raw"
      "chain_of_raw (node_format E) raw = Ok c"
    and s1: "w_db s1 = w_db s" "w_log s1 = w_log s" and id: "chain_str (c_id c) = chain_str cid"
    by (rule known_chain_Ok [OF chain]) (use keyed in \<open>auto simp: unchanged_def keyed_def\<close>)
  have s3: "view Tx s3 = w_db s" "w_log s3 = w_log s"
    using begin_tx s1 rpc_client_Ok [OF rpc] by (auto simp: begin_transaction_Ok_iff)
  obtain p data pf sender raw' ts where
    packet: "commitment_bytes E p = Ok data" "pk_sequence p = ucast (packet_sequence c)"
    and sender: "to_account_address S = Ok sender"
    and said: "said E rid (packet_sign_bytes c p data) MSG_RECV_PACKET_URL (P_Recv_Packet
       \<lparr>mrp_packet = Some p, mrp_proof_commitment = pf,
        mrp_proof_height = Some (Height 0 (ucast (sequence c))), mrp_signer = sender\<rparr>) memo tx s3 s4"
    and json: "json_to_vec E (token_transfer_packet_data (ident_str d) (u256_to_string amount) sender
       (?to address) memo) = Inr (pk_data p)"
    and s4: "chains (view Tx s3) (chain_str (c_id c)) = Some raw'"
      "view Tx s4 = set_chain (chain_str (c_id c)) (raw'\<lparr>raw_sequence := raw_sequence raw' + 1,
         raw_packet_sequence := raw_packet_sequence raw' + 1, raw_updated_at := ts\<rparr>) (view Tx s3)"
    by (rule msg_token_send_Ok [OF send]) (use keyed s3 in simp_all)
  have v4: "view Tx s4 = set_chain (chain_str cid) (mint_advance raw ts) (w_db s)"
    using s4 raw(1) by (simp add: id s3 mint_advance_def)
  have s6: "w_db s6 = view Tx s4" "w_log s6 = w_log s4 @ [A_Broadcast rpc bs, A_Commit]"
    using response commit by (auto simp: broadcast_Ok_iff commit_transaction_Ok_iff)
  obtain ts2 where s7: "w_db s7 = record_operation
      (new_operation (w_db s6) ts2 rid (?to address) d amount (Mint cid) hash) (w_db s6)"
      "w_log s7 = w_log s6"
    by (rule add_operation_record [OF op])
  have new: "new_operation (w_db s6) = new_operation (w_db s)"
    by (simp add: fun_eq_iff new_operation_def s6(1) v4)
  obtain sb doc where sb: "encode E (P_Sign_Bytes (packet_sign_bytes c p data)) = Inr sb"
    and log4: "w_log s4 = w_log s @ [A_Sign rid (SignBytes sb), A_Sign rid (SignDoc doc)]"
    using said s3(2) by (auto simp: said_def)
  have rpc_eq: "rpc = rpc_addr (config c)" and same: "sender = address"
    using rpc_client_Ok [OF rpc] sender address by simp_all
  have to_eq: "?to address = ?to sender"
    by (simp only: same)
  show thesis
  proof (rule that [of raw c sender "?to address" p data tx pf bs response ts2 ts])
    show "\<exists>sb doc. encode E (P_Sign_Bytes (packet_sign_bytes c p data)) = Inr sb \<and>
       w_log t = w_log s @ [A_Sign rid (SignBytes sb), A_Sign rid (SignDoc doc),
         A_Broadcast (rpc_addr (config c)) bs, A_Commit] @
         (if notifier E then [A_Notify (TokensMinted cid rid (?to address) amount d hash)] else [])"
      using sb log4 s6(2) s7(2) notify_event_Ok(3) [OF notify] t rpc_eq by auto
  qed (use raw packet sender same said json bs success notify_event_Ok(1) [OF notify] t s6(1) s7(1) v4
      new to_eq in \<open>simp_all add: said_def ensure_response_success_Ok\<close>)
qed

section \<open>Acknowledging packets\<close>

text \<open>Whether a packet belongs to the channel of the chain.\<close>

definition on_channel :: "chain \<Rightarrow> channel_id \<Rightarrow> channel_id \<Rightarrow> packet \<Rightarrow> bool" where
  "on_channel c smn tmn p \<longleftrightarrow>
     pk_source_port p = port_str (port_id (config c)) \<and> pk_source_channel p = channel_str smn \<and>
     pk_destination_port p = port_str (port_id (config c)) \<and>
     pk_destination_channel p = channel_str tmn"

text \<open>
  The world after a packet was answered, whatever the chain made of the answer: the
  acknowledgement was signed with the sequence \<open>c\<close> had, sent, and the advanced sequence was
  committed.
\<close>

definition answered ::
    "env \<Rightarrow> chain \<Rightarrow> string \<Rightarrow> string \<Rightarrow> string option \<Rightarrow> packet \<Rightarrow> chain \<Rightarrow> world \<Rightarrow> world \<Rightarrow> bool" where
  "answered E c rpc memo rid p c' s t \<longleftrightarrow>
     (\<exists>raw ts channel ack m tx bs sb doc.
        chains (w_db s) (chain_str (c_id c)) = Some raw \<and>
        w_db t = set_chain (chain_str (c_id c)) (next_raw raw ts) (w_db s) \<and>
        chain_of_raw (node_format E) (next_raw raw ts) = Ok c' \<and>
        json_to_vec E acknowledgement_json = Inr ack \<and>
        encode E (P_Sign_Bytes (object_sign_bytes c
          (Packet_Acknowledgement (port_id (config c)) channel (pk_sequence p)) (sha256 E ack)))
          = Inr sb \<and>
        ma_packet m = Some p \<and> ma_proof_height m = Some (Height 0 (ucast (sequence c))) \<and>
        delivers E tx MSG_ACKNOWLEDGEMENT_URL (P_Acknowledgement m) memo \<and>
        encode E (P_Tx_Raw tx) = Inr bs \<and>
        w_log t = w_log s @ [A_Sign rid (SignBytes sb), A_Sign rid (SignDoc doc),
          A_Broadcast rpc bs, A_Commit])"

lemma answered_intro:
  assumes begin_tx: "begin_transaction E s = (Ok (), s1)"
    and msg: "msg_token_receive_ack E Tx S c p memo rid s1 = (Ok (tx, c'), s2)"
    and bs: "encode E (P_Tx_Raw tx) = Inr bs"
    and response: "broadcast_tx_commit E rpc bs s2 = (Ok response, s3)"
    and commit: "commit_transaction E ctx s3 = (Ok (), t)"
  shows "answered E c rpc memo rid p c' s t"
proof -
  have s1: "view Tx s1 = w_db s" "w_log s1 = w_log s"
    using begin_tx by (auto simp: begin_transaction_Ok_iff)
  obtain details channel ack m where
    ack: "json_to_vec E acknowledgement_json = Inr ack" and
    said: "said E rid (object_sign_bytes c
       (Packet_Acknowledgement (port_id (config c)) channel (pk_sequence p)) (sha256 E ack))
       MSG_ACKNOWLEDGEMENT_URL (P_Acknowledgement m) memo tx s1 s2" and
    m: "ma_packet m = Some p" "ma_proof_height m = Some (Height 0 (ucast (sequence c)))" and
    adv: "advanced E (chain_str (c_id c)) s1 s2 c'"
    by (rule msg_token_receive_ack_Ok [OF msg])
  have t: "w_db t = view Tx s2" "w_log t = w_log s2 @ [A_Broadcast rpc bs, A_Commit]"
    using response commit by (auto simp: broadcast_Ok_iff commit_transaction_Ok_iff)
  obtain raw ts where raw: "chains (w_db s) (chain_str (c_id c)) = Some raw"
    "w_db t = set_chain (chain_str (c_id c)) (next_raw raw ts) (w_db s)"
    "chain_of_raw (node_format E) (next_raw raw ts) = Ok c'"
    using adv by (auto simp: advanced_def s1 t)
  obtain sb doc where sb: "encode E (P_Sign_Bytes (object_sign_bytes c
          (Packet_Acknowledgement (port_id (config c)) channel (pk_sequence p)) (sha256 E ack)))
          = Inr sb"
    "w_log t = w_log s @ [A_Sign rid (SignBytes sb), A_Sign rid (SignDoc doc), A_Broadcast rpc bs,
       A_Commit]"
    "delivers E tx MSG_ACKNOWLEDGEMENT_URL (P_Acknowledgement m) memo"
    using said by (auto simp: said_def s1 t)
  show ?thesis
    unfolding answered_def using raw ack sb(1) m sb(3) bs sb(2) by blast
qed

lemma process_packet_Ok:
  assumes run: "process_packet E S rpc smn tmn memo rid p c s = (Ok c', t)"
  shows "answered E c rpc memo rid p c' s t" "on_channel c smn tmn p" "w_tx t = None"
proof -
  from run obtain s1 s2 tx bs response s3 s4 where
    begin_tx: "begin_transaction E s = (Ok (), s1)" and
    msg: "msg_token_receive_ack E Tx S c p memo rid s1 = (Ok (tx, c'), s2)" and
    bs: "encode E (P_Tx_Raw tx) = Inr bs" and
    response: "broadcast_tx_commit E rpc bs s2 = (Ok response, s3)" and
    commit: "commit_transaction E ''unable to commit transaction for processing IBC packets'' s3
       = (Ok (), s4)" and
    t: "t = s4\<lparr>w_tx := None\<rparr>" and channel: "on_channel c smn tmn p"
    unfolding process_packet_def scoped_Ok_iff run_Ok_iffs on_channel_def
    by (auto simp: run_Ok_iffs)
  show "answered E c rpc memo rid p c' s t"
    using answered_intro [OF begin_tx msg bs response commit] by (simp add: t answered_def)
  show "on_channel c smn tmn p" "w_tx t = None"
    using channel by (simp_all add: t)
qed

text \<open>The packets of a list are answered one after another, each with the next sequence.\<close>

inductive answered_all ::
    "env \<Rightarrow> string \<Rightarrow> string \<Rightarrow> string option \<Rightarrow> packet list \<Rightarrow> chain \<Rightarrow> world \<Rightarrow> chain \<Rightarrow> world \<Rightarrow> bool"
  for E rpc memo rid where
  answered_none: "answered_all E rpc memo rid [] c s c s"
| answered_next:
    "answered E c rpc memo rid p c' s t \<Longrightarrow> answered_all E rpc memo rid ps c' t c'' u \<Longrightarrow>
     answered_all E rpc memo rid (p # ps) c s c'' u"

lemma fold_process_packet_Ok:
  "fold_each (process_packet E S rpc smn tmn memo rid) ps c s = (Ok c', t) \<Longrightarrow>
     answered_all E rpc memo rid ps c s c' t \<and> (ps \<noteq> [] \<longrightarrow> w_tx t = None)"
proof (induction ps arbitrary: c s)
  case (Cons p ps)
  then obtain c1 s1 where first: "process_packet E S rpc smn tmn memo rid p c s = (Ok c1, s1)"
    and rest: "fold_each (process_packet E S rpc smn tmn memo rid) ps c1 s1 = (Ok c', t)"
    by (auto simp: run_Ok_iffs)
  from Cons.IH [OF rest] process_packet_Ok [OF first] rest show ?case
    by (cases "ps = []") (auto intro: answered_next simp: run_Ok_iffs)
qed (auto simp: run_Ok_iffs intro: answered_none)

text \<open>After \<open>n\<close> answers the sequence of the chain is \<open>n\<close> higher and nothing else has changed.\<close>

lemma answered_all_row:
  assumes "answered_all E rpc memo rid ps c s c' t" "chains (w_db s) k = Some raw"
    "k = chain_str (c_id c)" "raw_id raw = k"
  shows "\<exists>ts. w_db t = (if ps = [] then w_db s
      else set_chain k (raw\<lparr>raw_sequence := raw_sequence raw + int (length ps),
        raw_updated_at := ts\<rparr>) (w_db s))"
  using assms
proof (induction arbitrary: raw rule: answered_all.induct)
  case (answered_next c p c' s t ps c'' u)
  from answered_next.hyps(1) answered_next.prems(1,2) obtain ts where
    t: "w_db t = set_chain k (next_raw raw ts) (w_db s)"
    and c': "chain_of_raw (node_format E) (next_raw raw ts) = Ok c'"
    by (auto simp: answered_def)
  have k: "k = chain_str (c_id c')"
    using chain_of_raw_id [OF c'] answered_next.prems(3) by simp
  obtain ts' where u: "w_db u = (if ps = [] then w_db t
      else set_chain k ((next_raw raw ts)\<lparr>raw_sequence := raw_sequence (next_raw raw ts)
        + int (length ps), raw_updated_at := ts'\<rparr>) (w_db t))"
    using answered_next.IH [of "next_raw raw ts"] t k answered_next.prems(3) by auto
  show ?case
  proof (cases "ps = []")
    case True
    then show ?thesis
      using u t by (auto simp: next_raw_def)
  next
    case False
    have "w_db u = set_chain k (raw\<lparr>raw_sequence := raw_sequence raw + int (length (p # ps)),
        raw_updated_at := ts'\<rparr>) (w_db s)"
      using u False t by (simp add: next_raw_def add.assoc)
    then show ?thesis
      by auto
  qed
qed simp

section \<open>Outcomes that are not successes\<close>

text \<open>The part of answering a packet up to and including its commit.\<close>

definition answer_packet ::
    "env \<Rightarrow> signer \<Rightarrow> string \<Rightarrow> channel_id \<Rightarrow> channel_id \<Rightarrow> string \<Rightarrow> string option \<Rightarrow> packet \<Rightarrow>
     chain \<Rightarrow> (tx_response \<times> chain) run" where
  "answer_packet E S rpc smn tmn memo request_id p c =
     bindM (lift (ensure (port_str (port_id (config c)) = pk_source_port p)
       ''invalid source port id'')) (\<lambda>_.
     bindM (lift (ensure (channel_str smn = pk_source_channel p) ''invalid source channel id'')) (\<lambda>_.
     bindM (lift (ensure (port_str (port_id (config c)) = pk_destination_port p)
       ''invalid destination port id'')) (\<lambda>_.
     bindM (lift (ensure (channel_str tmn = pk_destination_channel p)
       ''invalid destination channel id'')) (\<lambda>_.
     bindM (begin_transaction E) (\<lambda>_.
     bindM (msg_token_receive_ack E Tx S c p memo request_id) (\<lambda>(msg, c).
     bindM (lift (proto_encode E (P_Tx_Raw msg))) (\<lambda>bs.
     bindM (broadcast_tx_commit E rpc bs) (\<lambda>response.
     bindM (commit_transaction E ''unable to commit transaction for processing IBC packets'') (\<lambda>_.
     returnM (response, c))))))))))"

lemma process_packet_split:
  "process_packet E S rpc smn tmn memo rid p c =
     scoped (bindM (answer_packet E S rpc smn tmn memo rid p c) (\<lambda>(response, c).
       bindM (lift (ensure_response_success response)) (\<lambda>_. returnM c)))"
  by (simp add: process_packet_def answer_packet_def bindM_assoc bindM_case_prod)

lemma atomic_answer_packet: "atomic (answer_packet E S rpc smn tmn memo rid p c)"
  unfolding answer_packet_def
  by (intro atomic_intros keeps_intros | rule keeps_same_db_of_unchanged)+

lemma answer_packet_Ok:
  assumes "answer_packet E S rpc smn tmn memo rid p c s = (Ok (response, c'), t)"
  shows "answered E c rpc memo rid p c' s t"
  using assms unfolding answer_packet_def run_Ok_iffs
  by (auto simp: run_Ok_iffs elim: answered_intro)

text \<open>
  A packet that is not answered leaves the database alone; once the answer is sent the advanced
  sequence is committed, also when the chain refuses the answer.
\<close>

lemma process_packet_cases:
  assumes run: "process_packet E S rpc smn tmn memo rid p c s = (r, t)"
  shows "w_db t = w_db s \<or> (\<exists>c'. answered E c rpc memo rid p c' s t)"
proof (cases "answer_packet E S rpc smn tmn memo rid p c s")
  case (Pair r1 u)
  show ?thesis
  proof (cases "is_ok r1")
    case True
    then obtain response c' where r1: "r1 = Ok (response, c')"
      by (cases r1) auto
    have "w_db t = w_db u" "w_log t = w_log u"
      using run Pair r1 unfolding process_packet_split scoped_def
      by (auto simp: bindM_def lift_def returnM_def split: outcome.splits)
    with answer_packet_Ok [OF Pair [unfolded r1]] have "answered E c rpc memo rid p c' s t"
      by (simp add: answered_def)
    then show ?thesis
      by blast
  next
    case False
    have "w_db t = w_db u"
      using run Pair False unfolding process_packet_split scoped_def
      by (cases r1) (auto simp: bindM_def)
    with atomicD [OF atomic_answer_packet Pair False] show ?thesis
      by simp
  qed
qed

text \<open>The sending part of minting: everything up to and including its commit.\<close>

definition send_tokens ::
    "env \<Rightarrow> signer \<Rightarrow> chain_id \<Rightarrow> string option \<Rightarrow> u256 \<Rightarrow> ident \<Rightarrow> string option \<Rightarrow> string \<Rightarrow>
     (string \<times> tx_response \<times> string) run" where
  "send_tokens E S cid request_id amount d receiver memo =
     bindM (known_chain E Pool cid) (\<lambda>c.
     bindM (lift (to_account_address S)) (\<lambda>address.
     let receiver = (case receiver of Some r \<Rightarrow> r | None \<Rightarrow> address) in
     bindM (rpc_client E c) (\<lambda>rpc.
     bindM (begin_transaction E) (\<lambda>_.
     bindM (msg_token_send E S rpc c amount d receiver memo request_id) (\<lambda>(msg, c).
     bindM (lift (proto_encode E (P_Tx_Raw msg))) (\<lambda>bs.
     bindM (broadcast_tx_commit E rpc bs) (\<lambda>response.
     bindM (lift (ensure_response_success response)) (\<lambda>transaction_hash.
     bindM (commit_transaction E ''unable to commit transaction for sending tokens over IBC'') (\<lambda>_.
     returnM (receiver, response, transaction_hash))))))))))"

definition record_mint ::
    "env \<Rightarrow> chain_id \<Rightarrow> string option \<Rightarrow> u256 \<Rightarrow> ident \<Rightarrow> string \<Rightarrow> tx_response \<Rightarrow> string \<Rightarrow> string run" where
  "record_mint E cid request_id amount d receiver response transaction_hash =
     bindM (lift (extract_attribute E (tx_events response) ''fungible_token_packet'' ''success''))
       (\<lambda>v.
     bindM (lift (parse_bool v)) (\<lambda>success.
     if success then
       bindM (add_operation E Pool request_id receiver d amount (Mint cid) transaction_hash) (\<lambda>_.
       bindM (notify_event E (TokensMinted cid request_id receiver amount d transaction_hash)) (\<lambda>_.
       returnM transaction_hash))
     else
       bindM (lift (extract_attribute E (tx_events response) ''write_acknowledgement''
         ''packet_ack_hex'')) (\<lambda>hex.
       bindM (lift (external (hex_decode E hex))) (\<lambda>data.
       bindM (lift (from_utf8 data)) (\<lambda>error.
       lift (bail (''Failed to mint tokens on IBC enabled chain: '' @ error)))))))"

lemma mint_split:
  "mint E S cid rid amount d receiver memo =
     scoped (bindM (send_tokens E S cid rid amount d receiver memo)
       (\<lambda>(to, response, hash). record_mint E cid rid amount d to response hash))"
  by (simp add: mint_def send_tokens_def record_mint_def bindM_assoc bindM_case_prod Let_def)

lemma atomic_send_tokens: "atomic (send_tokens E S cid rid amount d receiver memo)"
  unfolding send_tokens_def Let_def
  by (intro atomic_intros keeps_intros | rule keeps_same_db_of_unchanged)+

lemma send_tokens_Ok:
  assumes run: "send_tokens E S cid rid amount d receiver memo s = (Ok (to, response, hash), t)"
    and keyed: "keyed (w_db s)"
  obtains raw ts where "chains (w_db s) (chain_str cid) = Some raw"
    "w_db t = set_chain (chain_str cid) (mint_advance raw ts) (w_db s)"
    "accepts E" "\<exists>c. chain_of_raw (node_format E) (mint_advance raw ts) = Ok c"
    "\<exists>details. raw_connection_details raw = Some details \<and> solo_machine_channel_id details \<noteq> None \<and>
       tendermint_channel_id details \<noteq> None"
proof -
  from run obtain c rpc s1 s2 s3 tx c' s4 bs s5 where
    chain: "known_chain E Pool cid s = (Ok c, s1)" and
    rpc: "rpc_client E c s1 = (Ok rpc, s2)" and
    begin_tx: "begin_transaction E s2 = (Ok (), s3)" and
    send: "msg_token_send E S rpc c amount d to memo rid s3 = (Ok (tx, c'), s4)" and
    response: "broadcast_tx_commit E rpc bs s4 = (Ok response, s5)" and
    success: "ensure_response_success response = Ok hash" and
    commit: "commit_transaction E ''unable to commit transaction for sending tokens over IBC'' s5
       = (Ok (), t)"
    unfolding send_tokens_def Let_def run_Ok_iffs by (auto simp: run_Ok_iffs)
  obtain raw where raw: "chains (w_db s) (chain_str cid) = Some raw"
    and c: "chain_of_raw (node_format E) raw = Ok c"
    and s1: "w_db s1 = w_db s" and id: "chain_str (c_id c) = chain_str cid"
    by (rule known_chain_Ok [OF chain]) (use keyed in \<open>auto simp: unchanged_def keyed_def\<close>)
  have s3: "view Tx s3 = w_db s"
    using begin_tx s1 rpc_client_Ok [OF rpc] by (auto simp: begin_transaction_Ok_iff)
  obtain raw' ts where s4: "chains (view Tx s3) (chain_str (c_id c)) = Some raw'"
      "view Tx s4 = set_chain (chain_str (c_id c)) (raw'\<lparr>raw_sequence := raw_sequence raw' + 1,
         raw_packet_sequence := raw_packet_sequence raw' + 1, raw_updated_at := ts\<rparr>) (view Tx s3)"
    and c': "chain_of_raw (node_format E) (raw'\<lparr>raw_sequence := raw_sequence raw' + 1,
         raw_packet_sequence := raw_packet_sequence raw' + 1, raw_updated_at := ts\<rparr>) = Ok c'"
    and details: "\<exists>details. connection_details c = Some details \<and>
       solo_machine_channel_id details \<noteq> None \<and> tendermint_channel_id details \<noteq> None"
    by (rule msg_token_send_Ok [OF send]) (use keyed s3 in simp_all)
  have raw': "raw' = raw"
    using s4(1) raw by (simp add: s3 id)
  have "w_db t = view Tx s4"
    using response commit by (auto simp: broadcast_Ok_iff commit_transaction_Ok_iff)
  with s4(2) have db: "w_db t = set_chain (chain_str cid) (mint_advance raw ts) (w_db s)"
    by (simp add: id s3 mint_advance_def raw')
  have "\<exists>c. chain_of_raw (node_format E) (mint_advance raw ts) = Ok c"
    using c' by (auto simp: mint_advance_def raw')
  moreover have "raw_connection_details raw = connection_details c"
    using c by (simp add: chain_of_raw_Ok_iff)
  ultimately show thesis
    using that [OF raw db accepted [OF response success]] details by simp
qed

section \<open>Burning\<close>

lemma fold_process_packet_cases:
  "fold_each (process_packet E S rpc smn tmn memo rid) ps c s = (r, t) \<Longrightarrow>
     \<exists>n c' u. n \<le> length ps \<and> answered_all E rpc memo rid (take n ps) c s c' u \<and> w_db u = w_db t"
proof (induction ps arbitrary: c s)
  case (Cons p ps)
  obtain r1 s1 where first: "process_packet E S rpc smn tmn memo rid p c s = (r1, s1)"
    by (cases "process_packet E S rpc smn tmn memo rid p c s")
  show ?case
  proof (cases "is_ok r1")
    case True
    then obtain c1 where r1: "r1 = Ok c1"
      by (cases r1) auto
    with Cons.prems first have "fold_each (process_packet E S rpc smn tmn memo rid) ps c1 s1 = (r, t)"
      by (simp add: bindM_def)
    from Cons.IH [OF this] obtain n c' u where n: "n \<le> length ps"
      "answered_all E rpc memo rid (take n ps) c1 s1 c' u" "w_db u = w_db t"
      by blast
    with process_packet_Ok(1) [OF first [unfolded r1]]
    have "answered_all E rpc memo rid (take (Suc n) (p # ps)) c s c' u"
      by (auto intro: answered_next)
    with n show ?thesis
      by (intro exI [of _ "Suc n"]) auto
  next
    case False
    with Cons.prems first have t: "s1 = t"
      by (cases r1) (auto simp: bindM_def)
    from process_packet_cases [OF first] show ?thesis
    proof
      assume "w_db s1 = w_db s"
      with t show ?thesis
        by (intro exI [of _ 0] exI [of _ c] exI [of _ s]) (simp add: answered_none)
    next
      assume "\<exists>c'. answered E c rpc memo rid p c' s s1"
      then obtain c' where "answered E c rpc memo rid p c' s s1" ..
      with t show ?thesis
        by (intro exI [of _ 1] exI [of _ c'] exI [of _ s1])
          (auto intro: answered_next answered_none)
    qed
  qed
qed (auto simp: returnM_def intro: answered_none)

text \<open>Whatever its outcome, processing packets only raises the sequence, once per answer.\<close>

lemma process_packets_row:
  assumes run: "process_packets E S rpc c ps memo rid s = (r, t)"
    and raw: "chains (w_db s) (chain_str (c_id c)) = Some raw" "raw_id raw = chain_str (c_id c)"
  obtains n ts where "n \<le> length ps"
    "w_db t = (if n = 0 then w_db s else set_chain (chain_str (c_id c))
       (raw\<lparr>raw_sequence := raw_sequence raw + int n, raw_updated_at := ts\<rparr>) (w_db s))"
proof -
  have "w_db t = w_db s \<or> (\<exists>smn tmn.
      fold_each (process_packet E S rpc smn tmn memo rid) ps c s = (r, t))"
  proof (cases "connection_details c")
    case None
    with run show ?thesis
      by (auto simp: process_packets_def lift_def)
  next
    case (Some details)
    with run show ?thesis
      by (cases "tendermint_channel_id details"; cases "solo_machine_channel_id details")
        (auto simp: process_packets_def lift_def)
  qed
  then show thesis
  proof
    assume "w_db t = w_db s"
    with that [of 0] show thesis
      by simp
  next
    assume "\<exists>smn tmn. fold_each (process_packet E S rpc smn tmn memo rid) ps c s = (r, t)"
    then obtain n c' u where n: "n \<le> length ps"
      "answered_all E rpc memo rid (take n ps) c s c' u" "w_db u = w_db t"
      using fold_process_packet_cases by blast
    have len: "int (length (take n ps)) = int n" "take n ps = [] \<longleftrightarrow> n = 0"
      using n(1) by auto
    from answered_all_row [OF n(2) raw(1) refl raw(2)] obtain ts where
      "w_db t = (if n = 0 then w_db s else set_chain (chain_str (c_id c))
         (raw\<lparr>raw_sequence := raw_sequence raw + int n, raw_updated_at := ts\<rparr>) (w_db s))"
      unfolding len n(3) by blast
    then show thesis
      by (rule that [OF n(1)])
  qed
qed

lemma burn_Ok:
  assumes run: "burn E S cid rid amount d memo s = (Ok hash, t)" and keyed: "keyed (w_db s)"
  obtains raw address ts n ts2 where
    "chains (w_db s) (chain_str cid) = Some raw" "to_account_address S = Ok address"
    "operations (w_db t) = operations (w_db s) @
       [new_operation (w_db s) ts rid address d amount (Burn cid) hash]"
    "chains (w_db t) = (if n = 0 then chains (w_db s) else (chains (w_db s))(chain_str cid \<mapsto>
       raw\<lparr>raw_sequence := raw_sequence raw + int n, raw_updated_at := ts2\<rparr>))"
    "ibc_data (w_db t) = ibc_data (w_db s)" "chain_keys (w_db t) = chain_keys (w_db s)"
proof -
  from run obtain c s1 rpc s2 address msg s3 bs response s4 s5 s6 packets processed s7 s8 where
    chain: "known_chain E Pool cid s = (Ok c, s1)" and
    rpc: "rpc_client E c s1 = (Ok rpc, s2)" and
    address: "to_account_address S = Ok address" and
    msg: "msg_token_receive E S c amount d address memo rid s2 = (Ok msg, s3)" and
    response: "broadcast_tx_commit E rpc bs s3 = (Ok response, s4)" and
    op: "add_operation E Pool rid address d amount (Burn cid) hash s4 = (Ok (), s5)" and
    notify: "notify_event E (TokensBurnt cid rid address amount d hash) s5 = (Ok (), s6)" and
    packets: "catchM (process_packets E S rpc c packets memo rid) s6 = (Ok processed, s7)" and
    warning: "(case processed of Inl e \<Rightarrow> notify_event E (Event_Warning (error_to_string e))
        | Inr _ \<Rightarrow> returnM ()) s7 = (Ok (), t)"
    unfolding burn_def run_Ok_iffs by auto
  obtain raw where raw: "chains (w_db s) (chain_str cid) = Some raw"
    and s1: "w_db s1 = w_db s" and id: "chain_str (c_id c) = chain_str cid"
    by (rule known_chain_Ok [OF chain]) (use keyed in \<open>auto simp: unchanged_def keyed_def\<close>)
  have "unchanged s2 s3"
    by (rule keepsD [OF keeps_builders(8) msg])
  with response s1 rpc_client_Ok [OF rpc] have s4: "w_db s4 = w_db s"
    by (auto simp: unchanged_def broadcast_Ok_iff)
  obtain ts where s5: "w_db s5 = record_operation
      (new_operation (w_db s4) ts rid address d amount (Burn cid) hash) (w_db s4)"
    by (rule add_operation_record [OF op])
  have s6: "w_db s6 = w_db s5"
    by (rule notify_event_Ok(1) [OF notify])
  obtain r where r: "process_packets E S rpc c packets memo rid s6 = (r, s7)"
    using packets by (auto simp: catchM_Ok_iff split: sum.splits)
  have row: "chains (w_db s6) (chain_str (c_id c)) = Some raw" "raw_id raw = chain_str (c_id c)"
    using raw keyed by (auto simp: s4 s5 s6 id keyed_def)
  obtain n ts2 where s7: "w_db s7 = (if n = 0 then w_db s6 else set_chain (chain_str (c_id c))
       (raw\<lparr>raw_sequence := raw_sequence raw + int n, raw_updated_at := ts2\<rparr>) (w_db s6))"
    by (rule process_packets_row [OF r row])
  have t: "w_db t = w_db s7"
    using warning by (auto simp: returnM_Ok_iff split: sum.splits dest: notify_event_Ok(1))
  show thesis
    by (rule that [OF raw address, of ts n ts2]) (simp_all add: t s7 s6 s5 s4 id)
qed

end
