(* ===== verification/Connect_Effects.thy ===== *)
theory Connect_Effects
  imports Transfer_Effects
begin

text \<open>
  The handshakes: what connecting writes, signs and leaves behind, and why closing a channel
  does not succeed.
\<close>

section \<open>Proofs given\<close>

text \<open>The sign bytes the signer was given so far, in order.\<close>

fun proof_of :: "action \<Rightarrow> (string option \<times> bytes) option" where
  "proof_of (A_Sign rid (SignBytes bs)) = Some (rid, bs)"
| "proof_of _ = None"

definition proofs :: "world \<Rightarrow> (string option \<times> bytes) list" where
  "proofs w = List.map_filter proof_of (w_log w)"

definition same_proofs :: "world \<Rightarrow> world \<Rightarrow> bool" where
  "same_proofs s t \<longleftrightarrow> proofs t = proofs s"

interpretation proofs_frame: frame_relation same_proofs
  by unfold_locales (auto simp: same_proofs_def)

lemma map_filter_append [simp]:
  "List.map_filter f (xs @ ys) = List.map_filter f xs @ List.map_filter f ys"
  by (induction xs) (auto simp: map_filter_simps split: option.splits)

lemma proofs_log: "w_log t = w_log s @ l \<Longrightarrow> proofs t = proofs s @ List.map_filter proof_of l"
  by (simp add: proofs_def)

lemma keeps_proofs_steps [keeps_intros]:
  "keeps same_proofs next_tick"
  "proof_of a = None \<Longrightarrow> keeps same_proofs (emit a)"
  "keeps same_proofs (query_sql E ex q)"
  by (auto simp: keeps_def same_proofs_def proofs_def query_sql_def Let_def map_filter_simps
      split: option.splits)

lemma keeps_proofs_run_sql [keeps_intros]: "keeps same_proofs (run_sql E ex stmt)"
  by (cases ex) (auto simp: keeps_def same_proofs_def proofs_def run_sql_def Let_def
      split: option.splits sum.splits)

lemma keeps_proofs_call [keeps_intros]: "keeps same_proofs (call f)"
  unfolding call_def by (intro keeps_intros)

lemma keeps_proofs_notify [keeps_intros]: "keeps same_proofs (notify_event E ev)"
  unfolding notify_event_def by (intro keeps_intros) simp

lemma keeps_proofs_broadcast [keeps_intros]: "keeps same_proofs (broadcast_tx_commit E addr bs)"
  unfolding broadcast_tx_commit_def by (intro keeps_intros) simp

lemma keeps_proofs_sign_doc [keeps_intros]: "keeps same_proofs (signer_sign S rid (SignDoc bs))"
  unfolding signer_sign_def by (intro keeps_intros) simp

lemma keeps_proofs_get [keeps_intros]: "keeps same_proofs (Ibc_Store.get E ex decode path)"
  unfolding get_def by (intro keeps_intros)

lemma keeps_proofs_build [keeps_intros]:
  "keeps same_proofs (build E to_any S c messages memo rid)"
  unfolding build_def get_account_details_def build_signature_def Let_def
  by (intro keeps_intros)

lemma keeps_proofs_stores [keeps_intros]:
  "keeps same_proofs (Ibc_Store.add E ex path data)"
  "keeps same_proofs (Ibc_Store.update E ex path data)"
  "keeps same_proofs (get_connection E ex k)"
  "keeps same_proofs (get_channel E ex p n)"
  "keeps same_proofs (add_connection_details E ex cid details)"
  "keeps same_proofs (get_chain E ex cid)"
  unfolding add_def update_def ibc_object_defs add_connection_details_def get_chain_def Let_def
  by (intro keeps_intros)+

lemma keeps_proofs_object_writes [keeps_intros]:
  "keeps same_proofs (add_tendermint_client_state E ex c cs)"
  "keeps same_proofs (add_tendermint_consensus_state E ex c h con)"
  "keeps same_proofs (add_connection E ex k conn)"
  "keeps same_proofs (update_connection E ex k conn)"
  "keeps same_proofs (add_channel E ex p n chan)"
  "keeps same_proofs (update_channel E ex p n chan)"
  unfolding ibc_object_defs Let_def by (intro keeps_intros)+

lemma keeps_proofs_inits [keeps_intros]:
  "keeps same_proofs (prepare_light_client E c rpc)"
  "keeps same_proofs (create_solo_machine_client E S rpc c memo rid)"
  "keeps same_proofs (connection_open_init E S rpc c smc tmc memo rid)"
  "keeps same_proofs (channel_open_init E S rpc c smk memo rid)"
  unfolding prepare_light_client_def create_solo_machine_client_def connection_open_init_def
    channel_open_init_def msg_create_solo_machine_client_def msg_connection_open_init_def
    msg_channel_open_init_def Let_def
  by (intro keeps_intros)+

lemma keeps_proofs_tries [keeps_intros]:
  "keeps same_proofs (create_tendermint_client E lc c)"
  "keeps same_proofs (connection_open_try E ex tmc smc smk)"
  "keeps same_proofs (connection_open_confirm E k)"
  "keeps same_proofs (channel_open_try E ex p smn tmk)"
  "keeps same_proofs (channel_open_confirm E p n)"
  unfolding create_tendermint_client_def msg_create_tendermint_client_def get_unbonding_period_def
    get_latest_header_def connection_open_try_def connection_open_confirm_def channel_open_try_def
    channel_open_confirm_def Let_def
  by (intro keeps_intros)+

lemma keeps_proofs_phases [keeps_intros]:
  "keeps same_proofs (create_new_client E S memo rid c rpc)"
  "keeps same_proofs (rpc_client E c)"
  "keeps same_proofs (known_chain E ex cid)"
  "keeps same_proofs (connection_status E c)"
  unfolding create_new_client_def rpc_client_def known_chain_def connection_status_def
  by (intro keeps_intros)+

lemma proofs_same: "keeps same_proofs m \<Longrightarrow> m s = (r, t) \<Longrightarrow> proofs t = proofs s"
  using keepsD [of same_proofs m s r t] by (simp add: same_proofs_def)

lemma said_proofs:
  assumes "said E rid sb url msg memo tx s t"
  obtains bs where "encode E (P_Sign_Bytes sb) = Inr bs" "proofs t = proofs s @ [(rid, bs)]"
  using assms by (auto simp: said_def proofs_def map_filter_simps)

section \<open>The phases of connecting\<close>

text \<open>What is relied on: a decoder of a stored object undoes the encoder.\<close>

definition ibc_codec_laws :: "'x libs_scheme \<Rightarrow> bool" where
  "ibc_codec_laws L \<longleftrightarrow>
     (\<forall>m bs. encode L (P_Connection_End m) = Inr bs \<longrightarrow> decode_connection L bs = Inr m) \<and>
     (\<forall>m bs. encode L (P_Channel m) = Inr bs \<longrightarrow> decode_channel L bs = Inr m)"

lemma notify_view: "notify_event E ev s = (Ok u, t) \<Longrightarrow> view ex t = view ex s"
  by (rule keeps_unchanged_view [OF keeps_unchanged_notify])

lemma put_object_twice [simp]: "put_object x b (put_object x a d) = put_object x b d"
  by (simp add: put_object_def)

lemma stored_put_object [simp]: "stored (put_object x bs d) x bs' \<longleftrightarrow> bs' = bs"
  by (auto simp: stored_def)

lemma create_new_client_Ok:
  assumes run: "create_new_client E S memo rid c rpc s = (Ok (smc, tmc), t)"
  obtains h clb csb where
    "view Tx t = put_object (Consensus_State tmc h) csb (put_object (Client_State tmc) clb (view Tx s))"
    "ibc_data (view Tx s) (object_key (Client_State tmc)) = None"
proof -
  from run obtain lc s1 s2 s3 s4 where
    lc: "prepare_light_client E c rpc s = (Ok lc, s1)" and
    sm: "create_solo_machine_client E S rpc c memo rid s1 = (Ok smc, s2)" and
    n1: "notify_event E (CreatedSoloMachineClient smc) s2 = (Ok (), s3)" and
    create: "create_tendermint_client E lc c s3 = (Ok tmc, s4)" and
    n2: "notify_event E (CreatedTendermintClient tmc) s4 = (Ok (), t)"
    unfolding create_new_client_def run_Ok_iffs by auto
  from create obtain cs con s5 n h s6 where
    states: "msg_create_tendermint_client E c lc s3 = (Ok (cs, con), s5)" and
    add1: "add_tendermint_client_state E Tx tmc cs (s5\<lparr>w_ticks := n\<rparr>) = (Ok (), s6)" and
    add2: "add_tendermint_consensus_state E Tx tmc h con s6 = (Ok (), s4)"
    unfolding create_tendermint_client_def run_Ok_iffs by (auto simp: run_Ok_iffs)
  have s3: "view Tx s3 = view Tx s"
    using keeps_unchanged_view [OF keeps_handshake_inits(1) lc]
      keeps_unchanged_view [OF keeps_handshake_inits(2) sm] notify_view [OF n1] by simp
  have s5: "view Tx s5 = view Tx s3"
    by (rule keeps_unchanged_view [OF keeps_msg_create_tendermint_client states])
  from add_object_Ok(1) [OF add1] add_object_Ok(2) [OF add2] notify_view [OF n2, of Tx] that
  show thesis
    by (auto simp: s3 s5)
qed

lemma broadcast_tail_Ok:
  assumes "bindM (lift (proto_encode E m)) (\<lambda>bs. bindM (broadcast_tx_commit E rpc bs) (\<lambda>response.
      bindM (lift (ensure_response_success response)) (\<lambda>_. returnM b))) u = (Ok c', t)"
  shows "c' = b" "view ex t = view ex u" "proofs t = proofs u"
  using assms by (auto simp: run_Ok_iffs broadcast_Ok_iff proofs_def map_filter_simps)

lemma create_connection_Ok:
  assumes run: "create_connection E c S rpc smc tmc memo rid s = (Ok ((smk, tmk), c'), t)"
    and codec: "ibc_codec_laws E"
  obtains raw ts cb bs data where
    "chains (view Tx s) (chain_str (c_id c)) = Some raw"
    "chain_of_raw (node_format E) (next_raw raw ts) = Ok c'"
    "encode E (P_Connection_End (set_connection_state Conn_Open (try_connection tmc smc smk))) = Inr cb"
    "view Tx t = set_chain (chain_str (c_id c)) (next_raw raw ts)
       (put_object (Connection_End tmk) cb (view Tx s))"
    "encode E (P_Connection_End (try_connection tmc smc smk)) = Inr data"
    "encode E (P_Sign_Bytes (object_sign_bytes c (Connection_End tmk) data)) = Inr bs"
    "proofs t = proofs s @ [(rid, bs)]"
proof -
  from run obtain s1 s2 s3 s4 s5 s6 s7 where
    init: "connection_open_init E S rpc c smc tmc memo rid s = (Ok smk, s1)" and
    n1: "notify_event E (InitializedConnectionOnTendermint smk) s1 = (Ok (), s2)" and
    try_step: "connection_open_try E Tx tmc smc smk s2 = (Ok tmk, s3)" and
    n2: "notify_event E (InitializedConnectionOnSoloMachine tmk) s3 = (Ok (), s4)" and
    ack: "connection_open_ack E S rpc c smk tmc tmk memo rid s4 = (Ok c', s5)" and
    n3: "notify_event E (ConfirmedConnectionOnTendermint smk) s5 = (Ok (), s6)" and
    confirm: "connection_open_confirm E tmk s6 = (Ok (), s7)" and
    n4: "notify_event E (ConfirmedConnectionOnSoloMachine tmk) s7 = (Ok (), t)"
    unfolding create_connection_def run_Ok_iffs by auto
  have s2: "view Tx s2 = view Tx s"
    using keeps_unchanged_view [OF keeps_handshake_inits(3) init] notify_view [OF n1] by simp
  from try_step obtain n where
    add: "add_connection E Tx tmk (try_connection tmc smc smk) (s2\<lparr>w_ticks := n\<rparr>) = (Ok (), s3)"
    unfolding connection_open_try_def run_Ok_iffs by auto
  from add_object_Ok(3) [OF add] obtain data where
    data: "encode E (P_Connection_End (try_connection tmc smc smk)) = Inr data"
    and s3: "view Tx s3 = put_object (Connection_End tmk) data (view Tx s)"
    by (auto simp: s2)
  have s4: "view Tx s4 = view Tx s3"
    by (rule notify_view [OF n2])
  from ack obtain tx s8 where
    msg: "msg_connection_open_ack E S c smk tmc tmk memo rid s4 = (Ok (tx, c'), s8)"
    and s5: "view Tx s5 = view Tx s8" "proofs s5 = proofs s8"
    unfolding connection_open_ack_def bindM_Ok_iff [of "msg_connection_open_ack E S c smk tmc tmk memo rid"]
    by (auto dest: broadcast_tail_Ok(1) broadcast_tail_Ok(2) [where ex = Tx] broadcast_tail_Ok(3))
  obtain data' m bs' conn where
    stored: "stored (view Tx s4) (Connection_End tmk) bs'" "decode_connection E bs' = Inr conn"
      "encode E (P_Connection_End conn) = Inr data'" and
    said: "said E rid (object_sign_bytes c (Connection_End tmk) data') MSG_CONNECTION_OPEN_ACK_URL
       (P_Connection_Open_Ack m) memo tx s4 s8" and
    adv: "advanced E (chain_str (c_id c)) s4 s8 c'"
    by (rule msg_connection_open_ack_Ok [OF msg])
  have conn: "conn = try_connection tmc smc smk" and data': "data' = data"
    using stored data codec by (auto simp: s4 s3 ibc_codec_laws_def)
  obtain raw ts where raw: "chains (view Tx s) (chain_str (c_id c)) = Some raw"
      "chain_of_raw (node_format E) (next_raw raw ts) = Ok c'"
    and s8: "view Tx s8 = set_chain (chain_str (c_id c)) (next_raw raw ts)
       (put_object (Connection_End tmk) data (view Tx s))"
    using adv by (auto simp: advanced_def s4 s3)
  have s6: "view Tx s6 = view Tx s5"
    by (rule notify_view [OF n3])
  from confirm obtain conn2 s9 where
    get2: "get_connection E Tx tmk s6 = (Ok (Some conn2), s9)" and
    upd: "update_connection E Tx tmk (set_connection_state Conn_Open conn2) s9 = (Ok (), s7)"
    unfolding connection_open_confirm_def run_Ok_iffs by auto
  have s9: "view Tx s9 = view Tx s6"
    by (rule keeps_unchanged_view [OF keeps_ibc_gets(2) get2])
  have conn2: "conn2 = try_connection tmc smc smk"
    using get_object_Ok(1) [OF get2] data codec by (auto simp: s6 s5 s8 ibc_codec_laws_def)
  obtain cb where
    cb: "encode E (P_Connection_End (set_connection_state Conn_Open (try_connection tmc smc smk))) = Inr cb"
    and s7: "view Tx s7 = put_object (Connection_End tmk) cb (view Tx s9)"
    using update_object_Ok(1) [OF upd] conn2 by auto
  have t: "view Tx t = set_chain (chain_str (c_id c)) (next_raw raw ts)
       (put_object (Connection_End tmk) cb (view Tx s))"
    using notify_view [OF n4, of Tx] by (simp add: s7 s9 s6 s5 s8 flip: set_chain_simps(8))
  obtain bs where bs: "encode E (P_Sign_Bytes (object_sign_bytes c (Connection_End tmk) data)) = Inr bs"
    and proofs8: "proofs s8 = proofs s4 @ [(rid, bs)]"
    by (rule said_proofs [OF said [unfolded data']])
  have "proofs s4 = proofs s"
    using proofs_same [OF keeps_proofs_inits(3) init] proofs_same [OF keeps_proofs_notify n1]
      proofs_same [OF keeps_proofs_tries(2) try_step] proofs_same [OF keeps_proofs_notify n2] by simp
  moreover have "proofs t = proofs s8"
    using proofs_same [OF keeps_proofs_notify n3] proofs_same [OF keeps_proofs_tries(3) confirm]
      proofs_same [OF keeps_proofs_notify n4] s5(2) by simp
  ultimately have "proofs t = proofs s @ [(rid, bs)]"
    using proofs8 by simp
  with that [OF raw cb t data bs] show thesis .
qed

lemma open_channel_Ok:
  assumes run: "open_channel E S memo rid c rpc smk tmk s = (Ok ((smn, tmn), c'), t)"
    and codec: "ibc_codec_laws E"
    and row: "chains (view Tx s) (chain_str (c_id c)) = Some raw" "raw_config raw = config c"
  obtains ts cb bs data where
    "chain_of_raw (node_format E) (next_raw raw ts) = Ok c'"
    "encode E (P_Channel (set_channel_state Chan_Open (try_channel (port_id (config c)) smn tmk))) = Inr cb"
    "view Tx t = set_chain (chain_str (c_id c)) (next_raw raw ts)
       (put_object (Channel_End (port_id (config c)) tmn) cb (view Tx s))"
    "encode E (P_Channel (try_channel (port_id (config c)) smn tmk)) = Inr data"
    "encode E (P_Sign_Bytes (object_sign_bytes c (Channel_End (port_id (config c)) tmn) data)) = Inr bs"
    "proofs t = proofs s @ [(rid, bs)]"
proof -
  let ?port = "port_id (config c)"
  from run obtain s1 s2 s3 s4 s5 s6 s7 where
    init: "channel_open_init E S rpc c smk memo rid s = (Ok smn, s1)" and
    n1: "notify_event E (InitializedChannelOnTendermint smn) s1 = (Ok (), s2)" and
    try_step: "channel_open_try E Tx ?port smn tmk s2 = (Ok tmn, s3)" and
    n2: "notify_event E (InitializedChannelOnSoloMachine tmn) s3 = (Ok (), s4)" and
    ack: "channel_open_ack E S rpc c smn tmn memo rid s4 = (Ok c', s5)" and
    n3: "notify_event E (ConfirmedChannelOnTendermint smn) s5 = (Ok (), s6)" and
    confirm: "channel_open_confirm E (port_id (config c')) tmn s6 = (Ok (), s7)" and
    n4: "notify_event E (ConfirmedChannelOnSoloMachine tmn) s7 = (Ok (), t)"
    unfolding open_channel_def run_Ok_iffs by auto
  have s2: "view Tx s2 = view Tx s"
    using keeps_unchanged_view [OF keeps_handshake_inits(4) init] notify_view [OF n1] by simp
  from try_step obtain n where
    add: "add_channel E Tx ?port tmn (try_channel ?port smn tmk) (s2\<lparr>w_ticks := n\<rparr>) = (Ok (), s3)"
    unfolding channel_open_try_def run_Ok_iffs by auto
  from add_object_Ok(4) [OF add] obtain data where
    data: "encode E (P_Channel (try_channel ?port smn tmk)) = Inr data"
    and s3: "view Tx s3 = put_object (Channel_End ?port tmn) data (view Tx s)"
    by (auto simp: s2)
  have s4: "view Tx s4 = view Tx s3"
    by (rule notify_view [OF n2])
  from ack obtain tx s8 where
    msg: "msg_channel_open_ack E S c smn tmn memo rid s4 = (Ok (tx, c'), s8)"
    and s5: "view Tx s5 = view Tx s8" "proofs s5 = proofs s8"
    unfolding channel_open_ack_def bindM_Ok_iff [of "msg_channel_open_ack E S c smn tmn memo rid"]
    by (auto dest: broadcast_tail_Ok(1) broadcast_tail_Ok(2) [where ex = Tx] broadcast_tail_Ok(3))
  obtain data' m bs' chan where
    stored: "stored (view Tx s4) (Channel_End ?port tmn) bs'" "decode_channel E bs' = Inr chan"
      "encode E (P_Channel chan) = Inr data'" and
    said: "said E rid (object_sign_bytes c (Channel_End ?port tmn) data') MSG_CHANNEL_OPEN_ACK_URL
       (P_Channel_Open_Ack m) memo tx s4 s8" and
    adv: "advanced E (chain_str (c_id c)) s4 s8 c'"
    by (rule msg_channel_open_ack_Ok [OF msg])
  have chan: "chan = try_channel ?port smn tmk" and data': "data' = data"
    using stored data codec by (auto simp: s4 s3 ibc_codec_laws_def)
  obtain ts where c': "chain_of_raw (node_format E) (next_raw raw ts) = Ok c'"
    and s8: "view Tx s8 = set_chain (chain_str (c_id c)) (next_raw raw ts)
       (put_object (Channel_End ?port tmn) data (view Tx s))"
    using adv row(1) by (auto simp: advanced_def s4 s3)
  have port: "port_id (config c') = ?port"
    using c' row(2) by (auto simp: chain_of_raw_Ok_iff)
  have s6: "view Tx s6 = view Tx s5"
    by (rule notify_view [OF n3])
  from confirm obtain chan2 s9 where
    get2: "get_channel E Tx ?port tmn s6 = (Ok (Some chan2), s9)" and
    upd: "update_channel E Tx ?port tmn (set_channel_state Chan_Open chan2) s9 = (Ok (), s7)"
    unfolding channel_open_confirm_def run_Ok_iffs port by auto
  have s9: "view Tx s9 = view Tx s6"
    by (rule keeps_unchanged_view [OF keeps_ibc_gets(3) get2])
  have chan2: "chan2 = try_channel ?port smn tmk"
    using get_object_Ok(2) [OF get2] data codec by (auto simp: s6 s5 s8 ibc_codec_laws_def)
  obtain cb where
    cb: "encode E (P_Channel (set_channel_state Chan_Open (try_channel ?port smn tmk))) = Inr cb"
    and s7: "view Tx s7 = put_object (Channel_End ?port tmn) cb (view Tx s9)"
    using update_object_Ok(2) [OF upd] chan2 by auto
  have t: "view Tx t = set_chain (chain_str (c_id c)) (next_raw raw ts)
       (put_object (Channel_End ?port tmn) cb (view Tx s))"
    using notify_view [OF n4, of Tx] by (simp add: s7 s9 s6 s5 s8 flip: set_chain_simps(8))
  obtain bs where bs: "encode E (P_Sign_Bytes (object_sign_bytes c (Channel_End ?port tmn) data)) = Inr bs"
    and proofs8: "proofs s8 = proofs s4 @ [(rid, bs)]"
    by (rule said_proofs [OF said [unfolded data']])
  have "proofs s4 = proofs s"
    using proofs_same [OF keeps_proofs_inits(4) init] proofs_same [OF keeps_proofs_notify n1]
      proofs_same [OF keeps_proofs_tries(4) try_step] proofs_same [OF keeps_proofs_notify n2] by simp
  moreover have "proofs t = proofs s8"
    using proofs_same [OF keeps_proofs_notify n3] proofs_same [OF keeps_proofs_tries(5) confirm]
      proofs_same [OF keeps_proofs_notify n4] s5(2) by simp
  ultimately have "proofs t = proofs s @ [(rid, bs)]"
    using proofs8 by simp
  with that [OF c' cb t data bs] show thesis .
qed

section \<open>Connecting\<close>

text \<open>The row of a chain after it was connected.\<close>

definition connected_raw :: "raw_chain \<Rightarrow> connection_details \<Rightarrow> datetime \<Rightarrow> raw_chain" where
  "connected_raw raw details ts =
     raw\<lparr>raw_sequence := raw_sequence raw + 2, raw_connection_details := Some details,
        raw_updated_at := ts\<rparr>"

lemma connection_status_Ok:
  "connection_status E c s = (Ok (est, clo), t) \<Longrightarrow> est \<longleftrightarrow> connection_details c \<noteq> None"
  by (auto simp: connection_status_def run_Ok_iffs split: option.splits)

lemma connect_Ok:
  assumes run: "connect E S cid rid memo force s = (Ok u, t)"
    and codec: "ibc_codec_laws E" and keyed: "keyed (w_db s)"
  obtains raw c c' smc tmc smk tmk smn tmn h clb csb kb nb ts data1 data2 bs1 bs2 where
    "chains (w_db s) (chain_str cid) = Some raw" "raw_connection_details raw = None"
    "chain_of_raw (node_format E) raw = Ok c"
    "encode E (P_Connection_End (set_connection_state Conn_Open (try_connection tmc smc smk))) = Inr kb"
    "encode E (P_Channel (set_channel_state Chan_Open (try_channel (port_id (config c)) smn tmk))) = Inr nb"
    "w_db t = set_chain (chain_str cid) (connected_raw raw
       \<lparr>solo_machine_client_id = smc, tendermint_client_id = tmc,
        solo_machine_connection_id = smk, tendermint_connection_id = tmk,
        solo_machine_channel_id = Some smn, tendermint_channel_id = Some tmn\<rparr> ts)
       (put_object (Channel_End (port_id (config c)) tmn) nb (put_object (Connection_End tmk) kb
         (put_object (Consensus_State tmc h) csb (put_object (Client_State tmc) clb (w_db s)))))"
    "proofs t = proofs s @ [(rid, bs1), (rid, bs2)]"
    "encode E (P_Sign_Bytes (object_sign_bytes c (Connection_End tmk) data1)) = Inr bs1"
    "encode E (P_Sign_Bytes (object_sign_bytes c' (Channel_End (port_id (config c)) tmn) data2)) = Inr bs2"
    "uint (sequence c') = uint (sequence c) + 1" "config c' = config c" "w_tx t = None"
    "\<exists>c2. chain_of_raw (node_format E) (connected_raw raw
       \<lparr>solo_machine_client_id = smc, tendermint_client_id = tmc,
        solo_machine_connection_id = smk, tendermint_connection_id = tmk,
        solo_machine_channel_id = Some smn, tendermint_channel_id = Some tmn\<rparr> ts) = Ok c2"
proof -
  from run obtain s1 c s2 est clo s3 rpc s4 smc tmc s5 smk tmk c1 s6 smn tmn c2 s7 s8 s9 s10 details where
    begin_tx: "begin_transaction E s = (Ok (), s1)" and
    chain: "known_chain E Tx cid s1 = (Ok c, s2)" and
    status: "connection_status E c s2 = (Ok (est, clo), s3)" and
    est: "\<not> est" and
    rpc: "rpc_client E c s3 = (Ok rpc, s4)" and
    client: "create_new_client E S memo rid c rpc s4 = (Ok (smc, tmc), s5)" and
    conn: "create_connection E c S rpc smc tmc memo rid s5 = (Ok ((smk, tmk), c1), s6)" and
    chan: "open_channel E S memo rid c1 rpc smk tmk s6 = (Ok ((smn, tmn), c2), s7)" and
    details: "details = \<lparr>solo_machine_client_id = smc, tendermint_client_id = tmc,
        solo_machine_connection_id = smk, tendermint_connection_id = tmk,
        solo_machine_channel_id = Some smn, tendermint_channel_id = Some tmn\<rparr>" and
    add: "add_connection_details E Tx (c_id c2) details s7 = (Ok (), s8)" and
    notify: "notify_event E (ConnectionEstablished cid details) s8 = (Ok (), s9)" and
    commit: "commit_transaction E ''unable to commit transaction for creating ibc connection'' s9
       = (Ok (), s10)" and
    t: "t = s10\<lparr>w_tx := None\<rparr>"
    unfolding connect_def Let_def scoped_Ok_iff run_Ok_iffs
    by (auto simp: run_Ok_iffs split: if_splits prod.splits)
  have s1: "view Tx s1 = w_db s"
    using begin_tx by (auto simp: begin_transaction_Ok_iff)
  obtain raw where raw: "chains (w_db s) (chain_str cid) = Some raw"
      "chain_of_raw (node_format E) raw = Ok c"
    and s2: "view Tx s2 = w_db s" and id: "chain_str (c_id c) = chain_str cid"
    by (rule known_chain_Ok [OF chain])
      (use keyed in \<open>auto simp: s1 keyed_def dest: unchanged_view [where ex = Tx]\<close>)
  have none: "raw_connection_details raw = None"
    using connection_status_Ok [OF status] est raw(2) by (auto simp: chain_of_raw_Ok_iff)
  have s4: "view Tx s4 = w_db s"
    using keeps_unchanged_view [OF keeps_service_reads(3) status, of Tx] rpc_client_Ok [OF rpc] s2
    by simp
  obtain h clb csb where s5: "view Tx s5 = put_object (Consensus_State tmc h) csb
      (put_object (Client_State tmc) clb (w_db s))"
    by (rule create_new_client_Ok [OF client]) (simp add: s4)
  obtain raw1 ts1 kb bs1 data1 where raw1: "chains (view Tx s5) (chain_str (c_id c)) = Some raw1"
      "chain_of_raw (node_format E) (next_raw raw1 ts1) = Ok c1"
    and kb: "encode E (P_Connection_End (set_connection_state Conn_Open (try_connection tmc smc smk)))
      = Inr kb"
    and s6: "view Tx s6 = set_chain (chain_str (c_id c)) (next_raw raw1 ts1)
       (put_object (Connection_End tmk) kb (view Tx s5))"
    and bs1: "encode E (P_Sign_Bytes (object_sign_bytes c (Connection_End tmk) data1)) = Inr bs1"
      "proofs s6 = proofs s5 @ [(rid, bs1)]"
    by (rule create_connection_Ok [OF conn codec])
  have raw1_eq: "raw1 = raw"
    using raw1(1) raw(1) by (simp add: s5 id)
  have id1: "chain_str (c_id c1) = chain_str cid"
    using chain_of_raw_id [OF raw1(2)] keyed raw(1) by (simp add: raw1_eq keyed_def)
  have cfg: "config c1 = config c" and seq: "uint (sequence c1) = uint (sequence c) + 1"
    using raw1(2) raw(2) by (auto simp: chain_of_raw_Ok_iff raw1_eq)
  then have port: "port_id (config c1) = port_id (config c)"
    by simp
  have row: "chains (view Tx s6) (chain_str (c_id c1)) = Some (next_raw raw ts1)"
      "raw_config (next_raw raw ts1) = config c1"
    using raw1(2) by (auto simp: s6 id id1 raw1_eq chain_of_raw_Ok_iff)
  obtain ts2 nb bs2 data2 where c2: "chain_of_raw (node_format E) (next_raw (next_raw raw ts1) ts2) = Ok c2"
    and nb: "encode E (P_Channel (set_channel_state Chan_Open (try_channel (port_id (config c)) smn tmk)))
      = Inr nb"
    and s7: "view Tx s7 = set_chain (chain_str cid) (next_raw (next_raw raw ts1) ts2)
       (put_object (Channel_End (port_id (config c)) tmn) nb (view Tx s6))"
    and bs2: "encode E (P_Sign_Bytes (object_sign_bytes c1 (Channel_End (port_id (config c)) tmn) data2))
      = Inr bs2" "proofs s7 = proofs s6 @ [(rid, bs2)]"
    by (rule open_channel_Ok [OF chan codec row]) (simp add: id1 port)
  have id2: "chain_str (c_id c2) = chain_str cid"
    using chain_of_raw_id [OF c2] keyed raw(1) by (simp add: keyed_def)
  obtain raw3 ts3 where raw3: "chains (view Tx s7) (chain_str (c_id c2)) = Some raw3"
    and s8': "view Tx s8 = set_chain (chain_str cid)
       (raw3\<lparr>raw_connection_details := Some details, raw_updated_at := ts3\<rparr>) (view Tx s7)"
    by (rule add_connection_details_Ok [OF add]) (simp add: set_chain_def id2)
  have "raw3 = next_raw (next_raw raw ts1) ts2"
    using raw3 by (simp add: id2 s7)
  then have s8: "view Tx s8 = set_chain (chain_str cid) (connected_raw raw details ts3) (view Tx s7)"
    unfolding s8' by (simp add: connected_raw_def next_raw_def add.commute)
  have "w_db t = view Tx s8"
    using commit t notify_view [OF notify, of Tx] by (auto simp: commit_transaction_Ok_iff)
  then have db: "w_db t = set_chain (chain_str cid) (connected_raw raw details ts3)
       (put_object (Channel_End (port_id (config c)) tmn) nb (put_object (Connection_End tmk) kb
         (put_object (Consensus_State tmc h) csb (put_object (Client_State tmc) clb (w_db s)))))"
    by (simp add: s8 s7 s6 s5 id raw1_eq flip: set_chain_simps(8))
  have "proofs t = proofs s7"
    using commit t proofs_same [OF keeps_proofs_stores(5) add] proofs_same [OF keeps_proofs_notify notify]
    by (auto simp: commit_transaction_Ok_iff proofs_def map_filter_simps)
  moreover have "proofs s5 = proofs s"
    using begin_tx proofs_same [OF keeps_proofs_phases(3) chain]
      proofs_same [OF keeps_proofs_phases(4) status] proofs_same [OF keeps_proofs_phases(2) rpc]
      proofs_same [OF keeps_proofs_phases(1) client]
    by (auto simp: begin_transaction_Ok_iff proofs_def)
  ultimately have proofs: "proofs t = proofs s @ [(rid, bs1), (rid, bs2)]"
    using bs1(2) bs2(2) by simp
  have "chain_of_raw (node_format E) (connected_raw raw details ts3)
      = Ok (c2\<lparr>connection_details := Some details, c_updated_at := ts3\<rparr>)"
    using c2 by (simp add: chain_of_raw_Ok_iff connected_raw_def next_raw_def add.assoc)
  then have "\<exists>c2. chain_of_raw (node_format E) (connected_raw raw details ts3) = Ok c2"
    by blast
  then show thesis
    by (intro that [OF raw(1) none raw(2) kb nb db [unfolded details] proofs bs1(1) bs2(1) seq cfg])
      (simp_all add: t details)
qed

text \<open>A chain that has connection details is not connected a second time.\<close>

lemma connect_Ok_first:
  assumes run: "connect E S cid rid memo force s = (Ok u, t)"
  shows "\<exists>raw. chains (w_db s) (chain_str cid) = Some raw \<and> raw_connection_details raw = None"
proof -
  from run obtain s1 c s2 est clo s3 where
    begin_tx: "begin_transaction E s = (Ok (), s1)" and
    chain: "known_chain E Tx cid s1 = (Ok c, s2)" and
    status: "connection_status E c s2 = (Ok (est, clo), s3)" and est: "\<not> est"
    unfolding connect_def Let_def scoped_Ok_iff run_Ok_iffs
    by (auto simp: run_Ok_iffs split: if_splits prod.splits)
  have s1: "view Tx s1 = w_db s"
    using begin_tx by (auto simp: begin_transaction_Ok_iff)
  obtain raw where raw: "chains (w_db s) (chain_str cid) = Some raw"
      "chain_of_raw (node_format E) raw = Ok c"
    by (rule known_chain_Ok [OF chain]) (simp add: s1)
  with connection_status_Ok [OF status] est show ?thesis
    by (auto simp: chain_of_raw_Ok_iff)
qed

section \<open>Closing\<close>

lemma msg_channel_close_init_closed:
  "connection_details c = Some details \<Longrightarrow> solo_machine_channel_id details = None \<Longrightarrow>
     msg_channel_close_init E S c memo rid s = (bail ''channel already closed'', s)"
  by (simp add: msg_channel_close_init_def lift_def Let_def)

lemma channel_close_init_closed:
  assumes "channel_close_init E rpc S cid rid memo s = (Ok v, t)"
    and "chains (view Tx s) (chain_str cid) = Some raw" "raw_connection_details raw = Some details"
    and "solo_machine_channel_id details = None"
  shows False
proof -
  from assms(1) obtain c s1 msg s2 where
    get: "get_chain E Tx cid s = (Ok (Some c), s1)" and
    msg: "msg_channel_close_init E S c memo rid s1 = (Ok msg, s2)"
    unfolding channel_close_init_def run_Ok_iffs by auto
  from get_chain_Ok(1) [OF get] assms(2,3) have "connection_details c = Some details"
    by (auto simp: chain_of_raw_Ok_iff)
  from msg_channel_close_init_closed [OF this assms(4)] msg show False
    by simp
qed

text \<open>
  Closing marks the channel closed and forgets its identifiers before it builds the message to
  the chain, which needs them: the message is never built.
\<close>

lemma close_channel_not_Ok:
  assumes keyed: "keyed (w_db s)"
  shows "close_channel E S cid rid memo s \<noteq> (Ok u, t)"
proof
  assume run: "close_channel E S cid rid memo s = (Ok u, t)"
  from run obtain s1 c s2 details tmn s3 rpc s4 closed s5 where
    begin_tx: "begin_transaction E s = (Ok (), s1)" and
    chain: "known_chain E Tx cid s1 = (Ok c, s2)" and
    confirm: "close_channel_confirm E (port_id (config c)) tmn (c_id c)
       (details\<lparr>solo_machine_channel_id := None, tendermint_channel_id := None\<rparr>) s2 = (Ok (), s3)" and
    rpc: "rpc_client E c s3 = (Ok rpc, s4)" and
    init: "channel_close_init E rpc S cid rid memo s4 = (Ok closed, s5)"
    unfolding close_channel_def Let_def scoped_Ok_iff run_Ok_iffs by auto
  have s1: "view Tx s1 = w_db s"
    using begin_tx by (auto simp: begin_transaction_Ok_iff)
  obtain raw where raw: "chains (w_db s) (chain_str cid) = Some raw"
    and id: "chain_str (c_id c) = chain_str cid"
    by (rule known_chain_Ok [OF chain]) (use keyed in \<open>auto simp: s1 keyed_def\<close>)
  from confirm obtain s6 where add: "add_connection_details E Tx (c_id c)
      (details\<lparr>solo_machine_channel_id := None, tendermint_channel_id := None\<rparr>) s6 = (Ok (), s3)"
    unfolding close_channel_confirm_def run_Ok_iffs by auto
  obtain raw' where raw': "chains (view Tx s3) (chain_str cid) = Some raw'"
    "raw_connection_details raw' =
       Some (details\<lparr>solo_machine_channel_id := None, tendermint_channel_id := None\<rparr>)"
    by (rule add_connection_details_Ok [OF add]) (simp add: id)
  have "s4 = s3"
    using rpc_client_Ok [OF rpc] by simp
  from channel_close_init_closed [OF init [unfolded this] raw'] show False
    by simp
qed

section \<open>Updating the signer\<close>

text \<open>Everything up to and including the commit, and what follows it.\<close>

definition rotate_signer ::
    "env \<Rightarrow> signer \<Rightarrow> chain_id \<Rightarrow> string option \<Rightarrow> public_key \<Rightarrow> string \<Rightarrow> unit run" where
  "rotate_signer E S cid request_id new_public_key memo =
     bindM (begin_transaction E) (\<lambda>_.
     bindM (known_chain E Tx cid) (\<lambda>c.
     bindM (add_chain_key E Tx cid (public_key_encode E new_public_key)) (\<lambda>_.
     bindM (rpc_client E c) (\<lambda>rpc.
     bindM (msg_update_solo_machine_client E Tx S c (Some new_public_key) memo request_id) (\<lambda>(msg, c).
     bindM (lift (proto_encode E (P_Tx_Raw msg))) (\<lambda>bs.
     bindM (broadcast_tx_commit E rpc bs) (\<lambda>response.
     bindM (lift (ensure_response_success response)) (\<lambda>_.
     commit_transaction E ''unable to commit transaction for receiving tokens over IBC''))))))))"

definition announce_signer :: "env \<Rightarrow> signer \<Rightarrow> chain_id \<Rightarrow> public_key \<Rightarrow> unit run" where
  "announce_signer E S cid new_public_key =
     bindM (lift (to_public_key S)) (\<lambda>old_public_key.
     notify_event E (SignerUpdated cid old_public_key new_public_key))"

lemma update_signer_split:
  "update_signer E S cid rid new_key memo =
     scoped (bindM (rotate_signer E S cid rid new_key memo) (\<lambda>_. announce_signer E S cid new_key))"
  by (simp add: update_signer_def rotate_signer_def announce_signer_def bindM_assoc bindM_case_prod)

lemma atomic_rotate_signer: "atomic (rotate_signer E S cid rid new_key memo)"
  unfolding rotate_signer_def
  by (intro atomic_intros keeps_intros | rule keeps_same_db_of_unchanged)+

lemma keeps_announce_signer [keeps_intros]: "keeps unchanged (announce_signer E S cid new_key)"
  unfolding announce_signer_def by (intro keeps_intros)

lemma keeps_proofs_announce_signer [keeps_intros]:
  "keeps same_proofs (announce_signer E S cid new_key)"
  unfolding announce_signer_def by (intro keeps_intros)

lemma rotate_signer_Ok:
  assumes run: "rotate_signer E S cid rid new_key memo s = (Ok u, t)" and keyed: "keyed (w_db s)"
  obtains raw ts ts2 c any_key data bs where
    "chains (w_db s) (chain_str cid) = Some raw" "chain_of_raw (node_format E) raw = Ok c"
    "\<forall>r \<in> set (chain_keys (w_db s)).
       \<not> (rk_chain_id r = chain_str cid \<and> rk_public_key r = public_key_encode E new_key)"
    "w_db t = set_chain (chain_str cid) (next_raw raw ts) ((w_db s)\<lparr>
       chain_keys := chain_keys (w_db s) @ [\<lparr>rk_id = next_key_id (w_db s),
         rk_chain_id = chain_str cid, rk_public_key = public_key_encode E new_key,
         rk_created_at = ts2\<rparr>], next_key_id := next_key_id (w_db s) + 1\<rparr>)"
    "public_key_to_any E new_key = Ok any_key"
    "encode E (P_Header_Data \<lparr>hd_new_pub_key = Some any_key,
       hd_new_diversifier = diversifier (config c)\<rparr>) = Inr data"
    "encode E (P_Sign_Bytes \<lparr>sb_sequence = ucast (sequence c),
       sb_timestamp = word_of_int (unix_timestamp (consensus_timestamp c)),
       sb_diversifier = diversifier (config c), sb_path = as_bytes ''solomachine:header'',
       sb_data = data\<rparr>) = Inr bs"
    "proofs t = proofs s @ [(rid, bs)]"
    "accepts E"
    "\<exists>c'. chain_of_raw (node_format E) (next_raw raw ts) = Ok c'"
proof -
  from run obtain s1 c s2 s3 rpc s4 tx c' s5 bs response s6 hash where
    begin_tx: "begin_transaction E s = (Ok (), s1)" and
    chain: "known_chain E Tx cid s1 = (Ok c, s2)" and
    key: "add_chain_key E Tx cid (public_key_encode E new_key) s2 = (Ok (), s3)" and
    rpc: "rpc_client E c s3 = (Ok rpc, s4)" and
    msg: "msg_update_solo_machine_client E Tx S c (Some new_key) memo rid s4 = (Ok (tx, c'), s5)" and
    response: "broadcast_tx_commit E rpc bs s5 = (Ok response, s6)" and
    commit: "commit_transaction E ''unable to commit transaction for receiving tokens over IBC'' s6
       = (Ok (), t)" and
    success: "ensure_response_success response = Ok hash"
    unfolding rotate_signer_def run_Ok_iffs by (auto simp: run_Ok_iffs)
  have s1: "view Tx s1 = w_db s"
    using begin_tx by (auto simp: begin_transaction_Ok_iff)
  obtain raw where raw: "chains (w_db s) (chain_str cid) = Some raw"
      "chain_of_raw (node_format E) raw = Ok c"
    and s2: "view Tx s2 = w_db s" and id: "chain_str (c_id c) = chain_str cid"
    by (rule known_chain_Ok [OF chain])
      (use keyed in \<open>auto simp: s1 keyed_def dest: unchanged_view [where ex = Tx]\<close>)
  define ts2 where "ts2 = now E (w_ticks s2)"
  from add_chain_key_Ok [OF key] have
    fresh: "\<forall>r \<in> set (chain_keys (w_db s)).
       \<not> (rk_chain_id r = chain_str cid \<and> rk_public_key r = public_key_encode E new_key)" and
    s3: "view Tx s3 = (w_db s)\<lparr>
       chain_keys := chain_keys (w_db s) @ [\<lparr>rk_id = next_key_id (w_db s),
         rk_chain_id = chain_str cid, rk_public_key = public_key_encode E new_key,
         rk_created_at = ts2\<rparr>], next_key_id := next_key_id (w_db s) + 1\<rparr>"
    by (auto simp: ts2_def insert_chain_key_def s2 list_ex_iff split: if_splits)
  have s4: "s4 = s3"
    using rpc_client_Ok [OF rpc] by simp
  obtain any_key data m sb where k: "public_key_to_any E new_key = Ok any_key"
    "encode E (P_Header_Data \<lparr>hd_new_pub_key = Some any_key,
       hd_new_diversifier = diversifier (config c)\<rparr>) = Inr data"
    and sb: "sb = \<lparr>sb_sequence = ucast (sequence c),
       sb_timestamp = word_of_int (unix_timestamp (consensus_timestamp c)),
       sb_diversifier = diversifier (config c), sb_path = as_bytes ''solomachine:header'',
       sb_data = data\<rparr>"
    and said: "said E rid sb MSG_UPDATE_CLIENT_URL (P_Update_Client m) memo tx s4 s5"
    and adv: "advanced E (chain_str (c_id c)) s4 s5 c'"
    by (rule msg_update_solo_machine_client_Ok [OF msg])
  obtain raw' ts where adv': "chains (view Tx s4) (chain_str cid) = Some raw'"
    "view Tx s5 = set_chain (chain_str cid) (next_raw raw' ts) (view Tx s4)"
    "chain_of_raw (node_format E) (next_raw raw' ts) = Ok c'"
    using adv by (auto simp: advanced_def id)
  have raw': "raw' = raw"
    using adv'(1) raw(1) by (simp add: s4 s3)
  have db: "w_db t = set_chain (chain_str cid) (next_raw raw ts) (view Tx s3)"
    using response commit adv'(2)
    by (auto simp: broadcast_Ok_iff commit_transaction_Ok_iff s4 raw')
  obtain bs' where bs': "encode E (P_Sign_Bytes sb) = Inr bs'" "proofs s5 = proofs s4 @ [(rid, bs')]"
    by (rule said_proofs [OF said])
  have "proofs s4 = proofs s"
    using begin_tx proofs_same [OF keeps_proofs_phases(3) chain] quiet_writes(4) [OF key] s4
    by (auto simp: begin_transaction_Ok_iff proofs_def)
  moreover have "proofs t = proofs s5"
    using response commit
    by (auto simp: broadcast_Ok_iff commit_transaction_Ok_iff proofs_def map_filter_simps)
  ultimately have proofs: "proofs t = proofs s @ [(rid, bs')]"
    using bs'(2) by simp
  show thesis
    using adv'(3)
    by (intro that [OF raw fresh db [unfolded s3] k bs'(1) [unfolded sb] proofs
          accepted [OF response success]]) (auto simp: raw')
qed

end
