(* ===== verification/Chain_Service.thy ===== *)
theory Chain_Service
  imports Tx_Messages
begin

text \<open>The operations of \<open>ChainService\<close>: \<open>solo-machine-core/src/service/chain_service.rs\<close>.\<close>

definition chain_service_add :: "env \<Rightarrow> chain_config \<Rightarrow> string \<Rightarrow> chain_id run" where
  "chain_service_add E cfg public_key =
     scoped (
     bindM (lift (external (http_client_new E (rpc_addr cfg)))) (\<lambda>_.
     bindM (call (\<lambda>n. rpc_status E n (rpc_addr cfg))) (\<lambda>status.
     bindM (lift (chain_id_from_str (network status))) (\<lambda>cid.
     bindM (begin_transaction E) (\<lambda>_.
     bindM (add_chain E Tx cid (status_node_id status) cfg) (\<lambda>_.
     bindM (add_chain_key E Tx cid public_key) (\<lambda>_.
     bindM (commit_transaction E ''unable to commit transaction for adding IBC chain'') (\<lambda>_.
     bindM (notify_event E (ChainAdded cid)) (\<lambda>_.
     returnM cid)))))))))"

definition chain_service_get :: "env \<Rightarrow> chain_id \<Rightarrow> chain option run" where
  "chain_service_get E cid = get_chain E Pool cid"

definition chain_service_get_ibc_denom :: "env \<Rightarrow> chain_id \<Rightarrow> ident \<Rightarrow> string run" where
  "chain_service_get_ibc_denom E cid d =
     bindM (chain_service_get E cid) (\<lambda>found.
     bindM (lift (ok_or found ''chain details not found when computing ibc denom'')) (\<lambda>c.
     lift (get_ibc_denom E c d)))"

definition chain_service_get_public_keys ::
    "env \<Rightarrow> chain_id \<Rightarrow> int \<Rightarrow> int \<Rightarrow> chain_key list run" where
  "chain_service_get_public_keys E cid lim off = get_chain_keys E Pool cid lim off"

definition chain_service_balance :: "env \<Rightarrow> signer \<Rightarrow> chain_id \<Rightarrow> ident \<Rightarrow> decimal run" where
  "chain_service_balance E S cid d =
     bindM (chain_service_get E cid) (\<lambda>found.
     bindM (lift (ok_or found ''chain details not found when fetching balance'')) (\<lambda>c.
     get_balance E S c d))"

lemma keeps_chain_service_reads [keeps_intros]:
  "keeps unchanged (chain_service_get E cid)"
  "keeps unchanged (chain_service_get_ibc_denom E cid d)"
  "keeps unchanged (chain_service_get_public_keys E cid lim off)"
  "keeps unchanged (chain_service_balance E S cid d)"
  unfolding chain_service_get_def chain_service_get_ibc_denom_def
    chain_service_get_public_keys_def chain_service_balance_def
  by (intro keeps_intros)+

end
