(* ===== verification/Machine_Spec.thy ===== *)
theory Machine_Spec
  imports Connect_Effects Chain_Service
begin

text \<open>
  An abstract specification of the solo machine as a state machine on its committed database:
  six transitions, one for each kind of commit the services make. The invariants of the
  database are proved of these transitions; \<open>Refinement\<close> shows that every run of a service,
  whatever its outcome, is a sequence of them.
\<close>

section \<open>Transitions\<close>

definition decodes :: "node_id_format \<Rightarrow> raw_chain \<Rightarrow> bool" where
  "decodes F raw \<longleftrightarrow> (\<exists>c. chain_of_raw F raw = Ok c)"

definition new_key_row :: "database \<Rightarrow> string \<Rightarrow> string \<Rightarrow> datetime \<Rightarrow> raw_chain_key" where
  "new_key_row d k key ts =
     \<lparr>rk_id = next_key_id d, rk_chain_id = k, rk_public_key = key, rk_created_at = ts\<rparr>"

definition record_key :: "raw_chain_key \<Rightarrow> database \<Rightarrow> database" where
  "record_key r d = d\<lparr>chain_keys := chain_keys d @ [r], next_key_id := next_key_id d + 1\<rparr>"

definition fresh_key :: "database \<Rightarrow> string \<Rightarrow> string \<Rightarrow> bool" where
  "fresh_key d k key \<longleftrightarrow>
     (\<forall>r \<in> set (chain_keys d). \<not> (rk_chain_id r = k \<and> rk_public_key r = key))"

text \<open>Both channel ends of a chain are open.\<close>

definition transfer_ready :: "raw_chain \<Rightarrow> bool" where
  "transfer_ready raw \<longleftrightarrow>
     (\<exists>details. raw_connection_details raw = Some details \<and>
        solo_machine_channel_id details \<noteq> None \<and> tendermint_channel_id details \<noteq> None)"

inductive db_step :: "node_id_format \<Rightarrow> database \<Rightarrow> database \<Rightarrow> bool" for F where
  add_chain_step:
    "chains d k = None \<Longrightarrow> decodes F (new_raw_chain ts k node cfg) \<Longrightarrow> fresh_key d k key \<Longrightarrow>
     db_step F d (record_key (new_key_row d k key ts2) (set_chain k (new_raw_chain ts k node cfg) d))"
| connect_step:
    "chains d k = Some raw \<Longrightarrow> raw_connection_details raw = None \<Longrightarrow>
     solo_machine_channel_id details \<noteq> None \<Longrightarrow> tendermint_channel_id details = Some n \<Longrightarrow>
     decodes F (connected_raw raw details ts) \<Longrightarrow>
     db_step F d (set_chain k (connected_raw raw details ts)
       (put_object (Channel_End (port_id (raw_config raw)) n) nb
         (put_object (Connection_End (tendermint_connection_id details)) kb
           (put_object (Consensus_State (tendermint_client_id details) h) csb
             (put_object (Client_State (tendermint_client_id details)) clb d)))))"
| send_step:
    "chains d k = Some raw \<Longrightarrow> transfer_ready raw \<Longrightarrow> decodes F (mint_advance raw ts) \<Longrightarrow>
     db_step F d (set_chain k (mint_advance raw ts) d)"
| answer_step:
    "chains d k = Some raw \<Longrightarrow> decodes F (next_raw raw ts) \<Longrightarrow>
     db_step F d (set_chain k (next_raw raw ts) d)"
| rotate_step:
    "chains d k = Some raw \<Longrightarrow> decodes F (next_raw raw ts) \<Longrightarrow> fresh_key d k key \<Longrightarrow>
     db_step F d (record_key (new_key_row d k key ts2) (set_chain k (next_raw raw ts) d))"
| record_step:
    "db_step F d (record_operation (new_operation d ts rid address dn amount ty hash) d)"

inductive_cases db_stepE: "db_step F d d'"

lemma record_key_simps [simp]:
  "chains (record_key r d) = chains d" "ibc_data (record_key r d) = ibc_data d"
  "operations (record_key r d) = operations d"
  "next_operation_id (record_key r d) = next_operation_id d"
  "chain_keys (record_key r d) = chain_keys d @ [r]"
  "next_key_id (record_key r d) = next_key_id d + 1"
  by (simp_all add: record_key_def)

lemma record_operation_more [simp]:
  "next_key_id (record_operation op d) = next_key_id d"
  "next_operation_id (record_operation op d) = next_operation_id d + 1"
  by (simp_all add: record_operation_def)

lemma advance_simps [simp]:
  "raw_id (mint_advance raw ts) = raw_id raw"
  "raw_config (mint_advance raw ts) = raw_config raw"
  "raw_sequence (mint_advance raw ts) = raw_sequence raw + 1"
  "raw_packet_sequence (mint_advance raw ts) = raw_packet_sequence raw + 1"
  "raw_connection_details (mint_advance raw ts) = raw_connection_details raw"
  "raw_id (connected_raw raw details ts) = raw_id raw"
  "raw_config (connected_raw raw details ts) = raw_config raw"
  "raw_sequence (connected_raw raw details ts) = raw_sequence raw + 2"
  "raw_packet_sequence (connected_raw raw details ts) = raw_packet_sequence raw"
  "raw_connection_details (connected_raw raw details ts) = Some details"
  "raw_id (new_raw_chain ts k node cfg) = k"
  "raw_sequence (new_raw_chain ts k node cfg) = 1"
  "raw_packet_sequence (new_raw_chain ts k node cfg) = 1"
  "raw_connection_details (new_raw_chain ts k node cfg) = None"
  by (simp_all add: mint_advance_def connected_raw_def new_raw_chain_def)

section \<open>Invariants\<close>

text \<open>The objects a connected chain names are all stored.\<close>

definition anchored :: "database \<Rightarrow> raw_chain \<Rightarrow> bool" where
  "anchored d raw \<longleftrightarrow>
     (\<forall>details. raw_connection_details raw = Some details \<longrightarrow>
        ibc_data d (object_key (Client_State (tendermint_client_id details))) \<noteq> None \<and>
        ibc_data d (object_key (Connection_End (tendermint_connection_id details))) \<noteq> None \<and>
        (\<forall>n. tendermint_channel_id details = Some n \<longrightarrow>
           ibc_data d (object_key (Channel_End (port_id (raw_config raw)) n)) \<noteq> None))"

definition good_chains :: "node_id_format \<Rightarrow> database \<Rightarrow> bool" where
  "good_chains F d \<longleftrightarrow>
     (\<forall>k raw. chains d k = Some raw \<longrightarrow>
        raw_id raw = k \<and> decodes F raw \<and> 1 \<le> raw_sequence raw \<and> 1 \<le> raw_packet_sequence raw \<and>
        anchored d raw)"

text \<open>
  Every key belongs to a known chain, no key is registered twice for a chain, and the
  identifiers of the rows increase.
\<close>

definition good_keys :: "database \<Rightarrow> bool" where
  "good_keys d \<longleftrightarrow>
     (\<forall>r \<in> set (chain_keys d). chains d (rk_chain_id r) \<noteq> None \<and> rk_id r < next_key_id d) \<and>
     distinct (map (\<lambda>r. (rk_chain_id r, rk_public_key r)) (chain_keys d)) \<and>
     sorted_wrt (<) (map rk_id (chain_keys d))"

definition good_database :: "node_id_format \<Rightarrow> database \<Rightarrow> bool" where
  "good_database F d \<longleftrightarrow> good_chains F d \<and> good_keys d \<and> well_numbered d"

lemma good_keyed: "good_database F d \<Longrightarrow> keyed d"
  by (auto simp: good_database_def good_chains_def keyed_def)

lemma good_empty: "good_database F empty_database"
  by (simp add: good_database_def good_chains_def good_keys_def well_numbered_def
      empty_database_def)

lemma good_keys_set_chain [simp]:
  "good_keys d \<Longrightarrow> good_keys (set_chain k raw d)"
  by (auto simp: good_keys_def)

lemma good_keys_other [simp]:
  "good_keys (put_object x bs d) = good_keys d"
  "good_keys (record_operation op d) = good_keys d"
  by (simp_all add: good_keys_def)

lemma good_keys_record:
  "good_keys d \<Longrightarrow> chains d k \<noteq> None \<Longrightarrow> fresh_key d k key \<Longrightarrow>
     good_keys (record_key (new_key_row d k key ts) d)"
  by (fastforce simp: good_keys_def fresh_key_def new_key_row_def sorted_wrt_append)

lemma well_numbered_other [simp]:
  "well_numbered (put_object x bs d) = well_numbered d"
  "well_numbered (set_chain k raw d) = well_numbered d"
  "well_numbered (record_key r d) = well_numbered d"
  by (simp_all add: well_numbered_def)

lemma well_numbered_record:
  "well_numbered d \<Longrightarrow>
     well_numbered (record_operation (new_operation d ts rid a dn n ty h) d)"
  by (fastforce simp: well_numbered_def new_operation_def raw_of_operation_def sorted_wrt_append
      list_all_iff)

lemma anchored_mono:
  "anchored d raw \<Longrightarrow> dom (ibc_data d) \<subseteq> dom (ibc_data d') \<Longrightarrow> anchored d' raw"
  by (fastforce simp: anchored_def dom_def)

lemma anchored_same:
  "ibc_data d' = ibc_data d \<Longrightarrow> raw_config raw' = raw_config raw \<Longrightarrow>
     raw_connection_details raw' = raw_connection_details raw \<Longrightarrow> anchored d' raw' = anchored d raw"
  by (simp add: anchored_def)

lemma good_chains_other [simp]:
  "good_chains F (record_key r d) = good_chains F d"
  "good_chains F (record_operation op d) = good_chains F d"
  by (simp_all add: good_chains_def anchored_def)

lemma good_chains_set_chain:
  assumes "good_chains F d" "raw_id raw = k" "decodes F raw" "1 \<le> raw_sequence raw"
    "1 \<le> raw_packet_sequence raw" "anchored d' raw" "chains d' = (chains d)(k \<mapsto> raw)"
    "dom (ibc_data d) \<subseteq> dom (ibc_data d')"
  shows "good_chains F d'"
  using assms anchored_mono [OF _ assms(8)] by (auto simp: good_chains_def)

text \<open>The row of one chain is replaced and objects are only added.\<close>

lemma good_chains_replace:
  assumes "good_chains F d" "chains d k = Some raw" "raw_id raw' = raw_id raw" "decodes F raw'"
    "raw_sequence raw \<le> raw_sequence raw'" "raw_packet_sequence raw \<le> raw_packet_sequence raw'"
    "anchored d raw \<Longrightarrow> anchored d' raw'" "chains d' = (chains d)(k \<mapsto> raw')"
    "dom (ibc_data d) \<subseteq> dom (ibc_data d')"
  shows "good_chains F d'"
proof (rule good_chains_set_chain [OF assms(1) _ assms(4) _ _ _ assms(8,9)])
  have "raw_id raw = k" "1 \<le> raw_sequence raw" "1 \<le> raw_packet_sequence raw" "anchored d raw"
    using assms(1,2) by (simp_all add: good_chains_def)
  with assms(3,5,6,7) show "raw_id raw' = k" "1 \<le> raw_sequence raw'"
    "1 \<le> raw_packet_sequence raw'" "anchored d' raw'"
    by simp_all
qed

lemma good_keys_rotate:
  "good_keys d \<Longrightarrow> fresh_key d k key \<Longrightarrow>
     good_keys (record_key (new_key_row d k key ts) (set_chain k raw d))"
  using good_keys_record [of "set_chain k raw d" k key ts]
  by (simp add: fresh_key_def new_key_row_def)

theorem db_step_good:
  "db_step F d d' \<Longrightarrow> good_database F d \<Longrightarrow> good_database F d'"
proof (induction rule: db_step.induct)
  case (add_chain_step d k ts node cfg key ts2)
  then have "good_chains F (set_chain k (new_raw_chain ts k node cfg) d)"
    by - (rule good_chains_set_chain [of F d "new_raw_chain ts k node cfg" k],
      simp_all add: good_database_def anchored_def)
  then show ?case
    using add_chain_step by (simp add: good_database_def good_keys_rotate)
next
  case (connect_step d k raw details n ts nb kb h csb clb)
  then have "good_chains F (set_chain k (connected_raw raw details ts)
      (put_object (Channel_End (port_id (raw_config raw)) n) nb
        (put_object (Connection_End (tendermint_connection_id details)) kb
          (put_object (Consensus_State (tendermint_client_id details) h) csb
            (put_object (Client_State (tendermint_client_id details)) clb d)))))"
    unfolding good_database_def
    by - (rule good_chains_replace [of F d k raw "connected_raw raw details ts"], simp_all add: anchored_def subset_insertI2)
  then show ?case
    using connect_step by (simp add: good_database_def)
next
  case (send_step d k raw ts)
  then have "good_chains F (set_chain k (mint_advance raw ts) d)"
    unfolding good_database_def
    by - (rule good_chains_replace [of F d k raw "mint_advance raw ts"], simp_all add: anchored_def)
  then show ?case
    using send_step by (simp add: good_database_def)
next
  case (answer_step d k raw ts)
  then have "good_chains F (set_chain k (next_raw raw ts) d)"
    unfolding good_database_def
    by - (rule good_chains_replace [of F d k raw "next_raw raw ts"], simp_all add: anchored_def)
  then show ?case
    using answer_step by (simp add: good_database_def)
next
  case (rotate_step d k raw ts key ts2)
  then have "good_chains F (set_chain k (next_raw raw ts) d)"
    unfolding good_database_def
    by - (rule good_chains_replace [of F d k raw "next_raw raw ts"], simp_all add: anchored_def)
  then show ?case
    using rotate_step by (simp add: good_database_def good_keys_rotate)
next
  case (record_step d ts rid address dn amount ty hash)
  then show ?case
    by (simp add: good_database_def well_numbered_record)
qed

section \<open>Progress\<close>

text \<open>
  Nothing is lost: rows stay, what identifies a chain is constant, sequences never go back, and
  keys and operations are only appended.
\<close>

definition chain_le :: "raw_chain \<Rightarrow> raw_chain \<Rightarrow> bool" where
  "chain_le raw raw' \<longleftrightarrow>
     raw_id raw' = raw_id raw \<and> raw_config raw' = raw_config raw \<and>
     raw_node_id raw' = raw_node_id raw \<and>
     raw_consensus_timestamp raw' = raw_consensus_timestamp raw \<and>
     raw_sequence raw \<le> raw_sequence raw' \<and> raw_packet_sequence raw \<le> raw_packet_sequence raw' \<and>
     (raw_connection_details raw \<noteq> None \<longrightarrow>
        raw_connection_details raw' = raw_connection_details raw)"

definition db_le :: "database \<Rightarrow> database \<Rightarrow> bool" where
  "db_le d d' \<longleftrightarrow>
     (\<forall>k raw. chains d k = Some raw \<longrightarrow> (\<exists>raw'. chains d' k = Some raw' \<and> chain_le raw raw')) \<and>
     dom (ibc_data d) \<subseteq> dom (ibc_data d') \<and>
     (\<exists>ks. chain_keys d' = chain_keys d @ ks) \<and> (\<exists>ops. operations d' = operations d @ ops)"

lemma chain_le_refl [simp]: "chain_le raw raw"
  by (simp add: chain_le_def)

lemma chain_le_trans: "chain_le a b \<Longrightarrow> chain_le b c \<Longrightarrow> chain_le a c"
  by (auto simp: chain_le_def)

lemma db_le_refl: "db_le d d"
  by (simp add: db_le_def)

lemma db_le_trans:
  assumes "db_le a b" "db_le b c"
  shows "db_le a c"
proof -
  have "\<exists>raw'. chains c k = Some raw' \<and> chain_le raw raw'" if "chains a k = Some raw" for k raw
    using assms that chain_le_trans unfolding db_le_def by metis
  moreover have "dom (ibc_data a) \<subseteq> dom (ibc_data c)"
    using assms unfolding db_le_def by (meson order_trans)
  ultimately show ?thesis
    using assms by (auto simp: db_le_def)
qed

lemma chain_le_advance [simp]:
  "chain_le raw (next_raw raw ts)" "chain_le raw (mint_advance raw ts)"
  "raw_connection_details raw = None \<Longrightarrow> chain_le raw (connected_raw raw details ts)"
  by (simp_all add: chain_le_def next_raw_def mint_advance_def connected_raw_def)

lemma db_step_le: "db_step F d d' \<Longrightarrow> db_le d d'"
  by (cases rule: db_step.cases) (auto simp: db_le_def)

lemma db_steps_good: "(db_step F)\<^sup>*\<^sup>* d d' \<Longrightarrow> good_database F d \<Longrightarrow> good_database F d'"
  by (induction rule: rtranclp_induct) (auto intro: db_step_good)

lemma db_steps_le: "(db_step F)\<^sup>*\<^sup>* d d' \<Longrightarrow> db_le d d'"
  by (induction rule: rtranclp_induct) (auto intro: db_le_refl db_le_trans db_step_le)

end
