(* ===== verification/Refinement.thy ===== *)
theory Refinement
  imports Machine_Spec
begin

text \<open>
  Every run of a service, whatever its outcome, is a sequence of transitions of the abstract
  machine.
\<close>

section \<open>The simulation relation\<close>

definition refines :: "node_id_format \<Rightarrow> world \<Rightarrow> world \<Rightarrow> bool" where
  "refines F s t \<longleftrightarrow> good_database F (w_db s) \<longrightarrow> (db_step F)\<^sup>*\<^sup>* (w_db s) (w_db t)"

interpretation refines_frame: frame_relation "refines F" for F
proof
  show "refines F s s" for s
    by (simp add: refines_def)
  show "refines F s u" if "refines F s t" "refines F t u" for s t u
    using that db_steps_good [of F "w_db s" "w_db t"] by (auto simp: refines_def)
qed

lemma refines_same: "w_db t = w_db s \<Longrightarrow> refines F s t"
  by (simp add: refines_def)

lemma refines_step: "(good_database F (w_db s) \<Longrightarrow> db_step F (w_db s) (w_db t)) \<Longrightarrow> refines F s t"
  by (auto simp: refines_def)

lemma keeps_refines_same: "keeps same_db m \<Longrightarrow> keeps (refines F) m"
  by (simp add: keeps_def same_db_def refines_same)

lemma keeps_refines_unchanged: "keeps unchanged m \<Longrightarrow> keeps (refines F) m"
  by (rule keeps_refines_same) (rule keeps_same_db_of_unchanged)

lemma keeps_refines_scoped [keeps_intros]: "keeps (refines F) m \<Longrightarrow> keeps (refines F) (scoped m)"
  by (auto simp: keeps_def refines_def scoped_def split_beta)

text \<open>A computation that fails atomically and succeeds with one transition.\<close>

lemma keeps_refines_atomic:
  assumes "atomic m"
    and "\<And>s a t. m s = (Ok a, t) \<Longrightarrow> good_database F (w_db s) \<Longrightarrow> db_step F (w_db s) (w_db t)"
  shows "keeps (refines F) m"
proof (rule keepsI)
  fix s r t
  assume run: "m s = (r, t)"
  show "refines F s t"
  proof (cases r)
    case (Ok a)
    with run assms(2) show ?thesis
      by (blast intro: refines_step)
  qed (use atomicD [OF assms(1) run] refines_same in auto)
qed

section \<open>The services\<close>

lemma refines_add_operation [keeps_intros]:
  "keeps (refines F) (add_operation E Pool rid a d n ty h)"
proof (rule keepsI)
  fix s r t
  assume run: "add_operation E Pool rid a d n ty h s = (r, t)"
  show "refines F s t"
  proof (cases r)
    case (Ok u)
    obtain ts where "w_db t = record_operation (new_operation (w_db s) ts rid a d n ty h) (w_db s)"
      by (rule add_operation_record [OF run [unfolded Ok]])
    then show ?thesis
      by (intro refines_step) (simp add: record_step)
  qed (use run in \<open>auto simp: add_operation_def run_sql_def insert_operation_def bindM_def
        contextM_def lift_def ensure_def Let_def bail_def intro!: refines_same
        split: option.splits if_splits\<close>)
qed

lemma refines_record_mint: "keeps (refines F) (record_mint E cid rid amount d to response hash)"
  unfolding record_mint_def by (intro keeps_intros | rule keeps_refines_unchanged)+

lemma refines_mint: "keeps (refines (node_format E)) (mint E S cid rid amount d receiver memo)"
proof -
  have "keeps (refines (node_format E)) (send_tokens E S cid rid amount d receiver memo)"
  proof (rule keeps_refines_atomic [OF atomic_send_tokens])
    fix s a t
    assume run: "send_tokens E S cid rid amount d receiver memo s = (Ok a, t)"
      and good: "good_database (node_format E) (w_db s)"
    obtain to response hash where a: "a = (to, response, hash)"
      by (cases a)
    show "db_step (node_format E) (w_db s) (w_db t)"
      by (rule send_tokens_Ok [OF run [unfolded a] good_keyed [OF good]])
        (auto intro!: send_step simp: transfer_ready_def decodes_def)
  qed
  then show ?thesis
    unfolding mint_split by (intro keeps_intros refines_record_mint)
qed

lemma refines_process_packet [keeps_intros]:
  "keeps (refines (node_format E)) (process_packet E S rpc smn tmn memo rid p c)"
proof (rule keepsI)
  fix s r t
  assume run: "process_packet E S rpc smn tmn memo rid p c s = (r, t)"
  from process_packet_cases [OF run] show "refines (node_format E) s t"
  proof
    assume "w_db t = w_db s"
    then show ?thesis
      by (rule refines_same)
  next
    assume "\<exists>c'. answered E c rpc memo rid p c' s t"
    then obtain raw ts where "chains (w_db s) (chain_str (c_id c)) = Some raw"
      "w_db t = set_chain (chain_str (c_id c)) (next_raw raw ts) (w_db s)"
      "decodes (node_format E) (next_raw raw ts)"
      by (auto simp: answered_def decodes_def)
    then show ?thesis
      by (intro refines_step) (simp add: answer_step)
  qed
qed

lemma refines_process_packets [keeps_intros]:
  "keeps (refines (node_format E)) (process_packets E S rpc c ps memo rid)"
  unfolding process_packets_def by (intro keeps_intros)

lemma refines_burn: "keeps (refines (node_format E)) (burn E S cid rid amount d memo)"
  unfolding burn_def by (intro keeps_intros | rule keeps_refines_unchanged)+

lemma refines_connect:
  assumes "ibc_codec_laws E"
  shows "keeps (refines (node_format E)) (connect E S cid rid memo force)"
proof (rule keeps_refines_atomic [OF atomic_connect])
  fix s a t
  assume run: "connect E S cid rid memo force s = (Ok a, t)"
    and good: "good_database (node_format E) (w_db s)"
  show "db_step (node_format E) (w_db s) (w_db t)"
  proof (rule connect_Ok [OF run assms good_keyed [OF good]])
    fix raw c smc tmc smk tmk smn tmn h clb csb kb nb ts
    let ?details = "\<lparr>solo_machine_client_id = smc, tendermint_client_id = tmc,
        solo_machine_connection_id = smk, tendermint_connection_id = tmk,
        solo_machine_channel_id = Some smn, tendermint_channel_id = Some tmn\<rparr>"
    assume "chains (w_db s) (chain_str cid) = Some raw" "raw_connection_details raw = None"
      "chain_of_raw (node_format E) raw = Ok c"
      "w_db t = set_chain (chain_str cid) (connected_raw raw ?details ts)
       (put_object (Channel_End (port_id (config c)) tmn) nb (put_object (Connection_End tmk) kb
         (put_object (Consensus_State tmc h) csb (put_object (Client_State tmc) clb (w_db s)))))"
      "\<exists>c2. chain_of_raw (node_format E) (connected_raw raw ?details ts) = Ok c2"
    then show ?thesis
      using connect_step [of "w_db s" "chain_str cid" raw ?details tmn "node_format E" ts nb kb h csb clb]
      by (simp add: decodes_def chain_of_raw_Ok_iff)
  qed
qed

lemma refines_close_channel: "keeps (refines F) (close_channel E S cid rid memo)"
proof (rule keepsI)
  fix s r t
  assume run: "close_channel E S cid rid memo s = (r, t)"
  show "refines F s t"
  proof (cases "good_database F (w_db s)")
    case True
    from close_channel_not_Ok [OF good_keyed [OF this]] run have "\<not> is_ok r"
      by (cases r) auto
    with atomicD [OF atomic_close_channel run] show ?thesis
      by (simp add: refines_same)
  qed (simp add: refines_def)
qed

lemma record_key_set_chain:
  "record_key (new_key_row d k key ts) (set_chain k raw d) =
     set_chain k raw (d\<lparr>chain_keys := chain_keys d @ [\<lparr>rk_id = next_key_id d, rk_chain_id = k,
       rk_public_key = key, rk_created_at = ts\<rparr>], next_key_id := next_key_id d + 1\<rparr>)"
  by (cases d) (simp add: record_key_def new_key_row_def set_chain_def)

lemma refines_update_signer:
  "keeps (refines (node_format E)) (update_signer E S cid rid new_key memo)"
proof -
  have "keeps (refines (node_format E)) (rotate_signer E S cid rid new_key memo)"
  proof (rule keeps_refines_atomic [OF atomic_rotate_signer])
    fix s a t
    assume run: "rotate_signer E S cid rid new_key memo s = (Ok a, t)"
      and good: "good_database (node_format E) (w_db s)"
    show "db_step (node_format E) (w_db s) (w_db t)"
    proof (rule rotate_signer_Ok [OF run good_keyed [OF good]])
      fix raw ts ts2
      let ?key = "public_key_encode E new_key"
      assume "chains (w_db s) (chain_str cid) = Some raw"
        "\<forall>r \<in> set (chain_keys (w_db s)). \<not> (rk_chain_id r = chain_str cid \<and> rk_public_key r = ?key)"
        "w_db t = set_chain (chain_str cid) (next_raw raw ts) ((w_db s)\<lparr>
         chain_keys := chain_keys (w_db s) @ [\<lparr>rk_id = next_key_id (w_db s),
           rk_chain_id = chain_str cid, rk_public_key = ?key, rk_created_at = ts2\<rparr>],
         next_key_id := next_key_id (w_db s) + 1\<rparr>)"
        "\<exists>c'. chain_of_raw (node_format E) (next_raw raw ts) = Ok c'"
      then show ?thesis
        using rotate_step [of "w_db s" "chain_str cid" raw "node_format E" ts ?key ts2]
        by (simp add: decodes_def fresh_key_def record_key_set_chain)
    qed
  qed
  note rotate = this
  show ?thesis
    unfolding update_signer_split
    by (intro keeps_intros rotate | rule keeps_refines_unchanged)+
qed

section \<open>Adding a chain\<close>

definition register_chain :: "env \<Rightarrow> chain_config \<Rightarrow> string \<Rightarrow> chain_id run" where
  "register_chain E cfg public_key =
     bindM (lift (external (http_client_new E (rpc_addr cfg)))) (\<lambda>_.
     bindM (call (\<lambda>n. rpc_status E n (rpc_addr cfg))) (\<lambda>status.
     bindM (lift (chain_id_from_str (network status))) (\<lambda>cid.
     bindM (begin_transaction E) (\<lambda>_.
     bindM (add_chain E Tx cid (status_node_id status) cfg) (\<lambda>_.
     bindM (add_chain_key E Tx cid public_key) (\<lambda>_.
     bindM (commit_transaction E ''unable to commit transaction for adding IBC chain'') (\<lambda>_.
     returnM cid)))))))"

lemma chain_service_add_split:
  "chain_service_add E cfg key =
     scoped (bindM (register_chain E cfg key) (\<lambda>cid.
       bindM (notify_event E (ChainAdded cid)) (\<lambda>_. returnM cid)))"
  by (simp add: chain_service_add_def register_chain_def bindM_assoc)

lemma atomic_register_chain: "atomic (register_chain E cfg key)"
  unfolding register_chain_def
  by (intro atomic_intros keeps_intros | rule keeps_same_db_of_unchanged)+

lemma register_chain_Ok:
  assumes run: "register_chain E cfg key s = (Ok cid, t)"
  obtains node ts ts2 status n where
    "rpc_status E n (rpc_addr cfg) = Inr status" "chain_id_from_str (network status) = Ok cid"
    "chains (w_db s) (chain_str cid) = None" "fresh_key (w_db s) (chain_str cid) key"
    "w_db t = record_key (new_key_row (w_db s) (chain_str cid) key ts2)
       (set_chain (chain_str cid) (new_raw_chain ts (chain_str cid)
         (node_id_to_string (node_format E) (status_node_id status)) cfg) (w_db s))"
proof -
  from run obtain status s1 s2 s3 s4 where
    status: "call (\<lambda>n. rpc_status E n (rpc_addr cfg)) s = (Ok status, s1)" and
    cid: "chain_id_from_str (network status) = Ok cid" and
    begin_tx: "begin_transaction E s1 = (Ok (), s2)" and
    add: "add_chain E Tx cid (status_node_id status) cfg s2 = (Ok (), s3)" and
    key: "add_chain_key E Tx cid key s3 = (Ok (), s4)" and
    commit: "commit_transaction E ''unable to commit transaction for adding IBC chain'' s4 = (Ok (), t)"
    unfolding register_chain_def run_Ok_iffs by (auto simp: run_Ok_iffs)
  have s2: "view Tx s2 = w_db s" and st: "rpc_status E (w_ticks s) (rpc_addr cfg) = Inr status"
    using status begin_tx by (auto simp: call_Ok_iff begin_transaction_Ok_iff)
  define row where "row = new_raw_chain (now E (w_ticks s2)) (chain_str cid)
      (node_id_to_string (node_format E) (status_node_id status)) cfg"
  have fresh: "chains (w_db s) (chain_str cid) = None"
    and s3: "view Tx s3 = set_chain (chain_str cid) row (w_db s)"
    using add_chain_Ok [OF add] by (simp_all add: s2 set_chain_def row_def)
  have "fresh_key (w_db s) (chain_str cid) key"
    and "view Tx s4 = record_key (new_key_row (w_db s) (chain_str cid) key (now E (w_ticks s3)))
       (set_chain (chain_str cid) row (w_db s))"
    using add_chain_key_Ok [OF key]
    by (auto simp: insert_chain_key_def s3 fresh_key_def list_ex_iff record_key_def new_key_row_def
        split: if_splits)
  moreover have "w_db t = view Tx s4"
    using commit by (auto simp: commit_transaction_Ok_iff)
  ultimately show thesis
    using that [OF st cid fresh] by (simp add: row_def)
qed

lemma decodes_new_raw_chain:
  assumes "node_id_laws F" "valid_chain cid"
  shows "decodes F (new_raw_chain ts (chain_str cid) (node_id_to_string F node) cfg)"
proof -
  have "chain_of_raw F (new_raw_chain ts (chain_str cid) (node_id_to_string F node) cfg) =
      Ok \<lparr>c_id = cid, c_node_id = node, config = cfg, consensus_timestamp = ts, sequence = 1,
        packet_sequence = 1, connection_details = None, c_created_at = ts, c_updated_at = ts\<rparr>"
    using assms by (simp add: chain_of_raw_Ok_iff new_raw_chain_def node_id_laws_def
        chain_text.parse_show)
  then show ?thesis
    unfolding decodes_def by blast
qed

lemma refines_chain_service_add:
  assumes "node_id_laws (node_format E)"
  shows "keeps (refines (node_format E)) (chain_service_add E cfg key)"
proof -
  have "keeps (refines (node_format E)) (register_chain E cfg key)"
  proof (rule keeps_refines_atomic [OF atomic_register_chain])
    fix s cid t
    assume run: "register_chain E cfg key s = (Ok cid, t)"
    show "db_step (node_format E) (w_db s) (w_db t)"
      by (rule register_chain_Ok [OF run])
        (auto intro!: add_chain_step decodes_new_raw_chain assms intro: chain_text.parse_valid)
  qed
  note register = this
  show ?thesis
    unfolding chain_service_add_split
    by (intro keeps_intros register | rule keeps_refines_unchanged)+
qed

end
