(* ===== verification/Example_World.thy ===== *)
theory Example_World
  imports Refinement "HOL-Library.Code_Target_Nat"
begin

text \<open>
  A concrete environment, chain and signer, small enough to run the services in the kernel:
  the inputs at which the properties of the services are shown to apply. Its codec is a table
  of the few objects a handshake stores.
\<close>

section \<open>Peers\<close>

definition ex_connection :: connection_end where
  "ex_connection = try_connection (ClientId (Identifier ''07-tendermint-aaaa''))
     (ClientId (Identifier ''06-solomachine-0'')) (ConnectionId (Identifier ''connection-7''))"

definition ex_port :: port_id where
  "ex_port = PortId (Identifier ''transfer'')"

definition ex_channel :: channel where
  "ex_channel = try_channel ex_port (ChannelId (Identifier ''channel-9''))
     (ConnectionId (Identifier ''connection-aaaa''))"

fun ex_encode :: "proto_msg \<Rightarrow> string + bytes" where
  "ex_encode (P_Connection_End m) =
     (if m = ex_connection then Inr [1]
      else if m = set_connection_state Conn_Open ex_connection then Inr [2]
      else Inl ''unknown connection'')"
| "ex_encode (P_Channel m) =
     (if m = ex_channel then Inr [3]
      else if m = set_channel_state Chan_Open ex_channel then Inr [4]
      else if m = set_channel_state Chan_Closed ex_channel then Inr [5]
      else Inl ''unknown channel'')"
| "ex_encode _ = Inr []"

definition ex_decode_connection :: "bytes \<Rightarrow> string + connection_end" where
  "ex_decode_connection bs =
     (if bs = [1] then Inr ex_connection
      else if bs = [2] then Inr (set_connection_state Conn_Open ex_connection)
      else Inl ''unknown connection'')"

definition ex_decode_channel :: "bytes \<Rightarrow> string + channel" where
  "ex_decode_channel bs =
     (if bs = [3] then Inr ex_channel
      else if bs = [4] then Inr (set_channel_state Chan_Open ex_channel)
      else if bs = [5] then Inr (set_channel_state Chan_Closed ex_channel)
      else Inl ''unknown channel'')"

definition ex_client_state :: tm_client_state where
  "ex_client_state =
     \<lparr>tcs_chain_id = ''testnet-1'', tcs_trust_level = None, tcs_trusting_period = None,
      tcs_unbonding_period = None, tcs_max_clock_drift = None, tcs_frozen_height = None,
      tcs_latest_height = None, tcs_proof_specs = [], tcs_upgrade_path = [],
      tcs_allow_update_after_expiry = True, tcs_allow_update_after_misbehaviour = True\<rparr>"

definition ex_event :: "string \<Rightarrow> string \<Rightarrow> string \<Rightarrow> abci_event" where
  "ex_event k key v = \<lparr>kind = k, attributes = [V037 key v]\<rparr>"

definition ex_response :: "u32 \<Rightarrow> tx_response" where
  "ex_response code =
     \<lparr>check_code = 0, check_log = '''', deliver_code = code, deliver_log = ''refused'',
      tx_events = [ex_event ''create_client'' ''client_id'' ''06-solomachine-0'',
        ex_event ''connection_open_init'' ''connection_id'' ''connection-7'',
        ex_event ''channel_open_init'' ''channel_id'' ''channel-9'',
        ex_event ''fungible_token_packet'' ''success'' ''true''],
      tx_hash = ''CAFE''\<rparr>"

definition ex_format :: node_id_format where
  "ex_format = \<lparr>node_id_to_string = map (\<lambda>b. char_of (unat b)), node_id_parse = (\<lambda>s. Inr (as_bytes s))\<rparr>"

lemma of_char_of_byte: "of_char (char_of (unat b)) = (b :: u8)"
  using unsigned_less [where 'a = nat, of b] by (simp add: word_unat_eq_iff)

lemma ex_format_laws: "node_id_laws ex_format"
  by (simp add: node_id_laws_def ex_format_def as_bytes_def of_char_of_byte comp_def)

text \<open>\<open>code\<close> is the result code the chain gives to every transaction.\<close>

definition ex_env :: "u32 \<Rightarrow> env" where
  "ex_env code =
     \<lparr>encode = ex_encode, decode_channel = ex_decode_channel,
      decode_connection = ex_decode_connection,
      decode_tm_client_state = (\<lambda>_. Inr ex_client_state),
      decode_base_account = (\<lambda>_. Inr \<lparr>ba_address = ''addr'', ba_account_number = 1, ba_sequence = 2\<rparr>),
      decode_eth_account = (\<lambda>_. Inl ''none''), decode_secp256k1_pub_key = (\<lambda>_. Inl ''none''),
      decode_eth_secp256k1_pub_key = (\<lambda>_. Inl ''none''), decode_ed25519_pub_key = (\<lambda>_. Inl ''none''),
      decode_legacy_amino_pub_key = (\<lambda>_. Inl ''none''),
      sha256 = (\<lambda>_. [7]), ripemd160 = (\<lambda>_. [8]), keccak256 = (\<lambda>_. [9]),
      k256_from_sec1 = (\<lambda>bs. Inr (K256_Key bs)), k256_uncompressed = (\<lambda>k. sec1_bytes k),
      k256_signature = (\<lambda>bs. Inr bs), k256_verify = (\<lambda>_ _ _. Inr ()),
      ed25519_from_bytes = (\<lambda>bs. Inr (Ed25519_Key bs)), ed25519_verify = (\<lambda>_ _ _. Inr ()),
      hrp_parse = (\<lambda>s. Inr s), bech32_encode = (\<lambda>s _. Inr s),
      hex_encode = (\<lambda>_. ''00''), hex_encode_upper = (\<lambda>_. ''00''), hex_decode = (\<lambda>_. Inr []),
      json_to_vec = (\<lambda>_. Inr []),
      debug_events = (\<lambda>_. ''events''), debug_tags = (\<lambda>_. ''tags''),
      db_fault = (\<lambda>_. None), now = (\<lambda>n. int n), rng_alphanumeric = (\<lambda>_ _. CHR ''a''),
      node_format = ex_format, http_client_new = (\<lambda>_. Inr ()),
      broadcast = (\<lambda>_ _ _. Inr (ex_response code)),
      rpc_status = (\<lambda>_ _. Inr \<lparr>network = ''testnet-1'', status_node_id = [], catching_up = False,
        latest_block_height = 100\<rparr>),
      grpc_connect = (\<lambda>_ _. Inr ()),
      query_account = (\<lambda>_ _ _. Inr (Some \<lparr>type_url = BASE_ACCOUNT_TYPE_URL, any_value = []\<rparr>)),
      query_staking_params = (\<lambda>_ _. Inr (Some (Some \<lparr>dur_seconds = 1, dur_nanos = 0\<rparr>))),
      query_balance = (\<lambda>_ _ _ _. Inr None), decimal_to_string = (\<lambda>_. ''0''),
      decimal_parse = (\<lambda>_. Inr decimal_default),
      duration_to_proto = (\<lambda>_. Inr \<lparr>dur_seconds = 1, dur_nanos = 0\<rparr>),
      trust_threshold_new = (\<lambda>_ _. Inr ()), trust_primary_at = (\<lambda>_ _. Inr ()),
      verify_to_highest = (\<lambda>_ _. Inr \<lparr>header_height = 99, header_app_hash = [],
        header_time_seconds = 1, header_time_nanos = 0, header_next_validators_hash = []\<rparr>),
      notifier = True, notifier_send = (\<lambda>_. None)\<rparr>"

lemma ex_env_codec: "ibc_codec_laws (ex_env code)"
  by (auto simp: ibc_codec_laws_def ex_env_def ex_decode_connection_def ex_decode_channel_def
      split: if_splits)

text \<open>A run that ends well, as a value and a world.\<close>

lemma ex_run:
  assumes "is_ok (fst (m s))"
  obtains a t where "m s = (Ok a, t)"
  using assms by (cases "m s") (auto simp: is_ok_iff)

definition ex_signer :: signer where
  "ex_signer =
     \<lparr>to_public_key = Ok (Secp256k1 (K256_Key [2, 3])), get_account_prefix = ''cosmos'',
      to_account_address = Ok ''cosmos1me'', sign_with = (\<lambda>_ _ _. Ok [42])\<rparr>"

section \<open>A chain and its worlds\<close>

definition ex_config :: chain_config where
  "ex_config =
     \<lparr>grpc_addr = ''grpc'', rpc_addr = ''rpc'',
      config_fee = \<lparr>fee_amount = decimal_default, fee_denom = Identifier ''stake'', fee_gas_limit = 1\<rparr>,
      trust_level = \<lparr>numer = 1, denom = 3\<rparr>,
      trusting_period = \<lparr>d_secs = 1, d_subsec_nanos = 0\<rparr>,
      max_clock_drift = \<lparr>d_secs = 1, d_subsec_nanos = 0\<rparr>,
      rpc_timeout = \<lparr>d_secs = 1, d_subsec_nanos = 0\<rparr>, diversifier = ''solo'',
      port_id = ex_port, trusted_height = 1, trusted_hash = []\<rparr>"

definition ex_chain_id :: chain_id where
  "ex_chain_id = \<lparr>ci_id = Identifier ''testnet-1'', ci_version = 1\<rparr>"

definition ex_details :: connection_details where
  "ex_details =
     \<lparr>solo_machine_client_id = ClientId (Identifier ''06-solomachine-0''),
      tendermint_client_id = ClientId (Identifier ''07-tendermint-aaaa''),
      solo_machine_connection_id = ConnectionId (Identifier ''connection-7''),
      tendermint_connection_id = ConnectionId (Identifier ''connection-aaaa''),
      solo_machine_channel_id = Some (ChannelId (Identifier ''channel-9'')),
      tendermint_channel_id = Some (ChannelId (Identifier ''channel-aaaa''))\<rparr>"

definition ex_row :: "connection_details option \<Rightarrow> raw_chain" where
  "ex_row details =
     \<lparr>raw_id = ''testnet-1'', raw_node_id = '''', raw_config = ex_config,
      raw_consensus_timestamp = 5000000000, raw_sequence = 1, raw_packet_sequence = 1,
      raw_connection_details = details, raw_created_at = 0, raw_updated_at = 0\<rparr>"

definition ex_world :: "connection_details option \<Rightarrow> world" where
  "ex_world details =
     \<lparr>w_db = empty_database\<lparr>chains := [''testnet-1'' \<mapsto> ex_row details],
        ibc_data := [''channelEnds/ports/transfer/channels/channel-aaaa'' \<mapsto> [4]]\<rparr>,
      w_tx = None, w_ticks = 0, w_log = []\<rparr>"

definition ex_fresh_world :: world where
  "ex_fresh_world =
     \<lparr>w_db = empty_database\<lparr>chains := [''testnet-1'' \<mapsto> ex_row None]\<rparr>,
      w_tx = None, w_ticks = 0, w_log = []\<rparr>"

text \<open>A whole handshake, run in the kernel.\<close>

lemma ex_connected:
  "is_ok (fst (connect (ex_env 0) ex_signer ex_chain_id None '''' False ex_fresh_world))"
  by code_simp

lemma ex_minted:
  "is_ok (fst (mint (ex_env 0) ex_signer ex_chain_id None 5 (Identifier ''tok'') None ''memo''
     (ex_world (Some ex_details))))"
  by code_simp

section \<open>Other requests\<close>

definition ex_chain :: chain where
  "ex_chain = \<lparr>c_id = ex_chain_id, c_node_id = [], config = ex_config, consensus_timestamp = 0,
     sequence = 1, packet_sequence = 1, connection_details = Some ex_details, c_created_at = 0,
     c_updated_at = 0\<rparr>"

definition ex_packet :: packet where
  "ex_packet = \<lparr>pk_sequence = 3, pk_source_port = ''transfer'', pk_source_channel = ''channel-9'',
     pk_destination_port = ''transfer'', pk_destination_channel = ''channel-aaaa'', pk_data = [],
     pk_timeout_height = Some (Height 0 200), pk_timeout_timestamp = 0\<rparr>"

definition ex_empty_world :: world where
  "ex_empty_world = \<lparr>w_db = empty_database, w_tx = None, w_ticks = 0, w_log = []\<rparr>"

text \<open>An answer to a packet that the chain refuses.\<close>

lemma ex_refused:
  "case answer_packet (ex_env 5) ex_signer ''rpc'' (ChannelId (Identifier ''channel-9''))
      (ChannelId (Identifier ''channel-aaaa'')) '''' None ex_packet ex_chain
      (ex_world (Some ex_details)) of
     (Ok (response, c), t) \<Rightarrow> deliver_code response = 5
   | _ \<Rightarrow> False"
  by code_simp

lemma ex_burnt:
  "is_ok (fst (burn (ex_env 0) ex_signer ex_chain_id None 5 (Identifier ''tok'') ''''
     (ex_world (Some ex_details))))"
  by code_simp

lemma ex_rotated:
  "is_ok (fst (update_signer (ex_env 0) ex_signer ex_chain_id None (Secp256k1 (K256_Key [2, 4])) ''''
     (ex_world (Some ex_details))))"
  by code_simp

lemma ex_added: "is_ok (fst (chain_service_add (ex_env 0) ex_config ''00'' ex_empty_world))"
  by code_simp

end
