(* ===== verification/Key_Properties.thy ===== *)
theory Key_Properties
  imports Multisig Example_World
begin

text \<open>
  The properties of keys, multisignatures, accounts and of the data the machine signs. The
  witnesses use a small codec table over the example environment.
\<close>

section \<open>A codec for the witnesses\<close>

definition ex_any_key :: any where
  "ex_any_key = \<lparr>type_url = SECP256K1_PUB_KEY_TYPE_URL, any_value = [2, 3]\<rparr>"

definition ex_multisig :: public_key where
  "ex_multisig = Multisig 1 [Secp256k1 (K256_Key [2, 3])]"

definition ex_base_account :: base_account where
  "ex_base_account = \<lparr>ba_address = ''addr'', ba_account_number = 1, ba_sequence = 2\<rparr>"

fun ex_key_encode :: "proto_msg \<Rightarrow> string + bytes" where
  "ex_key_encode (P_Pub_Key (Secp256k1_PubKey b)) = Inr b"
| "ex_key_encode (P_Pub_Key (Eth_Secp256k1_PubKey b)) = Inr b"
| "ex_key_encode (P_Pub_Key (Ed25519_PubKey b)) = Inr b"
| "ex_key_encode (P_Pub_Key (Legacy_Amino_PubKey t as)) =
     (if t = 1 \<and> as = [ex_any_key] then Inr [9] else Inl ''unknown key'')"
| "ex_key_encode (P_Base_Account a) =
     (if a = ex_base_account then Inr [8] else Inl ''unknown account'')"
| "ex_key_encode _ = Inl ''unknown message''"

definition ex_codec :: env where
  "ex_codec = (ex_env 0)\<lparr>encode := ex_key_encode, decode_secp256k1_pub_key := Inr,
     decode_eth_secp256k1_pub_key := Inr, decode_ed25519_pub_key := Inr,
     decode_legacy_amino_pub_key := (\<lambda>_. Inr (1, [ex_any_key])),
     decode_base_account := (\<lambda>_. Inr ex_base_account)\<rparr>"

lemma ex_codec_laws: "key_codec_laws ex_codec" "account_codec_laws ex_codec"
  by (auto simp: key_codec_laws_def account_codec_laws_def ex_codec_def ex_env_def split: if_splits)

section \<open>Multisignatures\<close>

text \<open>C9: A multisignature is accepted exactly when it has a bit array as long as the list of
  keys, all of whose bits can be read, at least as many bits are set and at least as many
  signatures are given as the threshold asks, and not more signatures than keys; and the j-th
  signature is a valid signature of the message by the key at the j-th set bit. In particular
  at least threshold many keys have signed, each with its own signature.\<close>

theorem multisignature_accepted:
  "verify_signature L (Multisig t ks) msg (Multi_Signature bitarray sigs) = Ok () \<longleftrightarrow>
     (\<exists>ba. bitarray = Some ba \<and> bit_array_len ba = Ok (length ks) \<and>
        (\<forall>i < length ks. is_ok (bit_array_get ba i)) \<and>
        unat t \<le> length sigs \<and> length sigs \<le> length ks \<and>
        (let signers = filter (\<lambda>i. bit_array_get ba i = Ok True) [0..<length ks] in
         unat t \<le> length signers \<and> length signers \<le> length sigs \<and>
         (\<forall>j < length signers. \<exists>sd. sigs ! j = Some sd \<and>
            verify_signature L (ks ! (signers ! j)) msg sd = Ok ())))"
  by (auto simp: verify_multi_signature_Ok_iff signers_of_def signers_from_def readable_def
      signed_by_def Let_def list_all2_take simp del: verify_multi_signature.simps)

theorem multisignature_accepted_witness:
  "verify_signature ex_codec (Multisig 2 (replicate 3 (Secp256k1 (K256_Key [2, 3])))) []
     (Multi_Signature (Some \<lparr>extra_bits_stored = 3, elems = [0xA0]\<rparr>)
       [Some (Single_Signature 0 [1]), Some (Single_Signature 0 [2])]) = Ok ()"
proof -
  let ?ba = "\<lparr>extra_bits_stored = 3, elems = [0xA0]\<rparr>"
  have "well_formed ?ba" "bits ?ba = [True, False, True]"
    by (simp_all add: well_formed_def bits_def byte_bits_def upt_rec)
  then have "bit_array_len ?ba = Ok 3" "\<And>i. bit_array_get ?ba i = Ok (i < Suc (Suc (Suc 0)) \<and> [True, False, True] ! i)"
    by (simp_all add: length_bits bit_array_get_bits)
  then show ?thesis
    by (simp add: multisignature_accepted upt_rec less_Suc_eq numeral_2_eq_2 numeral_3_eq_3
        ex_codec_def ex_env_def del: verify_signature.simps(3) verify_multi_signature.simps)
qed

text \<open>C30: When the bit array marks more keys than there are signatures, and the signatures that
  are given are valid, verification does not fail with an error but panics on an index out of
  bounds: the number of set bits is only checked against the threshold.\<close>

theorem multisignature_missing_signature_panics:
  assumes "well_formed ba" "length (bits ba) = length ks"
    and "unat t \<le> length sigs" "length sigs < length (filter id (bits ba))"
    and "\<forall>j < length sigs. \<exists>sd. sigs ! j = Some sd \<and>
      verify_signature L (ks ! (signers_of ba (length ks) ! j)) msg sd = Ok ()"
  shows "verify_signature L (Multisig t ks) msg (Multi_Signature (Some ba) sigs) =
    Panic ''index out of bounds''"
proof -
  have "length (signers_of ba (length ks)) = length (filter id (bits ba))"
    using num_true_bits_before_Ok_iff [of ba "length ks" "length (filter id (bits ba))"]
      num_true_bits_before_bits [OF assms(1), of "length ks"] assms(2) by simp
  then show ?thesis
    using assms
    by (auto simp: length_bits well_formed_readable signed_by_def list_all2_conv_all_nth
        simp del: verify_multi_signature.simps intro!: verify_multi_signature_panics)
qed

theorem multisignature_missing_signature_panics_witness:
  "verify_signature ex_codec (Multisig 1 (replicate 8 (Secp256k1 (K256_Key [2, 3])))) []
     (Multi_Signature (Some \<lparr>extra_bits_stored = 0, elems = [0xC0]\<rparr>) [Some (Single_Signature 0 [1])]) =
   Panic ''index out of bounds''"
  by (rule multisignature_missing_signature_panics)
    (simp_all add: well_formed_def bits_def byte_bits_def upt_rec signers_of_def signers_from_def
      bit_array_get_bits ex_codec_def ex_env_def)

section \<open>Packing\<close>

text \<open>C36: A public key packed into an \<open>Any\<close> is unpacked to the same key, for every kind of key,
  multisignature keys with keys inside them included; the recursion into those keys ends after
  at most as many steps as the key has parts.\<close>

theorem public_key_any_roundtrip:
  assumes "key_codec_laws L" "ed25519_keys_sized k" "public_key_to_any L k = Ok a"
  shows "public_key_from_any (Suc (size k)) L a = Some (Ok k)"
  by (rule public_key_roundtrip_mutual(1) [OF assms(1,3,2)]) simp

theorem public_key_any_roundtrip_witness:
  "public_key_from_any (Suc (size ex_multisig)) ex_codec
     \<lparr>type_url = MULTISIG_PUB_KEY_TYPE_URL, any_value = [9]\<rparr> = Some (Ok ex_multisig)"
  by (rule public_key_any_roundtrip [OF ex_codec_laws(1)])
    (simp_all add: ex_multisig_def ex_codec_def impl_to_any_def proto_encode_def ex_any_key_def
      secp256k1_from_verifying_key_def)

text \<open>C37: Unpacking a key from an \<open>Any\<close> always ends, with a key or an error, whatever the bytes:
  the keys inside a multisignature key are shorter than the key they are in, and recursion
  deeper than the number of bytes does not happen.\<close>

theorem key_unpacking_terminates:
  assumes "nested_shorter L"
  shows "\<exists>r. public_key_from_any (Suc (length (any_value a))) L a = Some r"
  using public_key_from_any_total [OF assms, of a "Suc (length (any_value a))"] by auto

theorem key_unpacking_terminates_witness:
  "\<exists>r. public_key_from_any 4 ((ex_env 0)\<lparr>decode_legacy_amino_pub_key :=
     (\<lambda>bs. if length bs = 3 then Inr (1, [ex_any_key]) else Inl ''bad key'')\<rparr>)
     \<lparr>type_url = MULTISIG_PUB_KEY_TYPE_URL, any_value = [9, 9, 9]\<rparr> = Some r"
  using key_unpacking_terminates [of "(ex_env 0)\<lparr>decode_legacy_amino_pub_key :=
      (\<lambda>bs. if length bs = 3 then Inr (1, [ex_any_key]) else Inl ''bad key'')\<rparr>"
      "\<lparr>type_url = MULTISIG_PUB_KEY_TYPE_URL, any_value = [9, 9, 9]\<rparr>"]
  by (auto simp: nested_shorter_def ex_any_key_def eval_nat_numeral split: if_splits)

text \<open>An account packed into an \<open>Any\<close> is unpacked to the same account: base accounts and
  ethermint accounts are told apart by their type URL, and any other type is refused.\<close>

lemma account_any_codec:
  assumes "account_codec_laws L"
  shows "(account_to_any L a = Ok v \<longrightarrow> account_from_any L v = Ok a) \<and>
    (account_from_any L v = Ok a \<longrightarrow>
       type_url v = (case a of Base _ \<Rightarrow> BASE_ACCOUNT_TYPE_URL | Eth _ \<Rightarrow> ETH_ACCOUNT_TYPE_URL))"
  using account_any_roundtrip [OF assms]
  by (auto simp: account_from_any_def split: if_splits account.splits)

end
