(* ===== verification/Store_Properties.thy ===== *)
theory Store_Properties
  imports Example_World
begin

text \<open>
  The properties of the stores and of what the services read from and derive from them: rows,
  sequences, histories, packets, commitments and denominations.
\<close>

section \<open>Rows\<close>

text \<open>A chain read from a row is written back as that row, and a chain with a valid
  identifier is read back from its row as it was, its two sequences kept as 32-bit numbers: the
  two conversions are inverse to each other.\<close>

lemma chain_row_codec:
  assumes "node_id_laws F"
  shows "(valid_chain (c_id c) \<longrightarrow> chain_of_raw F (raw_of_chain F c) = Ok c) \<and>
    (chain_of_raw F raw = Ok c \<longrightarrow> raw_of_chain F c = raw\<lparr>raw_node_id := node_id_to_string F (c_node_id c)\<rparr>
       \<and> 0 \<le> raw_sequence raw \<and> raw_sequence raw < 2 ^ 32 \<and>
       0 \<le> raw_packet_sequence raw \<and> raw_packet_sequence raw < 2 ^ 32)"
  using chain_of_raw_of_chain [OF assms, of c] uint_lt2p [of "sequence c"]
    uint_lt2p [of "packet_sequence c"]
  by (auto simp: chain_of_raw_Ok_iff raw_of_chain_def chain_id_from_str_Ok_iff chain_str_def)

text \<open>A channel end that was added is found again, decoded to the channel that was encoded,
  and every other channel end is found as before.\<close>

lemma channel_found_after_add:
  assumes "add_channel E ex p n chan s = (Ok u, t)" "ibc_codec_laws E"
    and "valid_port p" "valid_channel n" "valid_port p'" "valid_channel n'"
    and "db_fault E (w_ticks t) = None"
  shows "fst (get_channel E ex p' n' t) =
    (if p' = p \<and> n' = n then Ok (Some chan)
     else fst (get_channel E ex p' n' (s\<lparr>w_ticks := w_ticks t\<rparr>)))"
proof -
  obtain bs where bs: "encode E (P_Channel chan) = Inr bs"
    and t: "view ex t = put_object (Channel_End p n) bs (view ex s)"
    using add_object_Ok(4) [OF assms(1)] by blast
  have "decode_channel E bs = Inr chan"
    using assms(2) bs by (simp add: ibc_codec_laws_def)
  moreover have "ibc_data (view ex t) (object_key (Channel_End p' n')) =
      (if p' = p \<and> n' = n then Some bs
       else ibc_data (view ex s) (object_key (Channel_End p' n')))"
    using t assms(3-6) by simp
  ultimately show ?thesis
    using assms(7)
    by (auto simp: get_channel_def get_def bindM_def query_sql_def lift_def returnM_def
        split: option.splits outcome.splits)
qed

text \<open>An object is never added twice: adding a channel end that is already stored fails with
  an error and changes no table.\<close>

lemma channel_not_added_twice:
  assumes "ibc_data (view ex s) (object_key (Channel_End p n)) \<noteq> None"
  shows "\<exists>e t. add_channel E ex p n chan s = (Err e, t) \<and> view ex t = view ex s \<and> w_db t = w_db s"
  using assms
  by (cases "encode E (P_Channel chan)"; cases ex)
    (auto simp: add_channel_def proto_encode_def bail_def add_def bindM_def contextM_def run_sql_def
      insert_row_def lift_def Let_def view.simps(2) split: option.splits)

text \<open>C38: The sequence of a chain never wraps around: once it is the largest 32-bit number,
  incrementing it inside a transaction fails, whatever else happens, and the committed database
  keeps it.\<close>

theorem sequence_never_wraps:
  assumes "chains (view Tx s) (chain_str cid) = Some raw" "2 ^ 32 - 1 \<le> raw_sequence raw"
    and "increment_sequence E Tx cid s = (r, t)"
  shows "\<not> is_ok r \<and> w_db t = w_db s"
proof
  show "w_db t = w_db s"
    using keepsD [OF keeps_same_db_chain_writes(3) assms(3)] by (simp add: same_db_def)
  show "\<not> is_ok r"
  proof
    assume "is_ok r"
    then obtain c where "increment_sequence E Tx cid s = (Ok c, t)"
      using assms(3) by (auto simp: is_ok_iff)
    then show False
      using assms(1,2) uint_lt2p [of "sequence c"]
      by (elim increment_sequence_Ok) (auto simp: chain_of_raw_Ok_iff)
  qed
qed

theorem sequence_never_wraps_witness:
  "\<not> is_ok (fst (increment_sequence (ex_env 0) Tx ex_chain_id ((ex_world None)\<lparr>
     w_tx := Some (empty_database\<lparr>chains := [''testnet-1'' \<mapsto>
       (ex_row None)\<lparr>raw_sequence := 2 ^ 32 - 1\<rparr>]\<rparr>)\<rparr>)))"
proof -
  let ?s = "(ex_world None)\<lparr>w_tx := Some (empty_database\<lparr>chains := [''testnet-1'' \<mapsto>
       (ex_row None)\<lparr>raw_sequence := 2 ^ 32 - 1\<rparr>]\<rparr>)\<rparr>"
  obtain r t where "increment_sequence (ex_env 0) Tx ex_chain_id ?s = (r, t)"
    by fastforce
  with sequence_never_wraps [OF _ _ this] show ?thesis
    by (simp add: chain_str_def ex_chain_id_def)
qed

section \<open>Histories\<close>

text \<open>C39: The history of an account is its operations, newest first, without the first \<open>off\<close> and
  cut at \<open>lim\<close>: the operations returned are exactly the stored rows at these positions, read
  back, and their numbers decrease.\<close>

theorem history_newest_first:
  assumes "get_operations E ex address lim off s = (Ok ops, t)" "well_numbered (view ex s)"
    and "0 \<le> lim"
  shows "map raw_of_operation ops = take (nat lim) (drop (nat off)
      (rev (filter (\<lambda>r. ro_address r = address) (operations (view ex s))))) \<and>
    sorted_wrt (>) (map o_id ops)"
proof
  let ?mine = "filter (\<lambda>r. ro_address r = address) (operations (view ex s))"
  let ?rows = "take (nat lim) (drop (nat off) (rev ?mine))"
  have "list_all2 (\<lambda>raw op. operation_of_raw raw = Ok op) ?rows ops"
    using get_operations_Ok [OF assms(1,2)] assms(3) by (simp add: limit_offset_def)
  then have "list_all2 (\<lambda>raw op. raw = raw_of_operation op) ?rows ops"
    by (rule list_all2_mono) (simp add: raw_of_operation_of_raw)
  then show rows: "map raw_of_operation ops = ?rows"
    by (induction rule: list_all2_induct) simp_all
  have "sorted_wrt (\<lambda>x y. ro_id x < ro_id y) ?mine"
    using assms(2) by (auto simp: well_numbered_def sorted_wrt_map intro: sorted_wrt_filter)
  then have "sorted_wrt (\<lambda>x y. ro_id x > ro_id y) ?rows"
    by (auto simp: sorted_wrt_rev intro!: sorted_wrt_take sorted_wrt_drop)
  moreover have "map o_id ops = map ro_id ?rows"
    unfolding rows [symmetric] by (simp add: raw_of_operation_def)
  ultimately show "sorted_wrt (>) (map o_id ops)"
    by (simp add: sorted_wrt_map)
qed

definition ex_operation :: "int \<Rightarrow> raw_operation" where
  "ex_operation i = raw_of_operation \<lparr>o_id = i, o_request_id = None, o_address = ''me'',
     o_denom = Identifier ''tok'', o_amount = 5, o_operation_type = Mint ex_chain_id,
     o_transaction_hash = ''CAFE'', o_created_at = 0\<rparr>"

definition ex_history_world :: world where
  "ex_history_world = (ex_world None)\<lparr>w_db := empty_database\<lparr>
     operations := [ex_operation 1, ex_operation 2], next_operation_id := 3\<rparr>\<rparr>"

theorem history_newest_first_witness:
  "\<exists>ops t. get_operations (ex_env 0) Pool ''me'' 1 0 ex_history_world = (Ok ops, t) \<and>
     map raw_of_operation ops = [ex_operation 2]"
proof -
  have "is_ok (fst (get_operations (ex_env 0) Pool ''me'' 1 0 ex_history_world))"
    by code_simp
  then obtain ops t where run: "get_operations (ex_env 0) Pool ''me'' 1 0 ex_history_world = (Ok ops, t)"
    by (rule ex_run)
  have "well_numbered (view Pool ex_history_world)"
    by (simp add: well_numbered_def ex_history_world_def ex_operation_def raw_of_operation_def)
  from history_newest_first [OF run this] run show ?thesis
    by (simp add: ex_history_world_def ex_operation_def raw_of_operation_def)
qed

section \<open>Packets, commitments and denominations\<close>

text \<open>
  An event that announces a packet. Its attributes are pairs of texts, in any order and with any
  others among them (\<open>packet_data\<close>, \<open>packet_channel_ordering\<close>, the connection); the last attribute
  with a key counts. The eight that the machine reads hold the fields of the packet: the data as
  some hexadecimal text of it, the height and the numbers printed.
\<close>

definition attribute_texts :: "event_attribute list \<Rightarrow> (string \<times> string) list \<Rightarrow> bool" where
  "attribute_texts tags kvs \<longleftrightarrow>
     list_all2 (\<lambda>tag (k, v). key_str tag = Ok k \<and> value_str tag = Ok v) tags kvs"

definition announces :: "'x libs_scheme \<Rightarrow> abci_event \<Rightarrow> packet \<Rightarrow> bool" where
  "announces L e p \<longleftrightarrow>
     (\<exists>kvs h hex. let value = map_of (rev kvs) in
        attribute_texts (attributes e) kvs \<and>
        value ''packet_sequence'' = Some (show_u64 (pk_sequence p)) \<and>
        value ''packet_src_port'' = Some (pk_source_port p) \<and>
        value ''packet_src_channel'' = Some (pk_source_channel p) \<and>
        value ''packet_dst_port'' = Some (pk_destination_port p) \<and>
        value ''packet_dst_channel'' = Some (pk_destination_channel p) \<and>
        value ''packet_data_hex'' = Some hex \<and> hex_decode L hex = Inr (pk_data p) \<and>
        value ''packet_timeout_height'' = Some (height_to_string h) \<and> pk_timeout_height p = Some h \<and>
        value ''packet_timeout_timestamp'' = Some (show_u64 (pk_timeout_timestamp p)))"

lemma collect_attributes_texts:
  "attribute_texts tags kvs \<Longrightarrow> collect_attributes tags m = Ok (m ++ map_of (rev kvs))"
proof (induction tags arbitrary: kvs m)
  case (Cons tag tags)
  from Cons.prems obtain k v kvs' where "kvs = (k, v) # kvs'" "key_str tag = Ok k" "value_str tag = Ok v"
    "attribute_texts tags kvs'"
    by (auto simp: attribute_texts_def list_all2_Cons1)
  moreover from this(1) have "m ++ map_of (rev kvs) = m(k \<mapsto> v) ++ map_of (rev kvs')"
    by simp
  ultimately show ?case
    using Cons.IH [of kvs' "m(k \<mapsto> v)"] by (simp only: collect_attributes.simps and_then.simps)
qed (simp add: attribute_texts_def)

lemma announced_packet: "announces L e p \<Longrightarrow> packet_of_event L e = Ok p"
  by (auto simp: announces_def Let_def packet_of_event_def collect_attributes_texts
      packet_of_attributes_def remove_attribute_def u64_text.parse_show height_text.parse_show)

text \<open>C40: From the response to a transaction in which the chain sent packets, exactly these packets
  are read, in the order of their \<open>send_packet\<close> events, whatever other events stand between
  these, whatever other attributes the events carry and in whatever order.\<close>

theorem packets_roundtrip:
  assumes "list_all2 (announces L) (filter (\<lambda>e. kind e = ''send_packet'') (tx_events r)) ps"
  shows "extract_packets L r = Ok ps"
  unfolding extract_packets_def collect_Ok_iff
  using assms by (rule list_all2_mono) (rule announced_packet)

definition ex_send_packet :: abci_event where
  "ex_send_packet = \<lparr>kind = ''send_packet'', attributes =
     [V037 ''packet_data'' ''{}'', V037 ''packet_data_hex'' ''7b7d'',
      V037 ''packet_timeout_height'' ''0-200'', V037 ''packet_timeout_timestamp'' ''0'',
      V037 ''packet_sequence'' ''3'', V037 ''packet_src_port'' ''transfer'',
      V037 ''packet_src_channel'' ''channel-9'', V037 ''packet_dst_port'' ''transfer'',
      V037 ''packet_dst_channel'' ''channel-aaaa'', V037 ''packet_channel_ordering'' ''ORDER_UNORDERED'',
      V037 ''packet_connection'' ''connection-0'']\<rparr>"

definition ex_hex_env :: env where
  "ex_hex_env = (ex_env 0)\<lparr>hex_decode := (\<lambda>x. if x = ''7b7d'' then Inr [123, 125] else Inl ''odd'')\<rparr>"

lemma ex_announced: "announces ex_hex_env ex_send_packet (ex_packet\<lparr>pk_data := [123, 125]\<rparr>)"
proof -
  have "show_u64 3 = ''3''" "show_u64 0 = ''0''" "height_to_string (Height 0 200) = ''0-200''"
    by code_simp+
  then show ?thesis
    unfolding announces_def
    by (intro exI [of _ "map (\<lambda>t. case t of V037 k v \<Rightarrow> (k, v) | V034 k v \<Rightarrow> ([], [])) (attributes ex_send_packet)"]
        exI [of _ "Height 0 200"] exI [of _ "''7b7d''"])
      (simp add: attribute_texts_def ex_send_packet_def ex_packet_def ex_hex_env_def)
qed

theorem packets_roundtrip_witness:
  "extract_packets ex_hex_env ((ex_response 0)\<lparr>tx_events := [ex_event ''message'' ''action'' ''send'',
     ex_send_packet, ex_event ''transfer'' ''amount'' ''5'', ex_send_packet]\<rparr>)
   = Ok [ex_packet\<lparr>pk_data := [123, 125]\<rparr>, ex_packet\<lparr>pk_data := [123, 125]\<rparr>]"
  by (rule packets_roundtrip) (use ex_announced in \<open>simp add: ex_event_def ex_send_packet_def\<close>)

text \<open>The commitment of a packet binds its timeouts and its data: two packets with the same
  commitment have the same timeout height, timeout timestamp and data, or else exhibit a
  collision of the hash function. A packet without a timeout height has no commitment.\<close>

lemma commitment_binding:
  assumes "commitment_bytes L p = Ok d" "commitment_bytes L q = Ok d"
  shows "pk_timeout_height p \<noteq> None \<and>
    (pk_timeout_height p = pk_timeout_height q \<and>
     pk_timeout_timestamp p = pk_timeout_timestamp q \<and> pk_data p = pk_data q \<or>
     (\<exists>x y. x \<noteq> y \<and> sha256 L x = sha256 L y))"
proof -
  from assms obtain h k where hk: "pk_timeout_height p = Some h" "pk_timeout_height q = Some k"
    by (auto simp: commitment_bytes_def)
  let ?pre = "\<lambda>x (j :: height). to_be_bytes 8 (unat (pk_timeout_timestamp x)) @
      to_be_bytes 8 (unat (revision_number j)) @ to_be_bytes 8 (unat (revision_height j)) @
      sha256 L (pk_data x)"
  have same: "sha256 L (?pre p h) = sha256 L (?pre q k)"
    using assms hk by (simp add: commitment_bytes_def)
  have u64: "unat (n :: u64) < 256 ^ 8" for n
    using unsigned_less [where 'a = nat, of n] by simp
  show ?thesis
  proof (cases "\<exists>x y. x \<noteq> y \<and> sha256 L x = sha256 L y")
    case False
    with same have "?pre p h = ?pre q k"
      by blast
    then have "unat (pk_timeout_timestamp p) = unat (pk_timeout_timestamp q)"
      "unat (revision_number h) = unat (revision_number k)"
      "unat (revision_height h) = unat (revision_height k)"
      "sha256 L (pk_data p) = sha256 L (pk_data q)"
      by (simp_all add: to_be_bytes_inject [OF u64 u64])
    with False hk show ?thesis
      by (cases h; cases k) (auto simp: word_unat_eq_iff)
  qed (simp add: hk)
qed

text \<open>The denomination under which minted tokens appear on the chain is derived from the
  channel and the denomination alone, exists exactly when the chain has an open channel, and
  two denominations that get the same one exhibit a collision of the hash.\<close>

lemma ibc_denom_binding:
  "(is_ok (get_ibc_denom L c d) \<longleftrightarrow>
     (\<exists>details. connection_details c = Some details \<and> solo_machine_channel_id details \<noteq> None)) \<and>
   (\<forall>m. get_ibc_denom L c d \<noteq> Panic m) \<and>
   (is_ok (get_ibc_denom L c d) \<and> get_ibc_denom L c d = get_ibc_denom L c d' \<longrightarrow>
      d = d' \<or> (\<exists>x y. x \<noteq> y \<and> hex_encode_upper L (sha256 L x) = hex_encode_upper L (sha256 L y)))"
proof (cases "\<exists>details n. connection_details c = Some details \<and> solo_machine_channel_id details = Some n")
  case True
  then obtain details n where n: "connection_details c = Some details"
      "solo_machine_channel_id details = Some n"
    by blast
  let ?pre = "\<lambda>d. as_bytes (port_str (port_id (config c)) @ ''/'' @ channel_str n @ ''/'' @ ident_str d)"
  have ok: "get_ibc_denom L c d = Ok (''ibc/'' @ hex_encode_upper L (sha256 L (?pre d)))" for d
    using n by (simp add: get_ibc_denom_eq)
  have "d = d' \<or> ?pre d \<noteq> ?pre d'"
    by (cases d; cases d') simp
  then have "hex_encode_upper L (sha256 L (?pre d)) = hex_encode_upper L (sha256 L (?pre d')) \<Longrightarrow>
      d = d' \<or> (\<exists>x y. x \<noteq> y \<and> hex_encode_upper L (sha256 L x) = hex_encode_upper L (sha256 L y))"
    by blast
  with n show ?thesis
    by (simp add: ok)
next
  case False
  then show ?thesis
    by (auto simp: get_ibc_denom_eq bail_def split: option.splits)
qed

end
