(* ===== verification/Service_Properties.thy ===== *)
theory Service_Properties
  imports Example_World
begin

text \<open>The properties of the services: what each request does, on every outcome.\<close>

section \<open>Minting\<close>

text \<open>C3: A mint that succeeds has done exactly this: it signed the commitment of one packet under
  the packet's own path with the chain's current sequence, then the transaction that delivers
  that packet with a proof height of that sequence, broadcast it to the chain, which accepted
  it, and committed once; both sequences of the chain are one higher, one operation with the
  hash of the transaction is recorded for the receiver, and nothing else changed.\<close>

theorem mint_effect:
  assumes "mint E S cid rid amount d receiver memo s = (Ok hash, t)"
    and "keyed (w_db s)"
  shows "\<exists>raw c tx bs response p data pf sender ts ts2 to sb doc.
    chains (w_db s) (chain_str cid) = Some raw \<and> chain_of_raw (node_format E) raw = Ok c \<and>
    to_account_address S = Ok sender \<and> to = (case receiver of Some r \<Rightarrow> r | None \<Rightarrow> sender) \<and>
    commitment_bytes E p = Ok data \<and> pk_sequence p = ucast (packet_sequence c) \<and>
    json_to_vec E (token_transfer_packet_data (ident_str d) (u256_to_string amount) sender to memo)
      = Inr (pk_data p) \<and>
    delivers E tx MSG_RECV_PACKET_URL (P_Recv_Packet
      \<lparr>mrp_packet = Some p, mrp_proof_commitment = pf,
       mrp_proof_height = Some (Height 0 (ucast (sequence c))), mrp_signer = sender\<rparr>) memo \<and>
    encode E (P_Tx_Raw tx) = Inr bs \<and>
    check_code (response :: tx_response) = 0 \<and> deliver_code response = 0 \<and> tx_hash response = hash \<and>
    encode E (P_Sign_Bytes (packet_sign_bytes c p data)) = Inr sb \<and>
    w_log t = w_log s @ [A_Sign rid (SignBytes sb), A_Sign rid (SignDoc doc),
      A_Broadcast (rpc_addr (config c)) bs, A_Commit] @
      (if notifier E then [A_Notify (TokensMinted cid rid to amount d hash)] else []) \<and>
    w_db t = record_operation (new_operation (w_db s) ts2 rid to d amount (Mint cid) hash)
      (set_chain (chain_str cid) (mint_advance raw ts) (w_db s)) \<and>
    w_tx t = None"
  by (rule mint_run [OF assms]) blast

lemma ex_world_keyed: "keyed (w_db (ex_world details))" "keyed (w_db ex_fresh_world)"
  "w_tx (ex_world details) = None" "w_tx ex_fresh_world = None"
  by (auto simp: keyed_def ex_world_def ex_fresh_world_def ex_row_def empty_database_def)

theorem mint_effect_witness:
  "\<exists>hash t raw. mint (ex_env 0) ex_signer ex_chain_id None 5 (Identifier ''tok'') None ''memo''
     (ex_world (Some ex_details)) = (Ok hash, t) \<and> chains (w_db t) ''testnet-1'' = Some raw \<and>
     raw_sequence raw = 2 \<and> raw_packet_sequence raw = 2 \<and> length (operations (w_db t)) = 1"
proof -
  obtain hash t where run: "mint (ex_env 0) ex_signer ex_chain_id None 5 (Identifier ''tok'') None
      ''memo'' (ex_world (Some ex_details)) = (Ok hash, t)"
    using ex_minted by (rule ex_run)
  from mint_effect [OF run ex_world_keyed(1)] run show ?thesis
    by (auto simp: ex_world_def ex_row_def chain_str_def ex_chain_id_def mint_advance_def
        empty_database_def)
qed

text \<open>C16: When the chain refuses every transaction, minting fails and leaves the database as it
  was: no sequence is spent and no operation recorded for tokens that were not sent.\<close>

theorem refused_mint_leaves_database:
  assumes "\<not> accepts E" "keyed (w_db s)"
    and "mint E S cid rid amount d receiver memo s = (r, t)"
  shows "\<not> is_ok r \<and> w_db t = w_db s"
proof -
  obtain a u where send: "send_tokens E S cid rid amount d receiver memo s = (a, u)"
    by fastforce
  have refused: "\<not> is_ok a"
  proof
    assume "is_ok a"
    then obtain to response h where "send_tokens E S cid rid amount d receiver memo s = (Ok (to, response, h), u)"
      using send by (auto simp: is_ok_iff)
    then show False
      using send_tokens_Ok [OF _ assms(2)] assms(1) by blast
  qed
  then have "w_db u = w_db s"
    by (rule atomicD [OF atomic_send_tokens send])
  moreover have "\<not> is_ok r" "w_db t = w_db u"
    using assms(3) refused send
    by (auto simp: mint_split scoped_def bindM_def split: outcome.splits)
  ultimately show ?thesis
    by simp
qed

theorem refused_mint_leaves_database_witness:
  "w_db (snd (mint (ex_env 5) ex_signer ex_chain_id None 5 (Identifier ''tok'') None ''memo''
     (ex_world (Some ex_details)))) = w_db (ex_world (Some ex_details))"
proof -
  have "\<not> accepts (ex_env 5)"
    by (auto simp: accepts_def ex_env_def ex_response_def)
  from refused_mint_leaves_database [OF this ex_world_keyed(1)] show ?thesis
    by (metis prod.collapse)
qed

section \<open>Connecting\<close>

text \<open>C8: Connecting, when it succeeds, has stored the client, the consensus state, the open
  connection end and the open channel end it names in the details of the chain, signed two
  proofs, of the connection end and of the channel end, each with its own consecutive sequence,
  and advanced the sequence by two; the chain was not connected before.\<close>

theorem connect_effect:
  assumes "connect E S cid rid memo force s = (Ok u, t)" "ibc_codec_laws E" "keyed (w_db s)"
  shows "\<exists>raw c c' smc tmc smk tmk smn tmn h clb csb kb nb ts data1 data2 bs1 bs2.
    let details = \<lparr>solo_machine_client_id = smc, tendermint_client_id = tmc,
       solo_machine_connection_id = smk, tendermint_connection_id = tmk,
       solo_machine_channel_id = Some smn, tendermint_channel_id = Some tmn\<rparr> in
    chains (w_db s) (chain_str cid) = Some raw \<and> raw_connection_details raw = None \<and>
    chain_of_raw (node_format E) raw = Ok c \<and>
    encode E (P_Connection_End (set_connection_state Conn_Open (try_connection tmc smc smk))) = Inr kb \<and>
    encode E (P_Channel (set_channel_state Chan_Open (try_channel (port_id (config c)) smn tmk))) = Inr nb \<and>
    w_db t = set_chain (chain_str cid) (connected_raw raw details ts)
      (put_object (Channel_End (port_id (config c)) tmn) nb (put_object (Connection_End tmk) kb
        (put_object (Consensus_State tmc h) csb (put_object (Client_State tmc) clb (w_db s))))) \<and>
    proofs t = proofs s @ [(rid, bs1), (rid, bs2)] \<and>
    encode E (P_Sign_Bytes (object_sign_bytes c (Connection_End tmk) data1)) = Inr bs1 \<and>
    encode E (P_Sign_Bytes (object_sign_bytes c' (Channel_End (port_id (config c)) tmn) data2)) = Inr bs2 \<and>
    uint (sequence c') = uint (sequence c) + 1 \<and> w_tx t = None"
  unfolding Let_def by (rule connect_Ok [OF assms]) blast

theorem connect_effect_witness:
  "\<exists>u t raw. connect (ex_env 0) ex_signer ex_chain_id None '''' False ex_fresh_world = (Ok u, t) \<and>
     chains (w_db t) ''testnet-1'' = Some raw \<and> raw_sequence raw = 3 \<and>
     raw_connection_details raw \<noteq> None \<and> length (proofs t) = 2"
proof -
  obtain u t where run: "connect (ex_env 0) ex_signer ex_chain_id None '''' False ex_fresh_world = (Ok u, t)"
    using ex_connected by (rule ex_run)
  have "proofs ex_fresh_world = []"
    by (simp add: proofs_def ex_fresh_world_def)
  with connect_effect [OF run ex_env_codec ex_world_keyed(2)] run show ?thesis
    by (auto simp: Let_def ex_fresh_world_def ex_row_def chain_str_def ex_chain_id_def connected_raw_def
        empty_database_def)
qed

text \<open>C19: Connecting is all or nothing: unless it succeeds, and whatever fails on the way (the
  chain, the signer, the database, or a panic), the committed database is what it was.\<close>

theorem connect_all_or_nothing:
  "is_ok (fst (connect E S cid rid memo force s)) \<or>
   w_db (snd (connect E S cid rid memo force s)) = w_db s"
  using atomic_connect unfolding atomic_def by blast

text \<open>C23: A chain that already has connection details is never connected again, not even when
  forced: with the force flag the code ends in an unfinished branch that panics.\<close>

theorem connect_only_once:
  assumes "chains (w_db s) (chain_str cid) = Some raw" "raw_connection_details raw \<noteq> None"
  shows "\<not> is_ok (fst (connect E S cid rid memo force s)) \<and>
    w_db (snd (connect E S cid rid memo force s)) = w_db s"
proof -
  have "\<not> is_ok (fst (connect E S cid rid memo force s))"
    using connect_Ok_first [of E S cid rid memo force s] assms
    by (auto simp: is_ok_iff) (metis option.inject prod.collapse)
  with atomic_connect show ?thesis
    unfolding atomic_def by blast
qed

theorem connect_only_once_witness:
  "\<not> is_ok (fst (connect (ex_env 0) ex_signer ex_chain_id None '''' True (ex_world (Some ex_details))))"
  using connect_only_once [of "ex_world (Some ex_details)" ex_chain_id "ex_row (Some ex_details)"]
  by (simp add: ex_world_def ex_row_def chain_str_def ex_chain_id_def)

text \<open>C24: The trust level of a chain is checked too late. Adding a chain takes whatever fraction it is
  given; connecting builds a light client for the chain and unwraps the library's check of the
  fraction. So when the library rejects it, adding the chain succeeds and connecting to it panics,
  on every attempt and whatever the node would answer, with the database left as it was.\<close>

theorem unchecked_trust_level_panics:
  assumes "chain_service_add E cfg key s = (Ok cid, s')" "node_id_laws (node_format E)"
    and "\<forall>n. db_fault E n = None"
    and "trust_threshold_new E (numer (trust_level cfg)) (denom (trust_level cfg)) = Inl e"
    and "w_db t = w_db s'"
  shows "\<exists>u. connect E S cid rid memo force t =
      (Panic ''called `Result::unwrap()` on an `Err` value'', u) \<and> w_db u = w_db t"
proof -
  from assms(1) obtain w x where add: "register_chain E cfg key s = (Ok cid, w)"
    and notify: "notify_event E (ChainAdded cid) w = (Ok (), x)" and s': "s' = x\<lparr>w_tx := None\<rparr>"
    by (auto simp: chain_service_add_split scoped_Ok_iff run_Ok_iffs)
  have db: "w_db t = w_db w"
    using notify_event_Ok(1) [OF notify] assms(5) by (simp add: s')
  have client: "http_client_new E (rpc_addr cfg) = Inr ()"
    using add by (auto simp: register_chain_def run_Ok_iffs)
  obtain ts ts2 and status :: node_status where cid: "chain_id_from_str (network status) = Ok cid"
    and "w_db w = record_key (new_key_row (w_db s) (chain_str cid) key ts2)
      (set_chain (chain_str cid) (new_raw_chain ts (chain_str cid)
        (node_id_to_string (node_format E) (status_node_id status)) cfg) (w_db s))"
    by (rule register_chain_Ok [OF add]) blast
  then have row: "chains (w_db t) (chain_str cid) =
      Some (new_raw_chain ts (chain_str cid) (node_id_to_string (node_format E) (status_node_id status)) cfg)"
    by (simp add: db)
  have "chain_id_from_str (chain_str cid) = Ok cid"
    using cid by (auto simp: chain_id_from_str_Ok_iff chain_str_def)
  then obtain c where c: "chain_of_raw (node_format E)
      (new_raw_chain ts (chain_str cid) (node_id_to_string (node_format E) (status_node_id status)) cfg) = Ok c"
    using assms(2) chain_of_raw_ok_iff [of "node_format E"
        "new_raw_chain ts (chain_str cid) (node_id_to_string (node_format E) (status_node_id status)) cfg"]
    by (auto simp: is_ok_iff new_raw_chain_def node_id_laws_def)
  then have parts: "config c = cfg" "connection_details c = None"
    by (simp_all add: chain_of_raw_Ok_iff new_raw_chain_def)
  define t1 where "t1 = t\<lparr>w_tx := Some (w_db t), w_ticks := w_ticks t + 1\<rparr>"
  define t2 where "t2 = t1\<lparr>w_ticks := w_ticks t1 + 1\<rparr>"
  have "begin_transaction E t = (Ok (), t1)"
    using assms(3) by (simp add: begin_transaction_Ok_iff t1_def)
  moreover have "known_chain E Tx cid t1 = (Ok c, t2)"
    using assms(3) row c
    by (simp add: known_chain_def get_chain_def run_Ok_iffs query_sql_Ok_iff t1_def t2_def)
  ultimately show ?thesis
    using assms(4) client
    by (simp add: connect_def scoped_def bindM_def connection_status_def rpc_client_def create_new_client_def
        prepare_light_client_def Let_def parts lift_def returnM_def bail_def t1_def t2_def)
qed

text \<open>A trust level of one fourth, which the light client rejects: it wants at least a third.\<close>

definition ex_low_trust_env :: env where
  "ex_low_trust_env = (ex_env 0)\<lparr>
     trust_threshold_new := (\<lambda>n d. if d = 0 \<or> n > d \<or> 3 * unat n < unat d then Inl ''invalid'' else Inr ())\<rparr>"

definition ex_low_trust :: chain_config where
  "ex_low_trust = ex_config\<lparr>trust_level := \<lparr>numer = 1, denom = 4\<rparr>\<rparr>"

lemma ex_low_trust_added:
  "is_ok (fst (chain_service_add ex_low_trust_env ex_low_trust ''00'' ex_empty_world))"
  by code_simp

theorem unchecked_trust_level_panics_witness:
  "\<exists>cid t p u. chain_service_add ex_low_trust_env ex_low_trust ''00'' ex_empty_world = (Ok cid, t) \<and>
     connect ex_low_trust_env ex_signer cid None '''' False t = (Panic p, u)"
proof -
  obtain cid t where run: "chain_service_add ex_low_trust_env ex_low_trust ''00'' ex_empty_world = (Ok cid, t)"
    using ex_low_trust_added by (rule ex_run)
  have "trust_threshold_new ex_low_trust_env (numer (trust_level ex_low_trust)) (denom (trust_level ex_low_trust)) =
      Inl ''invalid''" "\<forall>n. db_fault ex_low_trust_env n = None" "node_id_laws (node_format ex_low_trust_env)"
    using ex_format_laws by (simp_all add: ex_low_trust_env_def ex_low_trust_def ex_env_def)
  from unchecked_trust_level_panics [OF run this(3,2,1) refl] run show ?thesis
    by blast
qed

section \<open>Closing the channel\<close>

text \<open>C21: Closing a channel never succeeds, and it leaves the database as it was: the channel
  identifiers are removed from the chain before the message to the chain is built, which needs
  them.\<close>

theorem close_channel_never_succeeds:
  assumes "keyed (w_db s)"
  shows "\<not> is_ok (fst (close_channel E S cid rid memo s)) \<and>
    w_db (snd (close_channel E S cid rid memo s)) = w_db s"
proof -
  have "\<not> is_ok (fst (close_channel E S cid rid memo s))"
    using close_channel_not_Ok [OF assms] by (auto simp: is_ok_iff) (metis prod.collapse)
  with atomic_close_channel show ?thesis
    unfolding atomic_def by blast
qed

theorem close_channel_never_succeeds_witness:
  "\<not> is_ok (fst (close_channel (ex_env 0) ex_signer ex_chain_id None '''' (ex_world (Some ex_details))))"
  using close_channel_never_succeeds [OF ex_world_keyed(1)] by blast

section \<open>Burning\<close>

text \<open>C20: When the chain refuses the acknowledgement of a packet, answering the packet fails,
  but the advanced sequence has already been committed: the solo machine and the chain, which
  did not apply the signature, no longer agree on the sequence.\<close>

theorem refused_answer_still_advances:
  assumes "answer_packet E S rpc smn tmn memo rid p c s = (Ok (response, c'), u)"
    and "check_code response \<noteq> 0 \<or> deliver_code response \<noteq> 0"
  shows "\<exists>e t raw ts. process_packet E S rpc smn tmn memo rid p c s = (Err e, t) \<and>
    chains (w_db s) (chain_str (c_id c)) = Some raw \<and>
    w_db t = set_chain (chain_str (c_id c)) (next_raw raw ts) (w_db s)"
proof -
  have "answered E c rpc memo rid p c' s u"
    by (rule answer_packet_Ok [OF assms(1)])
  moreover have "\<exists>e. ensure_response_success response = Err e"
    using assms(2) by (auto simp: ensure_response_success_def ensure_def bail_def)
  ultimately show ?thesis
    using assms(1)
    by (auto simp: process_packet_split scoped_def bindM_def lift_def answered_def)
qed

theorem refused_answer_still_advances_witness:
  "\<exists>e t raw. process_packet (ex_env 5) ex_signer ''rpc'' (ChannelId (Identifier ''channel-9''))
     (ChannelId (Identifier ''channel-aaaa'')) '''' None ex_packet ex_chain
     (ex_world (Some ex_details)) = (Err e, t) \<and>
     chains (w_db t) ''testnet-1'' = Some raw \<and> raw_sequence raw = 2"
proof -
  obtain response c' u where run: "answer_packet (ex_env 5) ex_signer ''rpc''
      (ChannelId (Identifier ''channel-9'')) (ChannelId (Identifier ''channel-aaaa'')) '''' None
      ex_packet ex_chain (ex_world (Some ex_details)) = (Ok (response, c'), u)"
      "deliver_code response = 5"
    using ex_refused by (auto split: prod.splits outcome.splits)
  have "chain_str (c_id ex_chain) = ''testnet-1''"
    by (simp add: chain_str_def ex_chain_def ex_chain_id_def)
  with refused_answer_still_advances [OF run(1)] run(2) show ?thesis
    by (auto simp: ex_world_def ex_row_def)
qed

text \<open>Processing the packets of a burn, whatever its outcome, changes only the row of the
  chain, and there only the sequence: it grows by the number of packets answered, at most the
  number of packets.\<close>

lemma processing_packets_counts:
  assumes "chains (w_db s) (chain_str (c_id c)) = Some raw" "raw_id raw = chain_str (c_id c)"
    and "process_packets E S rpc c ps memo rid s = (r, t)"
  shows "\<exists>n ts. n \<le> length ps \<and>
    w_db t = (if n = 0 then w_db s else set_chain (chain_str (c_id c))
      (raw\<lparr>raw_sequence := raw_sequence raw + int n, raw_updated_at := ts\<rparr>) (w_db s))"
  by (rule process_packets_row [OF assms(3,1,2)]) blast

text \<open>C22: A burn that succeeds records exactly one operation, with the hash of its transaction
  and the address of the signer, advances nothing but the sequence of its own chain, and leaves
  objects and keys alone.\<close>

theorem burn_effect:
  assumes "keyed (w_db s)" "burn E S cid rid amount d memo s = (Ok hash, t)"
  shows "\<exists>raw address ts n ts2.
    chains (w_db s) (chain_str cid) = Some raw \<and> to_account_address S = Ok address \<and>
    operations (w_db t) = operations (w_db s) @
      [new_operation (w_db s) ts rid address d amount (Burn cid) hash] \<and>
    chains (w_db t) = (if n = 0 then chains (w_db s) else (chains (w_db s))(chain_str cid \<mapsto>
      raw\<lparr>raw_sequence := raw_sequence raw + int n, raw_updated_at := ts2\<rparr>)) \<and>
    ibc_data (w_db t) = ibc_data (w_db s) \<and> chain_keys (w_db t) = chain_keys (w_db s)"
  by (rule burn_Ok [OF assms(2,1)]) blast

theorem burn_effect_witness:
  "\<exists>hash t. burn (ex_env 0) ex_signer ex_chain_id None 5 (Identifier ''tok'') ''''
     (ex_world (Some ex_details)) = (Ok hash, t) \<and> length (operations (w_db t)) = 1"
proof -
  obtain hash t where run: "burn (ex_env 0) ex_signer ex_chain_id None 5 (Identifier ''tok'') ''''
      (ex_world (Some ex_details)) = (Ok hash, t)"
    using ex_burnt by (rule ex_run)
  from burn_effect [OF ex_world_keyed(1) run] run show ?thesis
    by (auto simp: ex_world_def empty_database_def)
qed

section \<open>Signers and chains\<close>

text \<open>C10: Updating the signer, when it succeeds, has signed the header that hands over to the new
  key with the chain's current sequence and its diversifier, had it accepted by the chain,
  advanced the sequence by one and registered the new key, which was not registered for the
  chain before.\<close>

theorem update_signer_effect:
  assumes "keyed (w_db s)" "update_signer E S cid rid key memo s = (Ok u, t)"
  shows "\<exists>raw ts ts2 c any_key data bs.
    chains (w_db s) (chain_str cid) = Some raw \<and> chain_of_raw (node_format E) raw = Ok c \<and>
    fresh_key (w_db s) (chain_str cid) (public_key_encode E key) \<and>
    w_db t = record_key (new_key_row (w_db s) (chain_str cid) (public_key_encode E key) ts2)
      (set_chain (chain_str cid) (next_raw raw ts) (w_db s)) \<and>
    public_key_to_any E key = Ok any_key \<and>
    encode E (P_Header_Data \<lparr>hd_new_pub_key = Some any_key,
      hd_new_diversifier = diversifier (config c)\<rparr>) = Inr data \<and>
    encode E (P_Sign_Bytes \<lparr>sb_sequence = ucast (sequence c),
      sb_timestamp = word_of_int (unix_timestamp (consensus_timestamp c)),
      sb_diversifier = diversifier (config c), sb_path = as_bytes ''solomachine:header'',
      sb_data = data\<rparr>) = Inr bs \<and>
    proofs t = proofs s @ [(rid, bs)] \<and> accepts E"
proof -
  from assms(2) obtain v w x where rotate: "rotate_signer E S cid rid key memo s = (Ok v, w)"
    and announce: "announce_signer E S cid key w = (Ok u, x)" and t: "t = x\<lparr>w_tx := None\<rparr>"
    by (auto simp: update_signer_split scoped_Ok_iff run_Ok_iffs)
  have "w_db t = w_db w" "proofs t = proofs w"
    using keepsD [OF keeps_announce_signer announce]
      proofs_same [OF keeps_proofs_announce_signer announce]
    by (simp_all add: t unchanged_def proofs_def)
  with rotate_signer_Ok [OF rotate assms(1)] show ?thesis
    by (simp add: fresh_key_def record_key_set_chain) metis
qed

theorem update_signer_effect_witness:
  "\<exists>u t raw. update_signer (ex_env 0) ex_signer ex_chain_id None (Secp256k1 (K256_Key [2, 4])) ''''
     (ex_world (Some ex_details)) = (Ok u, t) \<and> chains (w_db t) ''testnet-1'' = Some raw \<and>
     raw_sequence raw = 2 \<and> length (chain_keys (w_db t)) = 1"
proof -
  obtain u t where run: "update_signer (ex_env 0) ex_signer ex_chain_id None
      (Secp256k1 (K256_Key [2, 4])) '''' (ex_world (Some ex_details)) = (Ok u, t)"
    using ex_rotated by (rule ex_run)
  from update_signer_effect [OF ex_world_keyed(1) run] run show ?thesis
    by (auto simp: ex_world_def ex_row_def chain_str_def ex_chain_id_def empty_database_def)
qed

text \<open>C32: Adding a chain, when it succeeds, has taken the identifier the node reports, stored a
  new row for it with both sequences at one, no connection and the given configuration, and
  registered the key; the chain was not known before.\<close>

theorem add_chain_effect:
  assumes "chain_service_add E cfg key s = (Ok cid, t)"
  shows "\<exists>node ts ts2 status n.
    rpc_status E n (rpc_addr cfg) = Inr status \<and> chain_id_from_str (network status) = Ok cid \<and>
    chains (w_db s) (chain_str cid) = None \<and> fresh_key (w_db s) (chain_str cid) key \<and>
    w_db t = record_key (new_key_row (w_db s) (chain_str cid) key ts2)
      (set_chain (chain_str cid) (new_raw_chain ts (chain_str cid) node cfg) (w_db s))"
proof -
  from assms obtain w x where add: "register_chain E cfg key s = (Ok cid, w)"
    and notify: "notify_event E (ChainAdded cid) w = (Ok (), x)" and t: "t = x\<lparr>w_tx := None\<rparr>"
    by (auto simp: chain_service_add_split scoped_Ok_iff run_Ok_iffs)
  have "w_db t = w_db w"
    using notify_event_Ok(1) [OF notify] by (simp add: t)
  with register_chain_Ok [OF add] show ?thesis
    by metis
qed

theorem add_chain_effect_witness:
  "\<exists>cid t. chain_service_add (ex_env 0) ex_config ''00'' ex_empty_world = (Ok cid, t) \<and>
     chains (w_db t) (chain_str cid) \<noteq> None"
proof -
  obtain cid t where run: "chain_service_add (ex_env 0) ex_config ''00'' ex_empty_world = (Ok cid, t)"
    using ex_added by (rule ex_run)
  from add_chain_effect [OF run] run show ?thesis
    by auto
qed

end
