(* ===== verification/Terminal.thy ===== *)
theory Terminal
  imports Event
begin

text \<open>
  The terminal the command line prints to: \<open>output.rs\<close> and the printing functions of
  \<open>command.rs\<close> in \<open>solo-machine/src\<close>. What is printed is kept, newest last; colours and table
  borders are not. Every operation on the terminal may fail. The JSON form of a typed value is
  serde's, so a value stands for itself.
\<close>

section \<open>Output formats\<close>

datatype output_type = Out_Text | Out_Json

fun output_type_to_string :: "output_type \<Rightarrow> string" where
  "output_type_to_string Out_Text = ''text''"
| "output_type_to_string Out_Json = ''json''"

text \<open>
  \<open>str::to_lowercase\<close> on the letters that can decide a comparison with an ASCII text: no other
  character has one of the letters of \<open>text\<close> and \<open>json\<close> as its lower case.
\<close>

definition to_lower :: "char \<Rightarrow> char" where
  "to_lower c = (if 65 \<le> byte_of c \<and> byte_of c \<le> 90 then char_of (byte_of c + 32) else c)"

definition output_type_from_str :: "string \<Rightarrow> output_type outcome" where
  "output_type_from_str s =
     (let t = map to_lower (trim s) in
      if t = ''text'' then Ok Out_Text
      else if t = ''json'' then Ok Out_Json
      else bail ''invalid output type'')"

lemma output_type_texts:
  "output_type_from_str ''text'' = Ok Out_Text" "output_type_from_str ''json'' = Ok Out_Json"
  by code_simp+

lemma output_type_roundtrip: "output_type_from_str (output_type_to_string out) = Ok out"
  by (cases out) (simp_all add: output_type_texts)

section \<open>The terminal\<close>

datatype json_data =
    J_Text string
  | J_Event event
  | J_Chain chain
  | J_Keys "chain_key list"
  | J_Operations "operation list"
  | J_Balance decimal ident

datatype item =
    Line string
  | Rows "string list list"
  | Titled_Rows "string list" "string list list"
  | Json_Result string json_data
  | Log_Info string
  | Log_Warn string

record screen =
  items :: "item list"
  writes :: nat

type_synonym 'a print = "(screen, 'a) io"

text \<open>The I/O error of the \<open>n\<close>-th operation on the terminal, if it fails.\<close>

type_synonym terminal = "nat \<Rightarrow> string option"

definition put :: "terminal \<Rightarrow> item list \<Rightarrow> unit print" where
  "put T xs s =
     (let n = writes s; s' = s\<lparr>writes := n + 1\<rparr> in
      case T n of
        Some e \<Rightarrow> (bail e, s')
      | None \<Rightarrow> (Ok (), s'\<lparr>items := items s @ xs\<rparr>))"

text \<open>\<open>set_color\<close>, \<open>writeln!\<close> and \<open>reset\<close>.\<close>

definition print_stream :: "terminal \<Rightarrow> string \<Rightarrow> unit print" where
  "print_stream T s =
     bindM (put T []) (\<lambda>_.
     bindM (contextM ''unable to write to stdout'' (put T [Line s])) (\<lambda>_.
     bindM (contextM ''unable to reset stdout'' (put T [])) (\<lambda>_.
     returnM ())))"

definition print_json :: "terminal \<Rightarrow> string \<Rightarrow> json_data \<Rightarrow> unit print" where
  "print_json T result d =
     bindM (contextM ''unable to write to stdout'' (put T [Json_Result result d])) (\<lambda>_.
     contextM ''unable to reset stdout'' (put T []))"

definition print_table :: "terminal \<Rightarrow> item \<Rightarrow> unit print" where
  "print_table T x = contextM ''unable to print table to stdout'' (put T [x])"

text \<open>\<open>writeln!(stdout)?\<close>\<close>

definition print_blank :: "terminal \<Rightarrow> unit print" where
  "print_blank T = put T [Line '''']"

definition add_row :: "string list list \<Rightarrow> string \<Rightarrow> string \<Rightarrow> string list list" where
  "add_row table title value = table @ [[title, value]]"

text \<open>The log goes to another stream and does not fail.\<close>

definition log_item :: "item \<Rightarrow> unit print" where
  "log_item x s = (Ok (), s\<lparr>items := items s @ [x]\<rparr>)"

section \<open>Printing on a terminal that works\<close>

text \<open>
  \<open>prints m xs\<close>: when no operation on the terminal fails, \<open>m\<close> succeeds and adds \<open>xs\<close> to what
  is on it.
\<close>

named_theorems prints_intros

definition works :: "terminal" where
  "works = (\<lambda>_. None)"

definition prints :: "unit print \<Rightarrow> item list \<Rightarrow> bool" where
  "prints m xs \<longleftrightarrow> (\<forall>s. \<exists>t. m s = (Ok (), t) \<and> items t = items s @ xs)"

lemma printsD: "prints m xs \<Longrightarrow> \<exists>t. m s = (Ok (), t) \<and> items t = items s @ xs"
  by (simp add: prints_def)

lemma prints_put: "prints (put works xs) xs"
  by (simp add: prints_def put_def works_def Let_def)

lemma prints_bind: "prints m xs \<Longrightarrow> prints n ys \<Longrightarrow> prints (bindM m (\<lambda>_. n)) (xs @ ys)"
  unfolding prints_def bindM_def by (metis (mono_tags, lifting) append_assoc outcome.simps(10) prod.simps(2))

lemma prints_context: "prints m xs \<Longrightarrow> prints (contextM c m) xs"
  unfolding prints_def contextM_def by (metis prod.simps(2) with_context.simps(1))

lemma prints_return: "prints (returnM ()) []"
  by (simp add: prints_def returnM_def)

lemma prints_eq: "prints m xs \<Longrightarrow> xs = ys \<Longrightarrow> prints m ys"
  by simp

lemma prints_functions [prints_intros]:
  "prints (print_stream works s) [Line s]"
  "prints (print_json works r d) [Json_Result r d]"
  "prints (print_table works x) [x]"
  "prints (print_blank works) [Line '''']"
  "prints (log_item x) [x]"
proof -
  note steps = prints_put prints_bind prints_context prints_return
  show "prints (print_stream works s) [Line s]"
    unfolding print_stream_def
    by (rule prints_eq, (rule steps)+) simp
  show "prints (print_json works r d) [Json_Result r d]"
    unfolding print_json_def
    by (rule prints_eq, (rule steps)+) simp
  show "prints (print_table works x) [x]" "prints (print_blank works) [Line '''']"
    unfolding print_table_def print_blank_def by (rule steps)+
  show "prints (log_item x) [x]"
    by (simp add: prints_def log_item_def)
qed

lemma prints_for_each:
  "(\<And>x. x \<in> set xs \<Longrightarrow> prints (f x) (g x)) \<Longrightarrow> prints (for_each f xs) (concat (map g xs))"
  by (induction xs) (auto intro: prints_return prints_bind)

end
