(* ===== verification/Event_Handlers.thy ===== *)
theory Event_Handlers
  imports Terminal
begin

text \<open>
  What happens to the events of the services: the handlers of \<open>solo-machine/src/event/\<close> and
  \<open>event-hooks/stdout-logger\<close>, and the registrar that runs them (\<open>solo-machine/src/event.rs\<close>).
\<close>

type_synonym event_handler = "event \<Rightarrow> unit print"

section \<open>Printing events on the command line\<close>

text \<open>A heading, a blank line and a table of titles and values.\<close>

definition headed_table :: "terminal \<Rightarrow> string \<Rightarrow> string list list \<Rightarrow> unit print" where
  "headed_table T heading table =
     bindM (print_stream T heading) (\<lambda>_.
     bindM (print_blank T) (\<lambda>_.
     print_table T (Rows table)))"

definition or_dash :: "string option \<Rightarrow> string" where
  "or_dash x = (case x of Some s \<Rightarrow> s | None \<Rightarrow> ''-'')"

definition transfer_table ::
    "chain_id \<Rightarrow> string option \<Rightarrow> string \<Rightarrow> string \<Rightarrow> u256 \<Rightarrow> ident \<Rightarrow> string \<Rightarrow> string list list" where
  "transfer_table cid request_id party address amount d hash =
     add_row (add_row (add_row (add_row (add_row (add_row []
       ''Chain ID'' (chain_str cid))
       ''Request ID'' (or_dash request_id))
       party address)
       ''Amount'' (u256_to_string amount))
       ''Denom'' (ident_str d))
       ''Transaction Hash'' hash"

definition connection_rows :: "connection_details \<Rightarrow> string list list \<Rightarrow> string list list outcome" where
  "connection_rows details table =
     (let table = add_row (add_row (add_row (add_row table
        ''Solo machine client ID'' (client_str (solo_machine_client_id details)))
        ''Tendermint client ID'' (client_str (tendermint_client_id details)))
        ''Solo machine connection ID'' (connection_str (solo_machine_connection_id details)))
        ''Tendermint connection ID'' (connection_str (tendermint_connection_id details)) in
      and_then (unwrap_opt (solo_machine_channel_id details)) (\<lambda>smn.
      and_then (unwrap_opt (tendermint_channel_id details)) (\<lambda>tmn.
      Ok (add_row (add_row table
        ''Solo machine channel ID'' (channel_str smn))
        ''Tendermint channel ID'' (channel_str tmn)))))"

definition with_id :: "string \<Rightarrow> string \<Rightarrow> string \<Rightarrow> string" where
  "with_id what kind_of_id i = what @ '' ['' @ kind_of_id @ '' ID = '' @ i @ '']''"

text \<open>The line printed for each step of a handshake.\<close>

fun handshake_text :: "event \<Rightarrow> string" where
  "handshake_text (CreatedSoloMachineClient i) =
     with_id ''Created solo machine client on IBC enabled chain'' ''Client'' (client_str i)"
| "handshake_text (CreatedTendermintClient i) =
     with_id ''Created tendermint client on solo machine'' ''Client'' (client_str i)"
| "handshake_text (InitializedConnectionOnTendermint i) =
     with_id ''Initialized connection on IBC enabled chain'' ''Connection'' (connection_str i)"
| "handshake_text (InitializedConnectionOnSoloMachine i) =
     with_id ''Initialized connection on solo machine'' ''Connection'' (connection_str i)"
| "handshake_text (ConfirmedConnectionOnTendermint i) =
     with_id ''Confirmed connection on IBC enabled chain'' ''Connection'' (connection_str i)"
| "handshake_text (ConfirmedConnectionOnSoloMachine i) =
     with_id ''Confirmed connection on solo machine'' ''Connection'' (connection_str i)"
| "handshake_text (InitializedChannelOnTendermint i) =
     with_id ''Initialized channel on IBC enabled chain'' ''Channel'' (channel_str i)"
| "handshake_text (InitializedChannelOnSoloMachine i) =
     with_id ''Initialized channel on solo machine'' ''Channel'' (channel_str i)"
| "handshake_text (ConfirmedChannelOnTendermint i) =
     with_id ''Confirmed channel on IBC enabled chain'' ''Channel'' (channel_str i)"
| "handshake_text (ConfirmedChannelOnSoloMachine i) =
     with_id ''Confirmed channel on solo machine'' ''Channel'' (channel_str i)"
| "handshake_text _ = []"

definition show_connection :: "terminal \<Rightarrow> chain_id \<Rightarrow> connection_details \<Rightarrow> unit print" where
  "show_connection T cid details =
     bindM (print_stream T ''Connection established!'') (\<lambda>_.
     bindM (print_blank T) (\<lambda>_.
     bindM (lift (connection_rows details (add_row [] ''Chain ID'' (chain_str cid)))) (\<lambda>table.
     print_table T (Rows table))))"

fun handle_text_output :: "terminal \<Rightarrow> event_handler" where
  "handle_text_output T (ChainAdded cid) =
     headed_table T ''New chain added!'' [[''Chain ID'', chain_str cid]]"
| "handle_text_output T (CloseChannelInitOnSoloMachine cid n) =
     headed_table T ''Chain channel init closed!''
       (add_row (add_row [] ''Chain ID'' cid) ''Solo Machine Channel Id'' (channel_str n))"
| "handle_text_output T (TokensMinted cid rid to amount d hash) =
     headed_table T ''Tokens minted!'' (transfer_table cid rid ''To'' to amount d hash)"
| "handle_text_output T (TokensBurnt cid rid from_address amount d hash) =
     headed_table T ''Tokens burnt!'' (transfer_table cid rid ''From'' from_address amount d hash)"
| "handle_text_output T (SignerUpdated cid _ _) =
     headed_table T ''Signer updated!'' (add_row [] ''Chain ID'' (chain_str cid))"
| "handle_text_output T (CreatedSoloMachineClient i) =
     print_stream T (handshake_text (CreatedSoloMachineClient i))"
| "handle_text_output T (CreatedTendermintClient i) =
     print_stream T (handshake_text (CreatedTendermintClient i))"
| "handle_text_output T (InitializedConnectionOnTendermint i) =
     print_stream T (handshake_text (InitializedConnectionOnTendermint i))"
| "handle_text_output T (InitializedConnectionOnSoloMachine i) =
     print_stream T (handshake_text (InitializedConnectionOnSoloMachine i))"
| "handle_text_output T (ConfirmedConnectionOnTendermint i) =
     print_stream T (handshake_text (ConfirmedConnectionOnTendermint i))"
| "handle_text_output T (ConfirmedConnectionOnSoloMachine i) =
     print_stream T (handshake_text (ConfirmedConnectionOnSoloMachine i))"
| "handle_text_output T (InitializedChannelOnTendermint i) =
     print_stream T (handshake_text (InitializedChannelOnTendermint i))"
| "handle_text_output T (InitializedChannelOnSoloMachine i) =
     print_stream T (handshake_text (InitializedChannelOnSoloMachine i))"
| "handle_text_output T (ConfirmedChannelOnTendermint i) =
     print_stream T (handshake_text (ConfirmedChannelOnTendermint i))"
| "handle_text_output T (ConfirmedChannelOnSoloMachine i) =
     print_stream T (handshake_text (ConfirmedChannelOnSoloMachine i))"
| "handle_text_output T (ConnectionEstablished cid details) = show_connection T cid details"
| "handle_text_output T (Event_Warning message) = print_stream T (''WARNING: '' @ message)"

fun handle_json_output :: "terminal \<Rightarrow> event_handler" where
  "handle_json_output T (Event_Warning message) = print_json T ''warning'' (J_Text message)"
| "handle_json_output T ev = print_json T ''success'' (J_Event ev)"

definition cli_event_handler :: "terminal \<Rightarrow> output_type \<Rightarrow> event_handler" where
  "cli_event_handler T out ev =
     (case out of Out_Text \<Rightarrow> handle_text_output T ev | Out_Json \<Rightarrow> handle_json_output T ev)"

section \<open>Logging\<close>

definition transfer_line ::
    "string \<Rightarrow> chain_id \<Rightarrow> string option \<Rightarrow> string \<Rightarrow> u256 \<Rightarrow> ident \<Rightarrow> string \<Rightarrow> string" where
  "transfer_line what cid request_id address amount d hash =
     what @ '' [Chain ID = '' @ chain_str cid @ ''] [Request ID = '' @
       (case request_id of Some s \<Rightarrow> s | None \<Rightarrow> ''None'') @ ''] [Address = '' @ address @
       ''] [Amount = '' @ u256_to_string amount @ '' '' @ ident_str d @ ''] [Transaction Hash = '' @
       hash @ '']''"

text \<open>\<open>details_json\<close> is serde's JSON text of connection details, which may fail.\<close>

fun env_logger :: "(connection_details \<Rightarrow> string + string) \<Rightarrow> event_handler" where
  "env_logger details_json (TokensMinted cid rid to amount d hash) =
     log_item (Log_Info (transfer_line ''Minted new tokens'' cid rid to amount d hash))"
| "env_logger details_json (TokensBurnt cid rid from_address amount d hash) =
     log_item (Log_Info (transfer_line ''Burnt tokens'' cid rid from_address amount d hash))"
| "env_logger details_json (SignerUpdated cid _ _) =
     log_item (Log_Info (''Successfully updated signer'' @ [CHR 0x27] @ ''s public key [Chain ID: '' @ chain_str cid @ '']''))"
| "env_logger details_json (CreatedSoloMachineClient i) =
     log_item (Log_Info (with_id ''Created solo machine client on IBC enabled chain'' ''Client'' (client_str i)))"
| "env_logger details_json (CreatedTendermintClient i) =
     log_item (Log_Info (with_id ''Created tendermint client on solo machine'' ''Client'' (client_str i)))"
| "env_logger details_json (InitializedConnectionOnTendermint i) =
     log_item (Log_Info (with_id ''Initialized connection on IBC enabled chain'' ''Connection'' (connection_str i)))"
| "env_logger details_json (InitializedConnectionOnSoloMachine i) =
     log_item (Log_Info (with_id ''Initialized connection on solo machine'' ''Connection'' (connection_str i)))"
| "env_logger details_json (CloseChannelInitOnSoloMachine cid n) =
     log_item (Log_Info (''Close channel initialized on solo machine [Chain ID = '' @ cid @
       ''] [Channel ID = '' @ channel_str n @ '']''))"
| "env_logger details_json (ConfirmedConnectionOnTendermint i) =
     log_item (Log_Info (with_id ''Confirmed connection on IBC enabled chain'' ''Connection'' (connection_str i)))"
| "env_logger details_json (ConfirmedConnectionOnSoloMachine i) =
     log_item (Log_Info (with_id ''Confirmed connection on solo machine'' ''Connection'' (connection_str i)))"
| "env_logger details_json (InitializedChannelOnTendermint i) =
     log_item (Log_Info (with_id ''Initialized channel on IBC enabled chain'' ''Channel'' (channel_str i)))"
| "env_logger details_json (InitializedChannelOnSoloMachine i) =
     log_item (Log_Info (with_id ''Initialized channel on solo machine'' ''Channel'' (channel_str i)))"
| "env_logger details_json (ConfirmedChannelOnTendermint i) =
     log_item (Log_Info (with_id ''Confirmed channel on IBC enabled chain'' ''Channel'' (channel_str i)))"
| "env_logger details_json (ConfirmedChannelOnSoloMachine i) =
     log_item (Log_Info (with_id ''Confirmed channel on solo machine'' ''Channel'' (channel_str i)))"
| "env_logger details_json (ConnectionEstablished cid details) =
     bindM (lift (external (details_json details))) (\<lambda>text.
     log_item (Log_Info (''Connection successfully established [Chain ID = '' @ chain_str cid @
       ''] [Details = '' @ text @ '']'')))"
| "env_logger details_json (ChainAdded cid) =
     log_item (Log_Info (with_id ''Added new chain'' ''Chain'' (chain_str cid)))"
| "env_logger details_json (Event_Warning message) = log_item (Log_Warn message)"

text \<open>The example hook prints the derived debug text of every event with \<open>println!\<close>.\<close>

definition stdout_logger :: "(event \<Rightarrow> string) \<Rightarrow> event_handler" where
  "stdout_logger debug ev = log_item (Line (''EVENT: '' @ debug ev))"

section \<open>The registrar\<close>

record handler_registrar =
  event_handlers :: "event_handler list"

definition default_registrar :: handler_registrar where
  "default_registrar = \<lparr>event_handlers = []\<rparr>"

definition register :: "event_handler \<Rightarrow> handler_registrar \<Rightarrow> handler_registrar" where
  "register h reg = reg\<lparr>event_handlers := event_handlers reg @ [h]\<rparr>"

definition registrar_handle :: "handler_registrar \<Rightarrow> event_handler" where
  "registrar_handle reg ev = for_each (\<lambda>h. h ev) (event_handlers reg)"

text \<open>The task that \<open>spawn\<close> starts, on the events that are sent until the sender is dropped.\<close>

definition spawned_task :: "handler_registrar \<Rightarrow> event list \<Rightarrow> unit print" where
  "spawned_task reg events = for_each (registrar_handle reg) events"

text \<open>
  A shared library, as far as the program can see it: whether it opens, whether it has the
  registration function, and what that function registers and returns.
\<close>

record 'r plugin =
  opens :: "string + unit"
  symbol :: "string + unit"
  registers :: "'r list"
  registered :: "string + unit"

definition register_handler ::
    "(string \<Rightarrow> event_handler plugin) \<Rightarrow> string \<Rightarrow> handler_registrar \<Rightarrow> handler_registrar outcome" where
  "register_handler lib file reg =
     and_then (with_context ''unable to load event handler'' (external (opens (lib file)))) (\<lambda>_.
     and_then (with_context ''unable to load `register_handler` function from event hook''
       (external (symbol (lib file)))) (\<lambda>_.
     and_then (with_context ''unable to register event handler'' (external (registered (lib file)))) (\<lambda>_.
     Ok (fold register (registers (lib file)) reg))))"

fun load_handlers ::
    "(string \<Rightarrow> event_handler plugin) \<Rightarrow> string list \<Rightarrow> handler_registrar \<Rightarrow> handler_registrar outcome" where
  "load_handlers lib [] reg = Ok reg"
| "load_handlers lib (f # fs) reg =
     and_then (register_handler lib f reg) (load_handlers lib fs)"

definition handler_registrar_try_from ::
    "(string \<Rightarrow> event_handler plugin) \<Rightarrow> string list \<Rightarrow> handler_registrar outcome" where
  "handler_registrar_try_from lib files = load_handlers lib files default_registrar"

text \<open>Where a loop that fails has stopped.\<close>

lemma for_each_Err:
  "for_each f xs s = (Err e, t) \<Longrightarrow>
     \<exists>pre x post u. xs = pre @ x # post \<and> for_each f pre s = (Ok (), u) \<and> f x u = (Err e, t)"
proof (induction xs arbitrary: s)
  case Nil
  then show ?case
    by (simp add: returnM_def)
next
  case (Cons x xs)
  show ?case
  proof (cases "f x s")
    case (Pair r u)
    show ?thesis
    proof (cases r)
      case (Ok a)
      with Cons.prems Pair have "for_each f xs u = (Err e, t)"
        by (simp add: bindM_def)
      from Cons.IH [OF this] obtain pre y post v where "xs = pre @ y # post"
        "for_each f pre u = (Ok (), v)" "f y v = (Err e, t)"
        by blast
      with Pair Ok show ?thesis
        by (intro exI [of _ "x # pre"]) (auto simp: bindM_def)
    next
      case (Err e')
      with Cons.prems Pair show ?thesis
        by (intro exI [of _ "[]"]) (auto simp: bindM_def returnM_def)
    next
      case (Panic p)
      with Cons.prems Pair show ?thesis
        by (simp add: bindM_def)
    qed
  qed
qed

section \<open>What is shown\<close>

text \<open>An event whose text can be shown: established connections have both channels.\<close>

fun showable :: "event \<Rightarrow> bool" where
  "showable (ConnectionEstablished cid details) =
     (solo_machine_channel_id details \<noteq> None \<and> tendermint_channel_id details \<noteq> None)"
| "showable _ = True"

fun heading :: "event \<Rightarrow> string option" where
  "heading (ChainAdded _) = Some ''New chain added!''"
| "heading (CloseChannelInitOnSoloMachine _ _) = Some ''Chain channel init closed!''"
| "heading (TokensMinted _ _ _ _ _ _) = Some ''Tokens minted!''"
| "heading (TokensBurnt _ _ _ _ _ _) = Some ''Tokens burnt!''"
| "heading (SignerUpdated _ _ _) = Some ''Signer updated!''"
| "heading (ConnectionEstablished _ _) = Some ''Connection established!''"
| "heading _ = None"

lemma headed_table_prints:
  "prints (headed_table works h table) [Line h, Line '''', Rows table]"
  unfolding headed_table_def
  by (rule prints_eq, (rule prints_bind prints_intros)+) simp

lemma text_output_prints:
  assumes "showable ev"
  shows "\<exists>xs. prints (handle_text_output works ev) xs \<and>
    (case heading ev of
       Some h \<Rightarrow> \<exists>table. xs = [Line h, Line '''', Rows table]
     | None \<Rightarrow> \<exists>line. xs = [Line line])"
proof (cases ev)
  case (ConnectionEstablished cid details)
  with assms obtain table where rows: "connection_rows details (add_row [] ''Chain ID'' (chain_str cid)) = Ok table"
    by (auto simp: connection_rows_def Let_def)
  have "prints (bindM (print_stream works ''Connection established!'') (\<lambda>_.
      bindM (print_blank works) (\<lambda>_. print_table works (Rows table))))
      [Line ''Connection established!'', Line '''', Rows table]"
    by (rule prints_eq, (rule prints_bind prints_intros)+) simp
  with ConnectionEstablished rows show ?thesis
    by (auto simp: show_connection_def)
qed (auto intro!: exI headed_table_prints prints_intros)

end
