(* ===== verification/Grpc_Status.thy ===== *)
theory Grpc_Status
  imports Chain_Service Ibc_Service
begin

text \<open>
  The vocabulary of the gRPC handlers (\<open>solo-machine/src/server\<close>): a handler answers a request
  with a response or a \<open>tonic::Status\<close>; and the libraries the handlers parse and print with.
\<close>

section \<open>Statuses\<close>

datatype status = Invalid_Argument string | Not_Found string | Internal string

type_synonym 'a handler = "(status + 'a) run"

definition refuse :: "status \<Rightarrow> 'a handler" where
  "refuse st = returnM (Inl st)"

definition answer :: "'a \<Rightarrow> 'a handler" where
  "answer a = returnM (Inr a)"

text \<open>\<open>?\<close> inside a handler.\<close>

definition bindH :: "'a handler \<Rightarrow> ('a \<Rightarrow> 'b handler) \<Rightarrow> 'b handler" where
  "bindH m f = bindM m (\<lambda>r. case r of Inl st \<Rightarrow> refuse st | Inr a \<Rightarrow> f a)"

text \<open>\<open>r.map_err(...)?\<close>: an error of a fallible step becomes a status. A panic stays one.\<close>

definition map_err :: "(error \<Rightarrow> status) \<Rightarrow> 'a run \<Rightarrow> 'a handler" where
  "map_err st m = bindM (catchM m) (\<lambda>r. case r of Inl e \<Rightarrow> refuse (st e) | Inr a \<Rightarrow> answer a)"

definition argument :: "'a outcome \<Rightarrow> 'a handler" where
  "argument r = map_err (\<lambda>e. Invalid_Argument (error_to_string e)) (lift r)"

definition internal :: "'a run \<Rightarrow> 'a handler" where
  "internal m = map_err (\<lambda>e. Internal (error_to_string e)) m"

fun required :: "status \<Rightarrow> 'a option \<Rightarrow> 'a handler" where
  "required st None = refuse st"
| "required st (Some a) = answer a"

fun unwrap_or :: "'a \<Rightarrow> 'a option \<Rightarrow> 'a" where
  "unwrap_or d None = d"
| "unwrap_or d (Some a) = a"

section \<open>Libraries of the front ends\<close>

text \<open>
  \<open>num_rational\<close>, \<open>prost_types\<close>, \<open>chrono\<close> and \<open>primitive_types\<close>: parsing and printing of
  ratios, conversions of durations and times, decimal parsing of 256-bit integers.
\<close>

record front_libs =
  ratio_parse :: "string \<Rightarrow> string + ratio"
  ratio_to_string :: "ratio \<Rightarrow> string"
  duration_of_proto :: "proto_duration \<Rightarrow> string + std_duration"
  timestamp_of_datetime :: "datetime \<Rightarrow> proto_timestamp"
  u256_from_dec_str :: "string \<Rightarrow> string + u256"

section \<open>Analysing a handler\<close>

lemma bindH_simps [simp]:
  "bindH (refuse st) f = refuse st" "bindH (answer a) f = f a"
  by (simp_all add: bindH_def refuse_def answer_def)

lemma bindH_Ok_iff:
  "bindH m f s = (Ok (Inr b), t) \<longleftrightarrow> (\<exists>a u. m s = (Ok (Inr a), u) \<and> f a u = (Ok (Inr b), t))"
  by (auto simp: bindH_def bindM_Ok_iff refuse_def returnM_Ok_iff split_sum_ex)

lemma bindH_refused_iff:
  "bindH m f s = (Ok (Inl st), t) \<longleftrightarrow>
     m s = (Ok (Inl st), t) \<or> (\<exists>a u. m s = (Ok (Inr a), u) \<and> f a u = (Ok (Inl st), t))"
  by (auto simp: bindH_def bindM_Ok_iff refuse_def returnM_Ok_iff split_sum_ex)

lemma answer_Ok_iff [simp]:
  "answer a s = (Ok (Inr b), t) \<longleftrightarrow> b = a \<and> t = s" "answer a s \<noteq> (Ok (Inl st), t)"
  by (auto simp: answer_def returnM_def)

lemma refuse_iff [simp]:
  "refuse st s = (Ok (Inl st'), t) \<longleftrightarrow> st' = st \<and> t = s" "refuse st s \<noteq> (Ok (Inr b), t)"
  by (auto simp: refuse_def returnM_def)

lemma map_err_Ok_iff:
  "map_err st m s = (Ok (Inr a), t) \<longleftrightarrow> m s = (Ok a, t)"
  by (auto simp: map_err_def bindM_Ok_iff catchM_Ok_iff split_sum_ex)

lemma map_err_refused_iff:
  "map_err st m s = (Ok (Inl x), t) \<longleftrightarrow> (\<exists>e. m s = (Err e, t) \<and> x = st e)"
  by (auto simp: map_err_def bindM_Ok_iff catchM_Ok_iff split_sum_ex)

lemma argument_Ok_iff: "argument r s = (Ok (Inr a), t) \<longleftrightarrow> r = Ok a \<and> t = s"
  by (auto simp: argument_def map_err_Ok_iff lift_Ok_iff)

lemma internal_Ok_iff: "internal m s = (Ok (Inr a), t) \<longleftrightarrow> m s = (Ok a, t)"
  by (simp add: internal_def map_err_Ok_iff)

lemma required_Ok_iff: "required st x s = (Ok (Inr a), t) \<longleftrightarrow> x = Some a \<and> t = s"
  by (cases x) auto

lemma required_Some [simp]: "bindH (required st (Some a)) f = f a"
  by simp

lemma argument_Ok [simp]: "argument (Ok a) = answer a"
  by (simp add: argument_def map_err_def catchM_def lift_def answer_def returnM_def bindM_def fun_eq_iff)

lemmas handler_Ok_iffs = bindH_Ok_iff map_err_Ok_iff argument_Ok_iff internal_Ok_iff required_Ok_iff

text \<open>
  \<open>gentle m\<close>: refusing a request for one of its arguments has no effect on the world at all.
\<close>

named_theorems gentle_intros

fun is_invalid :: "status \<Rightarrow> bool" where
  "is_invalid (Invalid_Argument m) = True"
| "is_invalid _ = False"

definition gentle :: "'a handler \<Rightarrow> bool" where
  "gentle m \<longleftrightarrow> (\<forall>s st t. m s = (Ok (Inl st), t) \<and> is_invalid st \<longrightarrow> t = s)"

text \<open>A step that only reads its argument: it neither changes the world nor counts a tick.\<close>

definition pure_step :: "'a handler \<Rightarrow> bool" where
  "pure_step m \<longleftrightarrow> (\<forall>s r t. m s = (r, t) \<longrightarrow> t = s)"

lemma pure_steps [gentle_intros]:
  "pure_step (argument r)" "pure_step (required st x)" "pure_step (refuse st)" "pure_step (answer a)"
  "pure_step (map_err h (lift r))"
  by (cases x; cases r;
      auto simp: pure_step_def argument_def map_err_def refuse_def answer_def lift_def catchM_def
      bindM_def returnM_def)+

lemma gentle_bind_pure [gentle_intros]:
  assumes "pure_step m" "\<And>a. gentle (f a)"
  shows "gentle (bindH m f)"
  using assms unfolding gentle_def pure_step_def bindH_refused_iff by blast

text \<open>The service call and what follows it never complain about arguments.\<close>

definition never_invalid :: "'a handler \<Rightarrow> bool" where
  "never_invalid m \<longleftrightarrow> (\<forall>s st t. m s = (Ok (Inl st), t) \<longrightarrow> \<not> is_invalid st)"

lemma never_invalid_steps [gentle_intros]:
  "never_invalid (internal m)" "never_invalid (answer a)" "never_invalid (required (Not_Found e) x)"
  by (cases x; auto simp: never_invalid_def internal_def map_err_refused_iff)+

lemma never_invalid_bind [gentle_intros]:
  assumes "never_invalid m" "\<And>a. never_invalid (f a)"
  shows "never_invalid (bindH m f)"
  using assms unfolding never_invalid_def bindH_refused_iff by blast

lemma gentle_of_never_invalid: "never_invalid m \<Longrightarrow> gentle m"
  by (auto simp: gentle_def never_invalid_def)

lemma pure_step_bind [gentle_intros]:
  assumes "pure_step m" "\<And>a. pure_step (f a)"
  shows "pure_step (bindH m f)"
  unfolding pure_step_def
proof (intro allI impI)
  fix s r t
  assume run: "bindH m f s = (r, t)"
  obtain q u where "m s = (q, u)"
    by fastforce
  with run assms show "t = s"
    by (fastforce simp: pure_step_def bindH_def bindM_def refuse_def returnM_def
        split: outcome.splits sum.splits)
qed

lemma gentle_splits [gentle_intros]:
  "pure_step m \<Longrightarrow> pure_step n \<Longrightarrow> pure_step (if b then m else n)"
  "pure_step m \<Longrightarrow> (\<And>y. pure_step (g y)) \<Longrightarrow> pure_step (case x of None \<Rightarrow> m | Some y \<Rightarrow> g y)"
  by (simp_all split: option.splits)

text \<open>What a handler keeps.\<close>

lemma keeps_bindH:
  assumes "frame_relation R" "keeps R m" "\<And>a. keeps R (f a)"
  shows "keeps R (bindH m f)"
  using assms unfolding bindH_def refuse_def
  by (auto intro!: frame_relation.keeps_bindM frame_relation.keeps_returnM keeps_case_sum)

lemma keeps_map_err:
  assumes "frame_relation R" "keeps R m"
  shows "keeps R (map_err st m)"
  using assms unfolding map_err_def refuse_def answer_def
  by (auto intro!: frame_relation.keeps_bindM frame_relation.keeps_returnM
      frame_relation.keeps_catchM keeps_case_sum)

lemma keeps_pure_step:
  assumes "frame_relation R" "pure_step m"
  shows "keeps R m"
  using assms unfolding pure_step_def
  by (intro keepsI) (metis frame_relation.R_refl)

end
