(* ===== verification/Grpc_Chain.thy ===== *)
theory Grpc_Chain
  imports Grpc_Status
begin

text \<open>
  The gRPC chain service: \<open>solo-machine/src/server/chain.rs\<close>, its requests and responses as in
  \<open>solo-machine/proto/chain.proto\<close>.
\<close>

section \<open>Messages\<close>

record grpc_fee_config =
  gf_fee_amount :: "string option"
  gf_fee_denom :: "string option"
  gf_gas_limit :: "u64 option"

record grpc_chain_config =
  gc_grpc_addr :: "string option"
  gc_rpc_addr :: "string option"
  gc_fee_config :: "grpc_fee_config option"
  gc_trust_level :: "string option"
  gc_trusting_period :: "proto_duration option"
  gc_max_clock_drift :: "proto_duration option"
  gc_rpc_timeout :: "proto_duration option"
  gc_diversifier :: "string option"
  gc_port_id :: "string option"
  gc_trusted_height :: "u32 option"
  gc_trusted_hash :: "string option"

record grpc_connection_details =
  gd_solo_machine_client_id :: string
  gd_tendermint_client_id :: string
  gd_solo_machine_connection_id :: string
  gd_tendermint_connection_id :: string
  gd_solo_machine_channel_id :: "string option"
  gd_tendermint_channel_id :: "string option"

record query_chain_response =
  qc_chain_id :: string
  qc_node_id :: string
  qc_config :: "grpc_chain_config option"
  qc_consensus_timestamp :: "proto_timestamp option"
  qc_sequence :: u32
  qc_packet_sequence :: u32
  qc_connection_details :: "grpc_connection_details option"
  qc_created_at :: "proto_timestamp option"
  qc_updated_at :: "proto_timestamp option"

section \<open>Defaults\<close>

definition DEFAULT_GRPC_ADDR :: string where "DEFAULT_GRPC_ADDR = ''http://0.0.0.0:9090''"
definition DEFAULT_RPC_ADDR :: string where "DEFAULT_RPC_ADDR = ''http://0.0.0.0:26657''"
definition DEFAULT_FEE_AMOUNT :: string where "DEFAULT_FEE_AMOUNT = ''1000''"
definition DEFAULT_FEE_DENOM :: string where "DEFAULT_FEE_DENOM = ''stake''"
definition DEFAULT_GAS_LIMIT :: u64 where "DEFAULT_GAS_LIMIT = 300000"
definition DEFAULT_TRUST_LEVEL :: string where "DEFAULT_TRUST_LEVEL = ''1/3''"
definition DEFAULT_TRUSTING_PERIOD :: std_duration where
  "DEFAULT_TRUSTING_PERIOD = \<lparr>d_secs = 336 * 60 * 60, d_subsec_nanos = 0\<rparr>"
definition DEFAULT_MAX_CLOCK_DRIFT :: std_duration where
  "DEFAULT_MAX_CLOCK_DRIFT = \<lparr>d_secs = 3, d_subsec_nanos = 0\<rparr>"
definition DEFAULT_RPC_TIMEOUT :: std_duration where
  "DEFAULT_RPC_TIMEOUT = \<lparr>d_secs = 60, d_subsec_nanos = 0\<rparr>"
definition DEFAULT_DIVERSIFIER :: string where "DEFAULT_DIVERSIFIER = ''solo-machine-diversifier''"
definition DEFAULT_PORT_ID :: string where "DEFAULT_PORT_ID = ''transfer''"

section \<open>Adding a chain\<close>

text \<open>\<open>opt.map(Duration::try_from).transpose().map_err(..)?.unwrap_or(default)\<close>\<close>

definition duration_argument ::
    "front_libs \<Rightarrow> string \<Rightarrow> std_duration \<Rightarrow> proto_duration option \<Rightarrow> std_duration handler" where
  "duration_argument G what d given =
     (case given of
        None \<Rightarrow> answer d
      | Some p \<Rightarrow> map_err (\<lambda>_. Invalid_Argument (''negative '' @ what))
          (lift (external (duration_of_proto G p))))"

text \<open>The first part of \<open>add\<close>: the configuration the request stands for.\<close>

definition core_config :: "env \<Rightarrow> front_libs \<Rightarrow> grpc_chain_config option \<Rightarrow> chain_config handler" where
  "core_config E G request =
     bindH (required (Invalid_Argument ''config must be provided'') request) (\<lambda>cfg.
     let grpc = unwrap_or DEFAULT_GRPC_ADDR (gc_grpc_addr cfg);
         rpc = unwrap_or DEFAULT_RPC_ADDR (gc_rpc_addr cfg);
         fc = unwrap_or \<lparr>gf_fee_amount = Some DEFAULT_FEE_AMOUNT, gf_fee_denom = Some DEFAULT_FEE_DENOM,
                gf_gas_limit = Some DEFAULT_GAS_LIMIT\<rparr> (gc_fee_config cfg) in
     bindH (argument (external (decimal_parse E (unwrap_or DEFAULT_FEE_AMOUNT (gf_fee_amount fc))))) (\<lambda>amount.
     bindH (argument (identifier_from_str (unwrap_or DEFAULT_FEE_DENOM (gf_fee_denom fc)))) (\<lambda>fdenom.
     let gas_limit = unwrap_or DEFAULT_GAS_LIMIT (gf_gas_limit fc) in
     bindH (argument (external (ratio_parse G (unwrap_or DEFAULT_TRUST_LEVEL (gc_trust_level cfg))))) (\<lambda>level.
     bindH (duration_argument G ''trusting_period'' DEFAULT_TRUSTING_PERIOD (gc_trusting_period cfg)) (\<lambda>period.
     bindH (duration_argument G ''max_clock_drift'' DEFAULT_MAX_CLOCK_DRIFT (gc_max_clock_drift cfg)) (\<lambda>drift.
     bindH (duration_argument G ''rpc_timeout'' DEFAULT_RPC_TIMEOUT (gc_rpc_timeout cfg)) (\<lambda>timeout.
     let dvs = unwrap_or DEFAULT_DIVERSIFIER (gc_diversifier cfg) in
     bindH (argument (port_id_from_str (unwrap_or DEFAULT_PORT_ID (gc_port_id cfg)))) (\<lambda>port.
     bindH (required (Invalid_Argument ''trusted_height must be provided'') (gc_trusted_height cfg)) (\<lambda>height.
     bindH (required (Invalid_Argument ''trusted_hash must be provided'') (gc_trusted_hash cfg)) (\<lambda>hash_str.
     if hash_str = [] then refuse (Invalid_Argument ''trusted_hash is empty'')
     else
       bindH (argument (external (hex_decode E hash_str))) (\<lambda>hash.
       if length hash \<noteq> 32 then refuse (Invalid_Argument ''trusted_hash length should be 32'')
       else answer
         \<lparr>grpc_addr = grpc, rpc_addr = rpc,
          config_fee = \<lparr>fee_amount = amount, fee_denom = fdenom, fee_gas_limit = gas_limit\<rparr>,
          trust_level = level, trusting_period = period, max_clock_drift = drift,
          rpc_timeout = timeout, diversifier = dvs, port_id = port,
          trusted_height = ucast height, trusted_hash = hash\<rparr>)))))))))))"

definition serve_add_chain ::
    "env \<Rightarrow> front_libs \<Rightarrow> signer \<Rightarrow> grpc_chain_config option \<Rightarrow> string handler" where
  "serve_add_chain E G S request =
     bindH (core_config E G request) (\<lambda>cfg.
     bindH (internal (lift (to_public_key S))) (\<lambda>key.
     bindH (internal (chain_service_add E cfg (public_key_encode E key))) (\<lambda>cid.
     answer (chain_str cid))))"

section \<open>Queries\<close>

definition grpc_details :: "connection_details \<Rightarrow> grpc_connection_details" where
  "grpc_details d =
     \<lparr>gd_solo_machine_client_id = client_str (solo_machine_client_id d),
      gd_tendermint_client_id = client_str (tendermint_client_id d),
      gd_solo_machine_connection_id = connection_str (solo_machine_connection_id d),
      gd_tendermint_connection_id = connection_str (tendermint_connection_id d),
      gd_solo_machine_channel_id = map_option channel_str (solo_machine_channel_id d),
      gd_tendermint_channel_id = map_option channel_str (tendermint_channel_id d)\<rparr>"

text \<open>\<open>u32::try_from(u64)\<close>\<close>

definition u32_of_u64 :: "u64 \<Rightarrow> u32 outcome" where
  "u32_of_u64 n = u32_try_from (uint n)"

text \<open>The configuration a query shows.\<close>

definition shown_config :: "env \<Rightarrow> front_libs \<Rightarrow> chain_config \<Rightarrow> grpc_chain_config handler" where
  "shown_config E G cfg =
     bindH (internal (lift (external (duration_to_proto E (trusting_period cfg))))) (\<lambda>period.
     bindH (internal (lift (external (duration_to_proto E (max_clock_drift cfg))))) (\<lambda>drift.
     bindH (internal (lift (external (duration_to_proto E (rpc_timeout cfg))))) (\<lambda>timeout.
     bindH (internal (lift (u32_of_u64 (trusted_height cfg)))) (\<lambda>height.
     answer
       \<lparr>gc_grpc_addr = Some (grpc_addr cfg), gc_rpc_addr = Some (rpc_addr cfg),
        gc_fee_config = Some
          \<lparr>gf_fee_amount = Some (decimal_to_string E (fee_amount (config_fee cfg))),
           gf_fee_denom = Some (ident_str (fee_denom (config_fee cfg))),
           gf_gas_limit = Some (fee_gas_limit (config_fee cfg))\<rparr>,
        gc_trust_level = Some (ratio_to_string G (trust_level cfg)),
        gc_trusting_period = Some period, gc_max_clock_drift = Some drift,
        gc_rpc_timeout = Some timeout, gc_diversifier = Some (diversifier cfg),
        gc_port_id = Some (port_str (port_id cfg)), gc_trusted_height = Some height,
        gc_trusted_hash = Some (hex_encode E (trusted_hash cfg))\<rparr>))))"

definition serve_query_chain :: "env \<Rightarrow> front_libs \<Rightarrow> string \<Rightarrow> query_chain_response handler" where
  "serve_query_chain E G requested =
     bindH (argument (chain_id_from_str requested)) (\<lambda>cid.
     bindH (internal (chain_service_get E cid)) (\<lambda>found.
     bindH (required (Not_Found ''chain details not found'') found) (\<lambda>c.
     bindH (shown_config E G (config c)) (\<lambda>cfg.
     answer
       \<lparr>qc_chain_id = chain_str (c_id c),
        qc_node_id = node_id_to_string (node_format E) (c_node_id c),
        qc_config = Some cfg,
        qc_consensus_timestamp = Some (timestamp_of_datetime G (consensus_timestamp c)),
        qc_sequence = sequence c, qc_packet_sequence = packet_sequence c,
        qc_connection_details = map_option grpc_details (connection_details c),
        qc_created_at = Some (timestamp_of_datetime G (c_created_at c)),
        qc_updated_at = Some (timestamp_of_datetime G (c_updated_at c))\<rparr>))))"

definition serve_ibc_denom :: "env \<Rightarrow> string \<Rightarrow> string \<Rightarrow> string handler" where
  "serve_ibc_denom E requested denom_text =
     bindH (argument (chain_id_from_str requested)) (\<lambda>cid.
     bindH (argument (identifier_from_str denom_text)) (\<lambda>d.
     internal (chain_service_get_ibc_denom E cid d)))"

definition serve_balance :: "env \<Rightarrow> signer \<Rightarrow> string \<Rightarrow> string \<Rightarrow> string handler" where
  "serve_balance E S requested denom_text =
     bindH (argument (chain_id_from_str requested)) (\<lambda>cid.
     bindH (argument (identifier_from_str denom_text)) (\<lambda>d.
     bindH (internal (chain_service_balance E S cid d)) (\<lambda>balance.
     answer (decimal_to_string E balance))))"

section \<open>Refusals\<close>

lemma pure_core_config [gentle_intros]: "pure_step (core_config E G request)"
  unfolding core_config_def duration_argument_def Let_def
  by (intro gentle_intros)

lemma never_invalid_shown_config [gentle_intros]: "never_invalid (shown_config E G cfg)"
  unfolding shown_config_def by (intro gentle_intros)

lemma gentle_chain_service:
  "gentle (serve_add_chain E G S request)"
  "gentle (serve_query_chain E G requested)"
  "gentle (serve_ibc_denom E requested d)"
  "gentle (serve_balance E S requested d)"
  unfolding serve_add_chain_def serve_query_chain_def serve_ibc_denom_def serve_balance_def
  by (intro gentle_intros gentle_of_never_invalid)+

section \<open>Accepted configurations\<close>

definition duration_given :: "front_libs \<Rightarrow> std_duration \<Rightarrow> proto_duration option \<Rightarrow> std_duration \<Rightarrow> bool" where
  "duration_given G d given x \<longleftrightarrow>
     (case given of None \<Rightarrow> x = d | Some p \<Rightarrow> duration_of_proto G p = Inr x)"

lemma duration_argument_Ok_iff:
  "duration_argument G what d given s = (Ok (Inr x), t) \<longleftrightarrow> t = s \<and> duration_given G d given x"
  by (auto simp: duration_argument_def duration_given_def handler_Ok_iffs lift_Ok_iff
      split: option.splits)

lemma core_config_Ok:
  assumes "core_config E G request s = (Ok (Inr cfg), t)"
  obtains a f l p1 p2 p3 n h u where
    "t = s" "decimal_parse E a = Inr (fee_amount (config_fee cfg))"
    "identifier_from_str f = Ok (fee_denom (config_fee cfg))"
    "ratio_parse G l = Inr (trust_level cfg)"
    "duration_given G DEFAULT_TRUSTING_PERIOD p1 (trusting_period cfg)"
    "duration_given G DEFAULT_MAX_CLOCK_DRIFT p2 (max_clock_drift cfg)"
    "duration_given G DEFAULT_RPC_TIMEOUT p3 (rpc_timeout cfg)"
    "port_id_from_str n = Ok (port_id cfg)" "trusted_height cfg = ucast (h :: u32)"
    "hex_decode E u = Inr (trusted_hash cfg)" "length (trusted_hash cfg) = 32"
  using assms unfolding core_config_def Let_def
  by (clarsimp simp: bindH_Ok_iff argument_Ok_iff required_Ok_iff duration_argument_Ok_iff
      split: if_splits)

section \<open>What is shown is what was asked for\<close>

text \<open>
  The documented behaviour of the libraries: what was parsed is parsed again from its text, hex
  is two digits a byte and decodes, and a duration survives protobuf.
\<close>

definition config_text_laws :: "env \<Rightarrow> front_libs \<Rightarrow> bool" where
  "config_text_laws E G \<longleftrightarrow>
     (\<forall>s x. decimal_parse E s = Inr x \<longrightarrow> decimal_parse E (decimal_to_string E x) = Inr x) \<and>
     (\<forall>s r. ratio_parse G s = Inr r \<longrightarrow> ratio_parse G (ratio_to_string G r) = Inr r) \<and>
     (\<forall>bs. hex_decode E (hex_encode E bs) = Inr bs \<and> length (hex_encode E bs) = 2 * length bs) \<and>
     (\<forall>p d. duration_of_proto G p = Inr d \<longrightarrow> d_subsec_nanos d < 1000000000) \<and>
     (\<forall>d p. d_subsec_nanos d < 1000000000 \<and> duration_to_proto E d = Inr p \<longrightarrow>
        duration_of_proto G p = Inr d)"

lemma config_text_lawsD:
  assumes "config_text_laws E G"
  shows "decimal_parse E s = Inr x \<Longrightarrow> decimal_parse E (decimal_to_string E x) = Inr x"
    "ratio_parse G s = Inr r \<Longrightarrow> ratio_parse G (ratio_to_string G r) = Inr r"
    "hex_decode E (hex_encode E bs) = Inr bs" "length (hex_encode E bs) = 2 * length bs"
    "duration_of_proto G p = Inr d \<Longrightarrow> d_subsec_nanos d < 1000000000"
    "d_subsec_nanos d < 1000000000 \<Longrightarrow> duration_to_proto E d = Inr p \<Longrightarrow>
       duration_of_proto G p = Inr d"
  using assms unfolding config_text_laws_def by blast+

text \<open>A configuration whose parts are read back from their texts.\<close>

definition reparses :: "env \<Rightarrow> front_libs \<Rightarrow> chain_config \<Rightarrow> bool" where
  "reparses E G cfg \<longleftrightarrow>
     decimal_parse E (decimal_to_string E (fee_amount (config_fee cfg))) = Inr (fee_amount (config_fee cfg)) \<and>
     identifier_from_str (ident_str (fee_denom (config_fee cfg))) = Ok (fee_denom (config_fee cfg)) \<and>
     ratio_parse G (ratio_to_string G (trust_level cfg)) = Inr (trust_level cfg) \<and>
     d_subsec_nanos (trusting_period cfg) < 1000000000 \<and>
     d_subsec_nanos (max_clock_drift cfg) < 1000000000 \<and>
     d_subsec_nanos (rpc_timeout cfg) < 1000000000 \<and>
     port_id_from_str (port_str (port_id cfg)) = Ok (port_id cfg) \<and>
     uint (trusted_height cfg) < 2 ^ 32 \<and> length (trusted_hash cfg) = 32"

lemma core_config_reparses:
  assumes "core_config E G request s = (Ok (Inr cfg), t)" "config_text_laws E G"
  shows "reparses E G cfg"
proof (rule core_config_Ok [OF assms(1)])
  have nanos: "d_subsec_nanos x < 1000000000"
    if "duration_given G d p x" "d_subsec_nanos d = 0" for d p x
    using that config_text_lawsD(5) [OF assms(2)] by (auto simp: duration_given_def split: option.splits)
  fix a f l p1 p2 p3 n u and h :: u32
  assume parts: "decimal_parse E a = Inr (fee_amount (config_fee cfg))"
    "identifier_from_str f = Ok (fee_denom (config_fee cfg))"
    "ratio_parse G l = Inr (trust_level cfg)"
    "duration_given G DEFAULT_TRUSTING_PERIOD p1 (trusting_period cfg)"
    "duration_given G DEFAULT_MAX_CLOCK_DRIFT p2 (max_clock_drift cfg)"
    "duration_given G DEFAULT_RPC_TIMEOUT p3 (rpc_timeout cfg)"
    "port_id_from_str n = Ok (port_id cfg)" "trusted_height cfg = ucast h"
    "length (trusted_hash cfg) = 32"
  have "uint (trusted_height cfg) < 2 ^ 32"
    using unsigned_less [of h, where ?'a = int] parts(8) by (simp add: uint_up_ucast is_up)
  moreover have "decimal_parse E (decimal_to_string E (fee_amount (config_fee cfg))) = Inr (fee_amount (config_fee cfg))"
    "ratio_parse G (ratio_to_string G (trust_level cfg)) = Inr (trust_level cfg)"
    by (rule config_text_lawsD [OF assms(2)], rule parts)+
  moreover have "d_subsec_nanos (trusting_period cfg) < 1000000000"
    "d_subsec_nanos (max_clock_drift cfg) < 1000000000" "d_subsec_nanos (rpc_timeout cfg) < 1000000000"
    using nanos [OF parts(4)] nanos [OF parts(5)] nanos [OF parts(6)]
    by (simp_all add: DEFAULT_TRUSTING_PERIOD_def DEFAULT_MAX_CLOCK_DRIFT_def DEFAULT_RPC_TIMEOUT_def)
  ultimately show ?thesis
    using parts(9) identifier_text.reparse [OF parts(2)] port_text.reparse [OF parts(7)]
    by (simp add: reparses_def)
qed

lemma shown_config_Ok:
  assumes "shown_config E G cfg s = (Ok (Inr pc), t)"
  obtains p1 p2 p3 h where "t = s"
    "duration_to_proto E (trusting_period cfg) = Inr p1"
    "duration_to_proto E (max_clock_drift cfg) = Inr p2"
    "duration_to_proto E (rpc_timeout cfg) = Inr p3" "uint (trusted_height cfg) = uint (h :: u32)"
    "pc = \<lparr>gc_grpc_addr = Some (grpc_addr cfg), gc_rpc_addr = Some (rpc_addr cfg),
        gc_fee_config = Some
          \<lparr>gf_fee_amount = Some (decimal_to_string E (fee_amount (config_fee cfg))),
           gf_fee_denom = Some (ident_str (fee_denom (config_fee cfg))),
           gf_gas_limit = Some (fee_gas_limit (config_fee cfg))\<rparr>,
        gc_trust_level = Some (ratio_to_string G (trust_level cfg)),
        gc_trusting_period = Some p1, gc_max_clock_drift = Some p2,
        gc_rpc_timeout = Some p3, gc_diversifier = Some (diversifier cfg),
        gc_port_id = Some (port_str (port_id cfg)), gc_trusted_height = Some h,
        gc_trusted_hash = Some (hex_encode E (trusted_hash cfg))\<rparr>"
  using assms unfolding shown_config_def
  by (clarsimp simp: bindH_Ok_iff internal_Ok_iff lift_Ok_iff u32_of_u64_def u32_try_from_Ok_iff)

lemma shown_config_read_back:
  assumes "shown_config E G cfg s = (Ok (Inr pc), t)" "reparses E G cfg" "config_text_laws E G"
  shows "core_config E G (Some pc) w = (Ok (Inr cfg), w)"
proof (rule shown_config_Ok [OF assms(1)])
  fix p1 p2 p3 and h :: u32
  assume durations: "duration_to_proto E (trusting_period cfg) = Inr p1"
    "duration_to_proto E (max_clock_drift cfg) = Inr p2"
    "duration_to_proto E (rpc_timeout cfg) = Inr p3"
    and height: "uint (trusted_height cfg) = uint h"
    and pc: "pc = \<lparr>gc_grpc_addr = Some (grpc_addr cfg), gc_rpc_addr = Some (rpc_addr cfg),
        gc_fee_config = Some
          \<lparr>gf_fee_amount = Some (decimal_to_string E (fee_amount (config_fee cfg))),
           gf_fee_denom = Some (ident_str (fee_denom (config_fee cfg))),
           gf_gas_limit = Some (fee_gas_limit (config_fee cfg))\<rparr>,
        gc_trust_level = Some (ratio_to_string G (trust_level cfg)),
        gc_trusting_period = Some p1, gc_max_clock_drift = Some p2,
        gc_rpc_timeout = Some p3, gc_diversifier = Some (diversifier cfg),
        gc_port_id = Some (port_str (port_id cfg)), gc_trusted_height = Some h,
        gc_trusted_hash = Some (hex_encode E (trusted_hash cfg))\<rparr>"
  have h: "trusted_height cfg = ucast h"
    using height by (simp add: word_uint_eq_iff uint_up_ucast is_up)
  have durs: "duration_of_proto G p1 = Inr (trusting_period cfg)"
    "duration_of_proto G p2 = Inr (max_clock_drift cfg)"
    "duration_of_proto G p3 = Inr (rpc_timeout cfg)"
    using durations assms(2) config_text_lawsD(6) [OF assms(3)] by (simp_all add: reparses_def)
  have hash: "hex_decode E (hex_encode E (trusted_hash cfg)) = Inr (trusted_hash cfg)"
    "hex_encode E (trusted_hash cfg) \<noteq> []" "length (trusted_hash cfg) = 32"
    using assms(2) config_text_lawsD(3,4) [OF assms(3), of "trusted_hash cfg"]
    by (auto simp: reparses_def)
  have step: "map_err st (lift (Ok x)) = answer x" for st and x :: 'q
    by (simp add: map_err_def catchM_def lift_def answer_def returnM_def bindM_def fun_eq_iff)
  show ?thesis
    using assms(2) unfolding core_config_def Let_def pc duration_argument_def reparses_def
    by (simp add: durs hash step h)
qed

end
