(* ===== verification/Grpc_Ibc.thy ===== *)
theory Grpc_Ibc
  imports Grpc_Status
begin

text \<open>
  The gRPC IBC service: \<open>solo-machine/src/server/ibc.rs\<close>, its requests and responses as in
  \<open>solo-machine/proto/ibc.proto\<close>.
\<close>

section \<open>Messages\<close>

record connect_request =
  cr_chain_id :: string
  cr_request_id :: "string option"
  cr_memo :: "string option"
  cr_force :: bool

record mint_request =
  mr_chain_id :: string
  mr_request_id :: "string option"
  mr_memo :: "string option"
  mr_amount :: string
  mr_denom :: string
  mr_receiver_address :: "string option"

record burn_request =
  br_chain_id :: string
  br_request_id :: "string option"
  br_memo :: "string option"
  br_amount :: string
  br_denom :: string

record update_signer_request =
  ur_chain_id :: string
  ur_request_id :: "string option"
  ur_memo :: "string option"
  ur_new_public_key :: string
  ur_public_key_algo :: "string option"

record grpc_operation =
  go_id :: int
  go_request_id :: "string option"
  go_address :: string
  go_denom :: string
  go_amount :: string
  go_operation_type :: string
  go_transaction_hash :: string
  go_created_at :: "proto_timestamp option"

definition DEFAULT_MEMO :: string where
  "DEFAULT_MEMO = ''solo-machine-memo''"

section \<open>Handlers\<close>

definition serve_connect :: "env \<Rightarrow> signer \<Rightarrow> connect_request \<Rightarrow> unit handler" where
  "serve_connect E S request =
     bindH (argument (chain_id_from_str (cr_chain_id request))) (\<lambda>cid.
     let memo = unwrap_or DEFAULT_MEMO (cr_memo request) in
     bindH (internal (connect E S cid (cr_request_id request) memo (cr_force request))) (\<lambda>_.
     answer ()))"

definition serve_mint :: "env \<Rightarrow> front_libs \<Rightarrow> signer \<Rightarrow> mint_request \<Rightarrow> string handler" where
  "serve_mint E G S request =
     bindH (argument (chain_id_from_str (mr_chain_id request))) (\<lambda>cid.
     let memo = unwrap_or DEFAULT_MEMO (mr_memo request) in
     bindH (argument (external (u256_from_dec_str G (mr_amount request)))) (\<lambda>amount.
     bindH (argument (identifier_from_str (mr_denom request))) (\<lambda>d.
     internal (mint E S cid (mr_request_id request) amount d (mr_receiver_address request) memo))))"

definition serve_burn :: "env \<Rightarrow> front_libs \<Rightarrow> signer \<Rightarrow> burn_request \<Rightarrow> string handler" where
  "serve_burn E G S request =
     bindH (argument (chain_id_from_str (br_chain_id request))) (\<lambda>cid.
     let memo = unwrap_or DEFAULT_MEMO (br_memo request) in
     bindH (argument (external (u256_from_dec_str G (br_amount request)))) (\<lambda>amount.
     bindH (argument (identifier_from_str (br_denom request))) (\<lambda>d.
     internal (burn E S cid (br_request_id request) amount d memo))))"

text \<open>A missing algorithm is \<open>secp256k1\<close>.\<close>

definition algo_argument :: "string option \<Rightarrow> public_key_algo handler" where
  "algo_argument given =
     (case given of
        None \<Rightarrow> answer Algo_Secp256k1
      | Some s \<Rightarrow> argument (public_key_algo_from_str s))"

fun public_key_of_algo :: "public_key_algo \<Rightarrow> k256_key \<Rightarrow> public_key" where
  "public_key_of_algo Algo_Secp256k1 k = Secp256k1 k"
| "public_key_of_algo Algo_Eth_Secp256k1 k = Eth_Secp256k1 k"

definition serve_update_signer :: "env \<Rightarrow> signer \<Rightarrow> update_signer_request \<Rightarrow> unit handler" where
  "serve_update_signer E S request =
     bindH (argument (chain_id_from_str (ur_chain_id request))) (\<lambda>cid.
     let memo = unwrap_or DEFAULT_MEMO (ur_memo request) in
     bindH (argument (external (hex_decode E (ur_new_public_key request)))) (\<lambda>bs.
     bindH (argument (external (k256_from_sec1 E bs))) (\<lambda>key.
     bindH (algo_argument (ur_public_key_algo request)) (\<lambda>algo.
     bindH (internal (update_signer E S cid (ur_request_id request) (public_key_of_algo algo key) memo)) (\<lambda>_.
     answer ())))))"

text \<open>\<open>i32::try_from(u32)\<close>\<close>

definition i32_of_u32 :: "string \<Rightarrow> u32 \<Rightarrow> int outcome" where
  "i32_of_u32 what n = (if uint n < 2 ^ 31 then Ok (uint n) else bail (''invalid `'' @ what @ ''`''))"

definition grpc_operation_of :: "front_libs \<Rightarrow> operation \<Rightarrow> grpc_operation" where
  "grpc_operation_of G op =
     \<lparr>go_id = o_id op, go_request_id = o_request_id op, go_address = o_address op,
      go_denom = ident_str (o_denom op), go_amount = u256_to_string (o_amount op),
      go_operation_type = operation_type_to_string (o_operation_type op),
      go_transaction_hash = o_transaction_hash op,
      go_created_at = Some (timestamp_of_datetime G (o_created_at op))\<rparr>"

definition serve_history ::
    "env \<Rightarrow> front_libs \<Rightarrow> signer \<Rightarrow> u32 option \<Rightarrow> u32 option \<Rightarrow> grpc_operation list handler" where
  "serve_history E G S limit_given offset_given =
     bindH (argument (i32_of_u32 ''limit'' (unwrap_or 10 limit_given))) (\<lambda>lim.
     bindH (argument (i32_of_u32 ''offset'' (unwrap_or 0 offset_given))) (\<lambda>off.
     bindH (internal (history E S lim off)) (\<lambda>ops.
     answer (map (grpc_operation_of G) ops))))"

section \<open>Refusals\<close>

lemma pure_algo_argument [gentle_intros]: "pure_step (algo_argument given)"
  unfolding algo_argument_def by (intro gentle_intros)

lemma gentle_ibc_service:
  "gentle (serve_connect E S r1)"
  "gentle (serve_mint E G S r2)"
  "gentle (serve_burn E G S r3)"
  "gentle (serve_update_signer E S r4)"
  "gentle (serve_history E G S l i)"
  unfolding serve_connect_def serve_mint_def serve_burn_def serve_update_signer_def
    serve_history_def Let_def
  by (intro gentle_intros gentle_of_never_invalid)+

end
