(* ===== verification/Grpc_Server.thy ===== *)
theory Grpc_Server
  imports Grpc_Chain Grpc_Ibc Refinement
begin

text \<open>
  The gRPC server: the remote procedures of both services behind one address
  (\<open>solo-machine/src/server.rs\<close>), what a refused call leaves behind and which requests to the
  core services an accepted one makes.
\<close>

section \<open>Calls\<close>

datatype rpc =
    Rpc_Add "grpc_chain_config option"
  | Rpc_Query string
  | Rpc_Ibc_Denom string string
  | Rpc_Balance string string
  | Rpc_Connect connect_request
  | Rpc_Mint mint_request
  | Rpc_Burn burn_request
  | Rpc_Update_Signer update_signer_request
  | Rpc_History "u32 option" "u32 option"

datatype rpc_response =
    Added string
  | Chain_Details query_chain_response
  | Ibc_Denom string
  | Balance string
  | Connected
  | Minted string
  | Burnt string
  | Signer_Updated
  | Operations "grpc_operation list"

definition respond :: "('a \<Rightarrow> rpc_response) \<Rightarrow> 'a handler \<Rightarrow> rpc_response handler" where
  "respond f m = bindH m (\<lambda>a. answer (f a))"

fun serve :: "env \<Rightarrow> front_libs \<Rightarrow> signer \<Rightarrow> rpc \<Rightarrow> rpc_response handler" where
  "serve E G S (Rpc_Add request) = respond Added (serve_add_chain E G S request)"
| "serve E G S (Rpc_Query cid) = respond Chain_Details (serve_query_chain E G cid)"
| "serve E G S (Rpc_Ibc_Denom cid d) = respond Ibc_Denom (serve_ibc_denom E cid d)"
| "serve E G S (Rpc_Balance cid d) = respond Balance (serve_balance E S cid d)"
| "serve E G S (Rpc_Connect request) = respond (\<lambda>_. Connected) (serve_connect E S request)"
| "serve E G S (Rpc_Mint request) = respond Minted (serve_mint E G S request)"
| "serve E G S (Rpc_Burn request) = respond Burnt (serve_burn E G S request)"
| "serve E G S (Rpc_Update_Signer request) =
     respond (\<lambda>_. Signer_Updated) (serve_update_signer E S request)"
| "serve E G S (Rpc_History lim off) = respond Operations (serve_history E G S lim off)"

section \<open>Calls that take too long\<close>

text \<open>
  The server gives a call 60 seconds. A call that takes longer is dropped where it awaits, its
  open transaction with it: nothing it asks for from then on is answered. The deadline is a
  number of ticks, counted from the start of the call. (Sending an event and generating an
  identifier are ticks without an await, so some deadlines are earlier than a real one.)
\<close>

definition too_late :: "nat \<Rightarrow> nat \<Rightarrow> string + 'a \<Rightarrow> string + 'a" where
  "too_late k n x = (if k \<le> n then Inl ''Timeout expired'' else x)"

definition fault_too_late :: "nat \<Rightarrow> nat \<Rightarrow> string option \<Rightarrow> string option" where
  "fault_too_late k n fault = (if k \<le> n then Some ''Timeout expired'' else fault)"

definition cut_env :: "nat \<Rightarrow> env \<Rightarrow> env" where
  "cut_env k E = E\<lparr>
     db_fault := (\<lambda>n. fault_too_late k n (db_fault E n)),
     broadcast := (\<lambda>n a bs. too_late k n (broadcast E n a bs)),
     rpc_status := (\<lambda>n a. too_late k n (rpc_status E n a)),
     grpc_connect := (\<lambda>n a. too_late k n (grpc_connect E n a)),
     query_account := (\<lambda>n a x. too_late k n (query_account E n a x)),
     query_staking_params := (\<lambda>n a. too_late k n (query_staking_params E n a)),
     query_balance := (\<lambda>n a x d. too_late k n (query_balance E n a x d)),
     trust_primary_at := (\<lambda>n lc. too_late k n (trust_primary_at E n lc)),
     verify_to_highest := (\<lambda>n lc. too_late k n (verify_to_highest E n lc)),
     notifier_send := (\<lambda>n. fault_too_late k n (notifier_send E n))\<rparr>"

definition cut_signer :: "nat \<Rightarrow> signer \<Rightarrow> signer" where
  "cut_signer k S = S\<lparr>sign_with :=
     (\<lambda>n rid msg. if k \<le> n then bail ''Timeout expired'' else sign_with S n rid msg)\<rparr>"

definition serve_within ::
    "nat option \<Rightarrow> env \<Rightarrow> front_libs \<Rightarrow> signer \<Rightarrow> rpc \<Rightarrow> rpc_response handler" where
  "serve_within deadline E G S c s =
     (case deadline of
        None \<Rightarrow> serve E G S c s
      | Some k \<Rightarrow> serve (cut_env (w_ticks s + k) E) G (cut_signer (w_ticks s + k) S) c s)"

lemma cut_env_laws [simp]:
  "node_format (cut_env k E) = node_format E" "ibc_codec_laws (cut_env k E) = ibc_codec_laws E"
  by (simp_all add: cut_env_def ibc_codec_laws_def)

section \<open>Refused calls\<close>

lemma gentle_respond: "gentle m \<Longrightarrow> gentle (respond f m)"
  by (auto simp: gentle_def respond_def bindH_refused_iff)

lemma gentle_serve: "gentle (serve E G S c)"
  by (cases c) (simp_all add: gentle_respond gentle_chain_service gentle_ibc_service)

section \<open>What a call keeps\<close>

lemma handler_keeps_refines [keeps_intros]:
  "keeps (refines F) m \<Longrightarrow> (\<And>a. keeps (refines F) (f a)) \<Longrightarrow> keeps (refines F) (bindH m f)"
  "keeps (refines F) n \<Longrightarrow> keeps (refines F) (map_err h n)"
  "keeps (refines F) n \<Longrightarrow> keeps (refines F) (internal n)"
  unfolding internal_def
  by (auto intro!: keeps_bindH keeps_map_err refines_frame.frame_relation_axioms)

lemma pure_keeps_refines [keeps_intros]:
  "keeps (refines F) (argument r)" "keeps (refines F) (required st x)"
  "keeps (refines F) (answer a)" "keeps (refines F) (refuse st)"
  by (intro keeps_pure_step refines_frame.frame_relation_axioms pure_steps)+

lemma keeps_refines_config [keeps_intros]:
  "keeps (refines F) (core_config E G request)"
  "keeps (refines F) (shown_config E G cfg)"
  "keeps (refines F) (algo_argument a)"
  unfolding shown_config_def
  by (intro keeps_intros keeps_pure_step [OF refines_frame.frame_relation_axioms] pure_core_config
      pure_algo_argument)+

lemma keeps_refines_serve:
  assumes "ibc_codec_laws E" "node_id_laws (node_format E)"
  shows "keeps (refines (node_format E)) (serve E G S c)"
proof -
  note reads = keeps_chain_service_reads [THEN keeps_refines_unchanged]
    keeps_service_reads(4) [THEN keeps_refines_unchanged]
  show ?thesis
    by (cases c; simp add: respond_def serve_add_chain_def serve_query_chain_def
        serve_ibc_denom_def serve_balance_def serve_connect_def serve_mint_def serve_burn_def
        serve_update_signer_def serve_history_def Let_def;
      intro keeps_intros reads refines_chain_service_add [OF assms(2)] refines_connect [OF assms(1)]
        refines_mint refines_burn refines_update_signer)
qed

lemma keeps_refines_serve_within [keeps_intros]:
  assumes "ibc_codec_laws E" "node_id_laws (node_format E)"
  shows "keeps (refines (node_format E)) (serve_within deadline E G S c)"
proof (rule keepsI)
  fix s r t
  assume "serve_within deadline E G S c s = (r, t)"
  then show "refines (node_format E) s t"
    using keepsD [OF keeps_refines_serve [OF assms]] keepsD [OF keeps_refines_serve [of "cut_env k E" for k]] assms
    by (auto simp: serve_within_def split: option.splits)
qed

end
