(* ===== verification/Cli.thy ===== *)
theory Cli
  imports Event_Handlers Grpc_Server
begin

text \<open>
  The command line: \<open>solo-machine/src/command/chain.rs\<close>, \<open>command/ibc.rs\<close> and \<open>command.rs\<close>, from
  the parsed arguments on (their reading is in \<open>Cli_Arguments\<close>). A command runs on the world of the services and on a screen.
\<close>

section \<open>Running on both\<close>

type_synonym 'a cli = "(world \<times> screen, 'a) io"

definition on_world :: "'a run \<Rightarrow> 'a cli" where
  "on_world m ws = (case m (fst ws) of (r, w) \<Rightarrow> (r, (w, snd ws)))"

definition on_screen :: "'a print \<Rightarrow> 'a cli" where
  "on_screen m ws = (case m (snd ws) of (r, s) \<Rightarrow> (r, (fst ws, s)))"

section \<open>Libraries that render values\<close>

text \<open>\<open>humantime\<close>, \<open>chrono\<close>, tendermint's block heights, and the debug text of \<open>anyhow\<close> errors.\<close>

record display_libs =
  format_duration :: "std_duration \<Rightarrow> string"
  datetime_to_string :: "datetime \<Rightarrow> string"
  block_height_to_string :: "u64 \<Rightarrow> string"
  error_debug :: "error \<Rightarrow> string"

definition show_int :: "int \<Rightarrow> string" where
  "show_int i = (if i < 0 then ''-'' @ show_nat (nat (- i)) else show_nat (nat i))"

section \<open>Chain commands\<close>

text \<open>The fields of \<open>Add\<close>, in the order of the source.\<close>

record add_fields =
  af_grpc_addr :: string
  af_rpc_addr :: string
  af_fee_amount :: decimal
  af_fee_denom :: ident
  af_gas_limit :: u64
  af_trust_level :: ratio
  af_trusting_period :: std_duration
  af_max_clock_drift :: std_duration
  af_rpc_timeout :: std_duration
  af_diversifier :: string
  af_port_id :: port_id
  af_trusted_height :: u64
  af_trusted_hash :: bytes

datatype chain_command =
    Chain_Add add_fields
  | Chain_Get chain_id
  | Chain_Get_Public_Keys chain_id u32 u32
  | Chain_Get_Ibc_Denom chain_id ident
  | Chain_Balance chain_id ident

definition config_of_fields :: "add_fields \<Rightarrow> chain_config" where
  "config_of_fields a =
     \<lparr>grpc_addr = af_grpc_addr a, rpc_addr = af_rpc_addr a,
      config_fee = \<lparr>fee_amount = af_fee_amount a, fee_denom = af_fee_denom a,
        fee_gas_limit = af_gas_limit a\<rparr>,
      trust_level = af_trust_level a, trusting_period = af_trusting_period a,
      max_clock_drift = af_max_clock_drift a, rpc_timeout = af_rpc_timeout a,
      diversifier = af_diversifier a, port_id = af_port_id a,
      trusted_height = af_trusted_height a, trusted_hash = af_trusted_hash a\<rparr>"

definition add_command :: "env \<Rightarrow> signer \<Rightarrow> chain_config \<Rightarrow> unit cli" where
  "add_command E S cfg =
     bindM (lift (to_public_key S)) (\<lambda>key.
     bindM (on_world (chain_service_add E cfg (public_key_encode E key))) (\<lambda>_.
     returnM ()))"

definition chain_table :: "env \<Rightarrow> front_libs \<Rightarrow> display_libs \<Rightarrow> chain \<Rightarrow> string list list outcome" where
  "chain_table E G D c =
     (let cfg = config c;
          table =
           [[''ID'', chain_str (c_id c)],
            [''Node ID'', node_id_to_string (node_format E) (c_node_id c)],
            [''gRPC address'', grpc_addr cfg],
            [''RPC address'', rpc_addr cfg],
            [''Fee amount'', decimal_to_string E (fee_amount (config_fee cfg))],
            [''Fee denom'', ident_str (fee_denom (config_fee cfg))],
            [''Gas limit'', show_u64 (fee_gas_limit (config_fee cfg))],
            [''Trust level'', ratio_to_string G (trust_level cfg)],
            [''Trusting period'', format_duration D (trusting_period cfg)],
            [''Maximum clock drift'', format_duration D (max_clock_drift cfg)],
            [''RPC timeout'', format_duration D (rpc_timeout cfg)],
            [''Diversifier'', diversifier cfg],
            [''Port ID'', port_str (port_id cfg)],
            [''Trusted height'', block_height_to_string D (trusted_height cfg)],
            [''Trusted hash'', hex_encode_upper E (trusted_hash cfg)],
            [''Consensus timestamp'', datetime_to_string D (consensus_timestamp c)],
            [''Sequence'', show_nat (unat (sequence c))],
            [''Packet sequence'', show_nat (unat (packet_sequence c))]] in
      and_then (case connection_details c of
          None \<Rightarrow> Ok (add_row table ''Connection status'' ''Not Connected'')
        | Some details \<Rightarrow>
            connection_rows details (add_row table ''Connection status'' ''Connected'')) (\<lambda>table.
      Ok (add_row (add_row table
        ''Created at'' (datetime_to_string D (c_created_at c)))
        ''Updated at'' (datetime_to_string D (c_updated_at c)))))"

definition get_command ::
    "env \<Rightarrow> front_libs \<Rightarrow> display_libs \<Rightarrow> terminal \<Rightarrow> output_type \<Rightarrow> chain_id \<Rightarrow> unit cli" where
  "get_command E G D T out cid =
     bindM (on_world (chain_service_get E cid)) (\<lambda>found.
     case found of
       None \<Rightarrow>
         (let message = ''Chain with id `'' @ chain_str cid @ ''` not found!'' in
          case out of
            Out_Text \<Rightarrow> on_screen (print_stream T message)
          | Out_Json \<Rightarrow> on_screen (print_json T ''error'' (J_Text message)))
     | Some c \<Rightarrow>
         (case out of
            Out_Text \<Rightarrow>
              bindM (lift (chain_table E G D c)) (\<lambda>table.
              on_screen (print_table T (Rows table)))
          | Out_Json \<Rightarrow> on_screen (print_json T ''success'' (J_Chain c))))"

definition chain_key_row :: "display_libs \<Rightarrow> chain_key \<Rightarrow> string list" where
  "chain_key_row D k =
     [show_int (k_id k), chain_str (k_chain_id k), k_public_key k, datetime_to_string D (k_created_at k)]"

definition get_public_keys_command ::
    "env \<Rightarrow> display_libs \<Rightarrow> terminal \<Rightarrow> output_type \<Rightarrow> chain_id \<Rightarrow> u32 \<Rightarrow> u32 \<Rightarrow> unit cli" where
  "get_public_keys_command E D T out cid limit_arg offset_arg =
     bindM (lift (i32_of_u32 ''limit'' limit_arg)) (\<lambda>lim.
     bindM (lift (i32_of_u32 ''offset'' offset_arg)) (\<lambda>off.
     bindM (on_world (chain_service_get_public_keys E cid lim off)) (\<lambda>keys.
     case out of
       Out_Text \<Rightarrow> on_screen (print_table T
         (Titled_Rows [''ID'', ''Chain ID'', ''Public key'', ''Created at''] (map (chain_key_row D) keys)))
     | Out_Json \<Rightarrow> on_screen (print_json T ''success'' (J_Keys keys)))))"

definition get_ibc_denom_command ::
    "env \<Rightarrow> terminal \<Rightarrow> output_type \<Rightarrow> chain_id \<Rightarrow> ident \<Rightarrow> unit cli" where
  "get_ibc_denom_command E T out cid d =
     bindM (on_world (chain_service_get_ibc_denom E cid d)) (\<lambda>ibc_denom.
     case out of
       Out_Text \<Rightarrow> on_screen (print_table T (Rows [[''IBC denom'', ibc_denom]]))
     | Out_Json \<Rightarrow> on_screen (print_json T ''success'' (J_Text ibc_denom)))"

definition balance_command ::
    "env \<Rightarrow> signer \<Rightarrow> terminal \<Rightarrow> output_type \<Rightarrow> chain_id \<Rightarrow> ident \<Rightarrow> unit cli" where
  "balance_command E S T out cid d =
     bindM (on_world (chain_service_balance E S cid d)) (\<lambda>balance.
     case out of
       Out_Text \<Rightarrow> on_screen (print_table T
         (Rows [[''Balance'', decimal_to_string E balance @ '' '' @ ident_str d]]))
     | Out_Json \<Rightarrow> on_screen (print_json T ''success'' (J_Balance balance d)))"

fun chain_execute ::
    "env \<Rightarrow> front_libs \<Rightarrow> display_libs \<Rightarrow> terminal \<Rightarrow> output_type \<Rightarrow> signer \<Rightarrow> chain_command \<Rightarrow> unit cli" where
  "chain_execute E G D T out S (Chain_Add a) = add_command E S (config_of_fields a)"
| "chain_execute E G D T out S (Chain_Get cid) = get_command E G D T out cid"
| "chain_execute E G D T out S (Chain_Get_Public_Keys cid lim off) =
     get_public_keys_command E D T out cid lim off"
| "chain_execute E G D T out S (Chain_Get_Ibc_Denom cid d) = get_ibc_denom_command E T out cid d"
| "chain_execute E G D T out S (Chain_Balance cid d) = balance_command E S T out cid d"

section \<open>IBC commands\<close>

datatype ibc_command =
    Ibc_Connect chain_id string "string option" bool
  | Ibc_Close_Channel chain_id string "string option"
  | Ibc_Mint chain_id u256 ident "string option" string "string option"
  | Ibc_Burn chain_id u256 ident string "string option"
  | Ibc_Update_Signer chain_id string public_key_algo string "string option"
  | Ibc_History u32 u32

definition update_signer_command ::
    "env \<Rightarrow> signer \<Rightarrow> chain_id \<Rightarrow> string \<Rightarrow> public_key_algo \<Rightarrow> string \<Rightarrow> string option \<Rightarrow> unit cli" where
  "update_signer_command E S cid new_key algo memo request_id =
     bindM (lift (with_context ''unable to decode hex bytes'' (external (hex_decode E new_key)))) (\<lambda>bs.
     bindM (lift (with_context ''invalid secp256k1 bytes'' (external (k256_from_sec1 E bs)))) (\<lambda>key.
     on_world (update_signer E S cid request_id (public_key_of_algo algo key) memo)))"

definition operation_row :: "display_libs \<Rightarrow> operation \<Rightarrow> string list" where
  "operation_row D op =
     [show_int (o_id op), or_dash (o_request_id op), o_address op, ident_str (o_denom op),
      u256_to_string (o_amount op), operation_type_to_string (o_operation_type op),
      o_transaction_hash op, datetime_to_string D (o_created_at op)]"

definition history_command ::
    "env \<Rightarrow> display_libs \<Rightarrow> terminal \<Rightarrow> output_type \<Rightarrow> signer \<Rightarrow> u32 \<Rightarrow> u32 \<Rightarrow> unit cli" where
  "history_command E D T out S limit_arg offset_arg =
     bindM (lift (i32_of_u32 ''limit'' limit_arg)) (\<lambda>lim.
     bindM (lift (i32_of_u32 ''offset'' offset_arg)) (\<lambda>off.
     bindM (on_world (history E S lim off)) (\<lambda>ops.
     case out of
       Out_Text \<Rightarrow> on_screen (print_table T
         (Titled_Rows [''ID'', ''Request ID'', ''Address'', ''Denom'', ''Amount'', ''Type'',
           ''Transaction Hash'', ''Time''] (map (operation_row D) ops)))
     | Out_Json \<Rightarrow> on_screen (print_json T ''success'' (J_Operations ops)))))"

fun ibc_execute ::
    "env \<Rightarrow> display_libs \<Rightarrow> terminal \<Rightarrow> output_type \<Rightarrow> signer \<Rightarrow> ibc_command \<Rightarrow> unit cli" where
  "ibc_execute E D T out S (Ibc_Connect cid memo request_id force) =
     on_world (connect E S cid request_id memo force)"
| "ibc_execute E D T out S (Ibc_Close_Channel cid memo request_id) =
     on_world (close_channel E S cid request_id memo)"
| "ibc_execute E D T out S (Ibc_Mint cid amount d receiver memo request_id) =
     bindM (on_world (mint E S cid request_id amount d receiver memo)) (\<lambda>_. returnM ())"
| "ibc_execute E D T out S (Ibc_Burn cid amount d memo request_id) =
     bindM (on_world (burn E S cid request_id amount d memo)) (\<lambda>_. returnM ())"
| "ibc_execute E D T out S (Ibc_Update_Signer cid new_key algo memo request_id) =
     update_signer_command E S cid new_key algo memo request_id"
| "ibc_execute E D T out S (Ibc_History lim off) = history_command E D T out S lim off"

end
