(* ===== verification/Command.thy ===== *)
theory Command
  imports Cli
begin

text \<open>
  Whole commands: loading the signer (\<open>solo-machine/src/signer.rs\<close>), wiring the database, the
  event handlers and a subcommand together, and reporting its error (\<open>command.rs\<close>,
  \<open>server.rs\<close>). The event handlers run in a task of their own. A subcommand that sends events
  prints nothing itself, so the task's output follows it; if the subcommand fails, the process
  ends without waiting for the task, which has handled any number of the events by then.
\<close>

section \<open>The signer registrar\<close>

record signer_registrar =
  registered_signer :: "signer option"

definition default_signer_registrar :: signer_registrar where
  "default_signer_registrar = \<lparr>registered_signer = None\<rparr>"

definition register_one :: "signer \<Rightarrow> signer_registrar \<Rightarrow> signer_registrar" where
  "register_one S reg = reg\<lparr>registered_signer := Some S\<rparr>"

definition unwrap_signer :: "signer_registrar \<Rightarrow> signer outcome" where
  "unwrap_signer reg = ok_or (registered_signer reg) ''signer not registered''"

definition register_signer ::
    "(string \<Rightarrow> signer plugin) \<Rightarrow> string \<Rightarrow> signer_registrar \<Rightarrow> signer_registrar outcome" where
  "register_signer lib file reg =
     and_then (with_context ''unable to load signer'' (external (opens (lib file)))) (\<lambda>_.
     and_then (with_context ''unable to load `register_signer` function from signer''
       (external (symbol (lib file)))) (\<lambda>_.
     and_then (with_context ''unable to register signer'' (external (registered (lib file)))) (\<lambda>_.
     Ok (fold register_one (registers (lib file)) reg))))"

definition signer_registrar_try_from ::
    "(string \<Rightarrow> signer plugin) \<Rightarrow> string \<Rightarrow> signer_registrar outcome" where
  "signer_registrar_try_from lib file = register_signer lib file default_signer_registrar"

section \<open>The process around a command\<close>

record process =
  p_env :: env
  p_front :: front_libs
  p_display :: display_libs
  p_terminal :: terminal
  p_details_json :: "connection_details \<Rightarrow> string + string"
  p_create_database :: "string \<Rightarrow> string + unit"
  p_connect :: "string \<Rightarrow> string + unit"
  p_migrate :: "string + unit"
  p_handler_lib :: "string \<Rightarrow> event_handler plugin"
  p_signer_lib :: "string \<Rightarrow> signer plugin"
  p_completions :: "string \<Rightarrow> string list"
  p_handled_before_exit :: nat
  p_calls :: "(rpc \<times> nat option) list"
  p_server_end :: "string \<Rightarrow> string + unit"

text \<open>The database functions of \<open>solo-machine-core/src/lib.rs\<close>; the world's database is the
  one they open, with its tables.\<close>

definition init_db :: "process \<Rightarrow> string \<Rightarrow> unit outcome" where
  "init_db P uri = with_context ''unable to create database'' (external (p_create_database P uri))"

definition connect_db :: "process \<Rightarrow> string \<Rightarrow> unit outcome" where
  "connect_db P uri = with_context ''unable to connect to database'' (external (p_connect P uri))"

definition run_migrations :: "process \<Rightarrow> unit outcome" where
  "run_migrations P = with_context ''unable to run migrations'' (external (p_migrate P))"

fun notified :: "action list \<Rightarrow> event list" where
  "notified [] = []"
| "notified (A_Notify ev # log) = ev # notified log"
| "notified (_ # log) = notified log"

text \<open>\<open>handle.await.context(...)?\<close>: a panic of the task is an error of the join.\<close>

fun joined :: "unit outcome \<Rightarrow> unit outcome" where
  "joined (Panic p) = Err (Context ''unable to join event hook registrar task'' (Message p))"
| "joined r = r"

definition with_handlers :: "process \<Rightarrow> handler_registrar \<Rightarrow> unit cli \<Rightarrow> unit cli" where
  "with_handlers P reg m ws =
     (case m ws of
        (r, (w, s)) \<Rightarrow>
          (let events = notified (drop (length (w_log (fst ws))) (w_log w)) in
           case r of
             Ok _ \<Rightarrow>
               (case spawned_task reg events s of (q, s') \<Rightarrow> (joined q, (w, s')))
           | Err e \<Rightarrow>
               (Err e, (w, snd (spawned_task reg (take (p_handled_before_exit P) events) s)))
           | Panic p \<Rightarrow>
               (Panic p, (w, snd (spawned_task reg (take (p_handled_before_exit P) events) s)))))"

text \<open>
  \<open>start_grpc\<close>: the calls that come in until the server ends; each is answered whatever its
  outcome, dropped at its deadline if it has one, and a panic of one does not end the server.
\<close>

definition settle :: "'a run \<Rightarrow> unit run" where
  "settle m s = (Ok (), snd (m s))"

definition start_grpc :: "process \<Rightarrow> signer \<Rightarrow> string \<Rightarrow> unit cli" where
  "start_grpc P S addr =
     bindM (on_screen (log_item (Log_Info (''starting grpc server at '' @ addr)))) (\<lambda>_.
     bindM (on_world (for_each (\<lambda>(c, deadline).
       settle (serve_within deadline (p_env P) (p_front P) S c)) (p_calls P))) (\<lambda>_.
     lift (with_context (''unable to start grpc server at: '' @ addr) (external (p_server_end P addr)))))"

section \<open>Commands\<close>

datatype sub_command =
    Sub_Chain chain_command
  | Sub_Gen_Completion string
  | Sub_Ibc ibc_command
  | Sub_Init
  | Sub_Start string

record command_line =
  cl_db_uri :: "string option"
  cl_signer :: "string option"
  cl_handlers :: "string list"
  cl_subcommand :: sub_command
  cl_output :: output_type

text \<open>The steps that \<open>chain\<close>, \<open>ibc\<close> and \<open>start\<close> share.\<close>

definition with_services ::
    "process \<Rightarrow> command_line \<Rightarrow> string \<Rightarrow> event_handler \<Rightarrow> (signer \<Rightarrow> unit cli) \<Rightarrow> unit cli" where
  "with_services P cl what own execute =
     bindM (lift (ensure (cl_signer cl \<noteq> None) (''`signer` is required for '' @ what))) (\<lambda>_.
     bindM (lift (ensure (cl_db_uri cl \<noteq> None) ''`db-uri` is required'')) (\<lambda>_.
     bindM (lift (unwrap_opt (cl_db_uri cl))) (\<lambda>uri.
     bindM (lift (connect_db P uri)) (\<lambda>_.
     bindM (lift (handler_registrar_try_from (p_handler_lib P) (cl_handlers cl))) (\<lambda>reg.
     let reg = register own reg in
     bindM (lift (unwrap_opt (cl_signer cl))) (\<lambda>file.
     bindM (lift (signer_registrar_try_from (p_signer_lib P) file)) (\<lambda>sreg.
     bindM (lift (unwrap_signer sreg)) (\<lambda>S.
     with_handlers P reg (execute S)))))))))"

fun command_run :: "process \<Rightarrow> command_line \<Rightarrow> unit cli" where
  "command_run P cl =
     (let out = cl_output cl; T = p_terminal P in
      case cl_subcommand cl of
        Sub_Chain c \<Rightarrow> with_services P cl ''chain commands'' (cli_event_handler T out)
          (\<lambda>S. chain_execute (p_env P) (p_front P) (p_display P) T out S c)
      | Sub_Gen_Completion shell \<Rightarrow> on_screen (for_each (\<lambda>l. log_item (Line l)) (p_completions P shell))
      | Sub_Ibc c \<Rightarrow> with_services P cl ''ibc commands'' (cli_event_handler T out)
          (\<lambda>S. ibc_execute (p_env P) (p_display P) T out S c)
      | Sub_Init \<Rightarrow>
          bindM (lift (ensure (cl_db_uri cl \<noteq> None) ''`db-uri` is required'')) (\<lambda>_.
          bindM (lift (unwrap_opt (cl_db_uri cl))) (\<lambda>uri.
          bindM (lift (init_db P uri)) (\<lambda>_.
          bindM (lift (connect_db P uri)) (\<lambda>_.
          bindM (lift (run_migrations P)) (\<lambda>_.
          case out of
            Out_Text \<Rightarrow> on_screen (print_stream T ''Initialized solo machine!'')
          | Out_Json \<Rightarrow> on_screen (print_json T ''success'' (J_Text ''Initialized solo machine!'')))))))
      | Sub_Start addr \<Rightarrow> with_services P cl ''gRPC server'' (env_logger (p_details_json P))
          (\<lambda>S. start_grpc P S addr))"

definition command_execute :: "process \<Rightarrow> command_line \<Rightarrow> unit cli" where
  "command_execute P cl =
     bindM (catchM (command_run P cl)) (\<lambda>r.
     case r of
       Inr _ \<Rightarrow> returnM ()
     | Inl e \<Rightarrow>
         (case cl_output cl of
            Out_Text \<Rightarrow> on_screen (print_stream (p_terminal P) (error_debug (p_display P) e))
          | Out_Json \<Rightarrow> on_screen (print_json (p_terminal P) ''error'' (J_Text (error_to_string e)))))"

declare command_run.simps [simp del]

end
