(* ===== verification/Panic_Free.thy ===== *)
theory Panic_Free
  imports Command
begin

text \<open>
  Runs that cannot panic: a small calculus, and the open channels of every chain the machine can
  reach, on which the display of a chain relies.
\<close>

section \<open>Outcomes and runs without panics\<close>

definition calm :: "'a outcome \<Rightarrow> bool" where
  "calm r \<longleftrightarrow> (\<forall>p. r \<noteq> Panic p)"

definition no_panic :: "('s, 'a) io \<Rightarrow> bool" where
  "no_panic m \<longleftrightarrow> (\<forall>s. calm (fst (m s)))"

named_theorems calm_intros

lemma calm_simps [simp]:
  "calm (Ok a)" "calm (Err e)" "\<not> calm (Panic p)"
  by (simp_all add: calm_def)

lemma calm_sources [simp]:
  "calm (bail msg)" "calm (ensure b msg)" "calm (external x)" "calm (ok_or y msg)"
  "calm (with_context c r) = calm r"
  by (simp_all add: bail_def ensure_def) (cases x; cases y; cases r; simp add: bail_def)+

lemma calm_and_then [calm_intros]: "calm r \<Longrightarrow> (\<And>a. calm (f a)) \<Longrightarrow> calm (and_then r f)"
  by (cases r) auto

lemma no_panic_bind [calm_intros]:
  assumes "no_panic m" "\<And>a. no_panic (f a)"
  shows "no_panic (bindM m f)"
  unfolding no_panic_def
proof
  fix s
  obtain r t where m: "m s = (r, t)"
    by fastforce
  then have "calm r"
    using assms(1) unfolding no_panic_def by (metis fst_conv)
  then show "calm (fst (bindM m f s))"
    using assms(2) m by (cases r) (auto simp: bindM_def no_panic_def)
qed

lemma no_panic_steps [calm_intros]:
  "calm r \<Longrightarrow> no_panic (lift r)" "no_panic (returnM a)" "no_panic (put T xs)" "no_panic (log_item x)"
  by (auto simp: no_panic_def lift_def returnM_def put_def log_item_def Let_def split: option.splits)

lemma no_panic_context [calm_intros]: "no_panic m \<Longrightarrow> no_panic (contextM c m)"
  by (auto simp: no_panic_def contextM_def split_beta)

lemma no_panic_catch [calm_intros]:
  assumes "no_panic m"
  shows "no_panic (catchM m)"
  unfolding no_panic_def
proof
  fix s
  show "calm (fst (catchM m s))"
    using assms by (cases "m s"; cases "fst (m s)") (auto simp: no_panic_def catchM_def dest: spec [of _ s])
qed

lemma no_panic_on_screen [calm_intros]: "no_panic m \<Longrightarrow> no_panic (on_screen m)"
  by (auto simp: no_panic_def on_screen_def split_beta)

lemma no_panic_printing [calm_intros]:
  "no_panic (print_stream T s)" "no_panic (print_json T r d)" "no_panic (print_table T x)"
  unfolding print_stream_def print_json_def print_table_def
  by (intro calm_intros)+

lemma no_panic_splits [calm_intros]:
  "no_panic m \<Longrightarrow> no_panic n \<Longrightarrow> no_panic (case out of Out_Text \<Rightarrow> m | Out_Json \<Rightarrow> n)"
  by (cases out) simp_all

section \<open>Parsing never panics\<close>

lemma calm_identifier_from_str [simp]: "calm (identifier_from_str s)"
  unfolding identifier_from_str_def validate_length_def Let_def
  by (intro calm_intros) (simp_all split: if_splits)

lemma calm_chain_id_from_str [simp]: "calm (chain_id_from_str s)"
  unfolding chain_id_from_str_code by (intro calm_intros) simp_all

lemma calm_chain_of_raw: "calm (chain_of_raw F raw)"
  unfolding chain_of_raw_def
  by (intro calm_intros) (auto simp: u32_try_from_def bail_def split: sum.splits)

lemma calm_loading [simp]:
  "calm (handler_registrar_try_from lib files)" "calm (signer_registrar_try_from slib file)"
  "calm (unwrap_signer sreg)" "calm (connect_db P uri)"
proof -
  have "calm (load_handlers lib files reg)" for reg
    by (induction files arbitrary: reg) (auto simp: register_handler_def intro!: calm_intros)
  then show "calm (handler_registrar_try_from lib files)"
    by (simp add: handler_registrar_try_from_def)
qed (auto simp: signer_registrar_try_from_def register_signer_def unwrap_signer_def connect_db_def
    intro!: calm_intros)

section \<open>Channels of stored chains\<close>

definition open_channels :: "database \<Rightarrow> bool" where
  "open_channels d \<longleftrightarrow>
     (\<forall>k raw. chains d k = Some raw \<longrightarrow> raw_connection_details raw = None \<or> transfer_ready raw)"

lemma open_channels_empty: "open_channels empty_database"
  by (simp add: open_channels_def empty_database_def)

lemma db_step_open_channels: "db_step F d d' \<Longrightarrow> open_channels d \<Longrightarrow> open_channels d'"
proof (induction rule: db_step.induct)
  case (connect_step d k raw details n ts nb kb h csb clb)
  then have "transfer_ready (connected_raw raw details ts)"
    by (simp add: transfer_ready_def)
  with connect_step show ?case
    by (auto simp: open_channels_def)
qed (auto simp: open_channels_def transfer_ready_def next_raw_def split: if_splits)

lemma db_steps_open_channels: "(db_step F)\<^sup>*\<^sup>* d d' \<Longrightarrow> open_channels d \<Longrightarrow> open_channels d'"
  by (induction rule: rtranclp_induct) (auto intro: db_step_open_channels)

section \<open>Showing a chain\<close>

lemma get_chain_run:
  "\<exists>r. get_chain E Pool cid w = (r, w\<lparr>w_ticks := w_ticks w + 1\<rparr>) \<and> calm r"
  using calm_chain_of_raw
  by (auto simp: get_chain_def query_sql_def bindM_def contextM_def lift_def returnM_def bail_def
      Let_def calm_def split: option.splits outcome.splits prod.splits)

lemma calm_chain_table:
  "connection_details c = None \<or> (\<exists>details. connection_details c = Some details \<and>
     solo_machine_channel_id details \<noteq> None \<and> tendermint_channel_id details \<noteq> None) \<Longrightarrow>
   calm (chain_table E G D c)"
  unfolding chain_table_def Let_def
  by (intro calm_intros) (auto simp: connection_rows_def Let_def)

definition same_world :: "world \<times> screen \<Rightarrow> world \<times> screen \<Rightarrow> bool" where
  "same_world x y \<longleftrightarrow> fst y = fst x"

interpretation same_world_frame: frame_relation same_world
  by unfold_locales (simp_all add: same_world_def)

lemma keeps_same_world_screen [keeps_intros]: "keeps same_world (on_screen m)"
  by (simp add: keeps_def same_world_def on_screen_def split_beta)

lemma keeps_output [keeps_intros]:
  "keeps R m \<Longrightarrow> keeps R n \<Longrightarrow> keeps R (case out of Out_Text \<Rightarrow> m | Out_Json \<Rightarrow> n)"
  by (cases out) simp_all

text \<open>What \<open>chain get\<close> does once the chain is read.\<close>

definition show_chain ::
    "env \<Rightarrow> front_libs \<Rightarrow> display_libs \<Rightarrow> terminal \<Rightarrow> output_type \<Rightarrow> chain_id \<Rightarrow> chain option \<Rightarrow> unit cli" where
  "show_chain E G D T out cid found =
     (case found of
       None \<Rightarrow>
         (let message = ''Chain with id `'' @ chain_str cid @ ''` not found!'' in
          case out of
            Out_Text \<Rightarrow> on_screen (print_stream T message)
          | Out_Json \<Rightarrow> on_screen (print_json T ''error'' (J_Text message)))
     | Some c \<Rightarrow>
         (case out of
            Out_Text \<Rightarrow>
              bindM (lift (chain_table E G D c)) (\<lambda>table.
              on_screen (print_table T (Rows table)))
          | Out_Json \<Rightarrow> on_screen (print_json T ''success'' (J_Chain c))))"

lemma get_command_split:
  "get_command E G D T out cid =
     bindM (on_world (get_chain E Pool cid)) (show_chain E G D T out cid)"
  by (simp add: get_command_def chain_service_get_def show_chain_def fun_eq_iff bindM_def
      split: prod.splits outcome.splits)

lemma show_chain_calm:
  assumes "\<And>c. found = Some c \<Longrightarrow> calm (chain_table E G D c)"
  shows "no_panic (show_chain E G D T out cid found)"
  using assms by (cases found) (auto simp: show_chain_def Let_def intro!: calm_intros)

lemma keeps_show_chain: "keeps same_world (show_chain E G D T out cid found)"
  unfolding show_chain_def Let_def by (intro keeps_intros)

lemma get_command_calm:
  assumes "open_channels (w_db w)" "get_command E G D T out cid (w, s) = (r, (w', s'))"
  shows "calm r \<and> w_log w' = w_log w"
proof -
  obtain q where get: "get_chain E Pool cid w = (q, w\<lparr>w_ticks := w_ticks w + 1\<rparr>)" and "calm q"
    using get_chain_run by blast
  show ?thesis
  proof (cases q)
    case (Ok found)
    have "calm (chain_table E G D c)" if c: "found = Some c" for c
    proof -
      obtain raw where raw: "chains (w_db w) (chain_str cid) = Some raw"
          "chain_of_raw (node_format E) raw = Ok c"
        using get_chain_Ok(1) [OF get [unfolded Ok]] c by auto
      then have "connection_details c = raw_connection_details raw"
        by (simp add: chain_of_raw_Ok_iff)
      moreover have "raw_connection_details raw = None \<or> transfer_ready raw"
        using raw(1) assms(1) unfolding open_channels_def by blast
      ultimately show ?thesis
        by (intro calm_chain_table) (auto simp: transfer_ready_def)
    qed
    then have calm: "no_panic (show_chain E G D T out cid found)"
      by (rule show_chain_calm)
    have run: "show_chain E G D T out cid found (w\<lparr>w_ticks := w_ticks w + 1\<rparr>, s) = (r, (w', s'))"
      using assms(2) get Ok by (simp add: get_command_split bindM_def on_world_def)
    have "calm r"
      using calm run unfolding no_panic_def by (metis fst_conv)
    moreover have "w_log w' = w_log w"
      using keepsD [OF keeps_show_chain run] by (simp add: same_world_def)
    ultimately show ?thesis
      by simp
  qed (use assms(2) get \<open>calm q\<close> in \<open>auto simp: get_command_split bindM_def on_world_def\<close>)
qed

lemma command_run_get_calm:
  assumes "open_channels (w_db w)" "cl_subcommand cl = Sub_Chain (Chain_Get cid)"
  shows "calm (fst (command_run P cl (w, s)))"
proof -
  let ?T = "p_terminal P" and ?out = "cl_output cl"
  have handled: "calm (fst (with_handlers P reg
      (get_command (p_env P) (p_front P) (p_display P) ?T ?out cid) (w, s)))" for reg
  proof -
    obtain r w' s' where run: "get_command (p_env P) (p_front P) (p_display P) ?T ?out cid (w, s) = (r, (w', s'))"
      by (metis prod.collapse)
    from get_command_calm [OF assms(1) this] run show ?thesis
      by (cases r) (auto simp: with_handlers_def Let_def spawned_task_def returnM_def)
  qed
  have step: "calm (fst (bindM (lift r) f ws))" if "calm r" "\<And>a. r = Ok a \<Longrightarrow> calm (fst (f a ws))"
    for r :: "'q outcome" and f :: "'q \<Rightarrow> unit cli" and ws
    using that by (cases r) (simp_all add: lift_def)
  show ?thesis
    unfolding command_run.simps assms(2) Let_def
    by (cases "cl_signer cl"; cases "cl_db_uri cl"; simp add: with_services_def Let_def lift_def bail_def)
      ((rule step, simp_all add: handled)+)
qed

end
