(* ===== verification/Grpc_Properties.thy ===== *)
theory Grpc_Properties
  imports Grpc_Server Example_World
begin

text \<open>The properties of the gRPC server, whole calls in front of the core services.\<close>

section \<open>Refused calls\<close>

text \<open>C15: A call that is refused for one of its arguments (a missing or malformed field, a number
  out of range) has had no effect at all: no statement ran, no peer was asked, nothing was signed
  or broadcast, and the world is what it was.\<close>

theorem invalid_call_untouched:
  assumes "serve E G S c s = (Ok (Inl (Invalid_Argument m)), t)"
  shows "t = s"
  using gentle_serve [of E G S c] assms by (force simp: gentle_def)

definition ex_front :: front_libs where
  "ex_front =
     \<lparr>ratio_parse = (\<lambda>_. Inr \<lparr>numer = 1, denom = 3\<rparr>), ratio_to_string = (\<lambda>_. ''1/3''),
      duration_of_proto = (\<lambda>p. Inr \<lparr>d_secs = word_of_int (dur_seconds p),
        d_subsec_nanos = word_of_int (dur_nanos p mod 1000000000)\<rparr>),
      timestamp_of_datetime = (\<lambda>t. \<lparr>ts_seconds = t div 1000000000, ts_nanos = t mod 1000000000\<rparr>),
      u256_from_dec_str = (\<lambda>s. if list_all is_digit s then Inr (word_of_nat (digits_value s))
        else Inl ''invalid character'')\<rparr>"

definition ex_mint_request :: "string \<Rightarrow> mint_request" where
  "ex_mint_request amount =
     \<lparr>mr_chain_id = ''testnet-1'', mr_request_id = Some ''r1'', mr_memo = None, mr_amount = amount,
      mr_denom = ''tok'', mr_receiver_address = None\<rparr>"

theorem invalid_call_untouched_witness:
  "\<exists>m. serve (ex_env 0) ex_front ex_signer (Rpc_Mint (ex_mint_request ''5x'')) ex_fresh_world =
     (Ok (Inl (Invalid_Argument m)), ex_fresh_world)"
proof -
  have refused: "case fst (serve (ex_env 0) ex_front ex_signer (Rpc_Mint (ex_mint_request ''5x''))
      ex_fresh_world) of Ok (Inl (Invalid_Argument m)) \<Rightarrow> True | _ \<Rightarrow> False"
    by code_simp
  then obtain m t where run: "serve (ex_env 0) ex_front ex_signer (Rpc_Mint (ex_mint_request ''5x''))
      ex_fresh_world = (Ok (Inl (Invalid_Argument m)), t)"
    by (auto split: prod.splits outcome.splits sum.splits status.splits)
      (metis prod.collapse)
  from invalid_call_untouched [OF run] run show ?thesis
    by blast
qed

section \<open>Adding and querying a chain\<close>

lemma serve_add_Ok:
  assumes "serve E G S (Rpc_Add request) s = (Ok (Inr (Added name)), t)"
  obtains cfg key cid where "core_config E G request s = (Ok (Inr cfg), s)" "to_public_key S = Ok key"
    "chain_service_add E cfg (public_key_encode E key) s = (Ok cid, t)" "name = chain_str cid"
  using assms pure_core_config [of E G request]
  by (clarsimp simp: respond_def serve_add_chain_def handler_Ok_iffs lift_Ok_iff pure_step_def) metis

lemma chain_service_add_row:
  assumes "chain_service_add E cfg key s = (Ok cid, t)"
  obtains node ts where "valid_chain cid"
    "chains (w_db t) (chain_str cid) = Some (new_raw_chain ts (chain_str cid) node cfg)"
proof -
  from assms obtain w x where add: "register_chain E cfg key s = (Ok cid, w)"
    and notify: "notify_event E (ChainAdded cid) w = (Ok (), x)" and t: "t = x\<lparr>w_tx := None\<rparr>"
    by (auto simp: chain_service_add_split scoped_Ok_iff run_Ok_iffs)
  have "w_db t = w_db w"
    using notify_event_Ok(1) [OF notify] by (simp add: t)
  with register_chain_Ok [OF add] chain_text.parse_valid that show thesis
    by (metis record_key_simps(1) set_chain_simps(1) fun_upd_same)
qed

lemma serve_query_Ok:
  assumes "serve E G S (Rpc_Query name) s = (Ok (Inr (Chain_Details resp)), t)"
  obtains raw c pc v where "chains (w_db s) name = Some raw" "chain_of_raw (node_format E) raw = Ok c"
    "shown_config E G (config c) v = (Ok (Inr pc), t)"
    "qc_config resp = Some pc" "qc_chain_id resp = chain_str (c_id c)" "qc_sequence resp = sequence c"
    "qc_packet_sequence resp = packet_sequence c"
    "qc_connection_details resp = map_option grpc_details (connection_details c)"
proof -
  from assms obtain cid c pc v where cid: "chain_id_from_str name = Ok cid"
    and get: "get_chain E Pool cid s = (Ok (Some c), v)"
    and pc: "shown_config E G (config c) v = (Ok (Inr pc), t)"
    and resp: "qc_config resp = Some pc" "qc_chain_id resp = chain_str (c_id c)"
      "qc_sequence resp = sequence c" "qc_packet_sequence resp = packet_sequence c"
      "qc_connection_details resp = map_option grpc_details (connection_details c)"
    by (clarsimp simp: respond_def serve_query_chain_def handler_Ok_iffs chain_service_get_def)
  have "chain_str cid = name"
    using cid by (auto simp: chain_id_from_str_Ok_iff chain_str_def)
  with get_chain_Ok(1) [OF get] pc resp that show thesis
    by auto
qed

text \<open>C13: Adding a chain and querying it: when both calls succeed, the response shows the chain
  under the returned identifier, with its first sequences and no connection, and the
  configuration it shows stands for exactly the configuration that was asked for, defaults
  included: sent back to the server, it would be read as the same.\<close>

theorem added_config_shown:
  assumes "serve E G S (Rpc_Add request) s = (Ok (Inr (Added name)), t)"
    and "serve E G S (Rpc_Query name) t = (Ok (Inr (Chain_Details resp)), u)"
    and "config_text_laws E G"
  shows "qc_chain_id resp = name \<and> qc_sequence resp = 1 \<and> qc_packet_sequence resp = 1 \<and>
    qc_connection_details resp = None \<and>
    (\<exists>cfg pc. qc_config resp = Some pc \<and> core_config E G request s = (Ok (Inr cfg), s) \<and>
       core_config E G (Some pc) s = (Ok (Inr cfg), s))"
proof (rule serve_add_Ok [OF assms(1)])
  fix cfg key cid
  assume cfg: "core_config E G request s = (Ok (Inr cfg), s)" and name: "name = chain_str cid"
    and add: "chain_service_add E cfg (public_key_encode E key) s = (Ok cid, t)"
  obtain node ts where cid: "valid_chain cid"
    and row: "chains (w_db t) name = Some (new_raw_chain ts name node cfg)"
    using chain_service_add_row [OF add] name by metis
  show ?thesis
  proof (rule serve_query_Ok [OF assms(2)])
    fix raw c pc v
    assume shown: "chains (w_db t) name = Some raw" "chain_of_raw (node_format E) raw = Ok c"
      "shown_config E G (config c) v = (Ok (Inr pc), u)"
      "qc_config resp = Some pc" "qc_chain_id resp = chain_str (c_id c)" "qc_sequence resp = sequence c"
      "qc_packet_sequence resp = packet_sequence c"
      "qc_connection_details resp = map_option grpc_details (connection_details c)"
    have c: "config c = cfg" "uint (sequence c) = 1" "uint (packet_sequence c) = 1"
      "connection_details c = None" "c_id c = cid"
      using shown(1,2) row chain_text.parse_show [OF cid] name
      by (auto simp: chain_of_raw_Ok_iff new_raw_chain_def)
    have "core_config E G (Some pc) s = (Ok (Inr cfg), s)"
      by (rule shown_config_read_back [OF shown(3) [unfolded c(1)] core_config_reparses [OF cfg assms(3)] assms(3)])
    moreover have "sequence c = 1" "packet_sequence c = 1"
      using c(2,3) by (simp_all add: word_uint_eq_iff)
    ultimately show ?thesis
      using shown(4-8) c cfg name by simp
  qed
qed

definition ex_hex_encode :: "bytes \<Rightarrow> string" where
  "ex_hex_encode bs = concat (map (\<lambda>b. [char_of (unat b div 16), char_of (unat b mod 16)]) bs)"

fun ex_hex_decode :: "string \<Rightarrow> string + bytes" where
  "ex_hex_decode (a # b # s) =
     (case ex_hex_decode s of Inl e \<Rightarrow> Inl e | Inr bs \<Rightarrow> Inr (word_of_nat (16 * byte_of a + byte_of b) # bs))"
| "ex_hex_decode [] = Inr []"
| "ex_hex_decode [a] = Inl ''odd number of digits''"

lemma ex_hex_roundtrip: "ex_hex_decode (ex_hex_encode bs) = Inr bs"
proof (induction bs)
  case (Cons b bs)
  have "unat b < 256"
    using unsigned_less [of b, where ?'a = nat] by simp
  then have "word_of_nat (16 * byte_of (char_of (unat b div 16)) + byte_of (char_of (unat b mod 16))) = b"
    by (simp add: byte_of_def)
  with Cons show ?case
    by (simp add: ex_hex_encode_def)
qed (simp add: ex_hex_encode_def)

definition ex_text_env :: env where
  "ex_text_env = (ex_env 0)\<lparr>hex_encode := ex_hex_encode, hex_decode := ex_hex_decode,
     duration_to_proto := (\<lambda>d. Inr \<lparr>dur_seconds = uint (d_secs d), dur_nanos = uint (d_subsec_nanos d)\<rparr>)\<rparr>"

lemma ex_text_laws: "config_text_laws ex_text_env ex_front"
proof -
  have "\<lparr>d_secs = d_secs d, d_subsec_nanos = word_of_int (uint (d_subsec_nanos d) mod 1000000000)\<rparr> = d"
    if "d_subsec_nanos d < 1000000000" for d
    using that by (cases d) (simp add: word_less_def)
  moreover have "(word_of_int (i mod 1000000000) :: u32) < 1000000000" for i
    by (simp add: word_less_def uint_word_of_int)
  moreover have "length (ex_hex_encode bs) = 2 * length bs" for bs
    by (induction bs) (simp_all add: ex_hex_encode_def)
  ultimately show ?thesis
    by (auto simp: config_text_laws_def ex_text_env_def ex_front_def ex_env_def ex_hex_roundtrip)
qed

definition ex_add_request :: "grpc_chain_config option" where
  "ex_add_request = Some
     \<lparr>gc_grpc_addr = None, gc_rpc_addr = Some ''http://rpc'', gc_fee_config = None,
      gc_trust_level = None, gc_trusting_period = None,
      gc_max_clock_drift = Some \<lparr>dur_seconds = 5, dur_nanos = 7\<rparr>, gc_rpc_timeout = None,
      gc_diversifier = None, gc_port_id = None, gc_trusted_height = Some 10,
      gc_trusted_hash = Some (ex_hex_encode (replicate 32 7))\<rparr>"

definition ex_added_world :: world where
  "ex_added_world = snd (serve ex_text_env ex_front ex_signer (Rpc_Add ex_add_request) ex_empty_world)"

lemma ex_added_and_queried:
  "fst (serve ex_text_env ex_front ex_signer (Rpc_Add ex_add_request) ex_empty_world) =
     Ok (Inr (Added ''testnet-1''))"
  "case fst (serve ex_text_env ex_front ex_signer (Rpc_Query ''testnet-1'') ex_added_world) of
     Ok (Inr (Chain_Details r)) \<Rightarrow> True | _ \<Rightarrow> False"
  by code_simp+

theorem added_config_shown_witness:
  "\<exists>resp u pc. serve ex_text_env ex_front ex_signer (Rpc_Query ''testnet-1'') ex_added_world =
     (Ok (Inr (Chain_Details resp)), u) \<and> qc_sequence resp = 1 \<and> qc_config resp = Some pc"
proof -
  have add: "serve ex_text_env ex_front ex_signer (Rpc_Add ex_add_request) ex_empty_world =
      (Ok (Inr (Added ''testnet-1'')), ex_added_world)"
    using ex_added_and_queried(1) by (simp add: ex_added_world_def prod_eq_iff)
  obtain resp u where query: "serve ex_text_env ex_front ex_signer (Rpc_Query ''testnet-1'') ex_added_world =
      (Ok (Inr (Chain_Details resp)), u)"
    using ex_added_and_queried(2)
    by (cases "serve ex_text_env ex_front ex_signer (Rpc_Query ''testnet-1'') ex_added_world")
      (auto split: outcome.splits sum.splits rpc_response.splits)
  from added_config_shown [OF add query ex_text_laws] query show ?thesis
    by blast
qed

section \<open>Minting and the history\<close>

lemma serve_mint_Ok:
  assumes "serve E G S (Rpc_Mint request) s = (Ok (Inr (Minted hash)), t)"
  obtains cid n d where "chain_id_from_str (mr_chain_id request) = Ok cid"
    "u256_from_dec_str G (mr_amount request) = Inr n"
    "identifier_from_str (mr_denom request) = Ok d"
    "mint E S cid (mr_request_id request) n d (mr_receiver_address request)
       (unwrap_or DEFAULT_MEMO (mr_memo request)) s = (Ok hash, t)"
  using assms
  by (clarsimp simp: respond_def serve_mint_def handler_Ok_iffs Let_def)

lemma serve_history_Ok:
  assumes "serve E G S (Rpc_History lim off) s = (Ok (Inr (Operations shown)), t)"
  obtains ops address where "to_account_address S = Ok address"
    "get_operations E Pool address (uint (unwrap_or 10 lim)) (uint (unwrap_or 0 off)) s = (Ok ops, t)"
    "shown = map (grpc_operation_of G) ops"
  using assms
  by (clarsimp simp: respond_def serve_history_def handler_Ok_iffs i32_of_u32_def history_def
      run_Ok_iffs split: if_splits)

lemma raw_of_operation_inject: "raw_of_operation x = raw_of_operation y \<longleftrightarrow> x = y"
proof
  assume same: "raw_of_operation x = raw_of_operation y"
  then have "u256_to_big_endian (o_amount x) = u256_to_big_endian (o_amount y)"
    by (simp add: raw_of_operation_def)
  then have "o_amount x = o_amount y"
    by (metis u256_big_endian_roundtrip)
  with same show "x = y"
    by (cases x; cases y) (simp add: raw_of_operation_def ident_str_inject)
qed simp

text \<open>The newest row of an account leads its history.\<close>

lemma history_starts_with_newest:
  assumes "get_operations E Pool address lim 0 s = (Ok ops, t)" "0 < lim"
    and "well_numbered (w_db s)" "operations (w_db s) = older @ [raw_of_operation op]"
    and "o_address op = address"
  shows "\<exists>rest. ops = op # rest"
proof -
  have "list_all2 (\<lambda>raw op. operation_of_raw raw = Ok op)
      (limit_offset lim 0 (rev (filter (\<lambda>r. ro_address r = address) (operations (w_db s))))) ops"
    using get_operations_Ok [OF assms(1)] assms(3) by simp
  moreover have "limit_offset lim 0 (raw_of_operation op # rows) =
      raw_of_operation op # take (nat lim - 1) rows" for rows
    using assms(2) by (cases "nat lim") (auto simp: limit_offset_def)
  ultimately obtain x rest where "ops = x # rest" "operation_of_raw (raw_of_operation op) = Ok x"
    using assms(4,5) by (auto simp: raw_of_operation_def list_all2_Cons1)
  moreover from this(2) have "x = op"
    using raw_of_operation_of_raw [of "raw_of_operation op" x] by (simp add: raw_of_operation_inject)
  ultimately show ?thesis
    by blast
qed


definition ex_minted_world :: world where
  "ex_minted_world = snd (serve (ex_env 0) ex_front ex_signer (Rpc_Mint (ex_mint_request ''5''))
     (ex_world (Some ex_details)))"

lemma ex_minted_and_shown:
  "fst (serve (ex_env 0) ex_front ex_signer (Rpc_Mint (ex_mint_request ''5'')) (ex_world (Some ex_details))) =
     Ok (Inr (Minted ''CAFE''))"
  "case fst (serve (ex_env 0) ex_front ex_signer (Rpc_History None None) ex_minted_world) of
     Ok (Inr (Operations ops)) \<Rightarrow> True | _ \<Rightarrow> False"
  by code_simp+


section \<open>A mint that takes too long\<close>

text \<open>The deadline of a call can fall between the broadcast and the commit: then the chain has
  accepted the packet, and the solo machine forgets that it has signed for it.\<close>

lemma ex_late_mint:
  "case serve_within (Some 10) (ex_env 0) ex_front ex_signer (Rpc_Mint (ex_mint_request ''5''))
      (ex_world (Some ex_details)) of
     (r, w) \<Rightarrow> (case r of Ok (Inl (Internal m)) \<Rightarrow> True | _ \<Rightarrow> False) \<and>
       list_ex (\<lambda>a. case a of A_Broadcast addr bs \<Rightarrow> True | _ \<Rightarrow> False) (w_log w) \<and>
       map_option raw_sequence (chains (w_db w) ''testnet-1'') = Some 1 \<and>
       operations (w_db w) = []"
  by code_simp

end
