(* ===== verification/Command_Properties.thy ===== *)
theory Command_Properties
  imports Panic_Free Grpc_Properties
begin

text \<open>The properties of whole commands and of the handling of events.\<close>

section \<open>Commands and the machine\<close>

definition refines_fst :: "node_id_format \<Rightarrow> world \<times> screen \<Rightarrow> world \<times> screen \<Rightarrow> bool" where
  "refines_fst F x y \<longleftrightarrow> refines F (fst x) (fst y)"

interpretation refines_fst_frame: frame_relation "refines_fst F" for F
  by unfold_locales (auto simp: refines_fst_def intro: refines_frame.R_refl refines_frame.R_trans)

lemma keeps_on_world [keeps_intros]:
  "keeps (refines F) m \<Longrightarrow> keeps (refines_fst F) (on_world m)"
  by (auto simp: keeps_def refines_fst_def on_world_def split_beta)

lemma keeps_on_screen [keeps_intros]: "keeps (refines_fst F) (on_screen m)"
  by (auto simp: keeps_def refines_fst_def on_screen_def split_beta intro: refines_frame.R_refl)

lemma keeps_with_handlers [keeps_intros]:
  "keeps (refines_fst F) m \<Longrightarrow> keeps (refines_fst F) (with_handlers P reg m)"
  by (auto simp: keeps_def refines_fst_def with_handlers_def Let_def split_beta split: outcome.splits)

lemma keeps_settle [keeps_intros]: "keeps R m \<Longrightarrow> keeps R (settle m)"
  by (simp add: keeps_def settle_def)

lemma keeps_with_services:
  "(\<And>S. keeps (refines_fst F) (execute S)) \<Longrightarrow>
     keeps (refines_fst F) (with_services P cl what own execute)"
  unfolding with_services_def Let_def by (intro keeps_intros)

lemma keeps_case_output [keeps_intros]:
  "keeps R m \<Longrightarrow> keeps R n \<Longrightarrow> keeps R (case out of Out_Text \<Rightarrow> m | Out_Json \<Rightarrow> n)"
  by (cases out) simp_all

lemma keeps_chain_execute:
  assumes "node_id_laws (node_format E)"
  shows "keeps (refines_fst (node_format E)) (chain_execute E G D T out S c)"
proof -
  note reads = keeps_chain_service_reads [THEN keeps_refines_unchanged]
  show ?thesis
    by (cases c; simp add: add_command_def get_command_def get_public_keys_command_def
        get_ibc_denom_command_def balance_command_def Let_def;
      intro keeps_intros reads refines_chain_service_add [OF assms])
qed

lemma keeps_ibc_execute:
  assumes "ibc_codec_laws E"
  shows "keeps (refines_fst (node_format E)) (ibc_execute E D T out S c)"
proof -
  note reads = keeps_service_reads(4) [THEN keeps_refines_unchanged]
  show ?thesis
    by (cases c; simp add: update_signer_command_def history_command_def;
      intro keeps_intros reads refines_connect [OF assms] refines_close_channel refines_mint
        refines_burn refines_update_signer)
qed

lemma keeps_start_grpc:
  assumes "ibc_codec_laws (p_env P)" "node_id_laws (node_format (p_env P))"
  shows "keeps (refines_fst (node_format (p_env P))) (start_grpc P S addr)"
  unfolding start_grpc_def by (intro keeps_intros assms)

lemma keeps_command:
  assumes "ibc_codec_laws (p_env P)" "node_id_laws (node_format (p_env P))"
  shows "keeps (refines_fst (node_format (p_env P))) (command_execute P cl)"
proof -
  have "keeps (refines_fst (node_format (p_env P))) (command_run P cl)"
    unfolding command_run.simps Let_def
    by (cases "cl_subcommand cl"; simp;
      intro keeps_intros keeps_with_services keeps_chain_execute [OF assms(2)]
        keeps_ibc_execute [OF assms(1)] keeps_start_grpc [OF assms])
  then show ?thesis
    unfolding command_execute_def by (intro keeps_intros)
qed

text \<open>C1: The whole program: every command, a server with all the calls it answers or drops
  at their deadlines included, with any peers and whatever its outcome, is a sequence of transitions of the abstract machine
  on the committed database, and loses nothing that was committed.\<close>

theorem commands_refine_machine:
  assumes "ibc_codec_laws (p_env P)" "node_id_laws (node_format (p_env P))"
    and "good_database (node_format (p_env P)) (w_db w)"
    and "command_execute P cl (w, s) = (r, (w', s'))"
  shows "(db_step (node_format (p_env P)))\<^sup>*\<^sup>* (w_db w) (w_db w') \<and> db_le (w_db w) (w_db w')"
  using keepsD [OF keeps_command [OF assms(1,2)] assms(4)] assms(3) db_steps_le
  by (auto simp: refines_fst_def refines_def)

section \<open>What the program can reach\<close>

text \<open>
  The worlds that any sequence of commands leads to from an empty database, each with its own
  process: peers, faults, libraries and terminal.
\<close>

inductive reached :: "node_id_format \<Rightarrow> world \<Rightarrow> bool" for F where
  empty: "reached F \<lparr>w_db = empty_database, w_tx = None, w_ticks = 0, w_log = []\<rparr>"
| run_command:
    "reached F w \<Longrightarrow> node_format (p_env P) = F \<Longrightarrow> ibc_codec_laws (p_env P) \<Longrightarrow>
     command_execute P cl (w, s) = (r, (w', s')) \<Longrightarrow> reached F w'"

lemma reached_steps:
  assumes "reached F w" "node_id_laws F"
  shows "(db_step F)\<^sup>*\<^sup>* empty_database (w_db w)"
  using assms
proof (induction rule: reached.induct)
  case (run_command w P cl s r w' s')
  have "good_database F (w_db w)"
    by (rule db_steps_good [OF run_command.IH [OF run_command.prems] good_empty])
  moreover have kept: "keeps (refines_fst F) (command_execute P cl)"
    using keeps_command [OF run_command.hyps(3)] run_command.hyps(2) run_command.prems by simp
  ultimately have "(db_step F)\<^sup>*\<^sup>* (w_db w) (w_db w')"
    using keepsD [OF kept run_command.hyps(4)] by (simp add: refines_fst_def refines_def)
  with run_command.IH [OF run_command.prems] show ?case
    by (rule rtranclp_trans)
qed simp

text \<open>C2: In every database the program can reach from an empty one, by any commands and calls,
  answered by any peers, every row carries its key and decodes to a chain, sequences are at least
  one, the client, connection and channel a connected chain names are stored, no key is
  registered twice for a chain, every key belongs to a known chain, and operations are numbered
  in order.\<close>

theorem reached_databases_good:
  assumes "reached F w" "node_id_laws F"
  shows "good_database F (w_db w)"
  by (rule db_steps_good [OF reached_steps [OF assms] good_empty])

section \<open>Errors\<close>

text \<open>C29: A command that fails still ends successfully: its error is printed, as the only further
  item on the screen, and \<open>execute\<close>, whose result is the exit status of the process, returns
  normally; scripts cannot tell a refused mint from a done one by the status.\<close>

theorem failed_command_exits_normally:
  assumes "command_run P cl ws = (Err e, (w, s))" "p_terminal P = works"
  shows "\<exists>s'. command_execute P cl ws = (Ok (), (w, s')) \<and>
    items s' = items s @ [case cl_output cl of
      Out_Text \<Rightarrow> Line (error_debug (p_display P) e)
    | Out_Json \<Rightarrow> Json_Result ''error'' (J_Text (error_to_string e))]"
proof -
  have shown: "prints (case cl_output cl of
      Out_Text \<Rightarrow> print_stream works (error_debug (p_display P) e)
    | Out_Json \<Rightarrow> print_json works ''error'' (J_Text (error_to_string e)))
    [case cl_output cl of
      Out_Text \<Rightarrow> Line (error_debug (p_display P) e)
    | Out_Json \<Rightarrow> Json_Result ''error'' (J_Text (error_to_string e))]"
    by (cases "cl_output cl") (simp_all add: prints_functions)
  from printsD [OF this, of s] show ?thesis
    using assms
    by (cases "cl_output cl") (auto simp: command_execute_def bindM_def catchM_def on_screen_def)
qed

section \<open>Handlers\<close>

text \<open>The handlers of an event run in the order they were registered, and when one of them
  fails, the task that runs them is over: the failing handler saw the screen as the earlier
  events and the earlier handlers of its event left it, no later handler has run for that event
  and no handler at all for the events after it.\<close>

lemma failing_handler_ends_task:
  assumes "spawned_task reg events s = (Err e, t)"
  shows "\<exists>before ev after hs h hs' u v.
    events = before @ ev # after \<and> event_handlers reg = hs @ h # hs' \<and>
    spawned_task reg before s = (Ok (), u) \<and>
    for_each (\<lambda>g. g ev) hs u = (Ok (), v) \<and> h ev v = (Err e, t)"
proof -
  from for_each_Err [OF assms [unfolded spawned_task_def]] obtain before ev after u where
    events: "events = before @ ev # after" "spawned_task reg before s = (Ok (), u)"
    and "registrar_handle reg ev u = (Err e, t)"
    by (auto simp: spawned_task_def)
  from for_each_Err [OF this(3) [unfolded registrar_handle_def]] obtain hs h hs' v where
    "event_handlers reg = hs @ h # hs'" "for_each (\<lambda>g. g ev) hs u = (Ok (), v)" "h ev v = (Err e, t)"
    by auto
  with events show ?thesis
    by blast
qed

section \<open>Minting from the command line\<close>

lemma with_services_Ok:
  assumes "with_services P cl what own execute ws = (Ok u, x)"
  obtains reg S where "handler_registrar_try_from (p_handler_lib P) (cl_handlers cl) = Ok reg"
    "with_handlers P (register own reg) (execute S) ws = (Ok u, x)"
  using assms by (auto simp: with_services_def Let_def run_Ok_iffs)

lemma with_handlers_Ok:
  assumes "with_handlers P reg m (w, s) = (Ok u, (w', s'))"
  obtains v s1 where "m (w, s) = (Ok v, (w', s1))"
    "spawned_task reg (notified (drop (length (w_log w)) (w_log w'))) s1 = (Ok u, s')"
  using assms
  by (auto simp: with_handlers_def Let_def split: prod.splits outcome.splits elim!: joined.elims)

lemma notified_append [simp]: "notified (xs @ ys) = notified xs @ notified ys"
  by (induction xs rule: notified.induct) auto

lemma single_handler_task:
  "spawned_task (register h default_registrar) [ev] = bindM (bindM (h ev) (\<lambda>_. returnM ())) (\<lambda>_. returnM ())"
  by (simp add: spawned_task_def registrar_handle_def register_def default_registrar_def fun_eq_iff)

lemma prints_then_return: "prints m xs \<Longrightarrow> prints (bindM m (\<lambda>_. returnM ())) xs"
  using prints_bind [OF _ prints_return] by fastforce

text \<open>C14: Minting from the command line, in text and without further handlers: when the command
  succeeds, what it has printed is exactly the announcement of the mint, with the chain, request,
  receiver, amount, denomination and transaction hash of the one operation it has recorded.\<close>

theorem minted_tokens_announced:
  assumes "command_run P cl (w, s) = (Ok u, (w', s'))"
    and "cl_subcommand cl = Sub_Ibc (Ibc_Mint cid amount d receiver memo rid)"
    and "cl_handlers cl = []" "cl_output cl = Out_Text" "p_terminal P = works" "notifier (p_env P)"
    and "keyed (w_db w)"
  shows "\<exists>to hash ts.
    items s' = items s @ [Line ''Tokens minted!'', Line '''',
      Rows [[''Chain ID'', chain_str cid], [''Request ID'', or_dash rid], [''To'', to],
        [''Amount'', u256_to_string amount], [''Denom'', ident_str d], [''Transaction Hash'', hash]]] \<and>
    operations (w_db w') = operations (w_db w) @
      [new_operation (w_db w) ts rid to d amount (Mint cid) hash]"
proof -
  let ?own = "cli_event_handler works Out_Text"
  from assms(1-5) obtain S where handled: "with_handlers P (register ?own default_registrar)
      (ibc_execute (p_env P) (p_display P) works Out_Text S (Ibc_Mint cid amount d receiver memo rid))
      (w, s) = (Ok u, (w', s'))"
    by (auto simp: command_run.simps handler_registrar_try_from_def elim!: with_services_Ok)
  show ?thesis
  proof (rule with_handlers_Ok [OF handled])
    fix v s1
    assume run: "ibc_execute (p_env P) (p_display P) works Out_Text S
        (Ibc_Mint cid amount d receiver memo rid) (w, s) = (Ok v, (w', s1))"
      and task: "spawned_task (register ?own default_registrar)
        (notified (drop (length (w_log w)) (w_log w'))) s1 = (Ok u, s')"
    from run obtain hash where mint: "mint (p_env P) S cid rid amount d receiver memo w = (Ok hash, w')"
      and s1: "s1 = s"
      by (auto simp: run_Ok_iffs on_world_def split: prod.splits)
    obtain ts to sb doc addr bs raw ts2 where
      log: "w_log w' = w_log w @ [A_Sign rid (SignBytes sb), A_Sign rid (SignDoc doc),
         A_Broadcast addr bs, A_Commit] @
         (if notifier (p_env P) then [A_Notify (TokensMinted cid rid to amount d hash)] else [])"
      and db: "w_db w' = record_operation (new_operation (w_db w) ts rid to d amount (Mint cid) hash)
       (set_chain (chain_str cid) (mint_advance raw ts2) (w_db w))"
      by (rule mint_run [OF mint assms(7)]) blast
    have "notified (drop (length (w_log w)) (w_log w')) = [TokensMinted cid rid to amount d hash]"
      using assms(6) by (simp add: log)
    moreover have "prints (bindM (bindM (?own (TokensMinted cid rid to amount d hash)) (\<lambda>_. returnM ())) (\<lambda>_. returnM ()))
        [Line ''Tokens minted!'', Line '''', Rows (transfer_table cid rid ''To'' to amount d hash)]"
      by (intro prints_then_return) (simp add: cli_event_handler_def headed_table_prints)
    ultimately have "items s' = items s @
        [Line ''Tokens minted!'', Line '''', Rows (transfer_table cid rid ''To'' to amount d hash)]"
      using task printsD [of _ _ s] by (fastforce simp: s1 single_handler_task)
    then show ?thesis
      by (auto simp: transfer_table_def add_row_def db)
  qed
qed

section \<open>Showing a chain\<close>

text \<open>C27: Showing a chain never crashes on a database the program can reach, whatever its rows,
  the terminal and the libraries: the code unwraps both channel identifiers of a connected chain,
  and no reachable row is connected without them.\<close>

theorem chain_get_never_panics:
  assumes "reached F w" "node_id_laws F"
    and "cl_subcommand cl = Sub_Chain (Chain_Get cid)"
  shows "fst (command_execute P cl (w, s)) \<noteq> Panic p"
proof -
  have "open_channels (w_db w)"
    by (rule db_steps_open_channels [OF reached_steps [OF assms(1,2)] open_channels_empty])
  then have run: "calm (fst (command_run P cl (w, s)))"
    by (rule command_run_get_calm [OF _ assms(3)])
  have reported: "no_panic (case r of Inr _ \<Rightarrow> returnM ()
     | Inl e \<Rightarrow> (case cl_output cl of
            Out_Text \<Rightarrow> on_screen (print_stream (p_terminal P) (error_debug (p_display P) e))
          | Out_Json \<Rightarrow> on_screen (print_json (p_terminal P) ''error'' (J_Text (error_to_string e)))))"
    for r :: "error + unit"
    by (cases r) (auto intro!: calm_intros)
  obtain q ws where q: "command_run P cl (w, s) = (q, ws)"
    by (metis prod.collapse)
  with run have "calm (fst (command_execute P cl (w, s)))"
    using reported [of "Inr ()"] reported [of "Inl e" for e]
    by (cases q; cases ws) (simp_all add: command_execute_def bindM_def catchM_def no_panic_def)
  then show ?thesis
    by (auto simp: calm_def)
qed

section \<open>A process to run\<close>

definition ex_plugin :: "'r list \<Rightarrow> 'r plugin" where
  "ex_plugin rs = \<lparr>opens = Inr (), symbol = Inr (), registers = rs, registered = Inr ()\<rparr>"

definition ex_process :: "u32 \<Rightarrow> process" where
  "ex_process code =
     \<lparr>p_env = ex_env code, p_front = ex_front,
      p_display = \<lparr>format_duration = (\<lambda>_. ''1s''), datetime_to_string = (\<lambda>_. ''now''),
        block_height_to_string = show_u64, error_debug = error_to_string\<rparr>,
      p_terminal = works, p_details_json = (\<lambda>_. Inr ''''), p_create_database = (\<lambda>_. Inr ()),
      p_connect = (\<lambda>_. Inr ()), p_migrate = Inr (), p_handler_lib = (\<lambda>_. ex_plugin []),
      p_signer_lib = (\<lambda>_. ex_plugin [ex_signer]), p_completions = (\<lambda>_. []),
      p_handled_before_exit = 0, p_calls = [], p_server_end = (\<lambda>_. Inr ())\<rparr>"

definition ex_command :: "sub_command \<Rightarrow> command_line" where
  "ex_command c = \<lparr>cl_db_uri = Some ''db'', cl_signer = Some ''signer'', cl_handlers = [],
     cl_subcommand = c, cl_output = Out_Text\<rparr>"

definition ex_mint_command :: sub_command where
  "ex_mint_command = Sub_Ibc (Ibc_Mint ex_chain_id 5 (Identifier ''tok'') None ''memo'' None)"

definition ex_screen :: screen where
  "ex_screen = \<lparr>items = [], writes = 0\<rparr>"

lemma ex_process_laws:
  "ibc_codec_laws (p_env (ex_process code))" "node_id_laws (node_format (p_env (ex_process code)))"
  "node_format (p_env (ex_process code)) = ex_format" "p_terminal (ex_process code) = works"
  using ex_env_codec ex_format_laws by (simp_all add: ex_process_def ex_env_def)

lemma ex_commands:
  "is_ok (fst (command_run (ex_process 0) (ex_command ex_mint_command) (ex_world (Some ex_details), ex_screen)))"
  "case fst (command_run (ex_process 5) (ex_command ex_mint_command) (ex_world (Some ex_details), ex_screen)) of
     Err e \<Rightarrow> True | _ \<Rightarrow> False"
  by code_simp+

lemma ex_error:
  assumes "case fst x of Err e \<Rightarrow> True | _ \<Rightarrow> False"
  obtains e w s where "x = (Err e, (w, s))"
  using assms by (cases x; cases "fst x") auto

section \<open>The properties apply\<close>

theorem commands_refine_machine_witness:
  "db_le empty_database (w_db (fst (snd (command_execute (ex_process 0) (ex_command ex_mint_command)
     (ex_empty_world, ex_screen)))))"
proof -
  have "good_database (node_format (p_env (ex_process 0))) (w_db ex_empty_world)"
    by (simp add: ex_empty_world_def good_empty)
  from commands_refine_machine [OF ex_process_laws(1,2) this, of "ex_command ex_mint_command" ex_screen]
  show ?thesis
    by (metis ex_empty_world_def prod.collapse world.select_convs(1))
qed

theorem failed_command_exits_normally_witness:
  "fst (command_execute (ex_process 5) (ex_command ex_mint_command)
     (ex_world (Some ex_details), ex_screen)) = Ok ()"
proof -
  obtain e w s where run: "command_run (ex_process 5) (ex_command ex_mint_command)
      (ex_world (Some ex_details), ex_screen) = (Err e, (w, s))"
    using ex_commands(2) by (rule ex_error)
  from failed_command_exits_normally [OF run ex_process_laws(4)] show ?thesis
    by auto
qed

theorem minted_tokens_announced_witness:
  "\<exists>u w s. command_run (ex_process 0) (ex_command ex_mint_command)
     (ex_world (Some ex_details), ex_screen) = (Ok u, (w, s)) \<and> length (items s) = 3 \<and>
     length (operations (w_db w)) = 1"
proof -
  obtain u w s where run: "command_run (ex_process 0) (ex_command ex_mint_command)
      (ex_world (Some ex_details), ex_screen) = (Ok u, (w, s))"
    using ex_commands(1) by (rule ex_run) (metis prod.collapse)
  have args: "cl_subcommand (ex_command ex_mint_command) =
      Sub_Ibc (Ibc_Mint ex_chain_id 5 (Identifier ''tok'') None ''memo'' None)"
    "cl_handlers (ex_command ex_mint_command) = []" "cl_output (ex_command ex_mint_command) = Out_Text"
    "notifier (p_env (ex_process 0))"
    by (simp_all add: ex_command_def ex_mint_command_def ex_process_def ex_env_def)
  have world: "keyed (w_db (ex_world (Some ex_details)))"
    by (auto simp: keyed_def ex_world_def ex_row_def empty_database_def)
  from minted_tokens_announced [OF run args(1-3) ex_process_laws(4) args(4) world] run show ?thesis
    by (auto simp: ex_screen_def ex_world_def empty_database_def)
qed

definition ex_add_fields :: add_fields where
  "ex_add_fields =
     \<lparr>af_grpc_addr = ''grpc'', af_rpc_addr = ''rpc'', af_fee_amount = decimal_default,
      af_fee_denom = Identifier ''stake'', af_gas_limit = 1, af_trust_level = \<lparr>numer = 1, denom = 3\<rparr>,
      af_trusting_period = \<lparr>d_secs = 1, d_subsec_nanos = 0\<rparr>,
      af_max_clock_drift = \<lparr>d_secs = 1, d_subsec_nanos = 0\<rparr>,
      af_rpc_timeout = \<lparr>d_secs = 1, d_subsec_nanos = 0\<rparr>, af_diversifier = ''solo'',
      af_port_id = ex_port, af_trusted_height = 1, af_trusted_hash = replicate 32 0\<rparr>"

definition ex_after_add :: world where
  "ex_after_add = fst (snd (command_execute (ex_process 0)
     (ex_command (Sub_Chain (Chain_Add ex_add_fields))) (ex_empty_world, ex_screen)))"

lemma ex_after_add_chain: "\<not> Option.is_none (chains (w_db ex_after_add) ''testnet-1'')"
  by code_simp

lemma ex_reached: "reached ex_format ex_after_add"
proof -
  obtain r s' where run: "command_execute (ex_process 0) (ex_command (Sub_Chain (Chain_Add ex_add_fields)))
      (ex_empty_world, ex_screen) = (r, (ex_after_add, s'))"
    unfolding ex_after_add_def by (metis prod.collapse)
  have "reached ex_format ex_empty_world"
    unfolding ex_empty_world_def by (rule reached.empty)
  then show ?thesis
    by (rule reached.run_command [OF _ ex_process_laws(3,1) run])
qed

theorem reached_databases_good_witness:
  "good_database ex_format (w_db ex_after_add) \<and> chains (w_db ex_after_add) ''testnet-1'' \<noteq> None"
  using reached_databases_good [OF ex_reached ex_format_laws] ex_after_add_chain
  by (simp add: Option.is_none_def)

theorem chain_get_never_panics_witness:
  "\<forall>p. fst (command_execute (ex_process 0) (ex_command (Sub_Chain (Chain_Get ex_chain_id)))
     (ex_after_add, ex_screen)) \<noteq> Panic p"
proof -
  have "cl_subcommand (ex_command (Sub_Chain (Chain_Get ex_chain_id))) = Sub_Chain (Chain_Get ex_chain_id)"
    by (simp add: ex_command_def)
  from chain_get_never_panics [OF ex_reached ex_format_laws this] show ?thesis
    by blast
qed

end
