(* ===== verification/Cli_Arguments.thy ===== *)
theory Cli_Arguments
  imports Command
begin

text \<open>
  How the fields of the commands are read from the arguments, the environment and the defaults
  of the structopt attributes in \<open>solo-machine/src/command.rs\<close>, \<open>command/chain.rs\<close> and
  \<open>command/ibc.rs\<close>. Splitting the command line into arguments is structopt's; from there on a
  field is its text, if any was given.
\<close>

section \<open>Reading one field\<close>

text \<open>
  How structopt fills a field: the argument if it is given, else the environment variable, else
  the default; then the parser of the field. The texts are those of the attributes.
\<close>

record arg_libs =
  variable :: "string \<Rightarrow> string option"
  parse_duration :: "string \<Rightarrow> string + std_duration"
  block_height_parse :: "string \<Rightarrow> string + u64"

definition arg_text :: "arg_libs \<Rightarrow> string \<Rightarrow> string option \<Rightarrow> string option \<Rightarrow> string outcome" where
  "arg_text A var d given =
     (case given of
        Some s \<Rightarrow> Ok s
      | None \<Rightarrow>
          (case variable A var of
             Some s \<Rightarrow> Ok s
           | None \<Rightarrow> ok_or d ''missing required argument''))"

text \<open>An optional field without a default, and a field without a variable.\<close>

definition optional_text :: "arg_libs \<Rightarrow> string \<Rightarrow> string option \<Rightarrow> string option" where
  "optional_text A var given = (case given of Some s \<Rightarrow> Some s | None \<Rightarrow> variable A var)"

definition plain_text :: "string \<Rightarrow> string option \<Rightarrow> string" where
  "plain_text d given = (case given of Some s \<Rightarrow> s | None \<Rightarrow> d)"

section \<open>Chain commands\<close>

definition parse_trusted_hash :: "env \<Rightarrow> string \<Rightarrow> bytes outcome" where
  "parse_trusted_hash E hash =
     and_then (ensure (hash \<noteq> []) ''empty trusted hash'') (\<lambda>_.
     and_then (with_context ''invalid trusted hash hex bytes'' (external (hex_decode E hash))) (\<lambda>bs.
     and_then (ensure (length bs = 32) ''trusted hash length should be 32'') (\<lambda>_.
     Ok bs)))"

record add_args =
  aa_grpc_addr :: "string option"
  aa_rpc_addr :: "string option"
  aa_fee_amount :: "string option"
  aa_fee_denom :: "string option"
  aa_gas_limit :: "string option"
  aa_trust_level :: "string option"
  aa_trusting_period :: "string option"
  aa_max_clock_drift :: "string option"
  aa_rpc_timeout :: "string option"
  aa_diversifier :: "string option"
  aa_port_id :: "string option"
  aa_trusted_height :: "string option"
  aa_trusted_hash :: "string option"

definition add_fields_of ::
    "env \<Rightarrow> front_libs \<Rightarrow> arg_libs \<Rightarrow> add_args \<Rightarrow> add_fields outcome" where
  "add_fields_of E G A args =
     and_then (arg_text A ''SOLO_GRPC_ADDRESS'' (Some ''http://0.0.0.0:9090'') (aa_grpc_addr args)) (\<lambda>grpc.
     and_then (arg_text A ''SOLO_RPC_ADDRESS'' (Some ''http://0.0.0.0:26657'') (aa_rpc_addr args)) (\<lambda>rpc.
     and_then (and_then (arg_text A ''SOLO_FEE_AMOUNT'' (Some ''1000'') (aa_fee_amount args))
       (\<lambda>s. external (decimal_parse E s))) (\<lambda>amount.
     and_then (and_then (arg_text A ''SOLO_FEE_DENOM'' (Some ''stake'') (aa_fee_denom args))
       identifier_from_str) (\<lambda>fdenom.
     and_then (and_then (arg_text A ''SOLO_GAS_LIMIT'' (Some ''300000'') (aa_gas_limit args))
       parse_u64) (\<lambda>gas.
     and_then (and_then (arg_text A ''SOLO_TRUST_LEVEL'' (Some ''1/3'') (aa_trust_level args))
       (\<lambda>s. external (ratio_parse G s))) (\<lambda>level.
     and_then (and_then (arg_text A ''SOLO_TRUSTING_PERIOD'' (Some ''14 days'') (aa_trusting_period args))
       (\<lambda>s. external (parse_duration A s))) (\<lambda>period.
     and_then (and_then (arg_text A ''SOLO_MAX_CLOCK_DRIFT'' (Some ''3 sec'') (aa_max_clock_drift args))
       (\<lambda>s. external (parse_duration A s))) (\<lambda>drift.
     and_then (and_then (arg_text A ''SOLO_RPC_TIMEOUT'' (Some ''60 sec'') (aa_rpc_timeout args))
       (\<lambda>s. external (parse_duration A s))) (\<lambda>timeout.
     and_then (arg_text A ''SOLO_DIVERSIFIER'' (Some ''solo-machine-diversifier'') (aa_diversifier args)) (\<lambda>dvs.
     and_then (and_then (arg_text A ''SOLO_PORT_ID'' (Some ''transfer'') (aa_port_id args))
       port_id_from_str) (\<lambda>port.
     and_then (and_then (arg_text A ''SOLO_TRUSTED_HEIGHT'' None (aa_trusted_height args))
       (\<lambda>s. external (block_height_parse A s))) (\<lambda>height.
     and_then (and_then (arg_text A ''SOLO_TRUSTED_HASH'' None (aa_trusted_hash args))
       (parse_trusted_hash E)) (\<lambda>hash.
     Ok \<lparr>af_grpc_addr = grpc, af_rpc_addr = rpc, af_fee_amount = amount, af_fee_denom = fdenom,
         af_gas_limit = gas, af_trust_level = level, af_trusting_period = period,
         af_max_clock_drift = drift, af_rpc_timeout = timeout, af_diversifier = dvs,
         af_port_id = port, af_trusted_height = height, af_trusted_hash = hash\<rparr>)))))))))))))"

definition parse_u32 :: "string \<Rightarrow> u32 outcome" where
  "parse_u32 s = and_then (parse_unsigned (2 ^ 32) s) (\<lambda>n. Ok (word_of_nat n))"

text \<open>The arguments of a chain command, in the order of the source.\<close>

datatype chain_args =
    Args_Add add_args
  | Args_Get string
  | Args_Get_Public_Keys string "string option" "string option"
  | Args_Get_Ibc_Denom string string
  | Args_Chain_Balance string string

text \<open>\<open>default_value\<close> without a text is the text of the type's default, \<open>0\<close>.\<close>

fun chain_command_of ::
    "env \<Rightarrow> front_libs \<Rightarrow> arg_libs \<Rightarrow> chain_args \<Rightarrow> chain_command outcome" where
  "chain_command_of E G A (Args_Add args) =
     and_then (add_fields_of E G A args) (\<lambda>fields. Ok (Chain_Add fields))"
| "chain_command_of E G A (Args_Get cid) =
     and_then (chain_id_from_str cid) (\<lambda>cid. Ok (Chain_Get cid))"
| "chain_command_of E G A (Args_Get_Public_Keys cid lim off) =
     and_then (chain_id_from_str cid) (\<lambda>cid.
     and_then (parse_u32 (plain_text ''10'' lim)) (\<lambda>lim.
     and_then (parse_u32 (plain_text ''0'' off)) (\<lambda>off.
     Ok (Chain_Get_Public_Keys cid lim off))))"
| "chain_command_of E G A (Args_Get_Ibc_Denom cid d) =
     and_then (chain_id_from_str cid) (\<lambda>cid.
     and_then (identifier_from_str d) (\<lambda>d. Ok (Chain_Get_Ibc_Denom cid d)))"
| "chain_command_of E G A (Args_Chain_Balance cid d) =
     and_then (chain_id_from_str cid) (\<lambda>cid.
     and_then (identifier_from_str d) (\<lambda>d. Ok (Chain_Balance cid d)))"

section \<open>IBC commands\<close>

text \<open>The arguments of an IBC command; a memo and a request id are options, \<open>force\<close> is a flag.\<close>

datatype ibc_args =
    Args_Connect string "string option" "string option" bool
  | Args_Close_Channel string "string option" "string option"
  | Args_Mint string string string "string option" "string option" "string option"
  | Args_Burn string string string "string option" "string option"
  | Args_Update_Signer string "string option" "string option" "string option" "string option"
  | Args_History "string option" "string option"

definition memo_text :: "arg_libs \<Rightarrow> string option \<Rightarrow> string outcome" where
  "memo_text A given = arg_text A ''SOLO_MEMO'' (Some ''solo-machine-memo'') given"

definition PUBLIC_KEY_ALGO_VARIANTS :: "string list" where
  "PUBLIC_KEY_ALGO_VARIANTS = [''secp256k1'', ''eth-secp256k1'']"

definition possible_value :: "string list \<Rightarrow> string \<Rightarrow> string outcome" where
  "possible_value variants s =
     and_then (ensure (s \<in> set variants) (''not a valid value: '' @ s)) (\<lambda>_. Ok s)"

fun ibc_command_of :: "env \<Rightarrow> front_libs \<Rightarrow> arg_libs \<Rightarrow> ibc_args \<Rightarrow> ibc_command outcome" where
  "ibc_command_of E G A (Args_Connect cid memo request_id force) =
     and_then (chain_id_from_str cid) (\<lambda>cid.
     and_then (memo_text A memo) (\<lambda>memo.
     Ok (Ibc_Connect cid memo request_id force)))"
| "ibc_command_of E G A (Args_Close_Channel cid memo request_id) =
     and_then (chain_id_from_str cid) (\<lambda>cid.
     and_then (memo_text A memo) (\<lambda>memo.
     Ok (Ibc_Close_Channel cid memo request_id)))"
| "ibc_command_of E G A (Args_Mint cid amount d receiver memo request_id) =
     and_then (chain_id_from_str cid) (\<lambda>cid.
     and_then (external (u256_from_dec_str G amount)) (\<lambda>amount.
     and_then (identifier_from_str d) (\<lambda>d.
     and_then (memo_text A memo) (\<lambda>memo.
     Ok (Ibc_Mint cid amount d receiver memo request_id)))))"
| "ibc_command_of E G A (Args_Burn cid amount d memo request_id) =
     and_then (chain_id_from_str cid) (\<lambda>cid.
     and_then (external (u256_from_dec_str G amount)) (\<lambda>amount.
     and_then (identifier_from_str d) (\<lambda>d.
     and_then (memo_text A memo) (\<lambda>memo.
     Ok (Ibc_Burn cid amount d memo request_id)))))"
| "ibc_command_of E G A (Args_Update_Signer cid key algo memo request_id) =
     and_then (chain_id_from_str cid) (\<lambda>cid.
     and_then (arg_text A ''SOLO_NEW_PUBLIC_KEY'' None key) (\<lambda>key.
     and_then (and_then (arg_text A ''SOLO_PUBLIC_KEY_ALGO'' (Some ''secp256k1'') algo)
       (possible_value PUBLIC_KEY_ALGO_VARIANTS)) (\<lambda>algo.
     and_then (public_key_algo_from_str algo) (\<lambda>algo.
     and_then (memo_text A memo) (\<lambda>memo.
     Ok (Ibc_Update_Signer cid key algo memo request_id))))))"
| "ibc_command_of E G A (Args_History lim off) =
     and_then (parse_u32 (plain_text ''10'' lim)) (\<lambda>lim.
     and_then (parse_u32 (plain_text ''0'' off)) (\<lambda>off.
     Ok (Ibc_History lim off)))"

section \<open>Whole command lines\<close>

datatype sub_args =
    Args_Chain chain_args
  | Args_Gen_Completion "string option"
  | Args_Ibc ibc_args
  | Args_Init
  | Args_Start "string option"

record cli_args =
  ca_db_uri :: "string option"
  ca_signer :: "string option"
  ca_handlers :: "string list"
  ca_subcommand :: sub_args
  ca_output :: "string option"

text \<open>
  The parsers of shells (clap) and of socket addresses are the parameters \<open>shell_parse\<close> and
  \<open>addr_parse\<close>, which give the text the value is shown as.
\<close>

fun sub_command_of ::
    "env \<Rightarrow> front_libs \<Rightarrow> arg_libs \<Rightarrow> (string \<Rightarrow> string outcome) \<Rightarrow> (string \<Rightarrow> string outcome) \<Rightarrow>
     sub_args \<Rightarrow> sub_command outcome" where
  "sub_command_of E G A shell_parse addr_parse (Args_Chain args) =
     and_then (chain_command_of E G A args) (\<lambda>c. Ok (Sub_Chain c))"
| "sub_command_of E G A shell_parse addr_parse (Args_Gen_Completion shell) =
     and_then (shell_parse (plain_text ''bash'' shell)) (\<lambda>shell. Ok (Sub_Gen_Completion shell))"
| "sub_command_of E G A shell_parse addr_parse (Args_Ibc args) =
     and_then (ibc_command_of E G A args) (\<lambda>c. Ok (Sub_Ibc c))"
| "sub_command_of E G A shell_parse addr_parse Args_Init = Ok Sub_Init"
| "sub_command_of E G A shell_parse addr_parse (Args_Start addr) =
     and_then (and_then (arg_text A ''SOLO_GRPC_ADDR'' (Some ''0.0.0.0:9000'') addr) addr_parse)
       (\<lambda>addr. Ok (Sub_Start addr))"

definition command_line_of ::
    "env \<Rightarrow> front_libs \<Rightarrow> arg_libs \<Rightarrow> (string \<Rightarrow> string outcome) \<Rightarrow> (string \<Rightarrow> string outcome) \<Rightarrow>
     cli_args \<Rightarrow> command_line outcome" where
  "command_line_of E G A shell_parse addr_parse args =
     and_then (sub_command_of E G A shell_parse addr_parse (ca_subcommand args)) (\<lambda>sub.
     and_then (and_then (arg_text A ''SOLO_OUTPUT'' (Some ''text'') (ca_output args))
       (possible_value [''text'', ''json''])) (\<lambda>out_text.
     and_then (output_type_from_str out_text) (\<lambda>out.
     Ok \<lparr>cl_db_uri = optional_text A ''SOLO_DB_URI'' (ca_db_uri args),
         cl_signer = optional_text A ''SOLO_SIGNER'' (ca_signer args),
         cl_handlers = ca_handlers args, cl_subcommand = sub, cl_output = out\<rparr>)))"

text \<open>A possible value of an option is one its parser knows.\<close>

lemma possible_values_parse:
  "possible_value [''text'', ''json''] s = Ok t \<Longrightarrow> is_ok (output_type_from_str t)"
  "possible_value PUBLIC_KEY_ALGO_VARIANTS s = Ok t \<Longrightarrow> is_ok (public_key_algo_from_str t)"
  by (auto simp: possible_value_def PUBLIC_KEY_ALGO_VARIANTS_def output_type_texts
      public_key_algo_from_str_def)

lemma arg_text_default:
  "variable A = Map.empty \<Longrightarrow> arg_text A v (Some d) given = Ok (unwrap_or d given)"
  by (cases given) (simp_all add: arg_text_def)

lemma arg_text_given: "arg_text A v d (Some s) = Ok s"
  by (simp add: arg_text_def)

end
