(* ===== verification/Deadlines.thy ===== *)
theory Deadlines
  imports Grpc_Server
begin

text \<open>
  Calls that end before their deadline: whatever a call does with a limit on its time
  (\<open>serve_within\<close>), it does the same without one if it is over in time. The runs with the cut
  environment follow those with the full one step by step; \<open>follows_intros\<close> collects the steps.
\<close>

named_theorems follows_intros
named_theorems cut_libs

section \<open>Following a run up to a tick\<close>

text \<open>A run of \<open>m\<close> that ends by tick \<open>K\<close> is a run of \<open>m'\<close>; time does not go back.\<close>

definition follows :: "nat \<Rightarrow> 'a run \<Rightarrow> 'a run \<Rightarrow> bool" where
  "follows K m m' \<longleftrightarrow>
     (\<forall>s r t. m s = (r, t) \<longrightarrow> w_ticks s \<le> w_ticks t \<and> (w_ticks t \<le> K \<longrightarrow> m' s = (r, t)))"

lemma followsD:
  assumes "follows K m m'" "m s = (r, t)"
  shows "w_ticks s \<le> w_ticks t" "w_ticks t \<le> K \<Longrightarrow> m' s = (r, t)"
  using assms by (simp_all add: follows_def)

lemma followsI:
  assumes "\<And>s. w_ticks s \<le> w_ticks (snd (m s))" "\<And>s. w_ticks (snd (m s)) \<le> K \<Longrightarrow> m' s = m s"
  shows "follows K m m'"
  unfolding follows_def
proof (intro allI impI)
  fix s r t
  assume "m s = (r, t)"
  then show "w_ticks s \<le> w_ticks t \<and> (w_ticks t \<le> K \<longrightarrow> m' s = (r, t))"
    using assms(1) [of s] assms(2) [of s] by auto
qed

lemma follows_pure [follows_intros]:
  "follows K (returnM a) (returnM a)" "follows K (lift r) (lift r)" "follows K next_tick next_tick"
  "follows K (emit x) (emit x)"
  by (auto intro!: followsI simp: returnM_def lift_def)

lemma follows_bindM [follows_intros]:
  assumes "follows K m m'" "\<And>a. follows K (f a) (f' a)"
  shows "follows K (bindM m f) (bindM m' f')"
  unfolding follows_def
proof (intro allI impI)
  fix s r t
  assume run: "bindM m f s = (r, t)"
  obtain q u where m: "m s = (q, u)"
    by fastforce
  show "w_ticks s \<le> w_ticks t \<and> (w_ticks t \<le> K \<longrightarrow> bindM m' f' s = (r, t))"
  proof (cases q)
    case (Ok a)
    with run m have "f a u = (r, t)"
      by (simp add: bindM_def)
    with Ok m followsD [OF assms(1) m] followsD [OF assms(2) [of a]] show ?thesis
      by (fastforce simp: bindM_def)
  qed (use run m followsD [OF assms(1) m] in \<open>auto simp: bindM_def\<close>)
qed

lemma follows_wrapped [follows_intros]:
  "follows K m m' \<Longrightarrow> follows K (contextM c m) (contextM c m')"
  "follows K n n' \<Longrightarrow> follows K (catchM n) (catchM n')"
  "follows K o1 o2 \<Longrightarrow> follows K (scoped o1) (scoped o2)"
  unfolding follows_def contextM_def catchM_def scoped_def
  by (fastforce split: prod.splits outcome.splits)+

lemma follows_cases [follows_intros]:
  "follows K m m' \<Longrightarrow> follows K n n' \<Longrightarrow> follows K (if b then m else n) (if b then m' else n')"
  "follows K m1 m1' \<Longrightarrow> (\<And>y. follows K (g y) (g' y)) \<Longrightarrow>
    follows K (case x of None \<Rightarrow> m1 | Some y \<Rightarrow> g y) (case x of None \<Rightarrow> m1' | Some y \<Rightarrow> g' y)"
  "(\<And>a. follows K (h a) (h' a)) \<Longrightarrow> (\<And>b. follows K (i b) (i' b)) \<Longrightarrow>
    follows K (case z of Inl a \<Rightarrow> h a | Inr b \<Rightarrow> i b) (case z of Inl a \<Rightarrow> h' a | Inr b \<Rightarrow> i' b)"
  "(\<And>c d. follows K (j c d) (j' c d)) \<Longrightarrow>
    follows K (case p of (c, d) \<Rightarrow> j c d) (case p of (c, d) \<Rightarrow> j' c d)"
  "(\<And>c d. follows K (l c d q) (l' c d q)) \<Longrightarrow>
    follows K ((case p of (c, d) \<Rightarrow> l c d) q) ((case p of (c, d) \<Rightarrow> l' c d) q)"
  by (simp_all split: option.split sum.split prod.split)

lemma follows_fold_each [follows_intros]:
  "(\<And>x v. follows K (f x v) (f' x v)) \<Longrightarrow> follows K (fold_each f xs v) (fold_each f' xs v)"
  by (induction xs arbitrary: v) (auto intro!: follows_intros)

lemma follows_handlers [follows_intros]:
  "follows K m m' \<Longrightarrow> (\<And>a. follows K (f a) (f' a)) \<Longrightarrow> follows K (bindH m f) (bindH m' f')"
  "follows K n n' \<Longrightarrow> follows K (internal n) (internal n')"
  "follows K (argument r) (argument r)"
  "follows K (answer b) (answer b)"
  "follows K (refuse st) (refuse st)"
  "follows K l l' \<Longrightarrow> follows K (respond h l) (respond h l')"
  unfolding respond_def bindH_def internal_def argument_def map_err_def answer_def refuse_def
  by (intro follows_intros; assumption)+

lemma follows_required [follows_intros]: "follows K (required st x) (required st x)"
  by (cases x) (auto intro: follows_intros)

section \<open>The peers until the deadline\<close>

lemma follows_call [follows_intros]:
  "follows K (call f) (call (\<lambda>n. too_late K n (f n)))"
  by (rule followsI) (auto simp: call_def bindM_def lift_def too_late_def)

lemma cut_peers [cut_libs]:
  "rpc_status (cut_env k E) n a = too_late k n (rpc_status E n a)"
  "grpc_connect (cut_env k E) n a = too_late k n (grpc_connect E n a)"
  "query_account (cut_env k E) n a x = too_late k n (query_account E n a x)"
  "query_staking_params (cut_env k E) n a = too_late k n (query_staking_params E n a)"
  "query_balance (cut_env k E) n a x d = too_late k n (query_balance E n a x d)"
  "trust_primary_at (cut_env k E) n lc = too_late k n (trust_primary_at E n lc)"
  "verify_to_highest (cut_env k E) n lc = too_late k n (verify_to_highest E n lc)"
  by (simp_all add: cut_env_def)

lemma follows_notify [follows_intros]: "follows K (notify_event E ev) (notify_event (cut_env K E) ev)"
  by (rule followsI)
    (auto simp: notify_event_def cut_env_def fault_too_late_def bindM_def lift_def returnM_def
      split: option.splits if_splits)

lemma follows_broadcast [follows_intros]:
  "follows K (broadcast_tx_commit E addr bs) (broadcast_tx_commit (cut_env K E) addr bs)"
proof -
  have "broadcast (cut_env K E) n addr bs = too_late K n (broadcast E n addr bs)" for n
    by (simp add: cut_env_def)
  then show ?thesis
    unfolding broadcast_tx_commit_def by (simp only:) (intro follows_intros)
qed

lemma follows_signer_sign [follows_intros]:
  "follows K (signer_sign S rid msg) (signer_sign (cut_signer K S) rid msg)"
  by (rule followsI) (auto simp: signer_sign_def cut_signer_def bindM_def lift_def)

lemma follows_sql [follows_intros]:
  "follows K (run_sql E ex stmt) (run_sql (cut_env K E) ex stmt)"
  "follows K (query_sql E ex q) (query_sql (cut_env K E) ex q)"
  "follows K (begin_transaction E) (begin_transaction (cut_env K E))"
  "follows K (commit_transaction E c) (commit_transaction (cut_env K E) c)"
proof -
  have now: "now (cut_env K E) = now E"
    and fault: "db_fault (cut_env K E) n = fault_too_late K n (db_fault E n)" for n
    by (simp_all add: cut_env_def)
  have ticks: "w_ticks (write_back ex d w) = w_ticks w" for d w
    by (cases ex) simp_all
  show "follows K (run_sql E ex stmt) (run_sql (cut_env K E) ex stmt)"
    by (rule followsI)
      (auto simp: run_sql_def Let_def now fault fault_too_late_def ticks split: option.splits sum.splits)
  show "follows K (query_sql E ex q) (query_sql (cut_env K E) ex q)"
    "follows K (begin_transaction E) (begin_transaction (cut_env K E))"
    "follows K (commit_transaction E c) (commit_transaction (cut_env K E) c)"
    by (rule followsI;
        auto simp: query_sql_def begin_transaction_def commit_transaction_def Let_def fault fault_too_late_def
          split: option.splits)+
qed

section \<open>What a deadline leaves alone\<close>

lemma cut_fields [cut_libs]:
  "encode (cut_env k E) = encode E" "json_to_vec (cut_env k E) = json_to_vec E"
  "decode_base_account (cut_env k E) = decode_base_account E"
  "decode_eth_account (cut_env k E) = decode_eth_account E"
  "decode_tm_client_state (cut_env k E) = decode_tm_client_state E"
  "decode_connection (cut_env k E) = decode_connection E"
  "decode_channel (cut_env k E) = decode_channel E"
  "sha256 (cut_env k E) = sha256 E" "hex_decode (cut_env k E) = hex_decode E"
  "hex_encode (cut_env k E) = hex_encode E" "hex_encode_upper (cut_env k E) = hex_encode_upper E"
  "k256_from_sec1 (cut_env k E) = k256_from_sec1 E"
  "debug_events (cut_env k E) = debug_events E" "debug_tags (cut_env k E) = debug_tags E"
  "rng_alphanumeric (cut_env k E) = rng_alphanumeric E" "node_format (cut_env k E) = node_format E"
  "http_client_new (cut_env k E) = http_client_new E"
  "decimal_to_string (cut_env k E) = decimal_to_string E" "decimal_parse (cut_env k E) = decimal_parse E"
  "duration_to_proto (cut_env k E) = duration_to_proto E"
  "trust_threshold_new (cut_env k E) = trust_threshold_new E"
  by (simp_all add: cut_env_def)

lemma cut_signer_fields [cut_libs]:
  "to_public_key (cut_signer k S) = to_public_key S"
  "to_account_address (cut_signer k S) = to_account_address S"
  by (simp_all add: cut_signer_def)

lemma cut_codecs [cut_libs]:
  "proto_encode (cut_env k E) m = proto_encode E m"
  "impl_to_any (cut_env k E) url m = impl_to_any E url m"
  "account_from_any (cut_env k E) a = account_from_any E a"
  "commitment_bytes (cut_env k E) p = commitment_bytes E p"
  "get_ibc_denom (cut_env k E) c d = get_ibc_denom E c d"
  by (simp_all add: proto_encode_def impl_to_any_def account_from_any_def commitment_bytes_def
      get_ibc_denom_def cut_fields)

lemma cut_keys [cut_libs]:
  "public_key_to_any (cut_env k E) key = public_key_to_any E key"
  "multisig_to_message (cut_env k E) n ks = multisig_to_message E n ks"
  "public_keys_to_any (cut_env k E) ks = public_keys_to_any E ks"
  by (induction key and n ks and ks rule: public_key_to_any_multisig_to_message_public_keys_to_any.induct)
    (simp_all add: cut_codecs)

lemma cut_attributes: "last_attribute (cut_env k E) events ty key a = last_attribute E events ty key a"
  by (induction events arbitrary: a) (simp_all add: get_attribute_def cut_fields)

lemma cut_reading [cut_libs]:
  "public_key_encode (cut_env k E) key = public_key_encode E key"
  "build_auth_info (cut_env k E) (cut_signer k S) c n = build_auth_info E S c n"
  "extract_attribute (cut_env k E) events ty name = extract_attribute E events ty name"
  "extract_packets (cut_env k E) r = extract_packets E r"
  "core_config (cut_env k E) G request = core_config E G request"
proof -
  show "public_key_encode (cut_env k E) key = public_key_encode E key"
    by (cases key) (simp_all add: cut_fields)
  show "build_auth_info (cut_env k E) (cut_signer k S) c n = build_auth_info E S c n"
    by (simp add: build_auth_info_def cut_fields cut_signer_fields cut_keys)
  show "extract_attribute (cut_env k E) events ty name = extract_attribute E events ty name"
    by (simp add: extract_attribute_def cut_attributes cut_fields)
  show "extract_packets (cut_env k E) r = extract_packets E r"
    by (simp add: extract_packets_def packet_of_event_def [abs_def] packet_of_attributes_def [abs_def] cut_fields)
  show "core_config (cut_env k E) G request = core_config E G request"
    by (simp only: core_config_def cut_fields)
qed

section \<open>The stores\<close>

lemma follows_stores [follows_intros]:
  "follows K (get_chain E ex cid) (get_chain (cut_env K E) ex cid)"
  "follows K (add_chain E ex cid node cfg) (add_chain (cut_env K E) ex cid node cfg)"
  "follows K (add_connection_details E ex cid details) (add_connection_details (cut_env K E) ex cid details)"
  "follows K (increment_sequence E ex cid) (increment_sequence (cut_env K E) ex cid)"
  "follows K (increment_packet_sequence E ex cid) (increment_packet_sequence (cut_env K E) ex cid)"
  "follows K (add_chain_key E ex cid key) (add_chain_key (cut_env K E) ex cid key)"
  "follows K (Ibc_Store.add E ex path data) (Ibc_Store.add (cut_env K E) ex path data)"
  "follows K (Ibc_Store.update E ex path data) (Ibc_Store.update (cut_env K E) ex path data)"
  "follows K (Ibc_Store.get E ex decode path) (Ibc_Store.get (cut_env K E) ex decode path)"
  "follows K (add_operation E ex rid a d n ty h) (add_operation (cut_env K E) ex rid a d n ty h)"
  "follows K (get_operations E ex a lim off) (get_operations (cut_env K E) ex a lim off)"
  unfolding get_chain_def add_chain_def add_connection_details_def increment_sequence_def
    increment_packet_sequence_def add_chain_key_def Ibc_Store.add_def Ibc_Store.update_def Ibc_Store.get_def
    add_operation_def get_operations_def Let_def cut_libs
  by (intro follows_intros)+

lemma follows_objects [follows_intros]:
  "follows K (add_tendermint_client_state E ex c cs) (add_tendermint_client_state (cut_env K E) ex c cs)"
  "follows K (get_tendermint_client_state E ex c) (get_tendermint_client_state (cut_env K E) ex c)"
  "follows K (add_tendermint_consensus_state E ex c h con) (add_tendermint_consensus_state (cut_env K E) ex c h con)"
  "follows K (add_connection E ex k conn) (add_connection (cut_env K E) ex k conn)"
  "follows K (get_connection E ex k) (get_connection (cut_env K E) ex k)"
  "follows K (update_connection E ex k conn) (update_connection (cut_env K E) ex k conn)"
  "follows K (add_channel E ex p n chan) (add_channel (cut_env K E) ex p n chan)"
  "follows K (get_channel E ex p n) (get_channel (cut_env K E) ex p n)"
  "follows K (update_channel E ex p n chan) (update_channel (cut_env K E) ex p n chan)"
  unfolding ibc_object_defs Let_def cut_libs
  by (intro follows_intros)+

section \<open>Signing and building\<close>

lemma follows_signing [follows_intros]:
  "follows K (get_account_details E S c) (get_account_details (cut_env K E) (cut_signer K S) c)"
  "follows K (build_signature E S body auth ct n rid)
    (build_signature (cut_env K E) (cut_signer K S) body auth ct n rid)"
  "follows K (sign E S rid sb) (sign (cut_env K E) (cut_signer K S) rid sb)"
  unfolding get_account_details_def build_signature_def sign_def Let_def cut_libs
  by (intro follows_intros)+

lemma follows_build [follows_intros]:
  "follows K (build E to_any S c ms memo rid) (build (cut_env K E) to_any (cut_signer K S) c ms memo rid)"
  unfolding build_def cut_libs by (intro follows_intros)

lemma follows_timestamped_sign [follows_intros]:
  "follows K (timestamped_sign E S c sb rid) (timestamped_sign (cut_env K E) (cut_signer K S) c sb rid)"
  unfolding timestamped_sign_def cut_libs by (intro follows_intros)

lemma follows_proofs [follows_intros]:
  "follows K (get_header_proof E S c key dv rid) (get_header_proof (cut_env K E) (cut_signer K S) c key dv rid)"
  "follows K (get_connection_proof E ex S c k rid) (get_connection_proof (cut_env K E) ex (cut_signer K S) c k rid)"
  "follows K (get_channel_proof E ex S c n rid) (get_channel_proof (cut_env K E) ex (cut_signer K S) c n rid)"
  "follows K (get_packet_commitment_proof E S c p rid)
    (get_packet_commitment_proof (cut_env K E) (cut_signer K S) c p rid)"
  "follows K (get_packet_acknowledgement_proof E S c ack ps rid)
    (get_packet_acknowledgement_proof (cut_env K E) (cut_signer K S) c ack ps rid)"
  unfolding get_header_proof_def get_connection_proof_def get_channel_proof_def
    get_packet_commitment_proof_def get_packet_acknowledgement_proof_def cut_libs
  by (intro follows_intros)+

lemma follows_queries [follows_intros]:
  "follows K (get_unbonding_period E c) (get_unbonding_period (cut_env K E) c)"
  "follows K (get_latest_header E lc) (get_latest_header (cut_env K E) lc)"
  "follows K (get_latest_height E c rpc) (get_latest_height (cut_env K E) c rpc)"
  "follows K (get_balance E S c d) (get_balance (cut_env K E) (cut_signer K S) c d)"
  unfolding get_unbonding_period_def get_latest_header_def get_latest_height_def get_balance_def Let_def cut_libs
  by (intro follows_intros)+

lemma follows_messages [follows_intros]:
  "follows K (msg_create_solo_machine_client E S c memo rid)
    (msg_create_solo_machine_client (cut_env K E) (cut_signer K S) c memo rid)"
  "follows K (msg_update_solo_machine_client E ex S c key memo rid)
    (msg_update_solo_machine_client (cut_env K E) ex (cut_signer K S) c key memo rid)"
  "follows K (msg_create_tendermint_client E c lc) (msg_create_tendermint_client (cut_env K E) c lc)"
  "follows K (msg_connection_open_init E S c smc tmc memo rid)
    (msg_connection_open_init (cut_env K E) (cut_signer K S) c smc tmc memo rid)"
  "follows K (msg_connection_open_ack E S c smk tmc tmk memo rid)
    (msg_connection_open_ack (cut_env K E) (cut_signer K S) c smk tmc tmk memo rid)"
  "follows K (msg_channel_open_init E S c smk memo rid)
    (msg_channel_open_init (cut_env K E) (cut_signer K S) c smk memo rid)"
  "follows K (msg_channel_open_ack E S c smn tmn memo rid)
    (msg_channel_open_ack (cut_env K E) (cut_signer K S) c smn tmn memo rid)"
  unfolding msg_create_solo_machine_client_def msg_update_solo_machine_client_def
    msg_create_tendermint_client_def msg_connection_open_init_def msg_connection_open_ack_def
    msg_channel_open_init_def msg_channel_open_ack_def Let_def cut_libs
  by (intro follows_intros)+

lemma follows_transfers [follows_intros]:
  "follows K (msg_token_send E S rpc c amount d receiver memo rid)
    (msg_token_send (cut_env K E) (cut_signer K S) rpc c amount d receiver memo rid)"
  "follows K (msg_token_receive E S c amount d receiver memo rid)
    (msg_token_receive (cut_env K E) (cut_signer K S) c amount d receiver memo rid)"
  "follows K (msg_token_receive_ack E ex S c p memo rid)
    (msg_token_receive_ack (cut_env K E) ex (cut_signer K S) c p memo rid)"
  unfolding msg_token_send_def msg_token_receive_def msg_token_receive_ack_def Let_def cut_libs
  by (intro follows_intros)+

section \<open>The services\<close>

lemma follows_clients [follows_intros]:
  "follows K (prepare_light_client E c rpc) (prepare_light_client (cut_env K E) c rpc)"
  "follows K (create_solo_machine_client E S rpc c memo rid)
    (create_solo_machine_client (cut_env K E) (cut_signer K S) rpc c memo rid)"
  "follows K (create_tendermint_client E lc c) (create_tendermint_client (cut_env K E) lc c)"
  unfolding prepare_light_client_def create_solo_machine_client_def create_tendermint_client_def Let_def cut_libs
  by (intro follows_intros)+

lemma follows_connection_steps [follows_intros]:
  "follows K (connection_open_init E S rpc c smc tmc memo rid)
    (connection_open_init (cut_env K E) (cut_signer K S) rpc c smc tmc memo rid)"
  "follows K (connection_open_try E ex tmc smc smk) (connection_open_try (cut_env K E) ex tmc smc smk)"
  "follows K (connection_open_ack E S rpc c smk tmc tmk memo rid)
    (connection_open_ack (cut_env K E) (cut_signer K S) rpc c smk tmc tmk memo rid)"
  "follows K (connection_open_confirm E tmk) (connection_open_confirm (cut_env K E) tmk)"
  unfolding connection_open_init_def connection_open_try_def connection_open_ack_def
    connection_open_confirm_def Let_def cut_libs
  by (intro follows_intros)+

lemma follows_channel_steps [follows_intros]:
  "follows K (channel_open_init E S rpc c smk memo rid)
    (channel_open_init (cut_env K E) (cut_signer K S) rpc c smk memo rid)"
  "follows K (channel_open_try E ex p smn tmk) (channel_open_try (cut_env K E) ex p smn tmk)"
  "follows K (channel_open_ack E S rpc c smn tmn memo rid)
    (channel_open_ack (cut_env K E) (cut_signer K S) rpc c smn tmn memo rid)"
  "follows K (channel_open_confirm E p tmn) (channel_open_confirm (cut_env K E) p tmn)"
  unfolding channel_open_init_def channel_open_try_def channel_open_ack_def channel_open_confirm_def
    Let_def cut_libs
  by (intro follows_intros)+

lemma follows_phases [follows_intros]:
  "follows K (rpc_client E c) (rpc_client (cut_env K E) c)"
  "follows K (known_chain E ex cid) (known_chain (cut_env K E) ex cid)"
  "follows K (create_new_client E S memo rid c rpc)
    (create_new_client (cut_env K E) (cut_signer K S) memo rid c rpc)"
  "follows K (create_connection E c S rpc smc tmc memo rid)
    (create_connection (cut_env K E) c (cut_signer K S) rpc smc tmc memo rid)"
  "follows K (open_channel E S memo rid c rpc smk tmk)
    (open_channel (cut_env K E) (cut_signer K S) memo rid c rpc smk tmk)"
  "follows K (connection_status E c) (connection_status (cut_env K E) c)"
  unfolding rpc_client_def known_chain_def create_new_client_def create_connection_def open_channel_def
    connection_status_def cut_libs
  by (intro follows_intros)+

lemma follows_process_packet [follows_intros]:
  "follows K (process_packet E S rpc smn tmn memo rid p c)
    (process_packet (cut_env K E) (cut_signer K S) rpc smn tmn memo rid p c)"
  unfolding process_packet_def Let_def cut_libs by (intro follows_intros)

lemma follows_process_packets [follows_intros]:
  "follows K (process_packets E S rpc c ps memo rid)
    (process_packets (cut_env K E) (cut_signer K S) rpc c ps memo rid)"
  unfolding process_packets_def cut_libs by (intro follows_intros)

lemma follows_services [follows_intros]:
  "follows K (connect E S cid rid memo force) (connect (cut_env K E) (cut_signer K S) cid rid memo force)"
  "follows K (mint E S cid rid amount d receiver memo)
    (mint (cut_env K E) (cut_signer K S) cid rid amount d receiver memo)"
  "follows K (burn E S cid rid amount d memo) (burn (cut_env K E) (cut_signer K S) cid rid amount d memo)"
  "follows K (update_signer E S cid rid key memo) (update_signer (cut_env K E) (cut_signer K S) cid rid key memo)"
  "follows K (history E S lim off) (history (cut_env K E) (cut_signer K S) lim off)"
  unfolding connect_def mint_def burn_def update_signer_def history_def Let_def cut_libs
  by (intro follows_intros)+

lemma follows_chain_services [follows_intros]:
  "follows K (chain_service_add E cfg key) (chain_service_add (cut_env K E) cfg key)"
  "follows K (chain_service_get E cid) (chain_service_get (cut_env K E) cid)"
  "follows K (chain_service_get_ibc_denom E cid d) (chain_service_get_ibc_denom (cut_env K E) cid d)"
  "follows K (chain_service_balance E S cid d) (chain_service_balance (cut_env K E) (cut_signer K S) cid d)"
  unfolding chain_service_add_def chain_service_get_def chain_service_get_ibc_denom_def
    chain_service_balance_def cut_libs
  by (intro follows_intros)+

section \<open>Calls\<close>

lemma follows_pure_step: "pure_step m \<Longrightarrow> follows K m m"
  by (rule followsI) (auto simp: pure_step_def, metis order_refl prod.collapse)

lemma follows_serve: "follows K (serve E G S c) (serve (cut_env K E) G (cut_signer K S) c)"
proof -
  note steps = follows_intros follows_pure_step pure_core_config pure_algo_argument
  show ?thesis
    by (cases c; simp only: serve.simps serve_add_chain_def serve_query_chain_def shown_config_def
        serve_ibc_denom_def serve_balance_def serve_connect_def serve_mint_def serve_burn_def
        serve_update_signer_def serve_history_def Let_def cut_libs; intro steps)
qed

text \<open>A call that is over by its deadline is served as if it had none.\<close>

lemma served_in_time:
  assumes "serve E G S c w = (r, w')" "\<forall>k. deadline = Some k \<longrightarrow> w_ticks w' \<le> w_ticks w + k"
  shows "serve_within deadline E G S c w = (r, w')"
  using assms followsD(2) [OF follows_serve]
  by (auto simp: serve_within_def split: option.splits)

end
