(* ===== verification/Front_Ends.thy ===== *)
theory Front_Ends
  imports Cli_Arguments Grpc_Properties Deadlines
begin

text \<open>The two front ends agree on what a request to add a chain means.\<close>

definition same_request :: "arg_libs \<Rightarrow> add_args \<Rightarrow> grpc_chain_config \<Rightarrow> bool" where
  "same_request A args req \<longleftrightarrow>
     aa_grpc_addr args = gc_grpc_addr req \<and> aa_rpc_addr args = gc_rpc_addr req \<and>
     aa_trust_level args = gc_trust_level req \<and> aa_diversifier args = gc_diversifier req \<and>
     aa_port_id args = gc_port_id req \<and> aa_trusted_hash args = gc_trusted_hash req \<and>
     (case gc_fee_config req of
        None \<Rightarrow> aa_fee_amount args = None \<and> aa_fee_denom args = None \<and> aa_gas_limit args = None
      | Some f \<Rightarrow> aa_fee_amount args = gf_fee_amount f \<and> aa_fee_denom args = gf_fee_denom f \<and>
          aa_gas_limit args = map_option show_u64 (gf_gas_limit f)) \<and>
     aa_trusting_period args = None \<and> gc_trusting_period req = None \<and>
     aa_max_clock_drift args = None \<and> gc_max_clock_drift req = None \<and>
     aa_rpc_timeout args = None \<and> gc_rpc_timeout req = None \<and>
     (\<exists>h text. gc_trusted_height req = Some h \<and> aa_trusted_height args = Some text \<and>
        block_height_parse A text = Inr (ucast h))"

definition duration_text_laws :: "arg_libs \<Rightarrow> bool" where
  "duration_text_laws A \<longleftrightarrow>
     parse_duration A ''14 days'' = Inr \<lparr>d_secs = 14 * 86400, d_subsec_nanos = 0\<rparr> \<and>
     parse_duration A ''3 sec'' = Inr \<lparr>d_secs = 3, d_subsec_nanos = 0\<rparr> \<and>
     parse_duration A ''60 sec'' = Inr \<lparr>d_secs = 60, d_subsec_nanos = 0\<rparr>"

lemma gas_limit_agrees:
  "parse_u64 (unwrap_or ''300000'' (map_option show_u64 g)) = Ok (unwrap_or DEFAULT_GAS_LIMIT g)"
proof (cases g)
  case None
  have "parse_u64 ''300000'' = Ok 300000"
    by code_simp
  with None show ?thesis
    by (simp add: DEFAULT_GAS_LIMIT_def)
qed simp

lemma core_config_parts:
  assumes "core_config E G (Some req) s = (Ok (Inr cfg), t)"
  defines "f \<equiv> unwrap_or \<lparr>gf_fee_amount = Some DEFAULT_FEE_AMOUNT, gf_fee_denom = Some DEFAULT_FEE_DENOM,
                gf_gas_limit = Some DEFAULT_GAS_LIMIT\<rparr> (gc_fee_config req)"
  shows "grpc_addr cfg = unwrap_or DEFAULT_GRPC_ADDR (gc_grpc_addr req)"
    "rpc_addr cfg = unwrap_or DEFAULT_RPC_ADDR (gc_rpc_addr req)"
    "decimal_parse E (unwrap_or DEFAULT_FEE_AMOUNT (gf_fee_amount f)) = Inr (fee_amount (config_fee cfg))"
    "identifier_from_str (unwrap_or DEFAULT_FEE_DENOM (gf_fee_denom f)) = Ok (fee_denom (config_fee cfg))"
    "fee_gas_limit (config_fee cfg) = unwrap_or DEFAULT_GAS_LIMIT (gf_gas_limit f)"
    "ratio_parse G (unwrap_or DEFAULT_TRUST_LEVEL (gc_trust_level req)) = Inr (trust_level cfg)"
    "duration_given G DEFAULT_TRUSTING_PERIOD (gc_trusting_period req) (trusting_period cfg)"
    "duration_given G DEFAULT_MAX_CLOCK_DRIFT (gc_max_clock_drift req) (max_clock_drift cfg)"
    "duration_given G DEFAULT_RPC_TIMEOUT (gc_rpc_timeout req) (rpc_timeout cfg)"
    "diversifier cfg = unwrap_or DEFAULT_DIVERSIFIER (gc_diversifier req)"
    "port_id_from_str (unwrap_or DEFAULT_PORT_ID (gc_port_id req)) = Ok (port_id cfg)"
    "\<exists>h. gc_trusted_height req = Some h \<and> trusted_height cfg = ucast h"
    "\<exists>u. gc_trusted_hash req = Some u \<and> hex_decode E u = Inr (trusted_hash cfg)"
  using assms(1) unfolding core_config_def Let_def f_def
  by (clarsimp simp: bindH_Ok_iff argument_Ok_iff required_Ok_iff duration_argument_Ok_iff
      split: if_splits)+

lemma add_fields_parts:
  assumes "add_fields_of E G A args = Ok a" "variable A = Map.empty"
  shows "af_grpc_addr a = unwrap_or ''http://0.0.0.0:9090'' (aa_grpc_addr args)"
    "af_rpc_addr a = unwrap_or ''http://0.0.0.0:26657'' (aa_rpc_addr args)"
    "decimal_parse E (unwrap_or ''1000'' (aa_fee_amount args)) = Inr (af_fee_amount a)"
    "identifier_from_str (unwrap_or ''stake'' (aa_fee_denom args)) = Ok (af_fee_denom a)"
    "parse_u64 (unwrap_or ''300000'' (aa_gas_limit args)) = Ok (af_gas_limit a)"
    "ratio_parse G (unwrap_or ''1/3'' (aa_trust_level args)) = Inr (af_trust_level a)"
    "parse_duration A (unwrap_or ''14 days'' (aa_trusting_period args)) = Inr (af_trusting_period a)"
    "parse_duration A (unwrap_or ''3 sec'' (aa_max_clock_drift args)) = Inr (af_max_clock_drift a)"
    "parse_duration A (unwrap_or ''60 sec'' (aa_rpc_timeout args)) = Inr (af_rpc_timeout a)"
    "af_diversifier a = unwrap_or ''solo-machine-diversifier'' (aa_diversifier args)"
    "port_id_from_str (unwrap_or ''transfer'' (aa_port_id args)) = Ok (af_port_id a)"
    "\<forall>t. aa_trusted_height args = Some t \<longrightarrow> block_height_parse A t = Inr (af_trusted_height a)"
    "\<forall>t. aa_trusted_hash args = Some t \<longrightarrow> hex_decode E t = Inr (af_trusted_hash a)"
  using assms(1) unfolding add_fields_of_def arg_text_default [OF assms(2)]
  by (auto simp: arg_text_given parse_trusted_hash_def)

text \<open>C26: Adding a chain means the same on the command line and over gRPC: for the same texts,
  without variables in the environment and with the durations left out, whenever both front ends
  accept the request they hand the same configuration to the service; their defaults agree.\<close>

theorem front_ends_agree:
  assumes "add_fields_of E G A args = Ok a" "core_config E G (Some req) s = (Ok (Inr cfg), t)"
    and "variable A = Map.empty" "same_request A args req" "duration_text_laws A"
  shows "config_of_fields a = cfg"
proof -
  note cli = add_fields_parts [OF assms(1,3)] and grpc = core_config_parts [OF assms(2)]
  note defaults = DEFAULT_GRPC_ADDR_def DEFAULT_RPC_ADDR_def DEFAULT_FEE_AMOUNT_def
    DEFAULT_FEE_DENOM_def DEFAULT_TRUST_LEVEL_def DEFAULT_DIVERSIFIER_def DEFAULT_PORT_ID_def
  have texts: "aa_grpc_addr args = gc_grpc_addr req" "aa_rpc_addr args = gc_rpc_addr req"
    "aa_trust_level args = gc_trust_level req" "aa_diversifier args = gc_diversifier req"
    "aa_port_id args = gc_port_id req" "aa_trusted_hash args = gc_trusted_hash req"
    using assms(4) by (simp_all add: same_request_def)
  have addresses: "af_grpc_addr a = grpc_addr cfg" "af_rpc_addr a = rpc_addr cfg"
    "af_diversifier a = diversifier cfg"
    using cli(1,2,10) grpc(1,2,10) by (simp_all add: texts defaults)
  have parsed: "af_trust_level a = trust_level cfg" "af_port_id a = port_id cfg"
    using cli(6,11) grpc(6,11) by (simp_all add: texts defaults)
  have fee: "af_fee_amount a = fee_amount (config_fee cfg) \<and> af_fee_denom a = fee_denom (config_fee cfg) \<and>
      af_gas_limit a = fee_gas_limit (config_fee cfg)"
  proof (cases "gc_fee_config req")
    case None
    with assms(4) cli(3,4,5) grpc(3,4,5) gas_limit_agrees [of None]
    show "af_fee_amount a = fee_amount (config_fee cfg) \<and> af_fee_denom a = fee_denom (config_fee cfg) \<and>
      af_gas_limit a = fee_gas_limit (config_fee cfg)"
      by (simp_all add: same_request_def defaults)
  next
    case (Some f)
    with assms(4) cli(3,4,5) grpc(3,4,5) gas_limit_agrees [of "gf_gas_limit f"]
    show "af_fee_amount a = fee_amount (config_fee cfg) \<and> af_fee_denom a = fee_denom (config_fee cfg) \<and>
      af_gas_limit a = fee_gas_limit (config_fee cfg)"
      by (simp_all add: same_request_def defaults)
  qed
  have durations: "af_trusting_period a = trusting_period cfg" "af_max_clock_drift a = max_clock_drift cfg"
    "af_rpc_timeout a = rpc_timeout cfg"
    using assms(4,5) cli(7,8,9) grpc(7,8,9)
    by (simp_all add: same_request_def duration_text_laws_def duration_given_def
        DEFAULT_TRUSTING_PERIOD_def DEFAULT_MAX_CLOCK_DRIFT_def DEFAULT_RPC_TIMEOUT_def)
  have trusted: "af_trusted_height a = trusted_height cfg" "af_trusted_hash a = trusted_hash cfg"
    using assms(4) cli(12,13) grpc(12,13) by (auto simp: same_request_def)
  show ?thesis
    by (cases cfg; cases "config_fee cfg")
      (use addresses parsed fee durations trusted in \<open>simp add: config_of_fields_def\<close>)
qed

definition ex_args :: add_args where
  "ex_args =
     \<lparr>aa_grpc_addr = None, aa_rpc_addr = Some ''http://rpc'', aa_fee_amount = None,
      aa_fee_denom = Some ''atom'', aa_gas_limit = Some ''12'', aa_trust_level = None,
      aa_trusting_period = None, aa_max_clock_drift = None, aa_rpc_timeout = None,
      aa_diversifier = None, aa_port_id = None, aa_trusted_height = Some ''10'',
      aa_trusted_hash = Some (ex_hex_encode (replicate 32 7))\<rparr>"

definition ex_arg_libs :: arg_libs where
  "ex_arg_libs =
     \<lparr>variable = Map.empty,
      parse_duration = (\<lambda>s. if s = ''14 days'' then Inr \<lparr>d_secs = 14 * 86400, d_subsec_nanos = 0\<rparr>
        else if s = ''3 sec'' then Inr \<lparr>d_secs = 3, d_subsec_nanos = 0\<rparr>
        else Inr \<lparr>d_secs = 60, d_subsec_nanos = 0\<rparr>),
      block_height_parse = (\<lambda>s. case parse_u64 s of Ok n \<Rightarrow> Inr n | _ \<Rightarrow> Inl ''no height'')\<rparr>"

definition ex_request :: grpc_chain_config where
  "ex_request =
     \<lparr>gc_grpc_addr = None, gc_rpc_addr = Some ''http://rpc'',
      gc_fee_config = Some \<lparr>gf_fee_amount = None, gf_fee_denom = Some ''atom'', gf_gas_limit = Some 12\<rparr>,
      gc_trust_level = None, gc_trusting_period = None, gc_max_clock_drift = None,
      gc_rpc_timeout = None, gc_diversifier = None, gc_port_id = None, gc_trusted_height = Some 10,
      gc_trusted_hash = Some (ex_hex_encode (replicate 32 7))\<rparr>"

lemma ex_accepted:
  "is_ok (add_fields_of ex_text_env ex_front ex_arg_libs ex_args)"
  "case fst (core_config ex_text_env ex_front (Some ex_request) ex_empty_world) of
     Ok (Inr cfg) \<Rightarrow> True | _ \<Rightarrow> False"
  by code_simp+

lemma ex_same_texts:
  "variable ex_arg_libs = Map.empty" "same_request ex_arg_libs ex_args ex_request"
  "duration_text_laws ex_arg_libs"
proof -
  have "block_height_parse ex_arg_libs ''10'' = Inr 10" "map_option show_u64 (Some 12) = Some ''12''"
    by code_simp+
  then show "same_request ex_arg_libs ex_args ex_request"
    by (simp add: same_request_def ex_args_def ex_request_def)
qed (simp_all add: ex_arg_libs_def duration_text_laws_def)

theorem front_ends_agree_witness:
  "\<exists>a t. add_fields_of ex_text_env ex_front ex_arg_libs ex_args = Ok a \<and>
     core_config ex_text_env ex_front (Some ex_request) ex_empty_world =
       (Ok (Inr (config_of_fields a)), t)"
proof -
  obtain a where cli: "add_fields_of ex_text_env ex_front ex_arg_libs ex_args = Ok a"
    using ex_accepted(1) by (auto simp: is_ok_iff)
  obtain cfg t where grpc: "core_config ex_text_env ex_front (Some ex_request) ex_empty_world =
      (Ok (Inr cfg), t)"
    using ex_accepted(2)
    by (cases "core_config ex_text_env ex_front (Some ex_request) ex_empty_world")
      (auto split: outcome.splits sum.splits)
  from front_ends_agree [OF cli grpc ex_same_texts] cli grpc show ?thesis
    by auto
qed

section \<open>Requests to the IBC service\<close>

text \<open>
  \<open>alike h m\<close>: the handler \<open>h\<close> and the command \<open>m\<close> have the same effect on the world, succeed
  together and panic together; the command shows nothing itself.
\<close>

fun agree :: "(status + 'a) outcome \<Rightarrow> 'b outcome \<Rightarrow> bool" where
  "agree (Ok (Inr _)) (Ok _) = True"
| "agree (Ok (Inl _)) (Err _) = True"
| "agree (Panic p) (Panic q) = (p = q)"
| "agree _ _ = False"

definition alike :: "'a handler \<Rightarrow> 'b cli \<Rightarrow> bool" where
  "alike h m \<longleftrightarrow> (\<forall>w s. \<exists>r. m (w, s) = (r, (snd (h w), s)) \<and> agree (fst (h w)) r)"

lemma argument_Err: "argument (Err e) = refuse (Invalid_Argument (error_to_string e))"
  by (simp add: argument_def map_err_def catchM_def lift_def refuse_def returnM_def bindM_def fun_eq_iff)

lemma argument_Panic: "argument (Panic p) = lift (Panic p)"
  by (simp add: argument_def map_err_def catchM_def lift_def bindM_def fun_eq_iff)

lemma alike_refused: "alike (refuse st) (lift (Err e))"
  by (simp add: alike_def refuse_def returnM_def lift_def)

lemma alike_panic: "alike (bindH (lift (Panic p)) f) (lift (Panic p))"
  by (simp add: alike_def bindH_def lift_def bindM_def)

lemma alike_argument:
  assumes "\<And>a. r = Ok a \<Longrightarrow> alike (f a) (g a)"
  shows "alike (bindH (argument r) f) (bindM (lift r) g)"
  using assms by (cases r) (simp_all add: argument_Err argument_Panic alike_refused alike_panic)

lemma alike_argument_context:
  assumes "\<And>a. r = Ok a \<Longrightarrow> alike (f a) (g a)"
  shows "alike (bindH (argument r) f) (bindM (lift (with_context c r)) g)"
  using assms by (cases r) (simp_all add: argument_Err argument_Panic alike_refused alike_panic)

lemma alike_service:
  "alike (internal n) (on_world n)"
  "alike (internal n) (bindM (on_world n) (\<lambda>_. returnM ()))"
  "alike (bindH (internal k) answer) (on_world k)"
  unfolding alike_def
  by (auto simp: internal_def map_err_def catchM_def bindH_def bindM_def on_world_def returnM_def
      refuse_def answer_def split_beta split: outcome.split prod.splits)

lemma alike_respond: "alike h m \<Longrightarrow> alike (respond f h) m"
  unfolding alike_def
proof (intro allI)
  fix w s
  assume "\<forall>w s. \<exists>r. m (w, s) = (r, (snd (h w), s)) \<and> agree (fst (h w)) r"
  then obtain r where "m (w, s) = (r, (snd (h w), s))" "agree (fst (h w)) r"
    by blast
  then show "\<exists>r. m (w, s) = (r, (snd (respond f h w), s)) \<and> agree (fst (respond f h w)) r"
    by (cases "(fst (h w), r)" rule: agree.cases)
      (auto simp: respond_def bindH_def bindM_def refuse_def answer_def returnM_def split_beta)
qed

lemma bindM_and_then: "bindM (lift (and_then r f)) g = bindM (lift r) (\<lambda>a. bindM (lift (f a)) g)"
  by (cases r) simp_all

text \<open>The call over gRPC that carries the same texts as the arguments of an IBC command.\<close>

fun rpc_of_args :: "ibc_args \<Rightarrow> rpc option" where
  "rpc_of_args (Args_Connect cid memo request_id force) =
     Some (Rpc_Connect \<lparr>cr_chain_id = cid, cr_request_id = request_id, cr_memo = memo, cr_force = force\<rparr>)"
| "rpc_of_args (Args_Mint cid amount d receiver memo request_id) =
     Some (Rpc_Mint \<lparr>mr_chain_id = cid, mr_request_id = request_id, mr_memo = memo,
       mr_amount = amount, mr_denom = d, mr_receiver_address = receiver\<rparr>)"
| "rpc_of_args (Args_Burn cid amount d memo request_id) =
     Some (Rpc_Burn \<lparr>br_chain_id = cid, br_request_id = request_id, br_memo = memo,
       br_amount = amount, br_denom = d\<rparr>)"
| "rpc_of_args (Args_Update_Signer cid (Some key) algo memo request_id) =
     Some (Rpc_Update_Signer \<lparr>ur_chain_id = cid, ur_request_id = request_id, ur_memo = memo,
       ur_new_public_key = key, ur_public_key_algo = algo\<rparr>)"
| "rpc_of_args _ = None"

lemma memo_text_default: "variable A = Map.empty \<Longrightarrow> memo_text A given = Ok (unwrap_or DEFAULT_MEMO given)"
  by (simp add: memo_text_def arg_text_default DEFAULT_MEMO_def)

lemma possible_algo:
  "and_then (possible_value PUBLIC_KEY_ALGO_VARIANTS s) public_key_algo_from_str = Ok algo \<longleftrightarrow>
     public_key_algo_from_str s = Ok algo"
  by (auto simp: possible_value_def PUBLIC_KEY_ALGO_VARIANTS_def public_key_algo_from_str_def)

lemma alike_mint:
  "variable A = Map.empty \<Longrightarrow>
   alike (serve_mint E G S \<lparr>mr_chain_id = cid, mr_request_id = rid, mr_memo = memo,
       mr_amount = amount, mr_denom = d, mr_receiver_address = receiver\<rparr>)
     (bindM (lift (ibc_command_of E G A (Args_Mint cid amount d receiver memo rid)))
       (ibc_execute E D T out S))"
  by (auto simp: serve_mint_def bindM_and_then memo_text_default intro!: alike_argument alike_service)

lemma alike_burn:
  "variable A = Map.empty \<Longrightarrow>
   alike (serve_burn E G S \<lparr>br_chain_id = cid, br_request_id = rid, br_memo = memo,
       br_amount = amount, br_denom = d\<rparr>)
     (bindM (lift (ibc_command_of E G A (Args_Burn cid amount d memo rid))) (ibc_execute E D T out S))"
  by (auto simp: serve_burn_def bindM_and_then memo_text_default intro!: alike_argument alike_service)

lemma alike_connect:
  "variable A = Map.empty \<Longrightarrow>
   alike (serve_connect E S \<lparr>cr_chain_id = cid, cr_request_id = rid, cr_memo = memo, cr_force = force\<rparr>)
     (bindM (lift (ibc_command_of E G A (Args_Connect cid memo rid force))) (ibc_execute E D T out S))"
  by (auto simp: serve_connect_def bindM_and_then memo_text_default intro!: alike_argument alike_service)

text \<open>The two front ends parse the key and its algorithm in different orders.\<close>

lemma alike_update_signer:
  assumes "variable A = Map.empty"
  shows "alike (serve_update_signer E S \<lparr>ur_chain_id = cid, ur_request_id = rid, ur_memo = memo,
       ur_new_public_key = key, ur_public_key_algo = algo\<rparr>)
     (bindM (lift (ibc_command_of E G A (Args_Update_Signer cid (Some key) algo memo rid)))
       (ibc_execute E D T out S))"
proof -
  let ?text = "unwrap_or ''secp256k1'' algo"
  have algo_text: "algo_argument algo = argument (public_key_algo_from_str ?text)"
    by (cases algo) (simp_all add: algo_argument_def public_key_algo_from_str_def)
  consider a where "public_key_algo_from_str ?text = Ok a"
    | e where "public_key_algo_from_str ?text = Err e"
    by (cases "public_key_algo_from_str ?text") (auto simp: public_key_algo_from_str_def bail_def split: if_splits)
  then show ?thesis
  proof cases
    case 1
    then have "?text \<in> set PUBLIC_KEY_ALGO_VARIANTS"
      by (auto simp: PUBLIC_KEY_ALGO_VARIANTS_def public_key_algo_from_str_def bail_def split: if_splits)
    with assms 1 show ?thesis
      by (auto simp: serve_update_signer_def bindM_and_then memo_text_default arg_text_given
          arg_text_default possible_value_def algo_text update_signer_command_def
          intro!: alike_argument alike_argument_context alike_service)
  next
    case 2
    then have bad: "?text \<notin> set PUBLIC_KEY_ALGO_VARIANTS"
      by (auto simp: PUBLIC_KEY_ALGO_VARIANTS_def public_key_algo_from_str_def split: if_splits)
    have "alike (bindH (argument (external x)) (\<lambda>bs. bindH (argument (external (k bs))) (\<lambda>key. refuse st)))
        (lift (Err e'))" for x :: "string + 'z" and k :: "'z \<Rightarrow> string + 'y" and st e'
      by (cases x; cases "k (projr x)") (auto simp: bail_def argument_Err alike_refused)
    with assms 2 bad show ?thesis
      by (auto simp: serve_update_signer_def bindM_and_then arg_text_given arg_text_default
          possible_value_def algo_text bail_def argument_Err intro!: alike_argument)
  qed
qed

lemma alike_commands:
  assumes "variable A = Map.empty" "rpc_of_args args = Some c"
  shows "alike (serve E G S c) (bindM (lift (ibc_command_of E G A args)) (ibc_execute E D T out S))"
  using assms
  by (cases args rule: rpc_of_args.cases)
    (auto simp del: ibc_command_of.simps intro!: alike_respond alike_mint alike_burn alike_connect
      alike_update_signer)

text \<open>C25: A request to connect, mint, burn or update the signer means the same on the command line
  and over gRPC, as long as it takes no longer than the server gives a call: for the same texts,
  without variables in the environment, the call then has the effect of the command on the world,
  whatever the peers do; it is answered exactly when the command succeeds, refused when it fails,
  and panics with it; and the command itself prints nothing. (The command has no deadline: one that
  takes longer goes on, while the call is dropped.)\<close>

theorem front_ends_run_alike:
  assumes "variable A = Map.empty" "rpc_of_args args = Some c"
    and "bindM (lift (ibc_command_of E G A args)) (ibc_execute E D T out S) (w, s) = (q, (w', s'))"
    and "\<forall>k. deadline = Some k \<longrightarrow> w_ticks w' \<le> w_ticks w + k"
  shows "s' = s \<and> (\<exists>r. serve_within deadline E G S c w = (r, w') \<and> agree r q)"
proof -
  note alike_commands [OF assms(1,2), of E G S D T out]
  with assms(3) have run: "s' = s" "serve E G S c w = (fst (serve E G S c w), w')" "agree (fst (serve E G S c w)) q"
    by (auto simp: alike_def) (metis prod.inject prod.collapse)+
  with served_in_time [OF run(2) assms(4)] show ?thesis
    by blast
qed

lemma ex_mint_in_time: "w_ticks ex_minted_world \<le> 60"
  by code_simp

theorem front_ends_run_alike_witness:
  "\<exists>response t. serve_within (Some 60) (ex_env 0) ex_front ex_signer (Rpc_Mint (ex_mint_request ''5''))
     (ex_world (Some ex_details)) = (Ok (Inr response), t)"
proof -
  fix D out s
  let ?args = "Args_Mint ''testnet-1'' ''5'' ''tok'' None None (Some ''r1'')"
    and ?w = "ex_world (Some ex_details)"
  have call: "rpc_of_args ?args = Some (Rpc_Mint (ex_mint_request ''5''))"
    by (simp add: ex_mint_request_def)
  obtain q where run: "bindM (lift (ibc_command_of (ex_env 0) ex_front ex_arg_libs ?args))
      (ibc_execute (ex_env 0) D works out ex_signer) (?w, s) = (q, (ex_minted_world, s))"
    and q: "agree (fst (serve (ex_env 0) ex_front ex_signer (Rpc_Mint (ex_mint_request ''5'')) ?w)) q"
    using alike_commands [OF ex_same_texts(1) call, of "ex_env 0" ex_front ex_signer D works out]
    unfolding alike_def ex_minted_world_def by blast
  from q have "q = Ok ()"
    unfolding ex_minted_and_shown(1) by (cases q) simp_all
  with front_ends_run_alike [OF ex_same_texts(1) call run, of "Some 60"] ex_mint_in_time
  obtain r where "serve_within (Some 60) (ex_env 0) ex_front ex_signer (Rpc_Mint (ex_mint_request ''5'')) ?w =
      (r, ex_minted_world)" "agree r (Ok ())"
    by auto
  then show ?thesis
    by (auto elim!: agree.elims)
qed

end
