(* ===== verification/Mnemonic_Signer.thy ===== *)
theory Mnemonic_Signer
  imports Event_Handlers World
begin

text \<open>
  The mnemonic signer, \<open>signers/mnemonic-signer/src/lib.rs\<close>: an implementation of the signer
  traits. Mnemonics, key derivation and ECDSA are library code (\<open>bip32\<close>, \<open>k256\<close>) and
  parameters; a mnemonic is its phrase.
\<close>

section \<open>Libraries\<close>

datatype signing_key = Signing_Key bytes

record mnemonic_libs =
  env_var :: "string \<Rightarrow> string + string"
  mnemonic_new :: "string \<Rightarrow> bool"
  to_seed :: "string \<Rightarrow> string \<Rightarrow> bytes"
  derivation_path :: "string \<Rightarrow> string + nat list"
  derive_from_path :: "bytes \<Rightarrow> nat list \<Rightarrow> string + signing_key"
  verifying_key :: "signing_key \<Rightarrow> k256_key"
  ecdsa_sign :: "signing_key \<Rightarrow> bytes \<Rightarrow> bytes"
  sign_recoverable :: "signing_key \<Rightarrow> bytes \<Rightarrow> string + bytes \<times> u8"

section \<open>Configuration\<close>

definition DEFAULT_HD_PATH :: string where
  "DEFAULT_HD_PATH = ''m/44'' @ [CHR 0x27] @ ''/118'' @ [CHR 0x27] @ ''/0'' @ [CHR 0x27] @ ''/0/0''"

definition DEFAULT_ACCOUNT_PREFIX :: string where "DEFAULT_ACCOUNT_PREFIX = ''cosmos''"
definition DEFAULT_ADDRESS_ALGO :: string where "DEFAULT_ADDRESS_ALGO = ''secp256k1''"

record mnemonic_signer =
  ms_mnemonic :: string
  ms_hd_path :: string
  ms_account_prefix :: string
  ms_algo :: address_algo

definition get_env :: "mnemonic_libs \<Rightarrow> string \<Rightarrow> string outcome" where
  "get_env M key =
     with_context (''`'' @ key @ ''` environment variable is required for mnemonic signer'')
       (external (env_var M key))"

text \<open>\<open>r.unwrap_or_else(|_| d)\<close>\<close>

fun ok_or_else :: "'a outcome \<Rightarrow> 'a \<Rightarrow> 'a outcome" where
  "ok_or_else (Ok a) d = Ok a"
| "ok_or_else (Err e) d = Ok d"
| "ok_or_else (Panic p) d = Panic p"

definition signer_from_env :: "mnemonic_libs \<Rightarrow> mnemonic_signer outcome" where
  "signer_from_env M =
     and_then (get_env M ''SOLO_MNEMONIC'') (\<lambda>phrase.
     and_then (ensure (mnemonic_new M phrase) ''invalid mnemonic'') (\<lambda>_.
     and_then (ok_or_else (get_env M ''SOLO_HD_PATH'') DEFAULT_HD_PATH) (\<lambda>hd_path.
     and_then (ok_or_else (get_env M ''SOLO_ACCOUNT_PREFIX'') DEFAULT_ACCOUNT_PREFIX) (\<lambda>prefix.
     and_then (ok_or_else (get_env M ''SOLO_ADDRESS_ALGO'') DEFAULT_ADDRESS_ALGO) (\<lambda>algo_text.
     and_then (address_algo_from_str algo_text) (\<lambda>algo.
     Ok \<lparr>ms_mnemonic = phrase, ms_hd_path = hd_path, ms_account_prefix = prefix,
         ms_algo = algo\<rparr>))))))"

section \<open>Signing\<close>

definition get_signing_key :: "mnemonic_libs \<Rightarrow> mnemonic_signer \<Rightarrow> signing_key outcome" where
  "get_signing_key M m =
     (let seed = to_seed M (ms_mnemonic m) '''' in
      and_then (with_context ''invalid HD path'' (external (derivation_path M (ms_hd_path m)))) (\<lambda>path.
      unwrap_res (external (derive_from_path M seed path))))"

definition mnemonic_public_key :: "mnemonic_libs \<Rightarrow> mnemonic_signer \<Rightarrow> public_key outcome" where
  "mnemonic_public_key M m =
     and_then (get_signing_key M m) (\<lambda>key.
     case ms_algo m of
       Addr_Secp256k1 \<Rightarrow> Ok (Secp256k1 (verifying_key M key))
     | Addr_Eth_Secp256k1 \<Rightarrow> Ok (Eth_Secp256k1 (verifying_key M key)))"

definition mnemonic_address :: "'x libs_scheme \<Rightarrow> mnemonic_libs \<Rightarrow> mnemonic_signer \<Rightarrow> string outcome" where
  "mnemonic_address L M m =
     and_then (mnemonic_public_key M m) (\<lambda>key. account_address L key (ms_account_prefix m))"

definition mnemonic_sign :: "mnemonic_libs \<Rightarrow> mnemonic_signer \<Rightarrow> sign_message \<Rightarrow> bytes outcome" where
  "mnemonic_sign M m message =
     and_then (get_signing_key M m) (\<lambda>key.
     case ms_algo m of
       Addr_Secp256k1 \<Rightarrow> Ok (ecdsa_sign M key (message_bytes message))
     | Addr_Eth_Secp256k1 \<Rightarrow>
         and_then (external (sign_recoverable M key (message_bytes message))) (\<lambda>(signature, recovery_id).
         Ok (signature @ [recovery_id])))"

text \<open>The signer the core uses, and the library as the program loads it.\<close>

definition as_signer :: "'x libs_scheme \<Rightarrow> mnemonic_libs \<Rightarrow> mnemonic_signer \<Rightarrow> signer" where
  "as_signer L M m =
     \<lparr>to_public_key = mnemonic_public_key M m, get_account_prefix = ms_account_prefix m,
      to_account_address = mnemonic_address L M m,
      sign_with = (\<lambda>_ _ message. mnemonic_sign M m message)\<rparr>"

definition mnemonic_plugin :: "'x libs_scheme \<Rightarrow> mnemonic_libs \<Rightarrow> signer plugin" where
  "mnemonic_plugin L M =
     (case signer_from_env M of
        Ok m \<Rightarrow> \<lparr>opens = Inr (), symbol = Inr (), registers = [as_signer L M m], registered = Inr ()\<rparr>
      | Err e \<Rightarrow> \<lparr>opens = Inr (), symbol = Inr (), registers = [], registered = Inl (error_to_string e)\<rparr>
      | Panic p \<Rightarrow> \<lparr>opens = Inr (), symbol = Inr (), registers = [], registered = Inl p\<rparr>)"

section \<open>What its signatures are\<close>

text \<open>
  The documented behaviour of \<open>k256\<close>: a signature has 64 bytes and no other length is parsed as
  one, and what a key signs its verifying key accepts.
\<close>

definition ecdsa_laws :: "'x libs_scheme \<Rightarrow> mnemonic_libs \<Rightarrow> bool" where
  "ecdsa_laws L M \<longleftrightarrow>
     (\<forall>key msg. \<exists>sig. k256_signature L (ecdsa_sign M key msg) = Inr sig \<and>
        k256_verify L (verifying_key M key) msg sig = Inr ()) \<and>
     (\<forall>bs sig. k256_signature L bs = Inr sig \<longrightarrow> length bs = 64) \<and>
     (\<forall>key msg bs v. sign_recoverable M key msg = Inr (bs, v) \<longrightarrow> length bs = 64)"

lemma mnemonic_sign_Ok:
  assumes "mnemonic_sign M m message = Ok sig" "mnemonic_public_key M m = Ok key"
  obtains k where "get_signing_key M m = Ok k"
    "case ms_algo m of
       Addr_Secp256k1 \<Rightarrow> key = Secp256k1 (verifying_key M k) \<and> sig = ecdsa_sign M k (message_bytes message)
     | Addr_Eth_Secp256k1 \<Rightarrow> key = Eth_Secp256k1 (verifying_key M k) \<and>
         (\<exists>bs v. sign_recoverable M k (message_bytes message) = Inr (bs, v) \<and> sig = bs @ [v])"
  using assms
  by (cases "ms_algo m") (auto simp: mnemonic_sign_def mnemonic_public_key_def split: prod.splits)

end
