(* ===== verification/Signer_Properties.thy ===== *)
theory Signer_Properties
  imports Mnemonic_Signer Example_World
begin

text \<open>The properties of the mnemonic signer's signatures.\<close>

text \<open>What the mnemonic signer signs, its own public key accepts: with the default algorithm,
  every signature it gives for a message is accepted by the verification of the program under
  the key it shows, for that message, whatever the message.\<close>

lemma mnemonic_signatures_accepted:
  assumes "mnemonic_sign M m message = Ok sig" "mnemonic_public_key M m = Ok key"
    and "ms_algo m = Addr_Secp256k1" "ecdsa_laws L M"
  shows "verify_signature L key (message_bytes message) (Single_Signature mode sig) = Ok ()"
proof (rule mnemonic_sign_Ok [OF assms(1,2)])
  fix k
  assume "case ms_algo m of
       Addr_Secp256k1 \<Rightarrow> key = Secp256k1 (verifying_key M k) \<and> sig = ecdsa_sign M k (message_bytes message)
     | Addr_Eth_Secp256k1 \<Rightarrow> key = Eth_Secp256k1 (verifying_key M k) \<and>
         (\<exists>bs v. sign_recoverable M k (message_bytes message) = Inr (bs, v) \<and> sig = bs @ [v])"
  then have key: "key = Secp256k1 (verifying_key M k)" "sig = ecdsa_sign M k (message_bytes message)"
    using assms(3) by simp_all
  obtain x where "k256_signature L sig = Inr x"
    "k256_verify L (verifying_key M k) (message_bytes message) x = Inr ()"
    using assms(4) key(2) unfolding ecdsa_laws_def by blast
  then show ?thesis
    by (simp add: key(1))
qed

text \<open>C28: With the algorithm \<open>eth-secp256k1\<close> the mnemonic signer appends the recovery id to its
  signatures, and the program's own verification, which parses exactly 64 bytes, refuses every
  one of them under the very key that made it.\<close>

theorem eth_mnemonic_signatures_refused:
  assumes "mnemonic_sign M m message = Ok sig" "mnemonic_public_key M m = Ok key"
    and "ms_algo m = Addr_Eth_Secp256k1" "ecdsa_laws L M"
  shows "\<exists>e. verify_signature L key (message_bytes message) (Single_Signature mode sig) = Err e"
proof (rule mnemonic_sign_Ok [OF assms(1,2)])
  fix k
  assume "case ms_algo m of
       Addr_Secp256k1 \<Rightarrow> key = Secp256k1 (verifying_key M k) \<and> sig = ecdsa_sign M k (message_bytes message)
     | Addr_Eth_Secp256k1 \<Rightarrow> key = Eth_Secp256k1 (verifying_key M k) \<and>
         (\<exists>bs v. sign_recoverable M k (message_bytes message) = Inr (bs, v) \<and> sig = bs @ [v])"
  then obtain bs v where key: "key = Eth_Secp256k1 (verifying_key M k)" and sig: "sig = bs @ [v]"
    and "sign_recoverable M k (message_bytes message) = Inr (bs, v)"
    using assms(3) by auto
  then have "length bs = 64"
    using assms(4) unfolding ecdsa_laws_def by blast
  then have "length sig = 65"
    by (simp add: sig)
  then have "k256_signature L sig \<noteq> Inr x" for x
    using assms(4) unfolding ecdsa_laws_def by fastforce
  then obtain e where "k256_signature L sig = Inl e"
    by (cases "k256_signature L sig") auto
  then show ?thesis
    by (simp add: key bail_def)
qed

section \<open>A mnemonic signer\<close>

definition ex_mnemonic_libs :: "string \<Rightarrow> mnemonic_libs" where
  "ex_mnemonic_libs algo =
     \<lparr>env_var = (\<lambda>k. if k = ''SOLO_MNEMONIC'' then Inr ''twelve words''
        else if k = ''SOLO_ADDRESS_ALGO'' \<and> algo \<noteq> [] then Inr algo else Inl ''not present''),
      mnemonic_new = (\<lambda>_. True), to_seed = (\<lambda>p _. as_bytes p), derivation_path = (\<lambda>_. Inr [44, 118]),
      derive_from_path = (\<lambda>seed _. Inr (Signing_Key seed)),
      verifying_key = (\<lambda>k. K256_Key (case k of Signing_Key b \<Rightarrow> b)),
      ecdsa_sign = (\<lambda>_ _. replicate 64 1),
      sign_recoverable = (\<lambda>_ _. Inr (replicate 64 1, 0))\<rparr>"

definition ex_ecdsa_env :: env where
  "ex_ecdsa_env = (ex_env 0)\<lparr>k256_signature := (\<lambda>bs. if length bs = 64 then Inr bs else Inl ''length''),
     k256_verify := (\<lambda>_ _ _. Inr ())\<rparr>"

definition ex_mnemonic :: "address_algo \<Rightarrow> mnemonic_signer" where
  "ex_mnemonic algo = \<lparr>ms_mnemonic = ''twelve words'', ms_hd_path = DEFAULT_HD_PATH,
     ms_account_prefix = ''cosmos'', ms_algo = algo\<rparr>"

lemma ex_ecdsa_laws: "ecdsa_laws ex_ecdsa_env (ex_mnemonic_libs algo)"
  by (auto simp: ecdsa_laws_def ex_ecdsa_env_def ex_mnemonic_libs_def split: if_splits)

lemma ex_mnemonic_from_env:
  "signer_from_env (ex_mnemonic_libs '''') = Ok (ex_mnemonic Addr_Secp256k1)"
  "signer_from_env (ex_mnemonic_libs ''eth-secp256k1'') = Ok (ex_mnemonic Addr_Eth_Secp256k1)"
  by code_simp+

lemma ex_mnemonic_signs:
  "mnemonic_sign (ex_mnemonic_libs algo) (ex_mnemonic Addr_Secp256k1) (SignBytes [7]) = Ok (replicate 64 1)"
  "mnemonic_sign (ex_mnemonic_libs algo) (ex_mnemonic Addr_Eth_Secp256k1) (SignBytes [7]) =
     Ok (replicate 64 1 @ [0])"
  "\<exists>key. mnemonic_public_key (ex_mnemonic_libs algo) (ex_mnemonic a) = Ok key"
  by (cases a; simp add: mnemonic_sign_def mnemonic_public_key_def get_signing_key_def
      ex_mnemonic_libs_def ex_mnemonic_def)+

theorem eth_mnemonic_signatures_refused_witness:
  "\<exists>key e. mnemonic_public_key (ex_mnemonic_libs ''eth-secp256k1'') (ex_mnemonic Addr_Eth_Secp256k1) = Ok key \<and>
     verify_signature ex_ecdsa_env key [7] (Single_Signature 0 (replicate 64 1 @ [0])) = Err e"
proof -
  obtain key where key: "mnemonic_public_key (ex_mnemonic_libs ''eth-secp256k1'')
      (ex_mnemonic Addr_Eth_Secp256k1) = Ok key"
    using ex_mnemonic_signs(3) by blast
  have "ms_algo (ex_mnemonic Addr_Eth_Secp256k1) = Addr_Eth_Secp256k1"
    by (simp add: ex_mnemonic_def)
  from eth_mnemonic_signatures_refused [OF ex_mnemonic_signs(2) key this ex_ecdsa_laws] key show ?thesis
    by auto
qed

end
