(* ===== verification/Liveness.thy ===== *)
theory Liveness
  imports Example_World
begin

text \<open>
  Progress: with peers that cooperate, requests succeed. The other theories say what a run that
  succeeded has done; here a run is shown to succeed.
\<close>

section \<open>Computations that return\<close>

text \<open>\<open>returns m Q s\<close>: from \<open>s\<close>, \<open>m\<close> returns a value and a world with \<open>Q\<close>.\<close>

definition returns :: "('s, 'a) io \<Rightarrow> ('a \<Rightarrow> 's \<Rightarrow> bool) \<Rightarrow> 's \<Rightarrow> bool" where
  "returns m Q s \<longleftrightarrow> (\<exists>a t. m s = (Ok a, t) \<and> Q a t)"

lemma returns_bindM: "returns (bindM m f) Q s \<longleftrightarrow> returns m (\<lambda>a. returns (f a) Q) s"
  by (auto simp: returns_def bindM_Ok_iff)

lemma returns_steps:
  "returns (returnM a) Q s \<longleftrightarrow> Q a s"
  "returns (lift r) Q s \<longleftrightarrow> (\<exists>a. r = Ok a \<and> Q a s)"
  "returns (contextM c m) Q s \<longleftrightarrow> returns m Q s"
  by (auto simp: returns_def run_Ok_iffs)

text \<open>What is known of a run that succeeds may be used once it is known to succeed.\<close>

lemma returns_Ok:
  "returns m (\<lambda>_ _. True) s \<Longrightarrow> (\<And>a t. m s = (Ok a, t) \<Longrightarrow> Q a t) \<Longrightarrow> returns m Q s"
  by (auto simp: returns_def)

lemma returns_mono: "returns m P s \<Longrightarrow> (\<And>a t. P a t \<Longrightarrow> Q a t) \<Longrightarrow> returns m Q s"
  by (auto simp: returns_def)

lemma returns_scoped: "returns m (\<lambda>a t. Q a (t\<lparr>w_tx := None\<rparr>)) s \<Longrightarrow> returns (scoped m) Q s"
  by (auto simp: returns_def scoped_Ok_iff)

text \<open>\<open>yields m P\<close>: from every world, \<open>m\<close> returns a value with \<open>P\<close>.\<close>

named_theorems yields_intros

definition yields :: "('s, 'a) io \<Rightarrow> ('a \<Rightarrow> bool) \<Rightarrow> bool" where
  "yields m P \<longleftrightarrow> (\<forall>s. returns m (\<lambda>a t. P a) s)"

lemma yields_bindM:
  assumes "yields m P" "\<And>a. P a \<Longrightarrow> yields (f a) Q"
  shows "yields (bindM m f) Q"
  using assms unfolding yields_def returns_bindM by (blast intro: returns_mono)

lemma yields_weaken: "yields m P \<Longrightarrow> (\<And>a. P a \<Longrightarrow> Q a) \<Longrightarrow> yields m Q"
  unfolding yields_def returns_def by blast

lemma yields_bind_any: "yields m (\<lambda>_. True) \<Longrightarrow> (\<And>a. yields (f a) Q) \<Longrightarrow> yields (bindM m f) Q"
  by (rule yields_bindM)

lemma yields_returnM [yields_intros]: "P a \<Longrightarrow> yields (returnM a) P"
  by (simp add: yields_def returns_steps)

lemma yields_lift: "r = Ok a \<Longrightarrow> P a \<Longrightarrow> yields (lift r) P"
  by (simp add: yields_def returns_steps)

lemma yields_lift_ok [yields_intros]: "is_ok r \<Longrightarrow> yields (lift r) (\<lambda>_. True)"
  by (auto simp: yields_def returns_steps is_ok_iff)

lemma yields_contextM [yields_intros]: "yields m P \<Longrightarrow> yields (contextM c m) P"
  by (simp add: yields_def returns_steps)

lemma yields_case_prod:
  "(\<And>x y. yields (f x y) P) \<Longrightarrow> yields (case p of (x, y) \<Rightarrow> f x y) P"
  by (cases p) simp

lemma yields_call: "(\<And>n. \<exists>a. f n = Inr a \<and> P a) \<Longrightarrow> yields (call f) P"
  unfolding yields_def returns_def call_Ok_iff by blast

text \<open>A computation that yields a value and leaves the tables alone, inside a larger run.\<close>

lemma returns_yields:
  assumes "yields m P" "keeps unchanged m" "\<And>a t. P a \<Longrightarrow> unchanged s t \<Longrightarrow> Q a t"
  shows "returns m Q s"
  using assms keepsD [OF assms(2)] unfolding yields_def returns_def by blast

section \<open>Peers that cooperate\<close>

text \<open>
  No fault and no refusal: the database and the clients answer, the node is not catching up and
  its height is not at the end of the 64-bit numbers, the account of the signer exists, prost and
  serde encode what they are given (encoding into a vector never fails), the signer signs, and
  events are received.
\<close>

definition nodes_answer :: "env \<Rightarrow> bool" where
  "nodes_answer E \<longleftrightarrow>
     (\<forall>n. db_fault E n = None) \<and>
     (\<forall>n a. \<exists>st. rpc_status E n a = Inr st \<and> \<not> catching_up st \<and>
        is_ok (chain_id_from_str (network st)) \<and> unat (latest_block_height st) < 2 ^ 63) \<and>
     (\<forall>n a. grpc_connect E n a = Inr ()) \<and>
     (\<forall>n a address. \<exists>found account base. query_account E n a address = Inr (Some found) \<and>
        account_from_any E found = Ok account \<and> get_base_account account = Some base) \<and>
     (\<forall>n. notifier_send E n = None)"

definition peers_answer :: "env \<Rightarrow> bool" where
  "peers_answer E \<longleftrightarrow> nodes_answer E \<and> (\<forall>a. http_client_new E a = Inr ())"

definition libraries_encode :: "env \<Rightarrow> bool" where
  "libraries_encode E \<longleftrightarrow> (\<forall>m. \<exists>bs. encode E m = Inr bs) \<and> (\<forall>j. \<exists>bs. json_to_vec E j = Inr bs)"

definition signer_signs :: "env \<Rightarrow> signer \<Rightarrow> bool" where
  "signer_signs E S \<longleftrightarrow>
     (\<exists>key any_key. to_public_key S = Ok key \<and> public_key_to_any E key = Ok any_key) \<and>
     is_ok (to_account_address S) \<and> (\<forall>n rid msg. is_ok (sign_with S n rid msg))"

definition cooperative :: "env \<Rightarrow> signer \<Rightarrow> bool" where
  "cooperative E S \<longleftrightarrow> peers_answer E \<and> libraries_encode E \<and> signer_signs E S"

text \<open>The same, without saying which addresses an HTTP client takes.\<close>

definition willing :: "env \<Rightarrow> signer \<Rightarrow> bool" where
  "willing E S \<longleftrightarrow> nodes_answer E \<and> libraries_encode E \<and> signer_signs E S"

lemma cooperative_willing: "cooperative E S \<Longrightarrow> willing E S"
  by (simp add: cooperative_def willing_def peers_answer_def)

text \<open>
  The chain accepts a transaction that carries a message of the type \<open>url\<close>, and its answer has
  \<open>P\<close>; it accepts a packet and reports the transfer in it as a success.
\<close>

definition sends :: "env \<Rightarrow> string \<Rightarrow> tx_raw \<Rightarrow> bool" where
  "sends E url tx \<longleftrightarrow> (\<exists>m memo. delivers E tx url m memo)"

lemma sendsI: "delivers E tx url m memo \<Longrightarrow> sends E url tx"
  by (auto simp: sends_def)

definition chain_accepts :: "env \<Rightarrow> string \<Rightarrow> (tx_response \<Rightarrow> bool) \<Rightarrow> bool" where
  "chain_accepts E url P \<longleftrightarrow>
     (\<forall>tx bs n addr. sends E url tx \<and> encode E (P_Tx_Raw tx) = Inr bs \<longrightarrow>
        (\<exists>r. broadcast E n addr bs = Inr r \<and> check_code r = 0 \<and> deliver_code r = 0 \<and> P r))"

definition chain_mints :: "env \<Rightarrow> bool" where
  "chain_mints E \<longleftrightarrow>
     chain_accepts E MSG_RECV_PACKET_URL (\<lambda>r.
       extract_attribute E (tx_events r) ''fungible_token_packet'' ''success'' = Ok ''true'')"

lemma encode_ok [yields_intros]: "libraries_encode E \<Longrightarrow> is_ok (proto_encode E m)"
  by (auto simp: libraries_encode_def proto_encode_def is_ok_iff)

lemma yields_signer_sign:
  "signer_signs E S \<Longrightarrow> yields (signer_sign S rid msg) (\<lambda>_. True)"
  unfolding yields_def returns_def signer_sign_Ok_iff signer_signs_def is_ok_iff by blast

section \<open>Signing and assembling\<close>

lemma yields_sign [yields_intros]:
  assumes "libraries_encode E" "signer_signs E S"
  shows "yields (sign E S rid sb) (\<lambda>_. True)"
  unfolding sign_def by (intro yields_bind_any yields_signer_sign [OF assms(2)] yields_intros assms)

lemma yields_timestamped_sign [yields_intros]:
  assumes "libraries_encode E" "signer_signs E S" "is_ok (to_u64_timestamp (consensus_timestamp c))"
  shows "yields (timestamped_sign E S c sb rid) (\<lambda>_. True)"
  unfolding timestamped_sign_def by (intro yields_bind_any yields_intros assms)

lemma packet_sign_bytes_ok:
  assumes "is_ok (to_u64_timestamp (consensus_timestamp c))"
  shows "\<exists>path. apply_prefix (packet_commitment_path pt ch n) ''ibc'' = Ok path \<and>
    is_ok (make_sign_bytes c path data)"
proof -
  from assms obtain ts where "to_u64_timestamp (consensus_timestamp c) = Ok ts"
    by (auto simp: is_ok_iff)
  moreover obtain path key where "apply_prefix (packet_commitment_path pt ch n) ''ibc'' = Ok path"
    "get_key path 1 = Some key"
    using prefixed_object_key [of "Packet_Commitment pt ch n" "''''"] by auto
  ultimately show ?thesis
    by (simp add: make_sign_bytes_def)
qed

lemma yields_commitment_proof:
  assumes "libraries_encode E" "signer_signs E S" "is_ok (to_u64_timestamp (consensus_timestamp c))"
    and "connection_details c = Some details" "tendermint_channel_id details = Some channel"
    and "pk_timeout_height p = Some h"
  shows "yields (get_packet_commitment_proof E S c p rid) (\<lambda>_. True)"
proof -
  obtain path where path: "apply_prefix (packet_commitment_path (port_id (config c)) channel
      (ucast (packet_sequence c))) ''ibc'' = Ok path"
    using packet_sign_bytes_ok [OF assms(3)] by blast
  have sb: "is_ok (make_sign_bytes c path data)" for data
    using packet_sign_bytes_ok [OF assms(3), of "port_id (config c)" channel "ucast (packet_sequence c)" data]
    by (simp add: path)
  show ?thesis
    unfolding get_packet_commitment_proof_def
    using assms(4-6) path
    by (auto simp: commitment_bytes_def
        intro!: yields_bind_any [of "lift (make_sign_bytes c path data)" for data] yields_lift_ok sb
        yields_timestamped_sign assms(1-3))
qed

lemma yields_account_details [yields_intros]:
  assumes "nodes_answer E" "signer_signs E S"
  shows "yields (get_account_details E S c) (\<lambda>_. True)"
proof -
  obtain address where "to_account_address S = Ok address"
    using assms(2) by (auto simp: signer_signs_def is_ok_iff)
  moreover have "yields (call (\<lambda>n. query_account E n a address))
      (\<lambda>found. \<exists>any account base. found = Some any \<and> account_from_any E any = Ok account \<and>
         get_base_account account = Some base)" for a
    using assms(1) by (intro yields_call) (simp add: nodes_answer_def, metis)
  moreover have "yields (call (\<lambda>n. grpc_connect E n a)) (\<lambda>_. True)" for a
    using assms(1) by (intro yields_call) (simp add: nodes_answer_def)
  ultimately show ?thesis
    unfolding get_account_details_def Let_def
    by (intro yields_bind_any [of "contextM e m" for e m] yields_contextM)
      (auto intro!: yields_bindM [of "call f" for f] yields_returnM)
qed

lemma yields_build [yields_intros]:
  assumes "libraries_encode E" "nodes_answer E" "signer_signs E S" "\<And>m. m \<in> set ms \<Longrightarrow> is_ok (to_any m)"
  shows "yields (build E to_any S c ms memo rid) (\<lambda>_. True)"
proof -
  have "is_ok (collect to_any ms)"
    using assms(4) by (induction ms) (auto simp: is_ok_iff)
  then have body: "is_ok (with_context e (build_tx_body to_any ms memo))" for e
    by (auto simp: build_tx_body_def is_ok_iff)
  have auth: "is_ok (with_context e (build_auth_info E S c n))" for e n
    using assms(3) by (auto simp: build_auth_info_def signer_signs_def is_ok_iff)
  show ?thesis
    unfolding build_def build_signature_def
    by (intro yields_bind_any yields_case_prod yields_signer_sign [OF assms(3)] yields_intros
        assms(1-3) body auth TrueI)
qed

lemma height_below_offset:
  assumes "unat (h :: u64) < 2 ^ 63"
  shows "height_checked_add (Height n h) DEFAULT_TIMEOUT_HEIGHT_OFFSET \<noteq> None"
  using assms by (simp add: height_checked_add_def u64_checked_add_def DEFAULT_TIMEOUT_HEIGHT_OFFSET_def)

lemma yields_latest_height:
  assumes "nodes_answer E"
  shows "yields (get_latest_height E c rpc)
    (\<lambda>h. height_checked_add h DEFAULT_TIMEOUT_HEIGHT_OFFSET \<noteq> None)"
proof -
  have "yields (call (\<lambda>n. rpc_status E n rpc)) (\<lambda>st. \<not> catching_up st \<and>
      is_ok (chain_id_from_str (network st)) \<and> unat (latest_block_height st) < 2 ^ 63)"
    using assms by (intro yields_call) (simp add: nodes_answer_def)
  then show ?thesis
    unfolding get_latest_height_def
    by (rule yields_bindM) (auto simp: is_ok_iff height_below_offset [simplified] intro!: yields_returnM)
qed

section \<open>A chain that can be minted on\<close>

text \<open>
  The chain's row decodes, the connection has both channels, and \<open>n\<close> more numbers of both
  sequences are left.
\<close>

definition ready_row :: "node_id_format \<Rightarrow> chain_id \<Rightarrow> nat \<Rightarrow> raw_chain \<Rightarrow> bool" where
  "ready_row F cid n raw \<longleftrightarrow>
     raw_id raw = chain_str cid \<and> is_ok (chain_of_raw F raw) \<and>
     is_ok (to_u64_timestamp (raw_consensus_timestamp raw)) \<and>
     raw_sequence raw + int n < 2 ^ 32 \<and> raw_packet_sequence raw + int n < 2 ^ 32 \<and>
     (case raw_connection_details raw of
        None \<Rightarrow> False
      | Some details \<Rightarrow> solo_machine_channel_id details \<noteq> None \<and> tendermint_channel_id details \<noteq> None)"

definition ready :: "node_id_format \<Rightarrow> chain_id \<Rightarrow> nat \<Rightarrow> database \<Rightarrow> bool" where
  "ready F cid n d \<longleftrightarrow>
     (case chains d (chain_str cid) of None \<Rightarrow> False | Some raw \<Rightarrow> ready_row F cid n raw)"

lemma ready_row_parts:
  assumes "ready_row F cid (Suc n) raw"
  shows "is_ok (chain_of_raw F (raw\<lparr>raw_sequence := raw_sequence raw + 1, raw_updated_at := t\<rparr>))"
    "is_ok (chain_of_raw F (mint_advance raw t))" "ready_row F cid n (mint_advance raw t)"
  using assms by (auto simp: ready_row_def chain_of_raw_ok_iff mint_advance_def)

text \<open>A statement on a row that is there returns it.\<close>

context keyed_table
begin

lemma returns_update_returning:
  assumes "db_fault E (w_ticks s) = None" "get_tab (view ex s) k = Some v"
    and "Q (f (now E (w_ticks s)) v)
      (write_back ex (set_tab ((get_tab (view ex s))(k \<mapsto> f (now E (w_ticks s)) v)) (view ex s))
        (s\<lparr>w_ticks := w_ticks s + 1\<rparr>))"
  shows "returns (run_sql E ex (\<lambda>now. update_returning get_tab set_tab k (f now))) Q s"
  using assms by (simp add: returns_def run_sql_def update_returning_def Let_def)

end

lemma returns_increment_sequence:
  assumes "\<forall>n. db_fault E n = None" "chains (view ex s) (chain_str cid) = Some raw"
    and "\<And>ts. is_ok (chain_of_raw (node_format E)
      (raw\<lparr>raw_sequence := raw_sequence raw + 1, raw_updated_at := ts\<rparr>))"
    and "\<And>c ts t. chain_of_raw (node_format E)
        (raw\<lparr>raw_sequence := raw_sequence raw + 1, raw_updated_at := ts\<rparr>) = Ok c \<Longrightarrow>
      chains (view ex t) (chain_str cid) =
        Some (raw\<lparr>raw_sequence := raw_sequence raw + 1, raw_updated_at := ts\<rparr>) \<Longrightarrow> Q c t"
  shows "returns (increment_sequence E ex cid) Q s"
proof -
  let ?raw = "raw\<lparr>raw_sequence := raw_sequence raw + 1, raw_updated_at := now E (w_ticks s)\<rparr>"
  obtain c where "chain_of_raw (node_format E) ?raw = Ok c"
    using assms(3) by (auto simp: is_ok_iff)
  moreover from this have "Q c (write_back ex
      ((view ex s)\<lparr>chains := (chains (view ex s))(chain_str cid \<mapsto> ?raw)\<rparr>) (s\<lparr>w_ticks := w_ticks s + 1\<rparr>))"
    by (rule assms(4)) simp
  ultimately show ?thesis
    unfolding increment_sequence_def returns_bindM returns_steps
    by (intro chains_table.returns_update_returning) (use assms(1,2) in auto)
qed

lemma returns_increment_packet_sequence:
  assumes "\<forall>n. db_fault E n = None" "chains (view ex s) (chain_str cid) = Some raw"
    and "\<And>ts. is_ok (chain_of_raw (node_format E)
      (raw\<lparr>raw_packet_sequence := raw_packet_sequence raw + 1, raw_updated_at := ts\<rparr>))"
    and "\<And>c t. Q c t"
  shows "returns (increment_packet_sequence E ex cid) Q s"
  unfolding increment_packet_sequence_def returns_bindM returns_steps
  by (rule chains_table.returns_update_returning) (use assms in \<open>auto simp: is_ok_iff\<close>)

lemma returns_known_chain:
  assumes "db_fault E (w_ticks s) = None" "chains (view ex s) (chain_str cid) = Some raw"
    and "chain_of_raw (node_format E) raw = Ok c" "Q c (s\<lparr>w_ticks := w_ticks s + 1\<rparr>)"
  shows "returns (known_chain E ex cid) Q s"
  using assms by (simp add: returns_def known_chain_def get_chain_def run_Ok_iffs query_sql_Ok_iff)

section \<open>Minting succeeds\<close>

text \<open>
  The chain was read from the row \<open>raw0\<close>, which may be older than the row \<open>raw\<close> that is there now.
\<close>

lemma returns_token_send:
  assumes coop: "willing E S"
    and row: "chains (view Tx s) (chain_str cid) = Some raw" "ready_row (node_format E) cid (Suc n) raw"
    and c: "chain_of_raw (node_format E) raw0 = Ok c" "ready_row (node_format E) cid m raw0"
    and Q: "\<And>a t. Q a t"
  shows "returns (msg_token_send E S rpc c amount d receiver memo rid) Q s"
proof -
  note parts = coop [unfolded willing_def]
  have no_fault: "\<forall>n. db_fault E n = None"
    using parts by (simp add: nodes_answer_def)
  obtain details smn tmn where details: "connection_details c = Some details"
    "solo_machine_channel_id details = Some smn" "tendermint_channel_id details = Some tmn"
    using c by (auto simp: ready_row_def chain_of_raw_Ok_iff split: option.splits)
  have time: "is_ok (to_u64_timestamp (consensus_timestamp c))"
    using c by (simp add: ready_row_def chain_of_raw_Ok_iff)
  obtain sender where sender: "to_account_address S = Ok sender"
    using parts by (auto simp: signer_signs_def is_ok_iff)
  have json: "\<exists>bs. json_to_vec E j = Inr bs" for j
    using parts by (simp add: libraries_encode_def)
  have id: "chain_str (c_id c) = chain_str cid"
    using chain_of_raw_id [OF c(1)] c(2) by (simp add: ready_row_def)
  have steps: "\<And>ts. is_ok (chain_of_raw (node_format E)
      (raw\<lparr>raw_sequence := raw_sequence raw + 1, raw_updated_at := ts\<rparr>))"
    "\<And>ts ts'. is_ok (chain_of_raw (node_format E)
      (raw\<lparr>raw_sequence := raw_sequence raw + 1, raw_updated_at := ts,
         raw_packet_sequence := raw_packet_sequence raw + 1, raw_updated_at := ts'\<rparr>))"
    using row(2) by (auto simp: ready_row_def chain_of_raw_ok_iff)
  have message: "is_ok (impl_to_any E MSG_RECV_PACKET_URL m)" for m
    using encode_ok [of E m] parts by (auto simp: impl_to_any_def is_ok_iff)
  have built: "returns (build E (\<lambda>m. impl_to_any E MSG_RECV_PACKET_URL (P_Recv_Packet m)) S c' ms memo rid)
      (\<lambda>tx t. Q (tx, c') t) t" for c' ms t
    by (rule returns_yields [OF yields_build]) (use parts message Q keeps_build in auto)
  have advanced: "returns (increment_sequence E Tx (c_id c)) (\<lambda>c' t.
      returns (increment_packet_sequence E Tx (c_id c')) (\<lambda>c'' t.
        returns (build E (\<lambda>m. impl_to_any E MSG_RECV_PACKET_URL (P_Recv_Packet m)) S c'' ms memo rid)
          (\<lambda>tx t. Q (tx, c'') t) t) t) t" if same: "unchanged s t" for ms t
  proof (rule returns_increment_sequence [OF no_fault])
    show "chains (view Tx t) (chain_str (c_id c)) = Some raw"
      using row(1) unchanged_view [OF same] by (simp add: id)
    fix c' ts u
    assume c': "chain_of_raw (node_format E)
        (raw\<lparr>raw_sequence := raw_sequence raw + 1, raw_updated_at := ts\<rparr>) = Ok c'"
      and u: "chains (view Tx u) (chain_str (c_id c)) =
        Some (raw\<lparr>raw_sequence := raw_sequence raw + 1, raw_updated_at := ts\<rparr>)"
    have "chain_str (c_id c') = chain_str (c_id c)"
      using chain_of_raw_id [OF c'] row(2) by (simp add: id ready_row_def)
    with u show "returns (increment_packet_sequence E Tx (c_id c')) (\<lambda>c'' t.
        returns (build E (\<lambda>m. impl_to_any E MSG_RECV_PACKET_URL (P_Recv_Packet m)) S c'' ms memo rid)
          (\<lambda>tx t. Q (tx, c'') t) t) u"
      by (intro returns_increment_packet_sequence [OF no_fault]) (use steps(2) built in auto)
  qed (rule steps(1))
  have proved: "returns (get_packet_commitment_proof E S c p rid) (\<lambda>pf t.
      returns (increment_sequence E Tx (c_id c)) (\<lambda>c' t.
      returns (increment_packet_sequence E Tx (c_id c')) (\<lambda>c'' t.
        returns (build E (\<lambda>m. impl_to_any E MSG_RECV_PACKET_URL (P_Recv_Packet m)) S c'' (ms pf) memo rid)
          (\<lambda>tx t. Q (tx, c'') t) t) t) t) t"
    if same: "unchanged s t" and "pk_timeout_height p = Some h" for ms t p h
    by (rule returns_yields [OF yields_commitment_proof])
      (use parts time details that in \<open>auto intro!: keeps_proofs advanced intro: unchanged_frame.R_trans\<close>)
  obtain data where data: "json_to_vec E (token_transfer_packet_data (ident_str d) (u256_to_string amount)
      sender receiver memo) = Inr data"
    using json by blast
  have height: "returns (get_latest_height E c rpc) P s"
    if "\<And>h th t. height_checked_add h DEFAULT_TIMEOUT_HEIGHT_OFFSET = Some th \<Longrightarrow> unchanged s t \<Longrightarrow> P h t" for P
    by (rule returns_yields [OF yields_latest_height]) (use parts that in \<open>auto intro!: keeps_intros\<close>)
  show ?thesis
    unfolding msg_token_send_def Let_def returns_bindM returns_steps
    using details sender data by (auto intro!: height proved)
qed

lemma returns_effects:
  assumes "nodes_answer E"
  shows "(\<And>t. view Tx t = w_db s \<Longrightarrow> Q1 () t) \<Longrightarrow> returns (begin_transaction E) Q1 s"
    "(\<And>t. Q2 () t) \<Longrightarrow> returns (commit_transaction E ctx) Q2 s"
    "(\<And>t. Q3 () t) \<Longrightarrow> returns (add_operation E ex rid a d n ty h) Q3 s"
    "(\<And>t. Q4 () t) \<Longrightarrow> returns (notify_event E ev) Q4 s"
  using assms
  by (auto simp: nodes_answer_def returns_def begin_transaction_Ok_iff commit_transaction_Ok_iff
      add_operation_def run_Ok_iffs run_sql_Ok_iff insert_operation_def notify_event_def)

lemma returns_accepted_broadcast:
  assumes "chain_accepts E url P" "libraries_encode E" "sends E url tx"
    and "\<And>r t. check_code r = 0 \<Longrightarrow> deliver_code r = 0 \<Longrightarrow> P r \<Longrightarrow> unchanged s t \<Longrightarrow> Q r t"
  shows "\<exists>bs. encode E (P_Tx_Raw tx) = Inr bs \<and> returns (broadcast_tx_commit E rpc bs) Q s"
proof -
  obtain bs where bs: "encode E (P_Tx_Raw tx) = Inr bs"
    using assms(2) by (auto simp: libraries_encode_def)
  then obtain r where "broadcast E (w_ticks s) rpc bs = Inr r" "check_code r = 0" "deliver_code r = 0" "P r"
    using assms(1,3) unfolding chain_accepts_def by blast
  with assms(4) bs show ?thesis
    by (auto simp: returns_def broadcast_Ok_iff unchanged_def)
qed

lemma mint_returns:
  assumes coop: "willing E S" and mints: "chain_mints E" and row: "chains (w_db s) (chain_str cid) = Some raw"
    and client: "http_client_new E (rpc_addr (raw_config raw)) = Inr ()"
    and ready: "ready (node_format E) cid (Suc n) (w_db s)" and keyed: "keyed (w_db s)"
  shows "\<exists>hash t. mint E S cid rid amount d receiver memo s = (Ok hash, t)"
proof -
  note parts = coop [unfolded willing_def]
  have row: "chains (w_db s) (chain_str cid) = Some raw" "ready_row (node_format E) cid (Suc n) raw"
    using row ready by (simp_all add: ready_def)
  obtain c where c: "chain_of_raw (node_format E) raw = Ok c"
    using row(2) by (auto simp: ready_def ready_row_def is_ok_iff split: option.splits)
  obtain sender where sender: "to_account_address S = Ok sender"
    using parts by (auto simp: signer_signs_def is_ok_iff)
  have chain: "returns (known_chain E Pool cid) P s" if "\<And>t. w_db t = w_db s \<Longrightarrow> P c t" for P
    by (rule returns_known_chain) (use parts row(1) c that in \<open>auto simp: nodes_answer_def\<close>)
  have "config c = raw_config raw"
    using c by (simp add: chain_of_raw_Ok_iff)
  then have client: "returns (rpc_client E c) P t" if "\<And>rpc. P rpc t" for P t
    using client that by (simp add: rpc_client_def returns_bindM returns_steps)
  have sent: "returns (msg_token_send E S rpc c amount d to memo rid) P t"
    if view: "view Tx t = w_db s" and P: "\<And>tx c' u. sends E MSG_RECV_PACKET_URL tx \<Longrightarrow> P (tx, c') u" for rpc to P t
  proof (rule returns_Ok)
    show "returns (msg_token_send E S rpc c amount d to memo rid) (\<lambda>_ _. True) t"
      by (rule returns_token_send [OF coop _ row(2) c row(2)]) (use view row(1) in auto)
    fix a u
    assume send: "msg_token_send E S rpc c amount d to memo rid t = (Ok a, u)"
    obtain tx c' where a: "a = (tx, c')"
      by (cases a)
    show "P a u"
      unfolding a by (rule msg_token_send_Ok [OF send [unfolded a]])
        (use keyed view in \<open>auto simp: said_def intro!: P intro: sendsI\<close>)
  qed
  have "returns (mint E S cid rid amount d receiver memo) (\<lambda>_ _. True) s"
    unfolding mint_def Let_def
    by (rule returns_scoped)
      (use sender parts in \<open>auto simp: returns_bindM returns_steps ensure_response_success_Ok
        intro!: chain client sent returns_effects returns_accepted_broadcast [OF mints [unfolded chain_mints_def]]\<close>)
  then show ?thesis
    by (simp add: returns_def)
qed

lemma mint_effect_on_readiness:
  assumes run: "mint E S cid rid amount d receiver memo s = (Ok hash, t)"
    and ready: "ready (node_format E) cid (Suc n) (w_db s)" and "keyed (w_db s)" "w_tx s = None"
  shows "ready (node_format E) cid n (w_db t)" "keyed (w_db t)" "w_tx t = None"
    "length (operations (w_db t)) = Suc (length (operations (w_db s)))"
    "map_option raw_config (chains (w_db t) (chain_str cid)) = map_option raw_config (chains (w_db s) (chain_str cid))"
proof -
  obtain raw op ts where raw: "chains (w_db s) (chain_str cid) = Some raw"
    and t: "w_db t = record_operation op (set_chain (chain_str cid) (mint_advance raw ts) (w_db s))" "w_tx t = None"
    by (rule mint_run [OF run assms(3)]) blast
  have row: "ready_row (node_format E) cid (Suc n) raw"
    using ready raw by (simp add: ready_def)
  show "ready (node_format E) cid n (w_db t)"
    using ready_row_parts(3) [OF row] by (simp add: ready_def t set_chain_def)
  show "keyed (w_db t)"
    using assms(3) row by (auto simp: keyed_def t set_chain_def mint_advance_def ready_row_def)
  show "w_tx t = None" "length (operations (w_db t)) = Suc (length (operations (w_db s)))"
    by (simp_all add: t set_chain_def)
  show "map_option raw_config (chains (w_db t) (chain_str cid)) = map_option raw_config (chains (w_db s) (chain_str cid))"
    by (simp add: t set_chain_def raw mint_advance_def)
qed

text \<open>A list of mints on one chain, one after another.\<close>

type_synonym mint_order = "string option \<times> u256 \<times> ident \<times> string option \<times> string"

definition mint_all :: "env \<Rightarrow> signer \<Rightarrow> chain_id \<Rightarrow> mint_order list \<Rightarrow> unit run" where
  "mint_all E S cid orders =
     for_each (\<lambda>(rid, amount, d, receiver, memo).
       bindM (mint E S cid rid amount d receiver memo) (\<lambda>_. returnM ())) orders"

lemma mint_all_returns:
  assumes "willing E S" "chain_mints E" "http_client_new E (rpc_addr cfg) = Inr ()"
    and "map_option raw_config (chains (w_db s) (chain_str cid)) = Some cfg"
    and "ready (node_format E) cid (length orders) (w_db s)" "keyed (w_db s)" "w_tx s = None"
  shows "\<exists>t. mint_all E S cid orders s = (Ok (), t) \<and>
    length (operations (w_db t)) = length (operations (w_db s)) + length orders"
  using assms(4-7)
proof (induction orders arbitrary: s)
  case Nil
  then show ?case
    by (simp add: mint_all_def returnM_def)
next
  case (Cons req orders)
  obtain rid amount d receiver memo where req: "req = (rid, amount, d, receiver, memo)"
    by (cases req) auto
  have ready: "ready (node_format E) cid (Suc (length orders)) (w_db s)"
    using Cons.prems(2) by simp
  obtain raw where "chains (w_db s) (chain_str cid) = Some raw" "raw_config raw = cfg"
    using Cons.prems(1) by auto
  with mint_returns [OF assms(1,2) _ _ ready Cons.prems(3)] assms(3) obtain hash u where
    run: "mint E S cid rid amount d receiver memo s = (Ok hash, u)"
    by blast
  note after = mint_effect_on_readiness [OF run ready Cons.prems(3,4)]
  have "map_option raw_config (chains (w_db u) (chain_str cid)) = Some cfg"
    using after(5) Cons.prems(1) by simp
  from Cons.IH [OF this after(1-3)] after(4) run show ?case
    by (auto simp: mint_all_def req bindM_def returnM_def)
qed

text \<open>C6: With peers that cooperate, minting makes progress: on a connected chain whose row is in
  order, any number of mints in a row all succeed, as long as both sequences have numbers left for
  them, and each is recorded in the history; no earlier mint can spoil a later one.\<close>

theorem mints_succeed:
  assumes "cooperative E S" "chain_mints E" "ready (node_format E) cid (length orders) (w_db s)"
    and "keyed (w_db s)" "w_tx s = None"
  shows "\<exists>t. mint_all E S cid orders s = (Ok (), t) \<and>
    length (operations (w_db t)) = length (operations (w_db s)) + length orders"
proof -
  obtain raw where "chains (w_db s) (chain_str cid) = Some raw"
    using assms(3) by (auto simp: ready_def split: option.splits)
  moreover have "http_client_new E (rpc_addr (raw_config raw)) = Inr ()"
    using assms(1) by (simp add: cooperative_def peers_answer_def)
  ultimately show ?thesis
    using mint_all_returns [OF cooperative_willing [OF assms(1)] assms(2) _ _ assms(3-5)] by simp
qed

section \<open>Refused mints\<close>

text \<open>The chain answers every transaction with an error code.\<close>

definition chain_refuses :: "env \<Rightarrow> bool" where
  "chain_refuses E \<longleftrightarrow>
     (\<forall>n a bs. \<exists>r. broadcast E n a bs = Inr r \<and> (check_code r \<noteq> 0 \<or> deliver_code r \<noteq> 0))"

text \<open>What the attempt to mint one order has signed for the chain \<open>c\<close>.\<close>

definition signed_order :: "env \<Rightarrow> signer \<Rightarrow> chain \<Rightarrow> mint_order \<Rightarrow> sign_bytes \<Rightarrow> bool" where
  "signed_order E S c ord sb \<longleftrightarrow>
     (case ord of (rid, amount, d, receiver, memo) \<Rightarrow>
        \<exists>p data sender. sb = packet_sign_bytes c p data \<and> commitment_bytes E p = Ok data \<and>
          to_account_address S = Ok sender \<and>
          json_to_vec E (token_transfer_packet_data (ident_str d) (u256_to_string amount) sender
            (case receiver of Some r \<Rightarrow> r | None \<Rightarrow> sender) memo) = Inr (pk_data p))"

lemma refused_mint_signs:
  assumes coop: "cooperative E S" and refuses: "chain_refuses E"
    and row: "chains (w_db s) (chain_str cid) = Some raw" "ready_row (node_format E) cid (Suc n) raw"
    and c: "chain_of_raw (node_format E) raw = Ok c" and keyed: "keyed (w_db s)"
  obtains e t sb bs doc tx where
    "mint E S cid rid amount d receiver memo s = (Err e, t)" "w_db t = w_db s"
    "w_log t = w_log s @ [A_Sign rid (SignBytes bs), A_Sign rid (SignDoc doc),
       A_Broadcast (rpc_addr (config c)) tx]"
    "encode E (P_Sign_Bytes sb) = Inr bs" "signed_order E S c (rid, amount, d, receiver, memo) sb"
proof -
  note parts = coop [unfolded cooperative_def]
  obtain sender where sender: "to_account_address S = Ok sender"
    using parts by (auto simp: signer_signs_def is_ok_iff)
  let ?to = "case receiver of Some r \<Rightarrow> r | None \<Rightarrow> sender"
  define s1 where "s1 = s\<lparr>w_ticks := w_ticks s + 1\<rparr>"
  define s3 where "s3 = s1\<lparr>w_tx := Some (w_db s1), w_ticks := w_ticks s1 + 1\<rparr>"
  have chain: "known_chain E Pool cid s = (Ok c, s1)"
    using parts row(1) c
    by (simp add: known_chain_def get_chain_def run_Ok_iffs query_sql_Ok_iff peers_answer_def nodes_answer_def s1_def)
  have client: "rpc_client E c s1 = (Ok (rpc_addr (config c)), s1)"
    using parts by (simp add: rpc_client_def run_Ok_iffs peers_answer_def nodes_answer_def)
  have begin_tx: "begin_transaction E s1 = (Ok (), s3)"
    using parts by (simp add: begin_transaction_Ok_iff peers_answer_def nodes_answer_def s3_def)
  have s3: "view Tx s3 = w_db s" "w_db s3 = w_db s" "w_log s3 = w_log s"
    by (simp_all add: s3_def s1_def)
  have "returns (msg_token_send E S (rpc_addr (config c)) c amount d ?to memo rid) (\<lambda>_ _. True) s3"
    by (rule returns_token_send [OF cooperative_willing [OF coop] _ row(2) c row(2)]) (simp_all add: s3 row(1))
  then obtain tx c' s4 where
    send: "msg_token_send E S (rpc_addr (config c)) c amount d ?to memo rid s3 = (Ok (tx, c'), s4)"
    by (auto simp: returns_def)
  have s4: "w_db s4 = w_db s"
    using keepsD [OF keeps_same_db_builders(4) send] s3(2) by (simp add: same_db_def)
  obtain p data sb doc where
    said: "commitment_bytes E p = Ok data" "encode E (P_Sign_Bytes (packet_sign_bytes c p data)) = Inr sb"
      "w_log s4 = w_log s @ [A_Sign rid (SignBytes sb), A_Sign rid (SignDoc doc)]" and
    json: "json_to_vec E (token_transfer_packet_data (ident_str d) (u256_to_string amount) sender ?to memo)
      = Inr (pk_data p)"
    by (rule msg_token_send_Ok [OF send]) (use keyed s3 sender in \<open>auto simp: said_def\<close>)
  obtain bs where bs: "proto_encode E (P_Tx_Raw tx) = Ok bs"
    using encode_ok parts by (auto simp: is_ok_iff)
  obtain r where r: "broadcast E (w_ticks s4) (rpc_addr (config c)) bs = Inr r"
      "check_code r \<noteq> 0 \<or> deliver_code r \<noteq> 0"
    using refuses unfolding chain_refuses_def by blast
  define s5 where "s5 = s4\<lparr>w_ticks := w_ticks s4 + 1, w_log := w_log s4 @ [A_Broadcast (rpc_addr (config c)) bs]\<rparr>"
  have response: "broadcast_tx_commit E (rpc_addr (config c)) bs s4 = (Ok r, s5)"
    using r(1) by (simp add: broadcast_Ok_iff s5_def)
  obtain e where refused: "ensure_response_success r = Err e"
    using r(2) by (cases "check_code r = 0") (auto simp: ensure_response_success_def bail_def)
  have "mint E S cid rid amount d receiver memo s = (Err e, s5\<lparr>w_tx := None\<rparr>)"
    unfolding mint_def Let_def scoped_def
    using sender client begin_tx send bs response refused
    by (simp add: bindM_def chain bs refused lift_def del: parse_bool.simps)
  then show thesis
    by (rule that) (use said json sender in \<open>auto simp: s5_def s4 signed_order_def\<close>)
qed

text \<open>C18: Two mints in a row that the chain refuses sign two packets with the same sequence: each
  attempt signs the commitment of its own packet, broadcasts the signature and is rolled back, so
  the next attempt, with whatever amount, denomination, receiver and memo, signs with the sequence
  of the first. Two signatures of a solo machine with one sequence and different data are what
  ICS-06 accepts as misbehaviour.\<close>

theorem refused_mints_reuse_sequence:
  assumes "cooperative E S" "chain_refuses E" "ready (node_format E) cid 1 (w_db s)" "keyed (w_db s)"
  shows "\<exists>c e1 e2 t u sb1 sb2 bs1 bs2 doc1 doc2 tx1 tx2 rpc.
    mint E S cid rid1 n1 d1 to1 memo1 s = (Err e1, t) \<and>
    mint E S cid rid2 n2 d2 to2 memo2 t = (Err e2, u) \<and> w_db u = w_db s \<and>
    w_log u = w_log s @ [A_Sign rid1 (SignBytes bs1), A_Sign rid1 (SignDoc doc1), A_Broadcast rpc tx1,
      A_Sign rid2 (SignBytes bs2), A_Sign rid2 (SignDoc doc2), A_Broadcast rpc tx2] \<and>
    encode E (P_Sign_Bytes sb1) = Inr bs1 \<and> signed_order E S c (rid1, n1, d1, to1, memo1) sb1 \<and>
    encode E (P_Sign_Bytes sb2) = Inr bs2 \<and> signed_order E S c (rid2, n2, d2, to2, memo2) sb2 \<and>
    sb_sequence sb1 = ucast (sequence c) \<and> sb_sequence sb2 = sb_sequence sb1"
proof -
  obtain raw c where row: "chains (w_db s) (chain_str cid) = Some raw"
    "ready_row (node_format E) cid (Suc 0) raw" and c: "chain_of_raw (node_format E) raw = Ok c"
    using assms(3) by (auto simp: ready_def ready_row_def is_ok_iff split: option.splits)
  obtain e1 t sb1 bs1 doc1 tx1 where
    first: "mint E S cid rid1 n1 d1 to1 memo1 s = (Err e1, t)" "w_db t = w_db s"
    "w_log t = w_log s @ [A_Sign rid1 (SignBytes bs1), A_Sign rid1 (SignDoc doc1),
       A_Broadcast (rpc_addr (config c)) tx1]"
    "encode E (P_Sign_Bytes sb1) = Inr bs1" "signed_order E S c (rid1, n1, d1, to1, memo1) sb1"
    by (rule refused_mint_signs [OF assms(1,2) row c assms(4)])
  from row assms(4) have again: "chains (w_db t) (chain_str cid) = Some raw" "keyed (w_db t)"
    by (simp_all add: first(2))
  obtain e2 u sb2 bs2 doc2 tx2 where
    second: "mint E S cid rid2 n2 d2 to2 memo2 t = (Err e2, u)" "w_db u = w_db t"
    "w_log u = w_log t @ [A_Sign rid2 (SignBytes bs2), A_Sign rid2 (SignDoc doc2),
       A_Broadcast (rpc_addr (config c)) tx2]"
    "encode E (P_Sign_Bytes sb2) = Inr bs2" "signed_order E S c (rid2, n2, d2, to2, memo2) sb2"
    by (rule refused_mint_signs [OF assms(1,2) again(1) row(2) c again(2)])
  have "sb_sequence sb1 = ucast (sequence c)" "sb_sequence sb2 = ucast (sequence c)"
    using first(5) second(5) by (auto simp: signed_order_def packet_sign_bytes_def)
  then show ?thesis
    using first second by (intro exI conjI) (assumption | simp)+
qed

section \<open>Cooperative environments\<close>

text \<open>\<open>code\<close> is the result code the chain gives to every transaction.\<close>

definition ex_live_env :: "u32 \<Rightarrow> env" where
  "ex_live_env code =
     (ex_env code)\<lparr>encode := (\<lambda>_. Inr []), decode_connection := (\<lambda>_. Inr ex_connection),
       decode_channel := (\<lambda>_. Inr ex_channel), now := (\<lambda>_. 0)\<rparr>"

lemma ex_live_account:
  "is_ok (and_then (account_from_any (ex_live_env 0) \<lparr>type_url = BASE_ACCOUNT_TYPE_URL, any_value = []\<rparr>)
     (\<lambda>account. ok_or (get_base_account account) []))"
  "is_ok (and_then (account_from_any (ex_live_env 5) \<lparr>type_url = BASE_ACCOUNT_TYPE_URL, any_value = []\<rparr>)
     (\<lambda>account. ok_or (get_base_account account) []))"
  "is_ok (public_key_to_any (ex_live_env 0) (Secp256k1 (K256_Key [2, 3])))"
  "is_ok (public_key_to_any (ex_live_env 5) (Secp256k1 (K256_Key [2, 3])))"
  "is_ok (chain_id_from_str ''testnet-1'')"
  "extract_attribute (ex_live_env 0) (tx_events (ex_response 0)) ''fungible_token_packet'' ''success'' = Ok ''true''"
  by code_simp+

lemma ex_live_cooperative: "cooperative (ex_live_env 0) ex_signer" "cooperative (ex_live_env 5) ex_signer"
proof -
  have "cooperative (ex_live_env code) ex_signer"
    if account: "is_ok (and_then (account_from_any (ex_live_env code)
          \<lparr>type_url = BASE_ACCOUNT_TYPE_URL, any_value = []\<rparr>) (\<lambda>account. ok_or (get_base_account account) []))"
      and key: "is_ok (public_key_to_any (ex_live_env code) (Secp256k1 (K256_Key [2, 3])))" for code
    unfolding cooperative_def peers_answer_def nodes_answer_def
  proof (intro conjI allI)
    have "query_account (ex_live_env code) n a address =
        Inr (Some \<lparr>type_url = BASE_ACCOUNT_TYPE_URL, any_value = []\<rparr>)" for n a address
      by (simp add: ex_live_env_def ex_env_def)
    with account show "\<exists>found account base. query_account (ex_live_env code) n a address = Inr (Some found) \<and>
        account_from_any (ex_live_env code) found = Ok account \<and> get_base_account account = Some base"
      for n a address
      by (auto simp: is_ok_iff)
    show "libraries_encode (ex_live_env code)"
      by (simp add: libraries_encode_def ex_live_env_def ex_env_def)
    show "signer_signs (ex_live_env code) ex_signer"
      using key by (simp add: signer_signs_def ex_signer_def is_ok_iff)
  qed (use ex_live_account(5) in \<open>simp_all add: ex_live_env_def ex_env_def\<close>)
  then show "cooperative (ex_live_env 0) ex_signer" "cooperative (ex_live_env 5) ex_signer"
    using ex_live_account(1-4) by blast+
qed

lemma ex_live_chains: "chain_mints (ex_live_env 0)" "chain_refuses (ex_live_env 5)"
  using ex_live_account(6)
  by (auto simp: chain_mints_def chain_accepts_def chain_refuses_def ex_live_env_def ex_env_def ex_response_def)

lemma ex_live_ready:
  "ready (node_format (ex_live_env 0)) ex_chain_id 2 (w_db (ex_world (Some ex_details)))"
  "ready (node_format (ex_live_env 5)) ex_chain_id 1 (w_db (ex_world (Some ex_details)))"
  by code_simp+

lemma ex_live_world:
  "keyed (w_db (ex_world details))" "w_tx (ex_world details) = None" "w_log (ex_world details) = []"
  "operations (w_db (ex_world details)) = []"
  by (auto simp: keyed_def ex_world_def ex_row_def empty_database_def)

definition ex_orders :: "mint_order list" where
  "ex_orders = [(None, 5, Identifier ''tok'', None, ''memo''), (Some ''r'', 7, Identifier ''tok'', Some ''you'', [])]"

theorem mints_succeed_witness:
  "\<exists>t. mint_all (ex_live_env 0) ex_signer ex_chain_id ex_orders (ex_world (Some ex_details)) = (Ok (), t) \<and>
     length (operations (w_db t)) = 2"
proof -
  have "length ex_orders = 2"
    by (simp add: ex_orders_def)
  then show ?thesis
    using mints_succeed [OF ex_live_cooperative(1) ex_live_chains(1), of ex_chain_id ex_orders
        "ex_world (Some ex_details)"] ex_live_ready(1) ex_live_world
    by (simp add: numeral_2_eq_2)
qed

theorem refused_mints_reuse_sequence_witness:
  "\<exists>e1 e2 t u. mint (ex_live_env 5) ex_signer ex_chain_id None 5 (Identifier ''tok'') None [] 
       (ex_world (Some ex_details)) = (Err e1, t) \<and>
     mint (ex_live_env 5) ex_signer ex_chain_id None 7 (Identifier ''tok'') (Some ''you'') [] t = (Err e2, u) \<and>
     length (w_log u) = 6"
proof -
  have six: "length (w_log (ex_world (Some ex_details)) @ [a1, a2, a3, a4, a5, a6]) = 6"
    for a1 a2 a3 a4 a5 a6
    by (simp add: ex_live_world)
  from refused_mints_reuse_sequence [OF ex_live_cooperative(2) ex_live_chains(2) ex_live_ready(2)
      ex_live_world(1), of None 5 "Identifier ''tok''" None "[]" None 7 "Identifier ''tok''" "Some ''you''" "[]"]
  show ?thesis
    using six by metis
qed

end
