(* ===== verification/Handshake_Liveness.thy ===== *)
theory Handshake_Liveness
  imports Liveness
begin

text \<open>
  Progress of the handshakes: what connecting needs of the peers besides \<open>willing\<close>, and the
  steps that store, read, prove and acknowledge the objects of a handshake.
\<close>

section \<open>What connecting needs besides\<close>

text \<open>
  The full node serves the staking parameters, and the random number generator gives letters and
  digits.
\<close>

definition clients_served :: "env \<Rightarrow> bool" where
  "clients_served E \<longleftrightarrow>
     (\<forall>n a. \<exists>d. query_staking_params E n a = Inr (Some (Some d))) \<and>
     (\<forall>n. alphanumeric_source (rng_alphanumeric E n))"

text \<open>
  What the libraries check of the configuration of a chain: an HTTP client takes its address; and,
  not before it is connected, the trust level
  is a fraction that \<open>TrustThresholdFraction::new\<close> takes (which \<open>add\<close> has not checked), the two
  durations that are sent to the chain are in the range of the protobuf type, and the full node
  serves a light client with these parameters, from the trusted height and hash on.
\<close>

definition built_from :: "chain_config \<Rightarrow> light_client \<Rightarrow> bool" where
  "built_from cfg lc \<longleftrightarrow>
     lc_trusting_period lc = trusting_period cfg \<and> lc_clock_drift lc = max_clock_drift cfg \<and>
     lc_rpc_timeout lc = rpc_timeout cfg \<and> lc_trusted_height lc = trusted_height cfg \<and>
     lc_trusted_hash lc = trusted_hash cfg"

definition acceptable_config :: "env \<Rightarrow> chain_config \<Rightarrow> bool" where
  "acceptable_config E cfg \<longleftrightarrow>
     http_client_new E (rpc_addr cfg) = Inr () \<and>
     trust_threshold_new E (numer (trust_level cfg)) (denom (trust_level cfg)) = Inr () \<and>
     (\<exists>p. duration_to_proto E (trusting_period cfg) = Inr p) \<and>
     (\<exists>p. duration_to_proto E (max_clock_drift cfg) = Inr p) \<and>
     (\<forall>n lc. built_from cfg lc \<longrightarrow>
        trust_primary_at E n lc = Inr () \<and> (\<exists>h. verify_to_highest E n lc = Inr h))"

text \<open>The bytes of a stored object decode.\<close>

definition stored_decode :: "env \<Rightarrow> bool" where
  "stored_decode E \<longleftrightarrow>
     (\<forall>m bs. encode E (P_Tm_Client_State m) = Inr bs \<longrightarrow> (\<exists>x. decode_tm_client_state E bs = Inr x)) \<and>
     (\<forall>m bs. encode E (P_Connection_End m) = Inr bs \<longrightarrow> (\<exists>x. decode_connection E bs = Inr x)) \<and>
     (\<forall>m bs. encode E (P_Channel m) = Inr bs \<longrightarrow> (\<exists>x. decode_channel E bs = Inr x))"

lemma stored_decodeD:
  assumes "stored_decode E"
  shows "encode E (P_Tm_Client_State cs) = Inr bs \<Longrightarrow> \<exists>x. decode_tm_client_state E bs = Inr x"
    and "encode E (P_Connection_End conn) = Inr bs \<Longrightarrow> \<exists>x. decode_connection E bs = Inr x"
    and "encode E (P_Channel chan) = Inr bs \<Longrightarrow> \<exists>x. decode_channel E bs = Inr x"
  using assms unfolding stored_decode_def by blast+

text \<open>The chain takes part in the handshakes and names what it creates.\<close>

definition names :: "env \<Rightarrow> string \<Rightarrow> string \<Rightarrow> (string \<Rightarrow> 'i outcome) \<Rightarrow> tx_response \<Rightarrow> bool" where
  "names E event key parse r \<longleftrightarrow> is_ok (and_then (extract_attribute E (tx_events r) event key) parse)"

definition chain_connects :: "env \<Rightarrow> bool" where
  "chain_connects E \<longleftrightarrow>
     chain_accepts E MSG_CREATE_CLIENT_URL (names E ''create_client'' ''client_id'' client_id_from_str) \<and>
     chain_accepts E MSG_CONNECTION_OPEN_INIT_URL
       (names E ''connection_open_init'' ''connection_id'' connection_id_from_str) \<and>
     chain_accepts E MSG_CONNECTION_OPEN_ACK_URL (\<lambda>r. True) \<and>
     chain_accepts E MSG_CHANNEL_OPEN_INIT_URL
       (names E ''channel_open_init'' ''channel_id'' channel_id_from_str) \<and>
     chain_accepts E MSG_CHANNEL_OPEN_ACK_URL (\<lambda>r. True)"

text \<open>The objects whose identifiers the machine draws, and a database that has none of them.\<close>

fun drawn :: "env \<Rightarrow> host_object \<Rightarrow> bool" where
  "drawn E (Client_State c) = (\<exists>n. client_id_generate (rng_alphanumeric E n) Tendermint = Ok c)"
| "drawn E (Consensus_State c h) = (\<exists>n. client_id_generate (rng_alphanumeric E n) Tendermint = Ok c)"
| "drawn E (Connection_End k) = (\<exists>n. connection_id_generate (rng_alphanumeric E n) = Ok k)"
| "drawn E (Channel_End p ch) = (\<exists>n. channel_id_generate (rng_alphanumeric E n) = Ok ch)"
| "drawn E x = False"

definition undrawn :: "env \<Rightarrow> database \<Rightarrow> bool" where
  "undrawn E d \<longleftrightarrow> (\<forall>x. drawn E x \<longrightarrow> ibc_data d (object_key x) = None)"

lemma undrawnD: "undrawn E d \<Longrightarrow> drawn E x \<Longrightarrow> ibc_data d (object_key x) = None"
  by (simp add: undrawn_def)

text \<open>Objects of different kinds have different keys.\<close>

lemma keys_of_kinds:
  "object_key (Connection_End k) \<noteq> object_key (Client_State c)"
  "object_key (Connection_End k) \<noteq> object_key (Consensus_State c h)"
  "object_key (Channel_End p n) \<noteq> object_key (Client_State c)"
  "object_key (Channel_End p n) \<noteq> object_key (Consensus_State c h)"
  "object_key (Channel_End p n) \<noteq> object_key (Connection_End k)"
  "object_key (Consensus_State c h) \<noteq> object_key (Client_State c)"
  by (simp_all add: object_key_def path_new_from_str_def client_state_path_def
      consensus_state_path_def connection_path_def channel_path_def)

section \<open>Storing and reading objects\<close>

lemma returns_returnM: "returns (returnM a) Q = Q a"
  by (simp add: fun_eq_iff returns_steps)

lemma returns_next_tick: "returns next_tick Q s \<longleftrightarrow> Q (w_ticks s) (s\<lparr>w_ticks := w_ticks s + 1\<rparr>)"
  by (simp add: returns_def)

lemma returns_add:
  assumes "\<forall>n. db_fault E n = None" "ibc_data (view Tx s) path = None"
    and "\<And>t. view Tx t = (view Tx s)\<lparr>ibc_data := (ibc_data (view Tx s))(path \<mapsto> data)\<rparr> \<Longrightarrow> Q () t"
  shows "returns (Ibc_Store.add E Tx path data) Q s"
  using assms
  by (auto simp: add_def returns_def run_Ok_iffs run_sql_Ok_iff insert_row_def)

lemma returns_update:
  assumes "\<forall>n. db_fault E n = None" "ibc_data (view Tx s) path = Some old"
    and "\<And>t. view Tx t = (view Tx s)\<lparr>ibc_data := (ibc_data (view Tx s))(path \<mapsto> data)\<rparr> \<Longrightarrow> Q () t"
  shows "returns (Ibc_Store.update E Tx path data) Q s"
  using assms
  by (auto simp: update_def returns_def run_Ok_iffs run_sql_Ok_iff update_row_def)

lemma returns_get:
  assumes "\<forall>n. db_fault E n = None" "ibc_data (view Tx s) path = Some bs" "decode bs = Inr m"
    and "\<And>t. view Tx t = view Tx s \<Longrightarrow> Q (Some m) t"
  shows "returns (Ibc_Store.get E Tx decode path) Q s"
  using assms
  by (auto simp: get_def returns_def query_sql_Ok_iff run_Ok_iffs)

lemma returns_encoded:
  assumes "libraries_encode E" "\<And>bs. encode E m = Inr bs \<Longrightarrow> returns (f bs) Q s"
  shows "returns (bindM (lift (proto_encode E m)) f) Q s"
proof -
  obtain bs where "encode E m = Inr bs"
    using assms(1) by (auto simp: libraries_encode_def)
  with assms(2) show ?thesis
    by (auto simp: returns_bindM returns_steps)
qed

text \<open>Every kind of object is stored and read through its path.\<close>

lemma returns_objects:
  assumes fault: "\<forall>n. db_fault E n = None" and enc: "libraries_encode E"
  shows "ibc_data (view Tx s) (object_key (Client_State c)) = None \<Longrightarrow>
      (\<And>bs t. encode E (P_Tm_Client_State cs) = Inr bs \<Longrightarrow>
        view Tx t = put_object (Client_State c) bs (view Tx s) \<Longrightarrow> Q () t) \<Longrightarrow>
      returns (add_tendermint_client_state E Tx c cs) Q s"
    and "ibc_data (view Tx s) (object_key (Consensus_State c h)) = None \<Longrightarrow>
      (\<And>bs t. view Tx t = put_object (Consensus_State c h) bs (view Tx s) \<Longrightarrow> Q () t) \<Longrightarrow>
      returns (add_tendermint_consensus_state E Tx c h con) Q s"
    and "ibc_data (view Tx s) (object_key (Connection_End k)) = None \<Longrightarrow>
      (\<And>bs t. encode E (P_Connection_End conn) = Inr bs \<Longrightarrow>
        view Tx t = put_object (Connection_End k) bs (view Tx s) \<Longrightarrow> Q () t) \<Longrightarrow>
      returns (add_connection E Tx k conn) Q s"
    and "ibc_data (view Tx s) (object_key (Channel_End p n)) = None \<Longrightarrow>
      (\<And>bs t. encode E (P_Channel chan) = Inr bs \<Longrightarrow>
        view Tx t = put_object (Channel_End p n) bs (view Tx s) \<Longrightarrow> Q () t) \<Longrightarrow>
      returns (add_channel E Tx p n chan) Q s"
    and "ibc_data (view Tx s) (object_key (Connection_End k)) = Some old \<Longrightarrow>
      (\<And>bs t. view Tx t = put_object (Connection_End k) bs (view Tx s) \<Longrightarrow> Q () t) \<Longrightarrow>
      returns (update_connection E Tx k conn) Q s"
    and "ibc_data (view Tx s) (object_key (Channel_End p n)) = Some old \<Longrightarrow>
      (\<And>bs t. view Tx t = put_object (Channel_End p n) bs (view Tx s) \<Longrightarrow> Q () t) \<Longrightarrow>
      returns (update_channel E Tx p n chan) Q s"
  using fault
  by (auto simp: ibc_object_defs Let_def put_object_def
      intro!: returns_encoded [OF enc] returns_add returns_update)

lemma returns_reads:
  assumes "\<forall>n. db_fault E n = None"
  shows "ibc_data (view Tx s) (object_key (Client_State c)) = Some bs1 \<Longrightarrow>
      decode_tm_client_state E bs1 = Inr cs \<Longrightarrow> (\<And>t. view Tx t = view Tx s \<Longrightarrow> Q1 (Some cs) t) \<Longrightarrow>
      returns (get_tendermint_client_state E Tx c) Q1 s"
    and "ibc_data (view Tx s) (object_key (Connection_End k)) = Some bs2 \<Longrightarrow>
      decode_connection E bs2 = Inr conn \<Longrightarrow> (\<And>t. view Tx t = view Tx s \<Longrightarrow> Q2 (Some conn) t) \<Longrightarrow>
      returns (get_connection E Tx k) Q2 s"
    and "ibc_data (view Tx s) (object_key (Channel_End p n)) = Some bs3 \<Longrightarrow>
      decode_channel E bs3 = Inr chan \<Longrightarrow> (\<And>t. view Tx t = view Tx s \<Longrightarrow> Q3 (Some chan) t) \<Longrightarrow>
      returns (get_channel E Tx p n) Q3 s"
  using assms by (auto simp: ibc_object_defs Let_def intro!: returns_get)

section \<open>Transactions the chain accepts\<close>

text \<open>Everything together.\<close>

definition session_peers :: "env \<Rightarrow> signer \<Rightarrow> bool" where
  "session_peers E S \<longleftrightarrow>
     willing E S \<and> clients_served E \<and> stored_decode E \<and> chain_connects E \<and> chain_mints E"

lemma session_parts:
  assumes "session_peers E S"
  shows "nodes_answer E" "libraries_encode E" "signer_signs E S" "willing E S" "clients_served E"
    "stored_decode E" "chain_connects E" "chain_mints E" "\<forall>n. db_fault E n = None"
  using assms by (simp_all add: session_peers_def willing_def nodes_answer_def)

lemma yields_notify [yields_intros]: "nodes_answer E \<Longrightarrow> yields (notify_event E ev) (\<lambda>_. True)"
  unfolding yields_def by (auto intro: returns_effects(4))

lemma yields_build_one:
  assumes "session_peers E S"
  shows "yields (build E (\<lambda>m. impl_to_any E url (con m)) S c [m] memo rid) (sends E url)"
  unfolding yields_def
proof (intro allI, rule returns_Ok)
  have "is_ok (impl_to_any E url (con m))"
    using encode_ok [OF session_parts(2) [OF assms]] by (auto simp: impl_to_any_def is_ok_iff)
  then show "returns (build E (\<lambda>m. impl_to_any E url (con m)) S c [m] memo rid) (\<lambda>_ _. True) s" for s
    using yields_build [where E = E and S = S, of "[m]" "\<lambda>m. impl_to_any E url (con m)"]
      session_parts [OF assms] by (auto simp: yields_def)
  show "sends E url tx"
    if "build E (\<lambda>m. impl_to_any E url (con m)) S c [m] memo rid s = (Ok tx, t)" for s tx t
    by (rule build_msg_Ok [OF that]) (auto simp: sends_def)
qed

text \<open>A transaction is encoded, sent, accepted, and its answer is used.\<close>

lemma returns_delivery:
  assumes "session_peers E S" "chain_accepts E url P" "sends E url tx"
    and "\<And>r t. P r \<Longrightarrow> unchanged s t \<Longrightarrow> returns (f r) Q t"
  shows "returns (bindM (lift (proto_encode E (P_Tx_Raw tx))) (\<lambda>bs.
    bindM (broadcast_tx_commit E rpc bs) (\<lambda>r. bindM (lift (ensure_response_success r)) (\<lambda>_. f r)))) Q s"
  using assms
  by (auto simp: returns_bindM returns_steps ensure_response_success_Ok
      intro!: returns_accepted_broadcast [OF assms(2) session_parts(2) [OF assms(1)]])

lemma yields_delivery:
  assumes "session_peers E S" "chain_accepts E url P" "yields m (sends E url)"
    and "\<And>r. P r \<Longrightarrow> yields (f r) Q"
  shows "yields (bindM m (\<lambda>tx. bindM (lift (proto_encode E (P_Tx_Raw tx))) (\<lambda>bs.
    bindM (broadcast_tx_commit E rpc bs) (\<lambda>r. bindM (lift (ensure_response_success r)) (\<lambda>_. f r))))) Q"
  by (rule yields_bindM [OF assms(3)])
    (use assms(4) in \<open>auto simp: yields_def intro!: returns_delivery [OF assms(1,2)]\<close>)

lemma yields_named:
  "names E event key parse r \<Longrightarrow>
     yields (bindM (lift (extract_attribute E (tx_events r) event key)) (\<lambda>v. lift (parse v))) (\<lambda>_. True)"
  by (auto simp: names_def is_ok_iff yields_def returns_bindM returns_steps)

lemma signer_known:
  assumes "session_peers E S"
  obtains key any_key address where "to_public_key S = Ok key" "public_key_to_any E key = Ok any_key"
    "to_account_address S = Ok address"
  using session_parts(3) [OF assms] by (auto simp: signer_signs_def is_ok_iff)

lemma any_known: "session_peers E S \<Longrightarrow> \<exists>a. impl_to_any E url m = Ok a"
  using session_parts(2) by (auto simp: impl_to_any_def libraries_encode_def)

lemma yields_inits:
  assumes peers: "session_peers E S"
  shows "is_ok (to_u64_timestamp (consensus_timestamp c)) \<Longrightarrow>
      yields (create_solo_machine_client E S rpc c memo rid) (\<lambda>_. True)"
    and "yields (connection_open_init E S rpc c smc tmc memo rid) (\<lambda>_. True)"
    and "yields (channel_open_init E S rpc c smk memo rid) (\<lambda>_. True)"
proof -
  obtain key any_key address where signer: "to_public_key S = Ok key"
    "public_key_to_any E key = Ok any_key" "to_account_address S = Ok address"
    by (rule signer_known [OF peers])
  note accepts = session_parts(7) [OF peers, unfolded chain_connects_def]
  note sent = yields_delivery [OF peers _ yields_build_one [OF peers] yields_named]
  show "yields (create_solo_machine_client E S rpc c memo rid) (\<lambda>_. True)"
    if time: "is_ok (to_u64_timestamp (consensus_timestamp c))"
  proof -
    obtain ts where ts: "to_u64_timestamp (consensus_timestamp c) = Ok ts"
      using time by (auto simp: is_ok_iff)
    obtain a where a: "impl_to_any E SM_CONSENSUS_STATE_URL (P_Sm_Consensus_State
      \<lparr>scon_public_key = Some any_key, scon_diversifier = diversifier (config c), scon_timestamp = ts\<rparr>) = Ok a"
      using any_known [OF peers] by blast
    obtain b where b: "impl_to_any E SM_CLIENT_STATE_URL (P_Sm_Client_State
      \<lparr>scs_sequence = ucast (sequence c), scs_is_frozen = False, scs_consensus_state = Some
      \<lparr>scon_public_key = Some any_key, scon_diversifier = diversifier (config c), scon_timestamp = ts\<rparr>\<rparr>) = Ok b"
      using any_known [OF peers] by blast
    show ?thesis
      unfolding create_solo_machine_client_def msg_create_solo_machine_client_def
      by (simp add: signer ts a b Let_def) (rule sent, use accepts in auto)
  qed
  show "yields (connection_open_init E S rpc c smc tmc memo rid) (\<lambda>_. True)"
    unfolding connection_open_init_def msg_connection_open_init_def
    by (simp add: signer) (rule sent, use accepts in auto)
  show "yields (channel_open_init E S rpc c smk memo rid) (\<lambda>_. True)"
    unfolding channel_open_init_def msg_channel_open_init_def
    by (simp add: signer) (rule sent, use accepts in auto)
qed

section \<open>Proofs and acknowledgements\<close>

text \<open>The row of the chain \<open>c\<close>, with \<open>n\<close> more sequences left.\<close>

definition row_of :: "env \<Rightarrow> chain \<Rightarrow> raw_chain \<Rightarrow> int \<Rightarrow> database \<Rightarrow> bool" where
  "row_of E c raw n d \<longleftrightarrow>
     chains d (chain_str (c_id c)) = Some raw \<and> chain_of_raw (node_format E) raw = Ok c \<and>
     is_ok (to_u64_timestamp (consensus_timestamp c)) \<and> raw_sequence raw + n < 2 ^ 32"

lemma row_of_put [simp]: "row_of E c raw n (put_object x bs d) = row_of E c raw n d"
  by (simp add: row_of_def)

lemma next_row:
  assumes "row_of E c raw (n + 1) d" "0 \<le> n" "chain_of_raw (node_format E) (next_raw raw ts) = Ok c'"
  shows "row_of E c' (next_raw raw ts) n (set_chain (chain_str (c_id c)) (next_raw raw ts) d)"
    "chain_str (c_id c') = chain_str (c_id c)" "config c' = config c"
  using assms chain_of_raw_id [OF assms(3)]
  by (auto simp: row_of_def chain_of_raw_Ok_iff next_raw_def dest!: chain_of_raw_id)

lemma returns_next_row:
  assumes "\<forall>n. db_fault E n = None" "row_of E c raw (n + 1) (view Tx s)" "0 \<le> n"
    and "\<And>c' ts t. chain_of_raw (node_format E) (next_raw raw ts) = Ok c' \<Longrightarrow>
      view Tx t = set_chain (chain_str (c_id c)) (next_raw raw ts) (view Tx s) \<Longrightarrow> Q c' t"
  shows "returns (increment_sequence E Tx (c_id c)) Q s"
proof (rule returns_Ok)
  have row: "chains (view Tx s) (chain_str (c_id c)) = Some raw" "chain_of_raw (node_format E) raw = Ok c"
    "raw_sequence raw + 1 < 2 ^ 32"
    using assms(2,3) by (auto simp: row_of_def)
  have "is_ok (chain_of_raw (node_format E) (raw\<lparr>raw_sequence := raw_sequence raw + 1, raw_updated_at := ts\<rparr>))" for ts
    using row(2,3) chain_of_raw_ok_iff [of "node_format E" raw] by (simp add: chain_of_raw_ok_iff)
  then show "returns (increment_sequence E Tx (c_id c)) (\<lambda>_ _. True) s"
    by (rule returns_increment_sequence [OF assms(1) row(1)]) simp_all
  fix c' t
  assume "increment_sequence E Tx (c_id c) s = (Ok c', t)"
  then show "Q c' t"
    by (rule increment_sequence_Ok) (use row(1) assms(4) in \<open>auto simp: set_chain_def next_raw_def\<close>)
qed

lemma yields_object_signature:
  assumes "session_peers E S" "is_ok (to_u64_timestamp (consensus_timestamp c))"
  shows "\<exists>p sb. apply_prefix (object_path x) ''ibc'' = Ok p \<and> make_sign_bytes c p data = Ok sb"
    "yields (timestamped_sign E S c sb rid) (\<lambda>_. True)"
proof -
  show "yields (timestamped_sign E S c sb rid) (\<lambda>_. True)"
    using assms session_parts [OF assms(1)] by (intro yields_timestamped_sign)
  obtain ts where "to_u64_timestamp (consensus_timestamp c) = Ok ts"
    using assms(2) by (auto simp: is_ok_iff)
  moreover obtain p where "apply_prefix (object_path x) ''ibc'' = Ok p" "get_key p 1 = Some (object_key x)"
    using prefixed_object_key [of x "''''"] by auto
  ultimately show "\<exists>p sb. apply_prefix (object_path x) ''ibc'' = Ok p \<and> make_sign_bytes c p data = Ok sb"
    by (auto simp: make_sign_bytes_def)
qed

lemma returns_unchanged:
  assumes "yields m P" "keeps unchanged m" "\<And>a t. P a \<Longrightarrow> view Tx t = view Tx s \<Longrightarrow> Q a t"
  shows "returns m Q s"
  by (rule returns_yields [OF assms(1,2)]) (auto intro: assms(3) unchanged_view)

lemma returns_notify:
  assumes "session_peers E S" "\<And>t. view Tx t = view Tx s \<Longrightarrow> Q () t"
  shows "returns (notify_event E ev) Q s"
  by (rule returns_unchanged [OF yields_notify [OF session_parts(1) [OF assms(1)]] keeps_unchanged_notify])
    (use assms(2) in auto)

lemma returns_object_proofs:
  assumes peers: "session_peers E S" and time: "is_ok (to_u64_timestamp (consensus_timestamp c))"
  shows "ibc_data (view Tx s) (object_key (Connection_End k)) = Some bs1 \<Longrightarrow>
      decode_connection E bs1 = Inr conn \<Longrightarrow> (\<And>pf t. view Tx t = view Tx s \<Longrightarrow> Q pf t) \<Longrightarrow>
      returns (get_connection_proof E Tx S c k rid) Q s"
    and "ibc_data (view Tx s) (object_key (Channel_End (port_id (config c)) n)) = Some bs2 \<Longrightarrow>
      decode_channel E bs2 = Inr chan \<Longrightarrow> (\<And>pf t. view Tx t = view Tx s \<Longrightarrow> Q pf t) \<Longrightarrow>
      returns (get_channel_proof E Tx S c n rid) Q s"
proof -
  note fault = session_parts(9) [OF peers]
  have signed: "returns (timestamped_sign E S c sb rid) Q t"
    if "\<And>pf u. view Tx u = view Tx t \<Longrightarrow> Q pf u" for sb Q t
    by (rule returns_unchanged [OF yields_object_signature(2) [OF peers time] keeps_timestamped_sign])
      (rule that)
  show "returns (get_connection_proof E Tx S c k rid) Q s"
    if stored: "ibc_data (view Tx s) (object_key (Connection_End k)) = Some bs1"
      "decode_connection E bs1 = Inr conn" and Q: "\<And>pf t. view Tx t = view Tx s \<Longrightarrow> Q pf t"
  proof -
    obtain data where data: "encode E (P_Connection_End conn) = Inr data"
      using session_parts(2) [OF peers] by (auto simp: libraries_encode_def)
    obtain p sb where p: "apply_prefix (connection_path k) ''ibc'' = Ok p" "make_sign_bytes c p data = Ok sb"
      using yields_object_signature(1) [OF peers time, of "Connection_End k" data] by auto
    show ?thesis
      unfolding get_connection_proof_def returns_bindM returns_steps
      by (rule returns_reads(2) [OF fault stored]) (auto simp: data p intro!: signed Q)
  qed
  show "returns (get_channel_proof E Tx S c n rid) Q s"
    if stored: "ibc_data (view Tx s) (object_key (Channel_End (port_id (config c)) n)) = Some bs2"
      "decode_channel E bs2 = Inr chan" and Q: "\<And>pf t. view Tx t = view Tx s \<Longrightarrow> Q pf t"
  proof -
    obtain data where data: "encode E (P_Channel chan) = Inr data"
      using session_parts(2) [OF peers] by (auto simp: libraries_encode_def)
    obtain p sb where p: "apply_prefix (channel_path (port_id (config c)) n) ''ibc'' = Ok p"
        "make_sign_bytes c p data = Ok sb"
      using yields_object_signature(1) [OF peers time, of "Channel_End (port_id (config c)) n" data] by auto
    show ?thesis
      unfolding get_channel_proof_def returns_bindM returns_steps
      by (rule returns_reads(3) [OF fault stored]) (auto simp: data p intro!: signed Q)
  qed
qed

text \<open>An acknowledgement: one step of the sequence, a transaction, and an answer that is accepted.\<close>

lemma returns_acks:
  assumes peers: "session_peers E S" and row: "row_of E c raw (n + 1) (view Tx s)" "0 \<le> n"
    and Q: "\<And>c' ts t. chain_of_raw (node_format E) (next_raw raw ts) = Ok c' \<Longrightarrow>
      view Tx t = set_chain (chain_str (c_id c)) (next_raw raw ts) (view Tx s) \<Longrightarrow> Q c' t"
  shows "ibc_data (view Tx s) (object_key (Client_State tmc)) = Some bs1 \<Longrightarrow>
      decode_tm_client_state E bs1 = Inr cs \<Longrightarrow>
      ibc_data (view Tx s) (object_key (Connection_End tmk)) = Some bs2 \<Longrightarrow>
      decode_connection E bs2 = Inr conn \<Longrightarrow>
      returns (connection_open_ack E S rpc c smk tmc tmk memo rid) Q s"
    and "ibc_data (view Tx s) (object_key (Channel_End (port_id (config c)) tmn)) = Some bs3 \<Longrightarrow>
      decode_channel E bs3 = Inr chan \<Longrightarrow>
      returns (channel_open_ack E S rpc c smn tmn memo rid) Q s"
proof -
  note fault = session_parts(9) [OF peers] and accepts = session_parts(7) [OF peers, unfolded chain_connects_def]
  have time: "is_ok (to_u64_timestamp (consensus_timestamp c))"
    using row(1) by (simp add: row_of_def)
  obtain address where address: "to_account_address S = Ok address"
    by (rule signer_known [OF peers])
  have stepped: "returns (increment_sequence E Tx (c_id c)) P t"
    if "view Tx t = view Tx s" "\<And>c' u. (\<And>v. view Tx v = view Tx u \<Longrightarrow> Q c' v) \<Longrightarrow> P c' u" for P t
    by (rule returns_next_row [OF fault _ row(2)]) (use row(1) that Q in auto)
  have sent: "returns (bindM (build E (\<lambda>m. impl_to_any E url (con m)) S c' [m] memo rid) (\<lambda>tx.
      bindM (lift (proto_encode E (P_Tx_Raw tx))) (\<lambda>bs. bindM (broadcast_tx_commit E rpc bs) (\<lambda>r.
      bindM (lift (ensure_response_success r)) (\<lambda>_. returnM c'))))) Q t"
    if "chain_accepts E url (\<lambda>r. True)" "\<And>v. view Tx v = view Tx t \<Longrightarrow> Q c' v" for url con c' m t
    unfolding returns_bindM [of "build E to_any S c' [m] memo rid" for to_any]
    by (rule returns_unchanged [OF yields_build_one [OF peers] keeps_build])
      (auto intro!: returns_delivery [OF peers that(1)] that(2) simp: returns_steps dest: unchanged_view [where ex = Tx])
  show "returns (connection_open_ack E S rpc c smk tmc tmk memo rid) Q s"
    if "ibc_data (view Tx s) (object_key (Client_State tmc)) = Some bs1"
      "decode_tm_client_state E bs1 = Inr cs"
      "ibc_data (view Tx s) (object_key (Connection_End tmk)) = Some bs2" "decode_connection E bs2 = Inr conn"
  proof -
    obtain a where a: "impl_to_any E TM_CLIENT_STATE_URL (P_Tm_Client_State cs) = Ok a"
      using any_known [OF peers] by blast
    have proved: "returns (get_connection_proof E Tx S c tmk rid) P t"
      if "view Tx t = view Tx s" "\<And>pf u. view Tx u = view Tx s \<Longrightarrow> P pf u" for P t
      by (rule returns_object_proofs(1) [OF peers time])
        (use \<open>ibc_data (view Tx s) (object_key (Connection_End tmk)) = Some bs2\<close>
          \<open>decode_connection E bs2 = Inr conn\<close> that in auto)
    show ?thesis
      unfolding connection_open_ack_def msg_connection_open_ack_def Let_def bindM_assoc
        returns_bindM [of "get_tendermint_client_state E Tx tmc"]
      by (rule returns_reads(1) [OF fault that(1,2)])
        (use accepts in \<open>simp_all add: bindM_assoc address a returns_bindM [of "get_connection_proof E Tx S c tmk rid"]
          returns_bindM [of "increment_sequence E Tx (c_id c)"] proved stepped sent\<close>)
  qed
  show "returns (channel_open_ack E S rpc c smn tmn memo rid) Q s"
    if "ibc_data (view Tx s) (object_key (Channel_End (port_id (config c)) tmn)) = Some bs3"
      "decode_channel E bs3 = Inr chan"
    unfolding channel_open_ack_def msg_channel_open_ack_def Let_def bindM_assoc
      returns_bindM [of "get_channel_proof E Tx S c tmn rid"]
    by (rule returns_object_proofs(2) [OF peers time that])
      (use accepts in \<open>simp_all add: bindM_assoc address returns_bindM [of "increment_sequence E Tx (c_id c)"]
        stepped sent\<close>)
qed

end
