(* ===== verification/Session_Liveness.thy ===== *)
theory Session_Liveness
  imports Handshake_Liveness
begin

text \<open>
  Progress of a whole session: from an empty database, adding a chain, connecting to it and
  minting on it all succeed when the peers cooperate.
\<close>

section \<open>The phases of connecting\<close>

lemma yields_light_client:
  assumes "acceptable_config E (config c)"
  shows "yields (prepare_light_client E c rpc) (built_from (config c))"
  using assms
  by (auto simp: prepare_light_client_def Let_def acceptable_config_def built_from_def
      intro!: yields_bind_any yields_call yields_returnM)

lemma yields_client_states:
  assumes "session_peers E S" "acceptable_config E (config c)" "built_from (config c) lc"
  shows "yields (msg_create_tendermint_client E c lc) (\<lambda>(cs, con). tcs_latest_height cs \<noteq> None)"
proof -
  note served = session_parts(5) [OF assms(1), unfolded clients_served_def]
    and accepted = assms(2,3) [unfolded acceptable_config_def]
  have "yields (get_unbonding_period E c) (\<lambda>_. True)"
  proof -
    have "yields (call (\<lambda>n. query_staking_params E n a)) (\<lambda>p. \<exists>d. p = Some (Some d))" for a
      using served by (intro yields_call) metis
    moreover have "yields (call (\<lambda>n. grpc_connect E n a)) (\<lambda>_. True)" for a
      using session_parts(1) [OF assms(1)] by (intro yields_call) (simp add: nodes_answer_def)
    ultimately show ?thesis
      unfolding get_unbonding_period_def Let_def
      by (intro yields_bind_any [of "contextM e m" for e m] yields_contextM)
        (auto intro!: yields_bindM [of "call f" for f] yields_lift_ok)
  qed
  moreover have "yields (get_latest_header E lc) (\<lambda>_. True)"
    unfolding get_latest_header_def using accepted by (intro yields_call) auto
  moreover have "\<exists>p. external (duration_to_proto E (trusting_period (config c))) = Ok p"
    "\<exists>p. external (duration_to_proto E (max_clock_drift (config c))) = Ok p"
    using accepted by auto
  ultimately show ?thesis
    unfolding msg_create_tendermint_client_def Let_def
    by (auto simp: is_ok_iff intro!: yields_bind_any yields_lift_ok yields_returnM)
qed

lemma returns_create_tendermint_client:
  assumes peers: "session_peers E S" and undrawn: "undrawn E (view Tx s)"
    and config: "acceptable_config E (config c)" "built_from (config c) lc"
    and Q: "\<And>tmc h con bs cs t. drawn E (Client_State tmc) \<Longrightarrow> decode_tm_client_state E bs = Inr cs \<Longrightarrow>
      view Tx t = put_object (Consensus_State tmc h) con (put_object (Client_State tmc) bs (view Tx s)) \<Longrightarrow>
      Q tmc t"
  shows "returns (create_tendermint_client E lc c) Q s"
proof -
  note fault = session_parts(9) [OF peers] and enc = session_parts(2) [OF peers]
  have drawn: "\<exists>tmc. client_id_generate (rng_alphanumeric E n) Tendermint = Ok tmc \<and> drawn E (Client_State tmc)" for n
    using client_id_generate_Ok session_parts(5) [OF peers] by (auto simp: clients_served_def) blast
  have free: "ibc_data (view Tx s) (object_key (Client_State tmc)) = None"
    "ibc_data (view Tx s) (object_key (Consensus_State tmc h)) = None" if "drawn E (Client_State tmc)" for tmc h
    using that undrawn by (auto intro!: undrawnD [OF undrawn])
  have stores: "returns (bindM (add_tendermint_client_state E Tx tmc cs) (\<lambda>_.
      bindM (add_tendermint_consensus_state E Tx tmc h con) (\<lambda>_. returnM tmc))) Q t"
    if "view Tx t = view Tx s" "drawn E (Client_State tmc)" for tmc cs h con t
    unfolding returns_bindM returns_steps
  proof (rule returns_objects(1) [OF fault enc])
    fix bs u
    assume bs: "encode E (P_Tm_Client_State cs) = Inr bs" "view Tx u = put_object (Client_State tmc) bs (view Tx t)"
    obtain cs' where "decode_tm_client_state E bs = Inr cs'"
      using stored_decodeD(1) [OF session_parts(6) [OF peers] bs(1)] by blast
    with bs(2) that show "returns (add_tendermint_consensus_state E Tx tmc h con) (\<lambda>_. Q tmc) u"
      by (intro returns_objects(2) [OF fault enc]) (auto simp: free keys_of_kinds intro!: Q)
  qed (use free(1) [OF that(2)] that(1) in simp)
  show ?thesis
    unfolding create_tendermint_client_def
      returns_bindM [of "msg_create_tendermint_client E c lc"]
  proof (rule returns_unchanged [OF yields_client_states [OF peers config] keeps_msg_create_tendermint_client])
    fix a :: "tm_client_state \<times> tm_consensus_state" and t
    assume a: "case a of (cs, con) \<Rightarrow> tcs_latest_height cs \<noteq> None" and t: "view Tx t = view Tx s"
    obtain tmc where tmc: "client_id_generate (rng_alphanumeric E (w_ticks t)) Tendermint = Ok tmc"
      "drawn E (Client_State tmc)"
      using drawn by blast
    from a obtain cs con h where a: "a = (cs, con)" "tcs_latest_height cs = Some h"
      by (cases a) auto
    show "returns (case a of (client_state, consensus_state) \<Rightarrow>
        bindM next_tick (\<lambda>n. bindM (lift (client_id_generate (rng_alphanumeric E n) Tendermint)) (\<lambda>cid.
        bindM (lift (ok_or (tcs_latest_height client_state)
          ''latest height cannot be absent in client state'')) (\<lambda>latest_height.
        bindM (add_tendermint_client_state E Tx cid client_state) (\<lambda>_.
        bindM (add_tendermint_consensus_state E Tx cid latest_height consensus_state) (\<lambda>_.
        returnM cid)))))) Q t"
      using stores [OF _ tmc(2), of "t\<lparr>w_ticks := w_ticks t + 1\<rparr>"] t
      by (simp add: a returns_bindM [of next_tick] returns_next_tick tmc(1) del: client_id_generate.simps)
  qed
qed

lemma returns_create_new_client:
  assumes peers: "session_peers E S" and undrawn: "undrawn E (view Tx s)"
    and config: "acceptable_config E (config c)"
    and time: "is_ok (to_u64_timestamp (consensus_timestamp c))"
    and Q: "\<And>smc tmc h con bs cs t. drawn E (Client_State tmc) \<Longrightarrow> decode_tm_client_state E bs = Inr cs \<Longrightarrow>
      view Tx t = put_object (Consensus_State tmc h) con (put_object (Client_State tmc) bs (view Tx s)) \<Longrightarrow>
      Q (smc, tmc) t"
  shows "returns (create_new_client E S memo rid c rpc) Q s"
proof -
  note told = returns_notify [OF peers]
  have light: "returns (prepare_light_client E c rpc) P t" if "\<And>a u. built_from (config c) a \<Longrightarrow> view Tx u = view Tx t \<Longrightarrow> P a u" for P t
    by (rule returns_unchanged [OF yields_light_client [OF config] keeps_handshake_inits(1)])
      (use that in auto)
  have solo: "returns (create_solo_machine_client E S rpc c memo rid) P t"
    if "\<And>a u. view Tx u = view Tx t \<Longrightarrow> P a u" for P t
    by (rule returns_unchanged [OF yields_inits(1) [OF peers time] keeps_handshake_inits(2)]) (use that in auto)
  show ?thesis
    unfolding create_new_client_def returns_bindM returns_steps
    by (intro light solo told returns_create_tendermint_client [OF peers _ config]) (use undrawn in \<open>auto intro!: Q\<close>)
qed


lemma returns_create_connection:
  assumes peers: "session_peers E S" and row: "row_of E c raw (n + 1) (view Tx s)" "0 \<le> n"
    and client: "ibc_data (view Tx s) (object_key (Client_State tmc)) = Some bs"
      "decode_tm_client_state E bs = Inr cs"
    and free: "\<And>k. drawn E (Connection_End k) \<Longrightarrow> ibc_data (view Tx s) (object_key (Connection_End k)) = None"
    and Q: "\<And>smk tmk bs c' ts t. chain_of_raw (node_format E) (next_raw raw ts) = Ok c' \<Longrightarrow>
      view Tx t = put_object (Connection_End tmk) bs (set_chain (chain_str (c_id c)) (next_raw raw ts) (view Tx s)) \<Longrightarrow>
      Q ((smk, tmk), c') t"
  shows "returns (create_connection E c S rpc smc tmc memo rid) Q s"
proof -
  note fault = session_parts(9) [OF peers] and enc = session_parts(2) [OF peers]
  note told = returns_notify [OF peers]
  have init: "returns (connection_open_init E S rpc c smc tmc memo rid) P t"
    if "\<And>a u. view Tx u = view Tx t \<Longrightarrow> P a u" for P t
    by (rule returns_unchanged [OF yields_inits(2) [OF peers] keeps_handshake_inits(3)]) (use that in auto)
  have tried: "returns (connection_open_try E Tx tmc smc smk) P t"
    if t: "view Tx t = view Tx s" and P: "\<And>tmk bs conn u. decode_connection E bs = Inr conn \<Longrightarrow>
      view Tx u = put_object (Connection_End tmk) bs (view Tx s) \<Longrightarrow> P tmk u" for smk P t
  proof -
    obtain tmk where tmk: "connection_id_generate (rng_alphanumeric E (w_ticks t)) = Ok tmk"
      using connection_id_generate_Ok session_parts(5) [OF peers] by (auto simp: clients_served_def) blast
    then have "drawn E (Connection_End tmk)"
      by auto
    note free' = free [OF this]
    have "returns (add_connection E Tx tmk conn) (\<lambda>_. P tmk) u" if "view Tx u = view Tx t" for conn u
      by (rule returns_objects(3) [OF fault enc])
        (use free' t that stored_decodeD(2) [OF session_parts(6) [OF peers]] in \<open>auto intro: P\<close>)
    from this [of "t\<lparr>w_ticks := w_ticks t + 1\<rparr>"] show ?thesis
      by (simp add: connection_open_try_def returns_bindM returns_steps returns_returnM returns_next_tick tmk)
  qed
  have acked: "returns (connection_open_ack E S rpc c smk tmc tmk memo rid) P t"
    if "decode_connection E kb = Inr conn" "view Tx t = put_object (Connection_End tmk) kb (view Tx s)"
      "\<And>c' ts u. chain_of_raw (node_format E) (next_raw raw ts) = Ok c' \<Longrightarrow>
        view Tx u = set_chain (chain_str (c_id c)) (next_raw raw ts)
          (put_object (Connection_End tmk) kb (view Tx s)) \<Longrightarrow> P c' u" for smk kb conn tmk P t
    by (rule returns_acks(1) [OF peers _ row(2)])
      (use row(1) client that keys_of_kinds(1) [symmetric] in \<open>auto simp: fun_upd_apply\<close>)
  have confirmed: "returns (connection_open_confirm E tmk) P t"
    if "decode_connection E kb = Inr conn" "ibc_data (view Tx t) (object_key (Connection_End tmk)) = Some kb"
      "\<And>bs u. view Tx u = put_object (Connection_End tmk) bs (view Tx t) \<Longrightarrow> P () u" for kb conn tmk P t
    unfolding connection_open_confirm_def returns_bindM returns_steps
    by (rule returns_reads(2) [OF fault that(2,1)])
      (use that in \<open>auto intro!: returns_objects(5) [OF fault enc]\<close>)
  show ?thesis
    unfolding create_connection_def returns_bindM returns_steps
    by (intro init told tried; simp?)
      (auto intro!: told acked confirmed Q)
qed


lemma returns_open_channel:
  assumes peers: "session_peers E S" and row: "row_of E c raw (n + 1) (view Tx s)" "0 \<le> n"
    and free: "\<And>p k. drawn E (Channel_End p k) \<Longrightarrow> ibc_data (view Tx s) (object_key (Channel_End p k)) = None"
    and Q: "\<And>smn tmn bs c' ts t. chain_of_raw (node_format E) (next_raw raw ts) = Ok c' \<Longrightarrow>
      view Tx t = put_object (Channel_End (port_id (config c)) tmn) bs
        (set_chain (chain_str (c_id c)) (next_raw raw ts) (view Tx s)) \<Longrightarrow> Q ((smn, tmn), c') t"
  shows "returns (open_channel E S memo rid c rpc smk tmk) Q s"
proof -
  let ?port = "port_id (config c)"
  note fault = session_parts(9) [OF peers] and enc = session_parts(2) [OF peers]
  note told = returns_notify [OF peers]
  have init: "returns (channel_open_init E S rpc c smk memo rid) P t"
    if "\<And>a u. view Tx u = view Tx t \<Longrightarrow> P a u" for P t
    by (rule returns_unchanged [OF yields_inits(3) [OF peers] keeps_handshake_inits(4)]) (use that in auto)
  have tried: "returns (channel_open_try E Tx ?port smn tmk) P t"
    if t: "view Tx t = view Tx s" and P: "\<And>tmn bs chan u. decode_channel E bs = Inr chan \<Longrightarrow>
      view Tx u = put_object (Channel_End ?port tmn) bs (view Tx s) \<Longrightarrow> P tmn u" for smn P t
  proof -
    obtain tmn where tmn: "channel_id_generate (rng_alphanumeric E (w_ticks t)) = Ok tmn"
      using channel_id_generate_Ok session_parts(5) [OF peers] by (auto simp: clients_served_def) blast
    then have "drawn E (Channel_End ?port tmn)"
      by auto
    note free' = free [OF this]
    have "returns (add_channel E Tx ?port tmn chan) (\<lambda>_. P tmn) u" if "view Tx u = view Tx t" for chan u
      by (rule returns_objects(4) [OF fault enc])
        (use free' t that stored_decodeD(3) [OF session_parts(6) [OF peers]] in \<open>auto intro: P\<close>)
    from this [of "t\<lparr>w_ticks := w_ticks t + 1\<rparr>"] show ?thesis
      by (simp add: channel_open_try_def returns_bindM returns_steps returns_returnM returns_next_tick tmn)
  qed
  have acked: "returns (channel_open_ack E S rpc c smn tmn memo rid) P t"
    if "decode_channel E kb = Inr chan" "view Tx t = put_object (Channel_End ?port tmn) kb (view Tx s)"
      "\<And>c' ts u. chain_of_raw (node_format E) (next_raw raw ts) = Ok c' \<Longrightarrow> config c' = config c \<Longrightarrow>
        view Tx u = set_chain (chain_str (c_id c)) (next_raw raw ts)
          (put_object (Channel_End ?port tmn) kb (view Tx s)) \<Longrightarrow> P c' u" for smn kb chan tmn P t
    by (rule returns_acks(2) [OF peers _ row(2)])
      (use row that next_row(3) [OF row] in \<open>auto simp: fun_upd_apply\<close>)
  have confirmed: "returns (channel_open_confirm E ?port tmn) P t"
    if "decode_channel E kb = Inr chan" "ibc_data (view Tx t) (object_key (Channel_End ?port tmn)) = Some kb"
      "\<And>bs u. view Tx u = put_object (Channel_End ?port tmn) bs (view Tx t) \<Longrightarrow> P () u" for kb chan tmn P t
    unfolding channel_open_confirm_def returns_bindM returns_steps
    by (rule returns_reads(3) [OF fault that(2,1)])
      (use that in \<open>auto intro!: returns_objects(6) [OF fault enc]\<close>)
  show ?thesis
    unfolding open_channel_def returns_bindM returns_steps
    by (intro init told tried; simp?)
      (auto intro!: told acked confirmed Q)
qed

section \<open>Connecting succeeds\<close>

lemma returns_commit:
  assumes "\<forall>n. db_fault E n = None" "\<And>t. w_db t = view Tx s \<Longrightarrow> w_tx t = None \<Longrightarrow> Q () t"
  shows "returns (commit_transaction E ctx) Q s"
  using assms by (auto simp: returns_def commit_transaction_Ok_iff)

lemma returns_add_connection_details:
  assumes "\<forall>n. db_fault E n = None" "chains (view Tx s) (chain_str cid) = Some raw"
    and "\<And>ts t. view Tx t = set_chain (chain_str cid)
      (raw\<lparr>raw_connection_details := Some details, raw_updated_at := ts\<rparr>) (view Tx s) \<Longrightarrow> Q () t"
  shows "returns (add_connection_details E Tx cid details) Q s"
  using assms
  by (auto simp: add_connection_details_def returns_def run_Ok_iffs run_sql_Ok_iff update_row_def set_chain_def)

text \<open>The database \<open>d\<close> inside the transaction, after each phase from \<open>d0\<close>.\<close>

definition after_clients :: "env \<Rightarrow> client_id \<Rightarrow> database \<Rightarrow> database \<Rightarrow> bool" where
  "after_clients E tmc d0 d \<longleftrightarrow>
     (\<exists>h con bs cs. decode_tm_client_state E bs = Inr cs \<and>
        d = put_object (Consensus_State tmc h) con (put_object (Client_State tmc) bs d0))"

definition after_connection :: "env \<Rightarrow> string \<Rightarrow> raw_chain \<Rightarrow> chain \<Rightarrow> database \<Rightarrow> database \<Rightarrow> bool" where
  "after_connection E key raw c d0 d \<longleftrightarrow>
     (\<exists>ts tmc tmk kb d1. chain_of_raw (node_format E) (next_raw raw ts) = Ok c \<and>
        after_clients E tmc d0 d1 \<and>
        d = put_object (Connection_End tmk) kb (set_chain key (next_raw raw ts) d1))"

definition after_channel :: "env \<Rightarrow> string \<Rightarrow> raw_chain \<Rightarrow> chain \<Rightarrow> database \<Rightarrow> database \<Rightarrow> bool" where
  "after_channel E key raw c d0 d \<longleftrightarrow>
     (\<exists>ts1 ts2. chain_of_raw (node_format E) (next_raw (next_raw raw ts1) ts2) = Ok c \<and>
        chains d = (chains d0)(key \<mapsto> next_raw (next_raw raw ts1) ts2) \<and>
        operations d = operations d0)"

lemma after_intros:
  "decode_tm_client_state E bs = Inr cs \<Longrightarrow>
     d = put_object (Consensus_State tmc h) con (put_object (Client_State tmc) bs d0) \<Longrightarrow> after_clients E tmc d0 d"
  "chain_of_raw (node_format E) (next_raw raw ts) = Ok c \<Longrightarrow> after_clients E tmc d0 d1 \<Longrightarrow>
     d = put_object (Connection_End tmk) kb (set_chain key (next_raw raw ts) d1) \<Longrightarrow>
     after_connection E key raw c d0 d"
  "chain_of_raw (node_format E) (next_raw (next_raw raw ts1) ts2) = Ok c \<Longrightarrow>
     chains d = (chains d0)(key \<mapsto> next_raw (next_raw raw ts1) ts2) \<Longrightarrow> operations d = operations d0 \<Longrightarrow>
     after_channel E key raw c d0 d"
  unfolding after_clients_def after_connection_def after_channel_def by blast+

lemma connecting_clients:
  assumes "session_peers E S" "undrawn E (view Tx s)" "acceptable_config E (config c)"
    "row_of E c raw n (view Tx s)"
    and "\<And>smc tmc t. after_clients E tmc (view Tx s) (view Tx t) \<Longrightarrow> Q (smc, tmc) t"
  shows "returns (create_new_client E S memo rid c rpc) Q s"
proof (rule returns_create_new_client [OF assms(1-3)])
  show "is_ok (to_u64_timestamp (consensus_timestamp c))"
    using assms(4) by (simp add: row_of_def)
qed (rule assms(5) [OF after_intros(1)])

lemma connecting_connection:
  assumes "session_peers E S" "undrawn E d0" "row_of E c raw (n + 2) d0" "0 \<le> n"
    and "after_clients E tmc d0 (view Tx s)"
    and "\<And>smk tmk c1 t. after_connection E (chain_str (c_id c)) raw c1 d0 (view Tx t) \<Longrightarrow> Q ((smk, tmk), c1) t"
  shows "returns (create_connection E c S rpc smc tmc memo rid) Q s"
proof -
  obtain h con bs cs where d1: "view Tx s = put_object (Consensus_State tmc h) con (put_object (Client_State tmc) bs d0)"
    "decode_tm_client_state E bs = Inr cs"
    using assms(5) by (auto simp: after_clients_def)
  show ?thesis
  proof (rule returns_create_connection [OF assms(1), of c raw "n + 1"])
    show "row_of E c raw (n + 1 + 1) (view Tx s)"
      using assms(3) by (simp add: d1(1) add.commute)
    show "ibc_data (view Tx s) (object_key (Client_State tmc)) = Some bs" "decode_tm_client_state E bs = Inr cs"
      by (simp_all add: d1 keys_of_kinds(6) [symmetric])
    show "ibc_data (view Tx s) (object_key (Connection_End k)) = None" if "drawn E (Connection_End k)" for k
      using undrawnD [OF assms(2) that] by (simp add: d1 keys_of_kinds)
  qed (use assms(4) in simp, rule assms(6) [OF after_intros(2) [OF _ assms(5)]])
qed

lemma connecting_channel:
  assumes "session_peers E S" "undrawn E d0" "row_of E c raw (n + 2) d0" "0 \<le> n"
    and after: "after_connection E (chain_str (c_id c)) raw c1 d0 (view Tx s)"
    and Q: "\<And>smn tmn c2 t. after_channel E (chain_str (c_id c)) raw c2 d0 (view Tx t) \<Longrightarrow> Q ((smn, tmn), c2) t"
  shows "returns (open_channel E S memo rid c1 rpc smk tmk) Q s"
proof -
  from after obtain ts tmc h con bs k kb where c1: "chain_of_raw (node_format E) (next_raw raw ts) = Ok c1"
    and d: "view Tx s = put_object (Connection_End k) kb (set_chain (chain_str (c_id c)) (next_raw raw ts)
      (put_object (Consensus_State tmc h) con (put_object (Client_State tmc) bs d0)))"
    by (auto simp: after_connection_def after_clients_def simp del: set_chain_simps(8))
  have "row_of E c raw (n + 1 + 1) d0" "0 \<le> n + 1"
    using assms(3,4) by (simp_all add: add.commute)
  note c1' = next_row [OF this c1]
  show ?thesis
  proof (rule returns_open_channel [OF assms(1), of c1 "next_raw raw ts" n])
    show "row_of E c1 (next_raw raw ts) (n + 1) (view Tx s)"
      using c1'(1) by (simp add: d row_of_def)
    show "ibc_data (view Tx s) (object_key (Channel_End p x)) = None" if "drawn E (Channel_End p x)" for p x
      using undrawnD [OF assms(2) that] by (simp add: d keys_of_kinds)
  qed (rule assms(4), rule Q [OF after_intros(3)], use c1'(2) in \<open>simp_all add: d\<close>)
qed

text \<open>The row of a chain that was connected is in order for \<open>n\<close> mints.\<close>

lemma connected_ready:
  assumes "row_of E c raw (int n + 2) d0" "raw_packet_sequence raw + int n < 2 ^ 32" "keyed d0"
    and "after_channel E (chain_str (c_id c)) raw c2 d0 d"
    and "solo_machine_channel_id details \<noteq> None" "tendermint_channel_id details \<noteq> None"
    and "d' = set_chain (chain_str (c_id c2))
      ((the (chains d (chain_str (c_id c))))\<lparr>raw_connection_details := Some details, raw_updated_at := ts\<rparr>) d"
    and "chain_str (c_id c) = chain_str cid"
  shows "chain_str (c_id c2) = chain_str (c_id c)" "ready (node_format E) cid n d'" "keyed d'"
    "operations d' = operations d0"
    "map_option raw_config (chains d' (chain_str cid)) = Some (raw_config raw)"
proof -
  from assms(4) obtain ts1 ts2 where c2: "chain_of_raw (node_format E) (next_raw (next_raw raw ts1) ts2) = Ok c2"
    and d: "chains d = (chains d0)(chain_str (c_id c) \<mapsto> next_raw (next_raw raw ts1) ts2)" "operations d = operations d0"
    by (auto simp: after_channel_def)
  have id: "raw_id raw = chain_str (c_id c)"
    using assms(1,3) by (auto simp: row_of_def keyed_def)
  show c2_id: "chain_str (c_id c2) = chain_str (c_id c)"
    using chain_of_raw_id [OF c2] by (simp add: id)
  let ?raw = "(next_raw (next_raw raw ts1) ts2)\<lparr>raw_connection_details := Some details, raw_updated_at := ts\<rparr>"
  have "ready_row (node_format E) cid n ?raw"
    using assms(1,2,5,6,8) c2 id chain_of_raw_ok_iff [of "node_format E" ?raw]
      chain_of_raw_ok_iff [of "node_format E" "next_raw (next_raw raw ts1) ts2"]
    by (auto simp: ready_row_def row_of_def chain_of_raw_Ok_iff is_ok_iff next_raw_def)
  then show "ready (node_format E) cid n d'" "keyed d'" "operations d' = operations d0"
    "map_option raw_config (chains d' (chain_str cid)) = Some (raw_config raw)"
    using assms(3,8) id by (auto simp: assms(7) c2_id d ready_def keyed_def)
qed

lemma connect_returns:
  assumes peers: "session_peers E S" and undrawn: "undrawn E (w_db s)" and keyed: "keyed (w_db s)"
    and raw: "chains (w_db s) (chain_str cid) = Some raw" "raw_connection_details raw = None"
    and c: "chain_of_raw (node_format E) raw = Ok c"
    and config: "acceptable_config E (config c)"
    and row: "row_of E c raw (int n + 2) (w_db s)" "raw_packet_sequence raw + int n < 2 ^ 32"
  shows "\<exists>t. connect E S cid rid memo force s = (Ok (), t) \<and> ready (node_format E) cid n (w_db t) \<and>
    keyed (w_db t) \<and> w_tx t = None \<and> operations (w_db t) = operations (w_db s) \<and>
    map_option raw_config (chains (w_db t) (chain_str cid)) = Some (raw_config raw)"
proof -
  note parts = session_parts [OF peers]
  let ?K = "chain_str (c_id c)"
  let ?done = "\<lambda>d. ready (node_format E) cid n d \<and> keyed d \<and> operations d = operations (w_db s) \<and>
      (\<exists>z. chains d (chain_str cid) = Some z \<and> raw_config z = raw_config raw)"
  have id: "?K = chain_str cid"
    using chain_of_raw_id [OF c] keyed raw(1) by (simp add: keyed_def)
  have none: "connection_details c = None"
    using c raw(2) by (simp add: chain_of_raw_Ok_iff)
  have chain: "returns (known_chain E Tx cid) P t" if "view Tx t = w_db s" "\<And>u. view Tx u = w_db s \<Longrightarrow> P c u" for P t
    by (rule returns_known_chain) (use parts(9) raw(1) c that in auto)
  have client: "returns (rpc_client E c) P t" if "\<And>rpc. P rpc t" for P t
    using config that by (simp add: rpc_client_def returns_bindM returns_steps acceptable_config_def)
  have clients: "returns (create_new_client E S memo rid c rpc) P t"
    if "view Tx t = w_db s" "\<And>smc tmc u. after_clients E tmc (w_db s) (view Tx u) \<Longrightarrow> P (smc, tmc) u" for rpc P t
    by (rule connecting_clients [OF peers _ config]) (use that undrawn row(1) in auto)
  have last: "returns (add_connection_details E Tx (c_id c2) details) (\<lambda>_.
      returns (notify_event E ev) (\<lambda>_. returns (commit_transaction E ctx) (\<lambda>_ t. ?done (w_db t)))) u"
    if after: "after_channel E ?K raw c2 (w_db s) (view Tx u)"
      and details: "solo_machine_channel_id details \<noteq> None" "tendermint_channel_id details \<noteq> None"
    for u c2 details ev ctx
  proof (rule returns_add_connection_details [OF parts(9)])
    note finished = connected_ready [OF row keyed after details refl id]
    show "chains (view Tx u) (chain_str (c_id c2)) = Some (the (chains (view Tx u) ?K))"
      using after by (auto simp: finished(1) after_channel_def)
    fix ts t
    assume "view Tx t = set_chain (chain_str (c_id c2)) ((the (chains (view Tx u) ?K))
      \<lparr>raw_connection_details := Some details, raw_updated_at := ts\<rparr>) (view Tx u)"
    then have "?done (view Tx t)"
      using finished(2-5) by simp
    then show "returns (notify_event E ev) (\<lambda>_. returns (commit_transaction E ctx) (\<lambda>_ t. ?done (w_db t))) t"
      by (intro returns_notify [OF peers] returns_commit [OF parts(9)]) simp
  qed
  have steps: "returns (bindM m f) R = returns m (\<lambda>a. returns (f a) R)" "returns (returnM a) R = R a"
    "returns (lift (Ok a)) R = R a" for m :: "'x run" and f :: "'x \<Rightarrow> 'y run" and a R
    by (auto simp: fun_eq_iff returns_bindM returns_steps)
  have "returns (connect E S cid rid memo force) (\<lambda>_ t. ?done (w_db t) \<and> w_tx t = None) s"
    unfolding connect_def Let_def
    by (rule returns_scoped)
      (auto simp: steps connection_status_def none
        intro!: returns_effects(1) [OF parts(1)] chain client clients last
          connecting_connection [OF peers undrawn row(1)] connecting_channel [OF peers undrawn row(1)])
  then show ?thesis
    by (auto simp: returns_def)
qed


section \<open>A session\<close>

text \<open>The clock shows a time that a consensus state can hold, and node identifiers print and parse.\<close>

definition clock_runs :: "env \<Rightarrow> bool" where
  "clock_runs E \<longleftrightarrow> (\<forall>n. is_ok (to_u64_timestamp (now E n))) \<and> node_id_laws (node_format E)"

lemma returns_called: "f (w_ticks s) = Inr a \<Longrightarrow> Q a (s\<lparr>w_ticks := w_ticks s + 1\<rparr>) \<Longrightarrow> returns (call f) Q s"
  by (simp add: returns_def call_Ok_iff)

lemma returns_added:
  assumes "\<forall>n. db_fault E n = None"
  shows "chains (view Tx s) (chain_str cid) = None \<Longrightarrow>
      (\<And>n t. view Tx t = set_chain (chain_str cid)
        (new_raw_chain (now E n) (chain_str cid) (node_id_to_string (node_format E) node) cfg) (view Tx s) \<Longrightarrow> Q1 () t) \<Longrightarrow>
      returns (add_chain E Tx cid node cfg) Q1 s"
    and "chain_keys (view Tx s) = [] \<Longrightarrow>
      (\<And>ks i t. view Tx t = (view Tx s)\<lparr>chain_keys := ks, next_key_id := i\<rparr> \<Longrightarrow> Q2 () t) \<Longrightarrow>
      returns (add_chain_key E Tx cid key) Q2 s"
  using assms
  by (auto simp: add_chain_def add_chain_key_def Let_def returns_def run_Ok_iffs run_sql_Ok_iff
      insert_row_def insert_chain_key_def set_chain_def)

text \<open>Telling an event leaves the committed database alone.\<close>

lemma returns_told:
  assumes "session_peers E S" "\<And>t. w_db t = w_db s \<Longrightarrow> Q () t"
  shows "returns (notify_event E ev) Q s"
  by (rule returns_yields [OF yields_notify [OF session_parts(1) [OF assms(1)]] keeps_unchanged_notify])
    (use assms(2) in \<open>auto simp: unchanged_def\<close>)

lemma add_returns:
  assumes peers: "session_peers E S" and clock: "clock_runs E"
    and config: "acceptable_config E cfg" and empty: "w_db s = empty_database"
  shows "\<exists>cid c raw t. chain_service_add E cfg key s = (Ok cid, t) \<and> chains (w_db t) = [chain_str cid \<mapsto> raw] \<and>
    raw_id raw = chain_str cid \<and> raw_sequence raw = 1 \<and> raw_packet_sequence raw = 1 \<and>
    raw_connection_details raw = None \<and> chain_of_raw (node_format E) raw = Ok c \<and> config c = cfg \<and>
    is_ok (to_u64_timestamp (consensus_timestamp c)) \<and> ibc_data (w_db t) = Map.empty \<and>
    operations (w_db t) = [] \<and> w_tx t = None"
proof -
  note parts = session_parts [OF peers]
  obtain st where st: "rpc_status E (w_ticks s) (rpc_addr cfg) = Inr st" "is_ok (chain_id_from_str (network st))"
    using parts(1) unfolding nodes_answer_def by blast
  then obtain cid where cid: "chain_id_from_str (network st) = Ok cid"
    by (auto simp: is_ok_iff)
  let ?raw = "\<lambda>ts. new_raw_chain ts (chain_str cid) (node_id_to_string (node_format E) (status_node_id st)) cfg"
  let ?good = "\<lambda>d. \<exists>ts. chains d = [chain_str cid \<mapsto> ?raw ts] \<and> ibc_data d = Map.empty \<and> operations d = [] \<and>
    is_ok (to_u64_timestamp ts)"
  have "returns (chain_service_add E cfg key) (\<lambda>a t. a = cid \<and> ?good (w_db t) \<and> w_tx t = None) s"
    unfolding chain_service_add_def
  proof (rule returns_scoped, unfold returns_bindM returns_steps, intro exI conjI returns_called returns_effects(1) [OF parts(1)])
    show "external (http_client_new E (rpc_addr cfg)) = Ok ()"
      using config by (simp add: acceptable_config_def)
    show "rpc_status E (w_ticks s) (rpc_addr cfg) = Inr st" "chain_id_from_str (network st) = Ok cid"
      by (rule st(1), rule cid)
    fix t
    assume t: "view Tx t = w_db (s\<lparr>w_ticks := w_ticks s + 1\<rparr>)"
    show "returns (add_chain E Tx cid (status_node_id st) cfg) (\<lambda>_. returns (add_chain_key E Tx cid key) (\<lambda>_.
        returns (commit_transaction E ''unable to commit transaction for adding IBC chain'') (\<lambda>_.
        returns (notify_event E (ChainAdded cid)) (\<lambda>_ t. cid = cid \<and> ?good (w_db (t\<lparr>w_tx := None\<rparr>)) \<and>
          w_tx (t\<lparr>w_tx := None\<rparr>) = None)))) t"
      by (intro returns_added [OF parts(9)] returns_commit [OF parts(9)] returns_told [OF peers])
        (use t clock in \<open>auto simp: empty empty_database_def clock_runs_def\<close>)
  qed
  then obtain t ts where run: "chain_service_add E cfg key s = (Ok cid, t)" "w_tx t = None"
    and t: "chains (w_db t) = [chain_str cid \<mapsto> ?raw ts]" "ibc_data (w_db t) = Map.empty"
      "operations (w_db t) = []" "is_ok (to_u64_timestamp ts)"
    by (auto simp: returns_def)
  have "chain_id_from_str (chain_str cid) = Ok cid"
    using cid by (auto simp: chain_id_from_str_Ok_iff chain_str_def)
  then obtain c where c: "chain_of_raw (node_format E) (?raw ts) = Ok c"
    using clock chain_of_raw_ok_iff [of "node_format E" "?raw ts"]
    by (auto simp: is_ok_iff new_raw_chain_def clock_runs_def node_id_laws_def)
  have "is_ok (to_u64_timestamp (consensus_timestamp c))" "config c = cfg"
    using c t(4) by (simp_all add: chain_of_raw_Ok_iff new_raw_chain_def)
  with run t c show ?thesis
    by (intro exI conjI) (assumption | simp add: new_raw_chain_def)+
qed

text \<open>The first session of a machine: a chain is added, connected and minted on.\<close>

definition session ::
    "env \<Rightarrow> signer \<Rightarrow> chain_config \<Rightarrow> string \<Rightarrow> string option \<Rightarrow> string \<Rightarrow> bool \<Rightarrow> mint_order list \<Rightarrow>
     unit run" where
  "session E S cfg key rid memo force orders =
     bindM (chain_service_add E cfg key) (\<lambda>cid.
     bindM (connect E S cid rid memo force) (\<lambda>_.
     mint_all E S cid orders))"

text \<open>C5: From an empty database and with peers that cooperate, a machine gets all the way: adding a
  chain succeeds, both handshakes of connecting to it succeed, and then any number of mints in a
  row succeed, up to the end of the 32-bit sequence, each recorded in the history. No check of
  one step refuses what the step before it wrote. The configuration of the chain is one whose
  address, trust level, durations and trusted block the libraries and the full node accept; of
  these, adding a chain checks only the address.\<close>

theorem session_succeeds:
  assumes "session_peers E S" "clock_runs E" "acceptable_config E cfg" "w_db s = empty_database"
    "length orders + 3 < 2 ^ 32"
  shows "\<exists>t. session E S cfg key rid memo force orders s = (Ok (), t) \<and>
    length (operations (w_db t)) = length orders"
proof -
  obtain cid c raw t where add: "chain_service_add E cfg key s = (Ok cid, t)"
    and t: "chains (w_db t) = [chain_str cid \<mapsto> raw]" "raw_id raw = chain_str cid" "raw_sequence raw = 1"
      "raw_packet_sequence raw = 1" "raw_connection_details raw = None"
      "chain_of_raw (node_format E) raw = Ok c" "is_ok (to_u64_timestamp (consensus_timestamp c))" "config c = cfg"
      "ibc_data (w_db t) = Map.empty" "operations (w_db t) = []"
    using add_returns [OF assms(1-4)] by blast
  have row: "row_of E c raw (int (length orders) + 2) (w_db t)"
    using t chain_of_raw_id [OF t(6)] assms(5) by (simp add: row_of_def)
  have "keyed (w_db t)" "undrawn E (w_db t)" "chains (w_db t) (chain_str cid) = Some raw"
    "raw_packet_sequence raw + int (length orders) < 2 ^ 32"
    using t assms(5) by (auto simp: keyed_def undrawn_def split: if_splits)
  from connect_returns [OF assms(1) this(2,1,3) t(5,6) _ row this(4), of rid memo force]
  obtain u where con: "connect E S cid rid memo force t = (Ok (), u)"
    and u: "ready (node_format E) cid (length orders) (w_db u)" "keyed (w_db u)" "w_tx u = None"
      "operations (w_db u) = []" "map_option raw_config (chains (w_db u) (chain_str cid)) = Some cfg"
    using t(8,10) t(6) assms(3) by (auto simp: chain_of_raw_Ok_iff)
  from mint_all_returns [OF session_parts(4,8) [OF assms(1)] _ u(5,1-3)] assms(3) u(4) add con show ?thesis
    by (auto simp: session_def bindM_def acceptable_config_def)
qed

section \<open>An environment for a session\<close>

lemma ex_session_names:
  "names (ex_live_env 0) ''create_client'' ''client_id'' client_id_from_str (ex_response 0)"
  "names (ex_live_env 0) ''connection_open_init'' ''connection_id'' connection_id_from_str (ex_response 0)"
  "names (ex_live_env 0) ''channel_open_init'' ''channel_id'' channel_id_from_str (ex_response 0)"
  by code_simp+

lemma ex_session_peers: "session_peers (ex_live_env 0) ex_signer" "clock_runs (ex_live_env 0)"
proof -
  have "clients_served (ex_live_env 0)"
    by (simp add: clients_served_def ex_live_env_def ex_env_def alphanumeric_source_def
        is_alphanumeric_def in_range_def byte_of_def)
  moreover have "stored_decode (ex_live_env 0)"
    by (simp add: stored_decode_def ex_live_env_def ex_env_def)
  moreover have "chain_connects (ex_live_env 0)"
    using ex_session_names
    by (simp add: chain_connects_def chain_accepts_def ex_live_env_def ex_env_def)
      (simp add: ex_response_def)
  ultimately show "session_peers (ex_live_env 0) ex_signer"
    using cooperative_willing [OF ex_live_cooperative(1)] ex_live_chains(1) by (simp add: session_peers_def)
  show "clock_runs (ex_live_env 0)"
    using ex_format_laws
    by (simp add: clock_runs_def ex_live_env_def ex_env_def to_u64_timestamp_def unix_timestamp_def)
qed

theorem session_succeeds_witness:
  "\<exists>t. session (ex_live_env 0) ex_signer ex_config ''00'' None [] False ex_orders ex_empty_world = (Ok (), t) \<and>
     length (operations (w_db t)) = 2"
proof -
  have "length ex_orders = 2" "w_db ex_empty_world = empty_database"
    "acceptable_config (ex_live_env 0) ex_config"
    by (simp_all add: ex_orders_def ex_empty_world_def acceptable_config_def ex_live_env_def ex_env_def)
  then show ?thesis
    using session_succeeds [OF ex_session_peers, of ex_config ex_empty_world ex_orders "''00''" None "[]" False]
    by simp
qed

end
