(* ===== verification/Concurrency.thy ===== *)
theory Concurrency
  imports Grpc_Properties Liveness Store_Properties
begin

text \<open>
  Requests that run at the same time. The server handles every call in a task of its own, and the
  tasks share the database: between two accesses of one request to it, other requests may run.
  SQLite lets one transaction write at a time, so what runs undisturbed is a transaction, or a
  single statement on the pool. Connecting, updating the signer, closing a channel and adding a
  chain read and write inside one transaction. Minting reads the row of its chain before its
  transaction and records its operation after it; burning reads the row, records its operation,
  and then answers each packet in a transaction of its own. The tasks of both are cut there.
\<close>

section \<open>Requests in pieces\<close>

type_synonym burn_order = "string option \<times> u256 \<times> ident \<times> string"

text \<open>Minting from the row that was read to the end of its transaction; \<open>record_mint\<close> is the rest.\<close>

definition send_from :: "env \<Rightarrow> signer \<Rightarrow> chain \<Rightarrow> mint_order \<Rightarrow> (string \<times> tx_response \<times> string) run" where
  "send_from E S c = (\<lambda>(request_id, amount, d, receiver, memo).
     bindM (lift (to_account_address S)) (\<lambda>address.
     let receiver = (case receiver of Some r \<Rightarrow> r | None \<Rightarrow> address) in
     bindM (rpc_client E c) (\<lambda>rpc.
     bindM (begin_transaction E) (\<lambda>_.
     bindM (msg_token_send E S rpc c amount d receiver memo request_id) (\<lambda>(msg, c).
     bindM (lift (proto_encode E (P_Tx_Raw msg))) (\<lambda>bs.
     bindM (broadcast_tx_commit E rpc bs) (\<lambda>response.
     bindM (lift (ensure_response_success response)) (\<lambda>transaction_hash.
     bindM (commit_transaction E ''unable to commit transaction for sending tokens over IBC'') (\<lambda>_.
     returnM (receiver, response, transaction_hash))))))))))"

text \<open>Burning from the row that was read to the packets that the chain sent back.\<close>

definition burn_from :: "env \<Rightarrow> signer \<Rightarrow> chain_id \<Rightarrow> chain \<Rightarrow> burn_order \<Rightarrow>
     (string \<times> string \<times> packet list) run" where
  "burn_from E S cid c = (\<lambda>(request_id, amount, d, memo).
     bindM (rpc_client E c) (\<lambda>rpc.
     bindM (lift (to_account_address S)) (\<lambda>address.
     bindM (msg_token_receive E S c amount d address memo request_id) (\<lambda>msg.
     bindM (lift (proto_encode E (P_Tx_Raw msg))) (\<lambda>bs.
     bindM (broadcast_tx_commit E rpc bs) (\<lambda>response.
     bindM (lift (ensure_response_success response)) (\<lambda>transaction_hash.
     bindM (add_operation E Pool request_id address d amount (Burn cid) transaction_hash) (\<lambda>_.
     bindM (notify_event E (TokensBurnt cid request_id address amount d transaction_hash)) (\<lambda>_.
     bindM (lift (extract_packets E response)) (\<lambda>packets.
     returnM (rpc, transaction_hash, packets)))))))))))"

definition packet_channels :: "chain \<Rightarrow> (channel_id \<times> channel_id) outcome" where
  "packet_channels c =
     and_then (ok_or (connection_details c)
       (''connection details for chain with id '' @ chain_str (c_id c) @ '' are missing'')) (\<lambda>details.
     and_then (ensure (tendermint_channel_id details \<noteq> None) (channel_closed ''tendermint'')) (\<lambda>_.
     and_then (ensure (solo_machine_channel_id details \<noteq> None) (channel_closed ''solo machine'')) (\<lambda>_.
     and_then (unwrap_opt (solo_machine_channel_id details)) (\<lambda>smn.
     and_then (unwrap_opt (tendermint_channel_id details)) (\<lambda>tmn.
     Ok (smn, tmn))))))"

text \<open>A task is what a request still has to do.\<close>

datatype task =
    Whole_Call "nat option" rpc
  | Mint_Read chain_id mint_order
  | Mint_Send chain_id mint_order chain
  | Mint_Record chain_id mint_order string tx_response string
  | Burn_Read chain_id burn_order
  | Burn_Send chain_id burn_order chain
  | Burn_Open burn_order chain string "packet list"
  | Burn_Answer burn_order chain string channel_id channel_id "packet list"

text \<open>An answer that goes wrong is reported by an event; the tokens are burnt all the same.\<close>

definition or_warn :: "env \<Rightarrow> 'a run \<Rightarrow> ('a \<Rightarrow> task option) \<Rightarrow> task option run" where
  "or_warn E m next =
     bindM (catchM m) (\<lambda>processed.
     case processed of
       Inl e \<Rightarrow> bindM (notify_event E (Event_Warning (error_to_string e))) (\<lambda>_. returnM None)
     | Inr a \<Rightarrow> returnM (next a))"

text \<open>One undisturbed piece of a task, and the task after it; \<open>None\<close> is the end of the request.\<close>

fun advance :: "env \<Rightarrow> front_libs \<Rightarrow> signer \<Rightarrow> task \<Rightarrow> task option run" where
  "advance E G S (Whole_Call deadline request) =
     (\<lambda>w. (Ok None, snd (serve_within deadline E G S request w)))"
| "advance E G S (Mint_Read cid req) =
     bindM (known_chain E Pool cid) (\<lambda>c. returnM (Some (Mint_Send cid req c)))"
| "advance E G S (Mint_Send cid req c) = scoped (
     bindM (send_from E S c req) (\<lambda>(to, response, hash).
     returnM (Some (Mint_Record cid req to response hash))))"
| "advance E G S (Mint_Record cid (rid, amount, d, receiver, memo) to response hash) =
     bindM (record_mint E cid rid amount d to response hash) (\<lambda>_. returnM None)"
| "advance E G S (Burn_Read cid req) =
     bindM (known_chain E Pool cid) (\<lambda>c. returnM (Some (Burn_Send cid req c)))"
| "advance E G S (Burn_Send cid req c) =
     bindM (burn_from E S cid c req) (\<lambda>(rpc, hash, packets). returnM (Some (Burn_Open req c rpc packets)))"
| "advance E G S (Burn_Open req c rpc packets) =
     or_warn E (lift (packet_channels c)) (\<lambda>(smn, tmn). Some (Burn_Answer req c rpc smn tmn packets))"
| "advance E G S (Burn_Answer req c rpc smn tmn []) = returnM None"
| "advance E G S (Burn_Answer (rid, amount, d, memo) c rpc smn tmn (p # packets)) =
     or_warn E (process_packet E S rpc smn tmn memo rid p c)
       (\<lambda>c. Some (Burn_Answer (rid, amount, d, memo) c rpc smn tmn packets))"

fun waiting :: "task \<Rightarrow> bool" where
  "waiting (Whole_Call _ _) = True"
| "waiting (Mint_Read _ _) = True"
| "waiting (Burn_Read _ _) = True"
| "waiting _ = False"

fun rest_of :: "task option outcome \<Rightarrow> task list" where
  "rest_of (Ok (Some t)) = [t]"
| "rest_of _ = []"

text \<open>The server: a request arrives, a task runs its next piece, or it is dropped at its deadline.\<close>

inductive server_step ::
    "env \<Rightarrow> front_libs \<Rightarrow> signer \<Rightarrow> world \<times> task list \<Rightarrow> world \<times> task list \<Rightarrow> bool" for E G S where
  arrives: "waiting t \<Longrightarrow> server_step E G S (w, ts) (w, ts @ [t])"
| advances: "advance E G S t w = (r, w') \<Longrightarrow> server_step E G S (w, ts @ t # us) (w', ts @ rest_of r @ us)"
| drops: "server_step E G S (w, ts @ t # us) (w, ts @ us)"

inductive_cases server_stepE: "server_step E G S x y"

section \<open>The pieces are the requests\<close>

text \<open>A task that nothing disturbs, from its beginning to its end.\<close>

inductive finishes :: "env \<Rightarrow> front_libs \<Rightarrow> signer \<Rightarrow> task \<Rightarrow> world \<Rightarrow> world \<Rightarrow> bool" for E G S where
  ends: "advance E G S t w = (r, w') \<Longrightarrow> rest_of r = [] \<Longrightarrow> finishes E G S t w w'"
| goes_on: "advance E G S t w = (r, w') \<Longrightarrow> rest_of r = [t'] \<Longrightarrow> finishes E G S t' w' w'' \<Longrightarrow>
    finishes E G S t w w''"

inductive_simps finishes_simps: "finishes E G S t w w'"

lemma mint_from_pieces:
  "mint E S cid rid amount d receiver memo =
     scoped (bindM (known_chain E Pool cid) (\<lambda>c.
       bindM (send_from E S c (rid, amount, d, receiver, memo)) (\<lambda>(to, response, hash).
       record_mint E cid rid amount d to response hash)))"
  by (simp add: mint_def send_from_def record_mint_def bindM_assoc bindM_case_prod Let_def)

lemma process_packets_channels:
  "process_packets E S rpc c packets memo rid =
     bindM (lift (packet_channels c)) (\<lambda>(smn, tmn).
       fold_each (process_packet E S rpc smn tmn memo rid) packets c)"
  by (cases "connection_details c")
    (auto simp: process_packets_def packet_channels_def ensure_def bail_def)

lemma burn_from_pieces:
  "burn E S cid rid amount d memo =
     bindM (known_chain E Pool cid) (\<lambda>c.
     bindM (burn_from E S cid c (rid, amount, d, memo)) (\<lambda>(rpc, hash, packets).
     bindM (catchM (process_packets E S rpc c packets memo rid)) (\<lambda>processed.
     bindM (case processed of
              Inl e \<Rightarrow> notify_event E (Event_Warning (error_to_string e))
            | Inr _ \<Rightarrow> returnM ()) (\<lambda>_.
     returnM hash))))"
  by (simp add: burn_def burn_from_def bindM_assoc)

lemma finishes_steps:
  "advance E G S t w = (r, u) \<Longrightarrow> rest_of r = [] \<Longrightarrow> finishes E G S t w w' \<longleftrightarrow> w' = u"
  "advance E G S t w = (r, u) \<Longrightarrow> rest_of r = [t'] \<Longrightarrow> finishes E G S t w w' \<longleftrightarrow> finishes E G S t' u w'"
  by (subst finishes_simps; auto)+

text \<open>No transaction is open between two pieces.\<close>

definition stays_idle :: "world \<Rightarrow> world \<Rightarrow> bool" where
  "stays_idle s t \<longleftrightarrow> (w_tx s = None \<longrightarrow> w_tx t = None)"

interpretation idle_frame: frame_relation stays_idle
  by unfold_locales (auto simp: stays_idle_def)

lemma keeps_idle_of_unchanged: "keeps unchanged m \<Longrightarrow> keeps stays_idle m"
  by (simp add: keeps_def unchanged_def stays_idle_def)

lemma keeps_idle_add_operation [keeps_intros]: "keeps stays_idle (add_operation E Pool rid a d n ty h)"
proof -
  have "keeps stays_idle (run_sql E Pool (\<lambda>t. insert_operation t rid a dn bs ty h))" for dn bs
    by (auto simp: keeps_def stays_idle_def run_sql_def Let_def split: option.splits sum.splits)
  then show ?thesis
    unfolding add_operation_def by (intro keeps_intros)
qed

lemma keeps_idle_record_mint: "keeps stays_idle (record_mint E cid rid amount d to response hash)"
  unfolding record_mint_def by (intro keeps_intros | rule keeps_idle_of_unchanged)+

lemma send_from_Ok_idle: "send_from E S c req s = (Ok a, t) \<Longrightarrow> w_tx t = None"
  by (cases req) (auto simp: send_from_def Let_def run_Ok_iffs commit_transaction_Ok_iff split: prod.splits)

lemma no_transaction: "w_tx w = None \<Longrightarrow> w\<lparr>w_tx := None\<rparr> = w"
  by simp

lemma undisturbed_mint:
  assumes "w_tx w = None"
  shows "finishes E G S (Mint_Read cid (rid, amount, d, receiver, memo)) w w' \<longleftrightarrow>
    w' = snd (mint E S cid rid amount d receiver memo w)"
proof -
  let ?req = "(rid, amount, d, receiver, memo)"
  obtain r1 w1 where read: "known_chain E Pool cid w = (r1, w1)"
    by fastforce
  have w1: "w_tx w1 = None"
    using keepsD [OF keeps_service_reads(2) read] assms by (simp add: unchanged_def)
  show ?thesis
  proof (cases r1)
    case (Ok c)
    obtain r2 w2 where send: "send_from E S c ?req w1 = (r2, w2)"
      by fastforce
    show ?thesis
    proof (cases r2)
      fix sent
      assume r2: "r2 = Ok sent"
      obtain to response hash where sent: "sent = (to, response, hash)"
        by (cases sent)
      have w2: "w_tx w2 = None"
        using send_from_Ok_idle send r2 by blast
      obtain r3 w3 where rest: "record_mint E cid rid amount d to response hash w2 = (r3, w3)"
        by fastforce
      have w3: "w_tx w3 = None"
        using keepsD [OF keeps_idle_record_mint rest] w2 by (simp add: stays_idle_def)
      have recorded: "finishes E G S (Mint_Record cid ?req to response hash) w2 w' \<longleftrightarrow> w' = w3"
        by (rule finishes_steps(1) [where r = "case r3 of Ok _ \<Rightarrow> Ok None | Err e \<Rightarrow> Err e | Panic p \<Rightarrow> Panic p"])
          (cases r3; simp add: bindM_def rest returnM_def)+
      have "finishes E G S (Mint_Send cid ?req c) w1 w' \<longleftrightarrow> w' = w3"
        using recorded no_transaction [OF w2]
        by (subst finishes_steps(2) [where r = "Ok (Some (Mint_Record cid ?req to response hash))" and u = w2])
          (simp_all add: bindM_def send r2 sent returnM_def scoped_def)
      then show ?thesis
        using read Ok send r2 sent rest no_transaction [OF w3]
        by (subst finishes_steps(2) [where r = "Ok (Some (Mint_Send cid ?req c))" and u = w1])
          (simp_all add: bindM_def returnM_def mint_from_pieces scoped_def)
    qed (use read Ok send no_transaction [OF w1] in \<open>simp_all add: finishes_steps bindM_def returnM_def
        mint_from_pieces scoped_def\<close>)
  qed (use read no_transaction [OF w1] in \<open>simp_all add: finishes_steps bindM_def mint_from_pieces scoped_def\<close>)
qed

lemma undisturbed_answers:
  "finishes E G S (Burn_Answer (rid, amount, d, memo) c rpc smn tmn packets) w w' \<longleftrightarrow>
     w' = snd (bindM (catchM (fold_each (process_packet E S rpc smn tmn memo rid) packets c)) (\<lambda>processed.
       case processed of
         Inl e \<Rightarrow> notify_event E (Event_Warning (error_to_string e))
       | Inr _ \<Rightarrow> returnM ()) w)"
proof (induction packets arbitrary: c w)
  case Nil
  then show ?case
    by (simp add: finishes_steps returnM_def bindM_def catchM_def)
next
  case (Cons p packets)
  obtain r u where p: "process_packet E S rpc smn tmn memo rid p c w = (r, u)"
    by fastforce
  show ?case
  proof (cases r)
    case (Ok c')
    then show ?thesis
      using p Cons.IH [of c' u]
      by (subst finishes_steps(2) [where r = "Ok (Some (Burn_Answer (rid, amount, d, memo) c' rpc smn tmn packets))"
            and u = u])
        (simp_all add: or_warn_def bindM_def catchM_def returnM_def)
  next
    case (Err e)
    obtain r' v where "notify_event E (Event_Warning (error_to_string e)) u = (r', v)"
      by fastforce
    with p Err show ?thesis
      by (cases r') (simp_all add: finishes_steps or_warn_def bindM_def catchM_def returnM_def)
  next
    case (Panic m)
    with p show ?thesis
      by (simp add: finishes_steps or_warn_def bindM_def catchM_def)
  qed
qed

lemma undisturbed_open:
  "finishes E G S (Burn_Open (rid, amount, d, memo) c rpc packets) w w' \<longleftrightarrow>
     w' = snd (bindM (catchM (process_packets E S rpc c packets memo rid)) (\<lambda>processed.
       case processed of
         Inl e \<Rightarrow> notify_event E (Event_Warning (error_to_string e))
       | Inr _ \<Rightarrow> returnM ()) w)"
proof (cases "packet_channels c")
  case (Ok channels)
  obtain smn tmn where channels: "channels = (smn, tmn)"
    by (cases channels)
  have same: "process_packets E S rpc c packets memo rid =
      fold_each (process_packet E S rpc smn tmn memo rid) packets c"
    by (simp add: process_packets_channels Ok channels)
  have opened: "advance E G S (Burn_Open (rid, amount, d, memo) c rpc packets) w =
      (Ok (Some (Burn_Answer (rid, amount, d, memo) c rpc smn tmn packets)), w)"
    by (simp add: Ok channels or_warn_def bindM_def catchM_def returnM_def lift_def)
  show ?thesis
    unfolding same finishes_steps(2) [OF opened rest_of.simps(1)] by (rule undisturbed_answers)
next
  case (Err e)
  obtain r' v where "notify_event E (Event_Warning (error_to_string e)) w = (r', v)"
    by fastforce
  with Err show ?thesis
    by (cases r') (simp_all add: finishes_steps or_warn_def process_packets_channels bindM_def
        catchM_def returnM_def lift_def)
next
  case (Panic m)
  then show ?thesis
    by (simp add: finishes_steps or_warn_def process_packets_channels bindM_def catchM_def lift_def)
qed

lemma undisturbed_burn:
  "finishes E G S (Burn_Read cid (rid, amount, d, memo)) w w' \<longleftrightarrow>
     w' = snd (burn E S cid rid amount d memo w)"
proof -
  let ?req = "(rid, amount, d, memo)"
  obtain r1 w1 where read: "known_chain E Pool cid w = (r1, w1)"
    by fastforce
  show ?thesis
  proof (cases r1)
    case (Ok c)
    obtain r2 w2 where send: "burn_from E S cid c ?req w1 = (r2, w2)"
      by fastforce
    show ?thesis
    proof (cases r2)
      fix sent
      assume r2: "r2 = Ok sent"
      obtain rpc hash packets where sent: "sent = (rpc, hash, packets)"
        by (cases sent)
      have "finishes E G S (Burn_Send cid ?req c) w1 w' \<longleftrightarrow> w' = snd (burn E S cid rid amount d memo w)"
        using read Ok send
        by (subst finishes_steps(2) [where r = "Ok (Some (Burn_Open ?req c rpc packets))" and u = w2])
          (auto simp: undisturbed_open bindM_def r2 sent returnM_def burn_from_pieces
            split: prod.splits outcome.splits sum.splits)
      then show ?thesis
        using read Ok
        by (subst finishes_steps(2) [where r = "Ok (Some (Burn_Send cid ?req c))" and u = w1])
          (simp_all add: bindM_def returnM_def)
    qed (use read Ok send in \<open>simp_all add: finishes_steps bindM_def returnM_def burn_from_pieces\<close>)
  qed (use read in \<open>simp_all add: finishes_steps bindM_def burn_from_pieces\<close>)
qed

text \<open>The pieces put together again are the requests: run without disturbance, the tasks of a mint
  and of a burn end as \<open>mint\<close> and \<open>burn\<close> do.\<close>

lemma undisturbed_requests:
  assumes "w_tx w = None"
  shows "(finishes E G S (Mint_Read cid (rid, amount, d, receiver, memo)) w w' \<longleftrightarrow>
       w' = snd (mint E S cid rid amount d receiver memo w)) \<and>
    (finishes E G S (Burn_Read cid (rid, amount, d, memo)) w w' \<longleftrightarrow>
       w' = snd (burn E S cid rid amount d memo w))"
  using undisturbed_mint [OF assms] undisturbed_burn by blast

section \<open>Any interleaving refines the machine\<close>

text \<open>
  What a task relies on: the row it read is an earlier state of the row that is there now. Rows
  never go back, so no other task can break this.
\<close>

definition read_before :: "node_id_format \<Rightarrow> database \<Rightarrow> chain_id \<Rightarrow> chain \<Rightarrow> bool" where
  "read_before F d cid c \<longleftrightarrow>
     (\<exists>raw0 raw. chain_of_raw F raw0 = Ok c \<and> raw_id raw0 = chain_str cid \<and>
        chains d (chain_str cid) = Some raw \<and> chain_le raw0 raw)"

fun sound_task :: "node_id_format \<Rightarrow> database \<Rightarrow> task \<Rightarrow> bool" where
  "sound_task F d (Mint_Send cid req c) = read_before F d cid c"
| "sound_task F d _ = True"

lemma sound_task_mono: "sound_task F d t \<Longrightarrow> db_le d d' \<Longrightarrow> sound_task F d' t"
proof (induction F d t rule: sound_task.induct)
  case (1 F d cid req c)
  then obtain raw0 raw where "chain_of_raw F raw0 = Ok c" "raw_id raw0 = chain_str cid"
    "chains d (chain_str cid) = Some raw" "chain_le raw0 raw"
    by (auto simp: read_before_def)
  moreover from this obtain raw' where "chains d' (chain_str cid) = Some raw'" "chain_le raw raw'"
    using 1(2) unfolding db_le_def by blast
  ultimately show ?case
    unfolding sound_task.simps read_before_def by (blast intro: chain_le_trans)
qed simp_all

lemma atomic_send_from: "atomic (send_from E S c req)"
  by (cases req) (simp add: send_from_def Let_def,
    (intro atomic_intros keeps_intros | rule keeps_same_db_of_unchanged)+)

text \<open>Sending from a row that was read earlier still advances the row that is there.\<close>

lemma send_from_Ok:
  assumes run: "send_from E S c req s = (Ok a, t)" and keyed: "keyed (w_db s)"
  obtains raw ts c' where "chains (w_db s) (chain_str (c_id c)) = Some raw"
    "w_db t = set_chain (chain_str (c_id c)) (mint_advance raw ts) (w_db s)"
    "chain_of_raw (node_format E) (mint_advance raw ts) = Ok c'"
    "\<exists>details. connection_details c = Some details \<and> solo_machine_channel_id details \<noteq> None \<and>
       tendermint_channel_id details \<noteq> None"
proof -
  obtain rid amount d receiver memo where req: "req = (rid, amount, d, receiver, memo)"
    by (cases req)
  from run obtain address rpc s2 s3 tx c' s4 bs response s5 where
    rpc: "rpc_client E c s = (Ok rpc, s2)" and
    begin_tx: "begin_transaction E s2 = (Ok (), s3)" and
    send: "msg_token_send E S rpc c amount d (case receiver of Some r \<Rightarrow> r | None \<Rightarrow> address) memo rid s3
      = (Ok (tx, c'), s4)" and
    response: "broadcast_tx_commit E rpc bs s4 = (Ok response, s5)" and
    commit: "commit_transaction E ''unable to commit transaction for sending tokens over IBC'' s5 = (Ok (), t)"
    unfolding send_from_def req Let_def by (auto simp: run_Ok_iffs)
  have s3: "view Tx s3 = w_db s"
    using begin_tx rpc_client_Ok [OF rpc] by (auto simp: begin_transaction_Ok_iff)
  have "w_db t = view Tx s4"
    using response commit by (auto simp: broadcast_Ok_iff commit_transaction_Ok_iff)
  with that show thesis
    by (rule_tac msg_token_send_Ok [OF send]) (use keyed s3 in \<open>auto simp: mint_advance_def\<close>)
qed

lemma send_from_step:
  assumes run: "send_from E S c req s = (Ok a, t)" and good: "good_database (node_format E) (w_db s)"
    and held: "read_before (node_format E) (w_db s) cid c"
  shows "db_step (node_format E) (w_db s) (w_db t)"
proof (rule send_from_Ok [OF run good_keyed [OF good]])
  fix raw ts c'
  assume raw: "chains (w_db s) (chain_str (c_id c)) = Some raw"
      "w_db t = set_chain (chain_str (c_id c)) (mint_advance raw ts) (w_db s)"
      "chain_of_raw (node_format E) (mint_advance raw ts) = Ok c'"
    and details: "\<exists>details. connection_details c = Some details \<and>
       solo_machine_channel_id details \<noteq> None \<and> tendermint_channel_id details \<noteq> None"
  from held obtain raw0 raw1 where "chain_of_raw (node_format E) raw0 = Ok c" "raw_id raw0 = chain_str cid"
    "chains (w_db s) (chain_str cid) = Some raw1" "chain_le raw0 raw1"
    by (auto simp: read_before_def)
  then have "raw_connection_details raw = connection_details c"
    using raw(1) chain_of_raw_id [of "node_format E" raw0 c] details
    by (auto simp: chain_le_def chain_of_raw_Ok_iff)
  with details raw show ?thesis
    by (auto simp: transfer_ready_def decodes_def intro!: send_step)
qed

lemma keeps_refines_or_warn [keeps_intros]:
  "keeps (refines F) m \<Longrightarrow> keeps (refines F) (or_warn E m next)"
  unfolding or_warn_def by (assumption | intro keeps_intros | rule keeps_refines_unchanged)+

lemma or_warn_next: "or_warn E m next s = (Ok (Some t'), u) \<Longrightarrow> \<exists>a. next a = Some t'"
  by (auto simp: or_warn_def run_Ok_iffs split: sum.splits) (metis sumE)

lemma keeps_refines_burn_from [keeps_intros]: "keeps (refines F) (burn_from E S cid c req)"
  by (cases req) (simp add: burn_from_def, (intro keeps_intros | rule keeps_refines_unchanged)+)

lemma keeps_refines_pieces:
  "keeps (refines F) (advance E G S (Mint_Record cid req to response hash))"
  "keeps (refines F) (advance E G S (Mint_Read cid req))"
  "keeps (refines F) (advance E G S (Burn_Read cid breq))"
  "keeps (refines F) (advance E G S (Burn_Send cid breq c))"
  "keeps (refines F) (advance E G S (Burn_Open breq c rpc packets))"
  "keeps (refines (node_format E)) (advance E G S (Burn_Answer breq c rpc smn tmn packets))"
  by (cases req; cases breq; cases packets; simp;
    intro keeps_intros refines_record_mint | rule keeps_refines_unchanged)+

lemma read_is_before:
  assumes "known_chain E Pool cid s = (Ok c, t)" "keyed (w_db s)"
  shows "read_before (node_format E) (w_db t) cid c"
  using assms by (elim known_chain_Ok) (auto simp: read_before_def unchanged_def keyed_def)

lemma advance_refines:
  assumes laws: "ibc_codec_laws E" "node_id_laws (node_format E)"
    and run: "advance E G S t w = (r, w')"
    and good: "good_database (node_format E) (w_db w)" "sound_task (node_format E) (w_db w) t"
  shows "(db_step (node_format E))\<^sup>*\<^sup>* (w_db w) (w_db w')"
    "\<And>t'. t' \<in> set (rest_of r) \<Longrightarrow> sound_task (node_format E) (w_db w') t'"
proof -
  show "(db_step (node_format E))\<^sup>*\<^sup>* (w_db w) (w_db w')"
  proof (cases t)
    case (Whole_Call deadline request)
    then show ?thesis
      using run good(1) keeps_refines_serve_within [OF laws, of deadline G S request] by (auto simp: keeps_def refines_def)
  next
    case (Mint_Send cid req c)
    let ?piece = "bindM (send_from E S c req) (\<lambda>(to, response, hash).
      returnM (Some (Mint_Record cid req to response hash)))"
    obtain r1 w1 where piece: "?piece w = (r1, w1)"
      by fastforce
    have w': "w_db w' = w_db w1"
      using run by (auto simp: Mint_Send scoped_def piece)
    obtain r2 w2 where send: "send_from E S c req w = (r2, w2)"
      by fastforce
    have "w1 = w2"
      using piece send by (cases r2) (auto simp: bindM_def returnM_def split: prod.splits)
    moreover have "db_step (node_format E) (w_db w) (w_db w2)" if "is_ok r2"
      using send_from_step [OF _ good(1)] send that good(2) by (cases r2) (auto simp: Mint_Send)
    ultimately show ?thesis
      using w' atomicD [OF atomic_send_from send] by (cases "is_ok r2") auto
  qed (use run good(1) keepsD [OF keeps_refines_pieces(1)] keepsD [OF keeps_refines_pieces(2)]
      keepsD [OF keeps_refines_pieces(3)] keepsD [OF keeps_refines_pieces(4)]
      keepsD [OF keeps_refines_pieces(5)] keepsD [OF keeps_refines_pieces(6)] in \<open>simp only: refines_def; blast\<close>)+
  fix t'
  assume "t' \<in> set (rest_of r)"
  then have r: "r = Ok (Some t')"
    by (cases r rule: rest_of.cases) auto
  show "sound_task (node_format E) (w_db w') t'"
  proof (cases "\<exists>cid req. t = Mint_Read cid req")
    case True
    then show ?thesis
      using run r read_is_before [OF _ good_keyed [OF good(1)]] by (auto simp: run_Ok_iffs)
  next
    case False
    then show ?thesis
      using run r
      by (cases "(E, G, S, t)" rule: advance.cases)
        (auto simp: run_Ok_iffs scoped_Ok_iff split: prod.splits dest!: or_warn_next)
  qed
qed

text \<open>C4: Requests that run at the same time do no harm to the database: however the pieces of any
  number of calls, mints and burns are interleaved, whatever each of them runs into and wherever the
  server is stopped, the committed database has moved only by transitions of the abstract machine,
  is still good, and has lost nothing.\<close>

theorem interleaved_requests_refine_machine:
  assumes "ibc_codec_laws E" "node_id_laws (node_format E)" "good_database (node_format E) (w_db w)"
    and "(server_step E G S)\<^sup>*\<^sup>* (w, []) (w', ts)"
  shows "(db_step (node_format E))\<^sup>*\<^sup>* (w_db w) (w_db w') \<and>
    good_database (node_format E) (w_db w') \<and> db_le (w_db w) (w_db w')"
proof -
  let ?F = "node_format E"
  from assms(4) have "(db_step ?F)\<^sup>*\<^sup>* (w_db w) (w_db w') \<and> (\<forall>t \<in> set ts. sound_task ?F (w_db w') t)"
  proof (induction rule: rtranclp_induct2)
    case (step w1 ts1 w2 ts2)
    note good = db_steps_good [OF _ assms(3)]
    from step.hyps(2) consider (arrives) t where "w2 = w1" "ts2 = ts1 @ [t]" "waiting t"
      | (advances) t r ts us where "ts1 = ts @ t # us" "ts2 = ts @ rest_of r @ us"
        "advance E G S t w1 = (r, w2)"
      | (drops) t ts us where "ts1 = ts @ t # us" "ts2 = ts @ us" "w2 = w1"
      by (elim server_stepE) blast+
    then show ?case
    proof cases
      case (arrives t)
      with step.IH show ?thesis
        by (cases t) auto
    next
      case drops
      with step.IH show ?thesis
        by auto
    next
      case (advances t r ts us)
      have sound: "sound_task ?F (w_db w1) t"
        using step.IH advances(1) by simp
      note advance = advance_refines [OF assms(1,2) advances(3) good sound]
      have "db_le (w_db w1) (w_db w2)"
        using db_steps_le [OF advance(1)] step.IH by blast
      with step.IH advances advance show ?thesis
        by (auto intro: rtranclp_trans sound_task_mono)
    qed
  qed simp
  then show ?thesis
    using db_steps_good [OF _ assms(3)] db_steps_le by blast
qed

section \<open>What interleaving does break\<close>

lemma log_grows_steps [keeps_intros]:
  "keeps log_grows next_tick" "keeps log_grows (emit a)" "keeps log_grows (commit_transaction E ctx)"
  by (auto simp: keeps_def log_grows_def commit_transaction_def Let_def split: option.splits)

lemma log_grows_broadcast [keeps_intros]: "keeps log_grows (broadcast_tx_commit E rpc bs)"
  unfolding broadcast_tx_commit_def call_def by (intro keeps_intros)

text \<open>
  A mint whose peers cooperate signs its packet with the sequence of the chain as it was read,
  whatever row is there now and whatever the chain answers.
\<close>

lemma send_signs:
  assumes coop: "cooperative E S" and keyed: "keyed (w_db s)"
    and row: "chains (w_db s) (chain_str cid) = Some raw" "ready_row (node_format E) cid (Suc n) raw"
    and c: "chain_of_raw (node_format E) raw0 = Ok c" "ready_row (node_format E) cid m raw0"
  obtains r t sb bs doc rest where
    "send_from E S c (rid, amount, d, receiver, memo) s = (r, t)"
    "w_log t = w_log s @ [A_Sign rid (SignBytes bs), A_Sign rid (SignDoc doc)] @ rest"
    "encode E (P_Sign_Bytes sb) = Inr bs" "signed_order E S c (rid, amount, d, receiver, memo) sb"
    "ready (node_format E) cid n (w_db t)" "keyed (w_db t)"
proof -
  note parts = coop [unfolded cooperative_def]
  obtain sender where sender: "to_account_address S = Ok sender"
    using parts by (auto simp: signer_signs_def is_ok_iff)
  let ?to = "case receiver of Some r \<Rightarrow> r | None \<Rightarrow> sender" and ?rpc = "rpc_addr (config c)"
  define s3 where "s3 = s\<lparr>w_tx := Some (w_db s), w_ticks := w_ticks s + 1\<rparr>"
  have client: "rpc_client E c s = (Ok ?rpc, s)"
    using parts by (simp add: rpc_client_def run_Ok_iffs peers_answer_def nodes_answer_def)
  have begin_tx: "begin_transaction E s = (Ok (), s3)"
    using parts by (simp add: begin_transaction_Ok_iff peers_answer_def nodes_answer_def s3_def)
  have s3: "view Tx s3 = w_db s" "w_db s3 = w_db s" "w_log s3 = w_log s"
    by (simp_all add: s3_def)
  have "returns (msg_token_send E S ?rpc c amount d ?to memo rid) (\<lambda>_ _. True) s3"
    by (rule returns_token_send [OF cooperative_willing [OF coop] _ row(2) c]) (simp_all add: s3 row(1))
  then obtain tx c' s4 where
    send: "msg_token_send E S ?rpc c amount d ?to memo rid s3 = (Ok (tx, c'), s4)"
    by (auto simp: returns_def)
  obtain p data sb doc where
    said: "commitment_bytes E p = Ok data" "encode E (P_Sign_Bytes (packet_sign_bytes c p data)) = Inr sb"
      "w_log s4 = w_log s @ [A_Sign rid (SignBytes sb), A_Sign rid (SignDoc doc)]" and
    json: "json_to_vec E (token_transfer_packet_data (ident_str d) (u256_to_string amount) sender ?to memo)
      = Inr (pk_data p)"
    by (rule msg_token_send_Ok [OF send]) (use keyed s3 sender in \<open>auto simp: said_def\<close>)
  let ?tail = "bindM (lift (proto_encode E (P_Tx_Raw tx))) (\<lambda>bs.
     bindM (broadcast_tx_commit E ?rpc bs) (\<lambda>response.
     bindM (lift (ensure_response_success response)) (\<lambda>transaction_hash.
     bindM (commit_transaction E ''unable to commit transaction for sending tokens over IBC'') (\<lambda>_.
     returnM (?to, response, transaction_hash)))))"
  obtain r t where tail: "?tail s4 = (r, t)"
    by fastforce
  have run: "send_from E S c (rid, amount, d, receiver, memo) s = (r, t)"
    using tail client begin_tx send by (simp add: send_from_def sender Let_def bindM_def)
  have "keeps log_grows ?tail"
    by (intro keeps_intros)
  from keepsD [OF this, of s4 r t] tail obtain rest where rest: "w_log t = w_log s4 @ rest"
    by (auto simp: log_grows_def)
  have id: "chain_str (c_id c) = chain_str cid"
    using chain_of_raw_id [OF c(1)] c(2) by (simp add: ready_row_def)
  have "ready (node_format E) cid n (w_db t) \<and> keyed (w_db t)"
  proof (cases r)
    case (Ok a)
    obtain raw' ts where "chains (w_db s) (chain_str (c_id c)) = Some raw'"
      "w_db t = set_chain (chain_str (c_id c)) (mint_advance raw' ts) (w_db s)"
      by (rule send_from_Ok [OF run [unfolded Ok] keyed])
    with row ready_row_parts(3) [OF row(2)] keyed show ?thesis
      by (auto simp: id ready_def keyed_def mint_advance_def)
  qed (use atomicD [OF atomic_send_from run] row keyed in \<open>auto simp: ready_def ready_row_def\<close>)
  with that [OF run] said json sender rest show thesis
    by (auto simp: signed_order_def)
qed

lemma advances_send:
  assumes "send_from E S c req s = (r, t)"
  shows "\<exists>r'. advance E G S (Mint_Send cid req c) s = (r', t\<lparr>w_tx := None\<rparr>)"
  using assms by (cases r) (auto simp: scoped_def bindM_def returnM_def split: prod.splits)

lemma server_runs:
  assumes "(server_step E G S)\<^sup>*\<^sup>* x (w, ts @ t # us)" "advance E G S t w = (r, w')"
  shows "(server_step E G S)\<^sup>*\<^sup>* x (w', ts @ rest_of r @ us)"
  using assms(1) advances [OF assms(2)] by (rule rtranclp.rtrancl_into_rtrancl)

text \<open>
  The packet of a mint carries the order as JSON. The texts of different packet data are different,
  and so are the protobuf encodings of different sign bytes: what serde and prost document.
\<close>

definition packet_of_order :: "env \<Rightarrow> signer \<Rightarrow> mint_order \<Rightarrow> packet \<Rightarrow> bool" where
  "packet_of_order E S ord p \<longleftrightarrow>
     (case ord of (rid, amount, d, receiver, memo) \<Rightarrow>
        \<exists>sender. to_account_address S = Ok sender \<and>
          json_to_vec E (token_transfer_packet_data (ident_str d) (u256_to_string amount) sender
            (case receiver of Some r \<Rightarrow> r | None \<Rightarrow> sender) memo) = Inr (pk_data p))"

definition distinct_texts :: "env \<Rightarrow> bool" where
  "distinct_texts E \<longleftrightarrow>
     (\<forall>d a s r m d' a' s' r' m' bs.
        json_to_vec E (token_transfer_packet_data d a s r m) = Inr bs \<and>
        json_to_vec E (token_transfer_packet_data d' a' s' r' m') = Inr bs \<longrightarrow>
        (d, a, s, r, m) = (d', a', s', r', m')) \<and>
     (\<forall>x y bs. encode E (P_Sign_Bytes x) = Inr bs \<and> encode E (P_Sign_Bytes y) = Inr bs \<longrightarrow> x = y)"

lemma signed_order_packet:
  "signed_order E S c ord sb \<longleftrightarrow>
     (\<exists>p data. sb = packet_sign_bytes c p data \<and> commitment_bytes E p = Ok data \<and> packet_of_order E S ord p)"
  by (cases ord) (auto simp: signed_order_def packet_of_order_def)

lemma packets_of_different_orders:
  assumes "distinct_texts E" "packet_of_order E S (rid1, n1, d1, to1, memo1) p1"
    and "packet_of_order E S (rid2, n2, d2, to2, memo2) p2" "(n1, d1, memo1) \<noteq> (n2, d2, memo2)"
  shows "pk_data p1 \<noteq> pk_data p2"
proof
  assume "pk_data p1 = pk_data p2"
  with assms(2,3) have "(ident_str d1, u256_to_string n1, memo1) = (ident_str d2, u256_to_string n2, memo2)"
    using assms(1) unfolding distinct_texts_def packet_of_order_def by fastforce
  with assms(4) show False
    by (auto simp: u256_to_string_def ident_str_inject word_unat_eq_iff)
qed

text \<open>C17: What interleaving does break is the use of the sequence. Minting reads the sequence it
  signs with before its transaction begins, so on any connected chain two mints can both read the
  chain before either of them sends: both then sign, with the same sequence, the commitments of two
  packets with different data, whatever the chain answers to them. The bytes signed are different as
  well, unless the hashes of the two packets happen to be the same.\<close>

theorem racing_mints_reuse_sequence:
  assumes "cooperative E S" "ready (node_format E) cid 2 (w_db s)" "keyed (w_db s)"
    and "distinct_texts E" "(n1, d1, memo1) \<noteq> (n2, d2, memo2)"
  shows "\<exists>t ts c p1 p2 x1 x2 bs1 bs2 doc1 doc2 rest1 rest2.
    (server_step E G S)\<^sup>*\<^sup>* (s, []) (t, ts) \<and>
    w_log t = w_log s @ [A_Sign rid1 (SignBytes bs1), A_Sign rid1 (SignDoc doc1)] @ rest1 @
      [A_Sign rid2 (SignBytes bs2), A_Sign rid2 (SignDoc doc2)] @ rest2 \<and>
    packet_of_order E S (rid1, n1, d1, to1, memo1) p1 \<and> commitment_bytes E p1 = Ok x1 \<and>
    encode E (P_Sign_Bytes (packet_sign_bytes c p1 x1)) = Inr bs1 \<and>
    packet_of_order E S (rid2, n2, d2, to2, memo2) p2 \<and> commitment_bytes E p2 = Ok x2 \<and>
    encode E (P_Sign_Bytes (packet_sign_bytes c p2 x2)) = Inr bs2 \<and>
    sb_sequence (packet_sign_bytes c p1 x1) = ucast (sequence c) \<and>
    sb_sequence (packet_sign_bytes c p2 x2) = ucast (sequence c) \<and>
    pk_data p1 \<noteq> pk_data p2 \<and> (x1 \<noteq> x2 \<longrightarrow> bs1 \<noteq> bs2)"
proof -
  let ?req1 = "(rid1, n1, d1, to1, memo1)" and ?req2 = "(rid2, n2, d2, to2, memo2)"
  obtain raw c where row: "chains (w_db s) (chain_str cid) = Some raw"
    "ready_row (node_format E) cid (Suc 1) raw" and c: "chain_of_raw (node_format E) raw = Ok c"
    using assms(2) by (auto simp: ready_def ready_row_def is_ok_iff numeral_2_eq_2 split: option.splits)
  define s1 where "s1 = s\<lparr>w_ticks := w_ticks s + 1\<rparr>"
  define s2 where "s2 = s1\<lparr>w_ticks := w_ticks s1 + 1\<rparr>"
  have read: "advance E G S (Mint_Read cid req) s = (Ok (Some (Mint_Send cid req c)), s1)"
    "advance E G S (Mint_Read cid req) s1 = (Ok (Some (Mint_Send cid req c)), s2)" for req
    using assms(1) row(1) c
    by (simp_all add: run_Ok_iffs known_chain_def get_chain_def query_sql_Ok_iff cooperative_def
        peers_answer_def nodes_answer_def s1_def s2_def)
  have s2: "w_db s2 = w_db s" "w_log s2 = w_log s"
    by (simp_all add: s1_def s2_def)
  obtain r1 t1 sb1 bs1 doc1 rest1 where
    first: "send_from E S c ?req1 s2 = (r1, t1)"
      "w_log t1 = w_log s2 @ [A_Sign rid1 (SignBytes bs1), A_Sign rid1 (SignDoc doc1)] @ rest1"
      "encode E (P_Sign_Bytes sb1) = Inr bs1" "signed_order E S c ?req1 sb1"
      "ready (node_format E) cid 1 (w_db t1)" "keyed (w_db t1)"
    by (rule send_signs [OF assms(1), of s2 cid raw 1 raw c]) (use row c assms(3) in \<open>simp_all add: s2\<close>)
  define u where "u = t1\<lparr>w_tx := None\<rparr>"
  obtain raw' where row': "chains (w_db u) (chain_str cid) = Some raw'"
    "ready_row (node_format E) cid (Suc 0) raw'"
    using first(5) by (auto simp: ready_def u_def split: option.splits)
  obtain r2 t2 sb2 bs2 doc2 rest2 where
    second: "send_from E S c ?req2 u = (r2, t2)"
      "w_log t2 = w_log u @ [A_Sign rid2 (SignBytes bs2), A_Sign rid2 (SignDoc doc2)] @ rest2"
      "encode E (P_Sign_Bytes sb2) = Inr bs2" "signed_order E S c ?req2 sb2"
    by (rule send_signs [OF assms(1) _ row' c row(2)]) (use first(6) in \<open>simp_all add: u_def\<close>)
  obtain x1 where sent1: "advance E G S (Mint_Send cid ?req1 c) s2 = (x1, u)"
    using advances_send [OF first(1)] by (auto simp: u_def)
  obtain x2 where sent2: "advance E G S (Mint_Send cid ?req2 c) u = (x2, t2\<lparr>w_tx := None\<rparr>)"
    using advances_send [OF second(1)] by blast
  have start: "(server_step E G S)\<^sup>*\<^sup>* (s, []) (s, [Mint_Read cid ?req1, Mint_Read cid ?req2])"
    using arrives [of "Mint_Read cid ?req1" E G S s "[]"]
      arrives [of "Mint_Read cid ?req2" E G S s "[Mint_Read cid ?req1]"]
    by (simp add: rtranclp.rtrancl_into_rtrancl r_into_rtranclp)
  have "(server_step E G S)\<^sup>*\<^sup>* (s, []) (s1, [Mint_Send cid ?req1 c, Mint_Read cid ?req2])"
    using server_runs [of E G S "(s, [])" s "[]" "Mint_Read cid ?req1" "[Mint_Read cid ?req2]"] read(1) start by simp
  then have "(server_step E G S)\<^sup>*\<^sup>* (s, []) (s2, [Mint_Send cid ?req1 c, Mint_Send cid ?req2 c])"
    using server_runs [of E G S "(s, [])" s1 "[Mint_Send cid ?req1 c]" "Mint_Read cid ?req2" "[]"] read(2) by simp
  then have "(server_step E G S)\<^sup>*\<^sup>* (s, []) (u, rest_of x1 @ [Mint_Send cid ?req2 c])"
    using server_runs [of E G S "(s, [])" s2 "[]" "Mint_Send cid ?req1 c" "[Mint_Send cid ?req2 c]"] sent1 by simp
  then have "(server_step E G S)\<^sup>*\<^sup>* (s, []) (t2\<lparr>w_tx := None\<rparr>, rest_of x1 @ rest_of x2)"
    using server_runs [of E G S "(s, [])" u "rest_of x1" "Mint_Send cid ?req2 c" "[]"] sent2 by simp
  moreover obtain p1 x1 p2 x2 where sb1: "sb1 = packet_sign_bytes c p1 x1" "commitment_bytes E p1 = Ok x1"
    and sb2: "sb2 = packet_sign_bytes c p2 x2" "commitment_bytes E p2 = Ok x2"
    and packets: "packet_of_order E S ?req1 p1" "packet_of_order E S ?req2 p2"
    using first(4) second(4) by (auto simp: signed_order_packet)
  moreover have "bs1 \<noteq> bs2" if "x1 \<noteq> x2"
    using assms(4) first(3) second(3) that
    by (auto simp: distinct_texts_def sb1(1) sb2(1)) (fastforce simp: packet_sign_bytes_def)
  ultimately show ?thesis
    using first(2,3) second(2,3) packets_of_different_orders [OF assms(4) packets assms(5)]
    by (intro exI conjI impI) (assumption | simp add: s2 u_def packet_sign_bytes_def)+
qed

section \<open>Witnesses\<close>

theorem interleaved_requests_refine_machine_witness:
  "\<exists>w ts. (server_step ex_text_env ex_front ex_signer)\<^sup>*\<^sup>* (ex_empty_world, []) (w, ts) \<and>
     good_database ex_format (w_db w) \<and> chains (w_db w) ''testnet-1'' \<noteq> None"
proof -
  have laws: "ibc_codec_laws ex_text_env" "node_format ex_text_env = ex_format"
    using ex_env_codec [of 0] by (simp_all add: ex_text_env_def ibc_codec_laws_def) (simp add: ex_env_def)
  have "serve ex_text_env ex_front ex_signer (Rpc_Add ex_add_request) ex_empty_world =
      (Ok (Inr (Added ''testnet-1'')), ex_added_world)"
    using ex_added_and_queried(1) by (simp add: ex_added_world_def prod_eq_iff)
  then have "advance ex_text_env ex_front ex_signer (Whole_Call None (Rpc_Add ex_add_request)) ex_empty_world =
      (Ok None, ex_added_world)"
    by (simp add: serve_within_def)
  then have steps: "(server_step ex_text_env ex_front ex_signer)\<^sup>*\<^sup>* (ex_empty_world, []) (ex_added_world, [])"
    using arrives [of "Whole_Call None (Rpc_Add ex_add_request)" ex_text_env ex_front ex_signer ex_empty_world "[]"]
      server_runs [of ex_text_env ex_front ex_signer "(ex_empty_world, [])" ex_empty_world "[]" _ "[]"]
    by (metis append.left_neutral append_Nil2 r_into_rtranclp rest_of.simps(2) waiting.simps(1))
  have "chains (w_db ex_added_world) ''testnet-1'' \<noteq> None"
    by code_simp
  moreover have "good_database ex_format (w_db ex_empty_world)"
    by (simp add: ex_empty_world_def good_empty)
  ultimately show ?thesis
    using interleaved_requests_refine_machine [OF laws(1) _ _ steps] ex_format_laws steps
    by (auto simp: laws(2))
qed

text \<open>Libraries that tell everything apart: texts end in a mark, and the hash is the identity.\<close>

definition marked :: "bytes \<Rightarrow> bytes" where
  "marked bs = concat (map (\<lambda>b. [1, b]) bs) @ [0]"

lemma marked_append: "marked xs @ r = marked ys @ q \<longleftrightarrow> xs = ys \<and> r = q"
proof (induction xs arbitrary: ys)
  case Nil
  then show ?case
    by (cases ys) (auto simp: marked_def)
next
  case (Cons x xs)
  then show ?case
    by (cases ys) (auto simp: marked_def)
qed

definition ex_racing_env :: env where
  "ex_racing_env = (ex_live_env 0)\<lparr>
     json_to_vec := (\<lambda>j. case j of
         J_Object kvs \<Rightarrow> Inr (concat (map (\<lambda>(k, v). case v of J_String s \<Rightarrow> marked (as_bytes s) | _ \<Rightarrow> []) kvs))
       | _ \<Rightarrow> Inr []),
     encode := (\<lambda>m. case m of
         P_Sign_Bytes sb \<Rightarrow> Inr (to_be_bytes 8 (unat (sb_sequence sb)) @ to_be_bytes 8 (unat (sb_timestamp sb)) @
           marked (as_bytes (sb_diversifier sb)) @ marked (sb_path sb) @ marked (sb_data sb))
       | _ \<Rightarrow> Inr []),
     sha256 := (\<lambda>bs. bs)\<rparr>"

lemma ex_racing_texts: "distinct_texts ex_racing_env"
proof -
  have u64: "to_be_bytes 8 (unat (m :: u64)) = to_be_bytes 8 (unat n) \<longleftrightarrow> m = n" for m n
    using unsigned_less [where 'a = nat, of m] unsigned_less [where 'a = nat, of n]
    by (subst to_be_bytes_inject) (simp_all add: word_unat_eq_iff)
  have last: "marked xs = marked ys \<longleftrightarrow> xs = ys" for xs ys
    using marked_append [of xs "[]" ys "[]"] by simp
  show ?thesis
    unfolding distinct_texts_def
  proof (intro conjI allI impI)
    fix x y :: sign_bytes and bs
    assume "encode ex_racing_env (P_Sign_Bytes x) = Inr bs \<and> encode ex_racing_env (P_Sign_Bytes y) = Inr bs"
    then show "x = y"
      by (cases x; cases y) (auto simp: ex_racing_env_def u64 marked_append last append_eq_append_conv)
  qed (auto simp: ex_racing_env_def token_transfer_packet_data_def marked_append last)
qed

lemma ex_racing_cooperative: "cooperative ex_racing_env ex_signer"
proof -
  note live = ex_live_cooperative(1) [unfolded cooperative_def]
  have "account_from_any ex_racing_env a = account_from_any (ex_live_env 0) a" for a
    by (simp add: account_from_any_def ex_racing_env_def)
  then have "peers_answer ex_racing_env"
    using live unfolding peers_answer_def nodes_answer_def by (simp add: ex_racing_env_def)
  moreover have "libraries_encode ex_racing_env"
    by (auto simp: libraries_encode_def ex_racing_env_def split: proto_msg.split json.split)
  moreover have "signer_signs ex_racing_env ex_signer"
    using live by (simp add: signer_signs_def ex_signer_def impl_to_any_def ex_racing_env_def)
  ultimately show ?thesis
    by (simp add: cooperative_def)
qed

theorem racing_mints_reuse_sequence_witness:
  "\<exists>t ts bs1 bs2 x y r1 r2. (server_step ex_racing_env ex_front ex_signer)\<^sup>*\<^sup>* (ex_world (Some ex_details), []) (t, ts) \<and>
     w_log t = [A_Sign None (SignBytes bs1), x] @ r1 @ [A_Sign None (SignBytes bs2), y] @ r2 \<and> bs1 \<noteq> bs2"
proof -
  have format: "node_format ex_racing_env = node_format (ex_live_env 0)" "\<And>x. sha256 ex_racing_env x = x"
    by (simp_all add: ex_racing_env_def)
  have orders: "(5 :: u256, Identifier ''tok'', [] :: string) \<noteq> (7, Identifier ''tok'', [])"
    by simp
  from racing_mints_reuse_sequence [OF ex_racing_cooperative _ ex_live_world(1) ex_racing_texts orders,
      where G = ex_front and ?rid1.0 = None and ?to1.0 = None and ?rid2.0 = None and ?to2.0 = "Some ''you''",
      of ex_chain_id "Some ex_details"] ex_live_ready(1)
  obtain t ts p1 p2 x1 x2 bs1 bs2 doc1 doc2 rest1 rest2 where
    steps: "(server_step ex_racing_env ex_front ex_signer)\<^sup>*\<^sup>* (ex_world (Some ex_details), []) (t, ts)" and
    log: "w_log t = w_log (ex_world (Some ex_details)) @ [A_Sign None (SignBytes bs1), A_Sign None (SignDoc doc1)] @
      rest1 @ [A_Sign None (SignBytes bs2), A_Sign None (SignDoc doc2)] @ rest2" and
    packets: "commitment_bytes ex_racing_env p1 = Ok x1" "commitment_bytes ex_racing_env p2 = Ok x2"
      "pk_data p1 \<noteq> pk_data p2" "x1 \<noteq> x2 \<longrightarrow> bs1 \<noteq> bs2"
    unfolding format by blast
  have "x1 \<noteq> x2"
    using commitment_binding [OF packets(1)] packets(2,3) by (auto simp: format(2))
  with packets(4) have "bs1 \<noteq> bs2"
    by simp
  with steps log show ?thesis
    by (intro exI conjI) (assumption | simp add: ex_live_world)+
qed

end
