(* ===== verification/Signing_Order.thy ===== *)
theory Signing_Order
  imports Grpc_Properties
begin

text \<open>
  The discipline of the sequence numbers: a server whose calls are answered signs with every
  sequence of a chain exactly once and in order. \<open>Liveness\<close> and \<open>Concurrency\<close> show what breaks it,
  a refused request and two requests at once; here is what keeps it.
\<close>

section \<open>Signatures in the order of their sequences\<close>

text \<open>
  The log does not say for which chain a signature was given, so a ledger assigns one: it lists
  the sign bytes with the chain they are for.
\<close>

type_synonym ledger = "(string \<times> sign_bytes) list"

definition sequences_for :: "string \<Rightarrow> ledger \<Rightarrow> int list" where
  "sequences_for k ls = map (\<lambda>l. uint (sb_sequence (snd l))) (filter (\<lambda>l. fst l = k) ls)"

lemma sequences_for_simps [simp]:
  "sequences_for k [] = []"
  "sequences_for k (ls @ ms) = sequences_for k ls @ sequences_for k ms"
  "sequences_for k (map (Pair k) sbs) = map (\<lambda>sb. uint (sb_sequence sb)) sbs"
  "k' \<noteq> k \<Longrightarrow> sequences_for k' (map (Pair k) sbs) = []"
  by (simp_all add: sequences_for_def comp_def)

text \<open>The sequence the next signature for a chain takes; a chain starts at one.\<close>

definition next_sequence :: "database \<Rightarrow> string \<Rightarrow> int" where
  "next_sequence d k = (case chains d k of None \<Rightarrow> 1 | Some raw \<Rightarrow> raw_sequence raw)"

text \<open>What an entry of a ledger and an entry of the log have to do with each other.\<close>

definition entered :: "env \<Rightarrow> database \<Rightarrow> string \<times> sign_bytes \<Rightarrow> string option \<times> bytes \<Rightarrow> bool" where
  "entered E d entry given \<longleftrightarrow>
     encode E (P_Sign_Bytes (snd entry)) = Inr (snd given) \<and>
     (\<exists>raw. chains d (fst entry) = Some raw \<and> sb_diversifier (snd entry) = diversifier (raw_config raw))"

definition keeps_configs :: "database \<Rightarrow> database \<Rightarrow> bool" where
  "keeps_configs d d' \<longleftrightarrow>
     (\<forall>k raw. chains d k = Some raw \<longrightarrow>
        (\<exists>raw'. chains d' k = Some raw' \<and> raw_config raw' = raw_config raw))"

definition signs_in_order :: "env \<Rightarrow> world \<Rightarrow> world \<Rightarrow> bool" where
  "signs_in_order E s t \<longleftrightarrow>
     keeps_configs (w_db s) (w_db t) \<and>
     (\<exists>given ledger. proofs t = proofs s @ given \<and>
        list_all2 (entered E (w_db t)) ledger given \<and>
        (\<forall>k. next_sequence (w_db s) k \<le> next_sequence (w_db t) k \<and>
           sequences_for k ledger = [next_sequence (w_db s) k .. next_sequence (w_db t) k - 1]))"

lemma entered_later: "entered E d l g \<Longrightarrow> keeps_configs d d' \<Longrightarrow> entered E d' l g"
  unfolding entered_def keeps_configs_def by metis

lemma upto_append: "a \<le> b \<Longrightarrow> b \<le> c \<Longrightarrow> [a .. b - 1] @ [b .. c - 1] = [a .. (c::int) - 1]"
  using upto_split1 [of a b "c - 1"] by (cases "b = c") auto

lemma signs_in_order_refl: "signs_in_order E s s"
  unfolding signs_in_order_def keeps_configs_def by (auto intro!: exI [of _ "[]"])

lemma signs_in_order_trans:
  assumes "signs_in_order E s t" "signs_in_order E t u"
  shows "signs_in_order E s u"
proof -
  obtain g1 l1 where 1: "keeps_configs (w_db s) (w_db t)" "proofs t = proofs s @ g1"
      "list_all2 (entered E (w_db t)) l1 g1"
      "\<And>k. next_sequence (w_db s) k \<le> next_sequence (w_db t) k"
      "\<And>k. sequences_for k l1 = [next_sequence (w_db s) k .. next_sequence (w_db t) k - 1]"
    using assms(1) unfolding signs_in_order_def by blast
  obtain g2 l2 where 2: "keeps_configs (w_db t) (w_db u)" "proofs u = proofs t @ g2"
      "list_all2 (entered E (w_db u)) l2 g2"
      "\<And>k. next_sequence (w_db t) k \<le> next_sequence (w_db u) k"
      "\<And>k. sequences_for k l2 = [next_sequence (w_db t) k .. next_sequence (w_db u) k - 1]"
    using assms(2) unfolding signs_in_order_def by blast
  have "keeps_configs (w_db s) (w_db u)"
    using 1(1) 2(1) unfolding keeps_configs_def by metis
  moreover have "list_all2 (entered E (w_db u)) (l1 @ l2) (g1 @ g2)"
    using list_all2_mono [OF 1(3) entered_later [OF _ 2(1)]] 2(3) by (rule list_all2_appendI)
  moreover have "sequences_for k (l1 @ l2) = [next_sequence (w_db s) k .. next_sequence (w_db u) k - 1]" for k
    by (simp add: 1(5) 2(5) upto_append [OF 1(4) 2(4)])
  ultimately show ?thesis
    unfolding signs_in_order_def using 1(2,4) 2(2,4)
    by (intro conjI exI [of _ "g1 @ g2"] exI [of _ "l1 @ l2"]) (auto intro: order_trans)
qed

interpretation signing_frame: frame_relation "signs_in_order E" for E
  by unfold_locales (fact signs_in_order_refl, fact signs_in_order_trans)

lemma signs_nothing:
  assumes "chains (w_db t) = chains (w_db s)" "proofs t = proofs s"
  shows "signs_in_order E s t"
  using assms unfolding signs_in_order_def keeps_configs_def next_sequence_def
  by (auto intro!: exI [of _ "[]"])

text \<open>One row advances, by one for each signature.\<close>

lemma signs_for_chain:
  assumes "chains (w_db s) k = Some raw" "chains (w_db t) = (chains (w_db s))(k \<mapsto> raw')"
    and "raw_config raw' = raw_config raw" "raw_sequence raw' = raw_sequence raw + int (length sbs)"
    and "proofs t = proofs s @ given"
    and "list_all2 (\<lambda>sb g. encode E (P_Sign_Bytes sb) = Inr (snd g)) sbs given"
    and "map (\<lambda>sb. uint (sb_sequence sb)) sbs = [raw_sequence raw .. raw_sequence raw' - 1]"
    and "\<And>sb. sb \<in> set sbs \<Longrightarrow> sb_diversifier sb = diversifier (raw_config raw)"
  shows "signs_in_order E s t"
proof -
  have "list_all2 (entered E (w_db t)) (map (Pair k) sbs) given"
    unfolding list_all2_map1
    by (rule list.rel_mono_strong [OF assms(6)]) (auto simp: entered_def assms(2,3,8))
  moreover have "sequences_for k' (map (Pair k) sbs) =
      [next_sequence (w_db s) k' .. next_sequence (w_db t) k' - 1]" for k'
    using assms(1,2,7) by (cases "k' = k") (auto simp: next_sequence_def split: option.splits)
  moreover have "next_sequence (w_db s) k' \<le> next_sequence (w_db t) k'" for k'
    using assms(1,2,4) by (simp add: next_sequence_def)
  moreover have "keeps_configs (w_db s) (w_db t)"
    using assms(1-3) by (auto simp: keeps_configs_def)
  ultimately show ?thesis
    unfolding signs_in_order_def using assms(5) by blast
qed

text \<open>The usual case: one signature with the chain's sequence.\<close>

lemma signs_once:
  assumes "chains (w_db s) k = Some raw" "chain_of_raw F raw = Ok c"
    and "chains (w_db t) = (chains (w_db s))(k \<mapsto> raw')"
    and "raw_config raw' = raw_config raw" "raw_sequence raw' = raw_sequence raw + 1"
    and "proofs t = proofs s @ [(rid, bs)]" "encode E (P_Sign_Bytes sb) = Inr bs"
    and "sb_sequence sb = ucast (sequence c)" "sb_diversifier sb = diversifier (config c)"
  shows "signs_in_order E s t"
  using assms(1-2,4-)
  by (intro signs_for_chain [OF assms(1,3), of "[sb]" "[(rid, bs)]"])
    (auto simp: chain_of_raw_Ok_iff uint_up_ucast is_up)

section \<open>Services that sign\<close>

lemma set_chain_chains:
  "w_db t = set_chain k raw d \<Longrightarrow> chains (w_db t) = (chains d)(k \<mapsto> raw)"
  by simp

lemma mint_signs_in_order:
  assumes "mint E S cid rid amount d receiver memo s = (Ok hash, t)" "keyed (w_db s)"
  shows "signs_in_order E s t"
proof (rule mint_run [OF assms])
  fix raw c p data ts ts2 to bs
  assume raw: "chains (w_db s) (chain_str cid) = Some raw" "chain_of_raw (node_format E) raw = Ok c"
    and log: "\<exists>sb doc. encode E (P_Sign_Bytes (packet_sign_bytes c p data)) = Inr sb \<and>
       w_log t = w_log s @ [A_Sign rid (SignBytes sb), A_Sign rid (SignDoc doc),
         A_Broadcast (rpc_addr (config c)) bs, A_Commit] @
         (if notifier E then [A_Notify (TokensMinted cid rid to amount d hash)] else [])"
    and db: "w_db t = record_operation (new_operation (w_db s) ts2 rid to d amount (Mint cid) hash)
       (set_chain (chain_str cid) (mint_advance raw ts) (w_db s))"
  from log obtain sb where sb: "encode E (P_Sign_Bytes (packet_sign_bytes c p data)) = Inr sb"
    "proofs t = proofs s @ [(rid, sb)]"
    by (auto simp: proofs_def map_filter_simps split: if_splits)
  show ?thesis
    by (rule signs_once [OF raw _ _ _ sb(2,1), of "mint_advance raw ts"])
      (simp_all add: db mint_advance_def packet_sign_bytes_def)
qed

lemma update_signer_signs_in_order:
  assumes "update_signer E S cid rid key memo s = (Ok u, t)" "keyed (w_db s)"
  shows "signs_in_order E s t"
proof -
  from assms(1) obtain v w x where rotate: "rotate_signer E S cid rid key memo s = (Ok v, w)"
    and announce: "announce_signer E S cid key w = (Ok u, x)" and t: "t = x\<lparr>w_tx := None\<rparr>"
    by (auto simp: update_signer_split scoped_Ok_iff run_Ok_iffs)
  have same: "w_db t = w_db w" "proofs t = proofs w"
    using keepsD [OF keeps_announce_signer announce]
      proofs_same [OF keeps_proofs_announce_signer announce]
    by (simp_all add: t unchanged_def proofs_def)
  show ?thesis
    by (rule rotate_signer_Ok [OF rotate assms(2)])
      (rule signs_once [where E = E and F = "node_format E"], assumption, assumption, simp add: same,
        simp_all only: same, simp_all)
qed

lemma object_sign_bytes_parts:
  "sb_sequence (object_sign_bytes c x data) = ucast (sequence c)"
  "sb_diversifier (object_sign_bytes c x data) = diversifier (config c)"
  by (simp_all add: object_sign_bytes_def)

lemma connect_signs_in_order:
  assumes "connect E S cid rid memo force s = (Ok u, t)" "ibc_codec_laws E" "keyed (w_db s)"
  shows "signs_in_order E s t"
proof (rule connect_Ok [OF assms])
  fix raw c c' smc tmc smk tmk smn tmn h clb csb kb nb ts data1 data2 bs1 bs2
  assume raw: "chains (w_db s) (chain_str cid) = Some raw" "chain_of_raw (node_format E) raw = Ok c"
    and db: "w_db t = set_chain (chain_str cid) (connected_raw raw
       \<lparr>solo_machine_client_id = smc, tendermint_client_id = tmc,
        solo_machine_connection_id = smk, tendermint_connection_id = tmk,
        solo_machine_channel_id = Some smn, tendermint_channel_id = Some tmn\<rparr> ts)
       (put_object (Channel_End (port_id (config c)) tmn) nb (put_object (Connection_End tmk) kb
         (put_object (Consensus_State tmc h) csb (put_object (Client_State tmc) clb (w_db s)))))"
    and proofs: "proofs t = proofs s @ [(rid, bs1), (rid, bs2)]"
    and signed: "encode E (P_Sign_Bytes (object_sign_bytes c (Connection_End tmk) data1)) = Inr bs1"
      "encode E (P_Sign_Bytes (object_sign_bytes c' (Channel_End (port_id (config c)) tmn) data2)) = Inr bs2"
    and seq: "uint (sequence c') = uint (sequence c) + 1" "config c' = config c"
  have "chains (w_db t) = (chains (w_db s))(chain_str cid \<mapsto> connected_raw raw
       \<lparr>solo_machine_client_id = smc, tendermint_client_id = tmc,
        solo_machine_connection_id = smk, tendermint_connection_id = tmk,
        solo_machine_channel_id = Some smn, tendermint_channel_id = Some tmn\<rparr> ts)"
    by (simp add: db put_object_def)
  then show ?thesis
    by (rule signs_for_chain [OF raw(1) _ _ _ proofs, where sbs = "[object_sign_bytes c (Connection_End tmk) data1,
          object_sign_bytes c' (Channel_End (port_id (config c)) tmn) data2]"])
      (use raw(2) signed seq in \<open>auto simp: connected_raw_def object_sign_bytes_parts
        chain_of_raw_Ok_iff uint_up_ucast is_up upto_rec1\<close>)
qed

section \<open>Warnings\<close>

text \<open>
  A burn is done when the chain has taken it; failing to acknowledge its packets is only a
  warning. A run without warnings has acknowledged them.
\<close>

fun warning_of :: "action \<Rightarrow> string option" where
  "warning_of (A_Notify (Event_Warning m)) = Some m"
| "warning_of _ = None"

definition warnings :: "world \<Rightarrow> string list" where
  "warnings w = List.map_filter warning_of (w_log w)"

definition same_warnings :: "world \<Rightarrow> world \<Rightarrow> bool" where
  "same_warnings s t \<longleftrightarrow> warnings t = warnings s"

interpretation warnings_frame: frame_relation same_warnings
  by unfold_locales (auto simp: same_warnings_def)

lemma keeps_warnings_steps [keeps_intros]:
  "keeps same_warnings next_tick"
  "warning_of a = None \<Longrightarrow> keeps same_warnings (emit a)"
  "keeps same_warnings (query_sql E ex q)"
  "keeps same_warnings (begin_transaction E)"
  "keeps same_warnings (commit_transaction E ctx)"
  "keeps same_warnings m \<Longrightarrow> keeps same_warnings (scoped m)"
  by (auto simp: keeps_def same_warnings_def warnings_def query_sql_def begin_transaction_def
      commit_transaction_def scoped_def emit_def next_tick_def Let_def map_filter_simps split_beta
      split: option.splits)

lemma keeps_warnings_run_sql [keeps_intros]: "keeps same_warnings (run_sql E ex stmt)"
  by (cases ex) (auto simp: keeps_def same_warnings_def warnings_def run_sql_def Let_def
      split: option.splits sum.splits)

lemma keeps_warnings_call [keeps_intros]: "keeps same_warnings (call f)"
  unfolding call_def by (intro keeps_intros)

lemma keeps_warnings_effects [keeps_intros]:
  "warning_of (A_Notify ev) = None \<Longrightarrow> keeps same_warnings (notify_event E ev)"
  "keeps same_warnings (broadcast_tx_commit E addr bs)"
  "keeps same_warnings (signer_sign S rid msg)"
  unfolding notify_event_def broadcast_tx_commit_def signer_sign_def
  by (intro keeps_intros; simp)+

lemma keeps_warnings_burning [keeps_intros]:
  "keeps same_warnings (build E to_any S c messages memo rid)"
  "keeps same_warnings (known_chain E ex cid)"
  "keeps same_warnings (rpc_client E c)"
  "keeps same_warnings (add_operation E ex rid a dn n ty h)"
  "keeps same_warnings (increment_sequence E ex cid)"
  unfolding build_def get_account_details_def build_signature_def known_chain_def get_chain_def
    rpc_client_def add_operation_def increment_sequence_def Let_def
  by (intro keeps_intros)+

lemma keeps_warnings_answering [keeps_intros]:
  "keeps same_warnings (msg_token_receive E S c amount d receiver memo rid)"
  "keeps same_warnings (get_packet_acknowledgement_proof E S c ack n rid)"
  unfolding msg_token_receive_def get_packet_acknowledgement_proof_def timestamped_sign_def sign_def
    Let_def
  by (intro keeps_intros)+

lemma keeps_warnings_process_packets [keeps_intros]:
  "keeps same_warnings (process_packets E S rpc c ps memo rid)"
  unfolding process_packets_def process_packet_def msg_token_receive_ack_def Let_def
  by (intro keeps_intros)

lemma warnings_same: "keeps same_warnings m \<Longrightarrow> m s = (r, t) \<Longrightarrow> warnings t = warnings s"
  using keepsD [of same_warnings m s r t] by (simp add: same_warnings_def)

section \<open>Burning\<close>

text \<open>Each answered packet is signed for with the sequence the chain then has.\<close>

lemma answered_all_signs_in_order:
  assumes "answered_all E rpc memo rid ps c s c' t"
    and "chains (w_db s) (chain_str (c_id c)) = Some raw" "chain_of_raw (node_format E) raw = Ok c"
  shows "signs_in_order E s t"
  using assms
proof (induction arbitrary: raw rule: answered_all.induct)
  case (answered_next c p c' s t ps c'' u)
  obtain ts channel ack sb doc bs where
    t: "w_db t = set_chain (chain_str (c_id c)) (next_raw raw ts) (w_db s)"
    and c': "chain_of_raw (node_format E) (next_raw raw ts) = Ok c'"
    and sb: "encode E (P_Sign_Bytes (object_sign_bytes c
          (Packet_Acknowledgement (port_id (config c)) channel (pk_sequence p)) (sha256 E ack))) = Inr sb"
    and log: "w_log t = w_log s @ [A_Sign rid (SignBytes sb), A_Sign rid (SignDoc doc), A_Broadcast rpc bs,
          A_Commit]"
    using answered_next.hyps(1) answered_next.prems(1) by (auto simp: answered_def)
  have "signs_in_order E s t"
    by (rule signs_once [OF answered_next.prems _ _ _ _ sb, where raw' = "next_raw raw ts" and rid = rid])
      (use log in \<open>simp_all add: t proofs_def map_filter_simps object_sign_bytes_parts\<close>)
  moreover have "chain_str (c_id c') = chain_str (c_id c)"
    using chain_of_raw_id [OF c'] chain_of_raw_id [OF answered_next.prems(2)] by simp
  then have "signs_in_order E t u"
    by (intro answered_next.IH [OF _ c']) (simp add: t)
  ultimately show ?case
    by (rule signs_in_order_trans)
qed (rule signs_in_order_refl)

lemma keeps_proofs_burning [keeps_intros]:
  "keeps same_proofs (msg_token_receive E S c amount d receiver memo rid)"
  "keeps same_proofs (add_operation E ex rid a dn n ty h)"
  unfolding msg_token_receive_def add_operation_def Let_def by (intro keeps_intros)+

lemma burn_signs_in_order:
  assumes run: "burn E S cid rid amount d memo s = (Ok hash, t)" and keyed: "keyed (w_db s)"
    and "notifier E" "warnings t = warnings s"
  shows "signs_in_order E s t"
proof -
  from run obtain c s1 rpc s2 address msg s3 bs response s4 s5 s6 packets processed s7 where
    chain: "known_chain E Pool cid s = (Ok c, s1)" and
    rpc: "rpc_client E c s1 = (Ok rpc, s2)" and
    msg: "msg_token_receive E S c amount d address memo rid s2 = (Ok msg, s3)" and
    response: "broadcast_tx_commit E rpc bs s3 = (Ok response, s4)" and
    op: "add_operation E Pool rid address d amount (Burn cid) hash s4 = (Ok (), s5)" and
    notify: "notify_event E (TokensBurnt cid rid address amount d hash) s5 = (Ok (), s6)" and
    packets: "catchM (process_packets E S rpc c packets memo rid) s6 = (Ok processed, s7)" and
    warning: "(case processed of Inl e \<Rightarrow> notify_event E (Event_Warning (error_to_string e))
        | Inr _ \<Rightarrow> returnM ()) s7 = (Ok (), t)"
    unfolding burn_def run_Ok_iffs by auto
  obtain raw where raw: "chains (w_db s) (chain_str cid) = Some raw" "chain_of_raw (node_format E) raw = Ok c"
    and s1: "w_db s1 = w_db s" and id: "chain_str (c_id c) = chain_str cid"
    by (rule known_chain_Ok [OF chain]) (use keyed in \<open>auto simp: unchanged_def keyed_def\<close>)
  have s4: "w_db s4 = w_db s"
    using keepsD [OF keeps_builders(8) msg] response s1 rpc_client_Ok [OF rpc]
    by (auto simp: unchanged_def broadcast_Ok_iff)
  have s6: "chains (w_db s6) = chains (w_db s)"
    by (rule add_operation_record [OF op]) (simp add: notify_event_Ok(1) [OF notify] s4)
  have same: "proofs s6 = proofs s" "warnings s7 = warnings s"
    by (simp_all add: proofs_same [OF keeps_proofs_phases(3) chain] proofs_same [OF keeps_proofs_phases(2) rpc]
        proofs_same [OF keeps_proofs_burning(1) msg] proofs_same [OF keeps_proofs_broadcast response]
        proofs_same [OF keeps_proofs_burning(2) op] proofs_same [OF keeps_proofs_notify notify]
        warnings_same [OF keeps_warnings_burning(2) chain] warnings_same [OF keeps_warnings_burning(3) rpc]
        warnings_same [OF keeps_warnings_answering(1) msg] warnings_same [OF keeps_warnings_effects(2) response]
        warnings_same [OF keeps_warnings_burning(4) op] warnings_same [OF keeps_warnings_effects(1) notify]
        warnings_same [OF warnings_frame.keeps_catchM [OF keeps_warnings_process_packets] packets])
  obtain c' where "processed = Inr c'"
    using warning notify_event_Ok(3) [of E _ s7 _ t] assms(3,4) same(2)
    by (cases processed) (auto simp: warnings_def map_filter_simps)
  with packets warning obtain smn tmn where
    "fold_each (process_packet E S rpc smn tmn memo rid) packets c s6 = (Ok c', t)"
    by (auto simp: catchM_Ok_iff process_packets_def run_Ok_iffs)
  with fold_process_packet_Ok have "answered_all E rpc memo rid packets c s6 c' t"
    by blast
  then have "signs_in_order E s6 t"
    by (rule answered_all_signs_in_order) (use raw s6 id in simp_all)
  with signs_nothing [OF s6 same(1)] show ?thesis
    by (rule signs_in_order_trans)
qed

section \<open>Calls\<close>

text \<open>A call that leaves the chains alone and signs nothing.\<close>

definition silent :: "world \<Rightarrow> world \<Rightarrow> bool" where
  "silent s t \<longleftrightarrow> unchanged s t \<and> same_proofs s t"

interpretation silent_frame: frame_relation silent
  unfolding silent_def
  by unfold_locales (auto intro: unchanged_frame.R_refl unchanged_frame.R_trans simp: same_proofs_def)

lemma keeps_silent:
  "keeps unchanged m \<Longrightarrow> keeps same_proofs m \<Longrightarrow> keeps silent m"
  by (simp add: keeps_def silent_def)

lemma keeps_proofs_reads [keeps_intros]:
  "keeps same_proofs (chain_service_get E cid)"
  "keeps same_proofs (chain_service_get_ibc_denom E cid d)"
  "keeps same_proofs (chain_service_balance E S cid d)"
  "keeps same_proofs (history E S lim off)"
  unfolding chain_service_get_def chain_service_get_ibc_denom_def chain_service_balance_def
    get_balance_def history_def get_operations_def Let_def
  by (intro keeps_intros)+

lemma keeps_silent_reads [keeps_intros]:
  "keeps silent (chain_service_get E cid)"
  "keeps silent (chain_service_get_ibc_denom E cid d)"
  "keeps silent (chain_service_balance E S cid d)"
  "keeps silent (history E S lim off)"
  by (intro keeps_silent keeps_intros)+

lemma handler_keeps_silent [keeps_intros]:
  "keeps silent m \<Longrightarrow> (\<And>a. keeps silent (f a)) \<Longrightarrow> keeps silent (bindH m f)"
  "keeps silent n \<Longrightarrow> keeps silent (internal n)"
  unfolding internal_def
  by (auto intro!: keeps_bindH keeps_map_err silent_frame.frame_relation_axioms)

lemma pure_keeps_silent [keeps_intros]:
  "keeps silent (argument r)" "keeps silent (required st x)" "keeps silent (answer a)"
  by (intro keeps_pure_step silent_frame.frame_relation_axioms pure_steps)+

lemma keeps_silent_queries [keeps_intros]:
  "keeps silent (serve_query_chain E G requested)"
  "keeps silent (serve_ibc_denom E requested text)"
  "keeps silent (serve_balance E S requested text)"
  "keeps silent (serve_history E G S lim off)"
  unfolding serve_query_chain_def shown_config_def serve_ibc_denom_def serve_balance_def
    serve_history_def
  by (intro keeps_intros)+

lemma silent_signs_in_order: "silent s t \<Longrightarrow> signs_in_order E s t"
  by (rule signs_nothing) (simp_all add: silent_def unchanged_def same_proofs_def)

text \<open>A new chain starts with the sequence one.\<close>

lemma keeps_proofs_adding [keeps_intros]:
  "keeps same_proofs (begin_transaction E)" "keeps same_proofs (commit_transaction E ctx)"
  "keeps same_proofs m \<Longrightarrow> keeps same_proofs (scoped m)"
  by (auto simp: keeps_def same_proofs_def proofs_def begin_transaction_def commit_transaction_def
      scoped_def Let_def map_filter_simps split_beta split: option.splits)

lemma keeps_proofs_register [keeps_intros]: "keeps same_proofs (chain_service_add E cfg key)"
  unfolding chain_service_add_def add_chain_def add_chain_key_def Let_def by (intro keeps_intros)

lemma add_signs_in_order:
  assumes "chain_service_add E cfg key s = (Ok cid, t)"
  shows "signs_in_order E s t"
proof -
  from assms obtain w x where add: "register_chain E cfg key s = (Ok cid, w)"
    and notify: "notify_event E (ChainAdded cid) w = (Ok (), x)" and t: "t = x\<lparr>w_tx := None\<rparr>"
    by (auto simp: chain_service_add_split scoped_Ok_iff run_Ok_iffs)
  obtain raw where fresh: "chains (w_db s) (chain_str cid) = None"
    and row: "chains (w_db t) = (chains (w_db s))(chain_str cid \<mapsto> raw)" "raw_sequence raw = 1"
    by (rule register_chain_Ok [OF add])
      (simp add: t notify_event_Ok(1) [OF notify] new_raw_chain_def)
  have "next_sequence (w_db t) k = next_sequence (w_db s) k" for k
    using fresh row by (simp add: next_sequence_def)
  moreover have "keeps_configs (w_db s) (w_db t)"
    using fresh row by (auto simp: keeps_configs_def)
  ultimately show ?thesis
    unfolding signs_in_order_def proofs_same [OF keeps_proofs_register assms]
    by (auto intro!: exI [of _ "[]"])
qed

lemma serve_signs_in_order:
  assumes run: "serve E G S c s = (Ok (Inr a), t)" and quiet: "warnings t = warnings s"
    and laws: "ibc_codec_laws E" "notifier E" and keyed: "keyed (w_db s)"
  shows "signs_in_order E s t"
proof -
  note unfolded = respond_def handler_Ok_iffs lift_Ok_iff Let_def
  show ?thesis
  proof (cases c)
    case (Rpc_Add request)
    with run pure_core_config [of E G request] obtain cfg key cid where
      "chain_service_add E cfg key s = (Ok cid, t)"
      by (clarsimp simp: serve_add_chain_def unfolded pure_step_def) metis
    then show ?thesis
      by (rule add_signs_in_order)
  next
    case (Rpc_Connect request)
    with run keyed laws show ?thesis
      by (auto simp: serve_connect_def unfolded intro: connect_signs_in_order)
  next
    case (Rpc_Mint request)
    with run keyed show ?thesis
      by (auto simp: serve_mint_def unfolded intro: mint_signs_in_order)
  next
    case (Rpc_Burn request)
    with run keyed laws quiet show ?thesis
      by (auto simp: serve_burn_def unfolded intro: burn_signs_in_order)
  next
    case (Rpc_Update_Signer request)
    with run pure_algo_argument keyed show ?thesis
      by (fastforce simp: serve_update_signer_def unfolded pure_step_def
          intro: update_signer_signs_in_order)
  qed (use run in \<open>auto simp: unfolded intro!: silent_signs_in_order elim!: keepsD [rotated] intro: keeps_silent_queries\<close>)
qed

section \<open>A server without failures\<close>

text \<open>
  \<open>served\<close>: calls one after another that were answered, each without a warning, or refused for
  one of their arguments. The signer of a call is the one the server was started with, and may
  change when the server is restarted.
\<close>

inductive served ::
    "env \<Rightarrow> front_libs \<Rightarrow> (signer \<times> rpc) list \<Rightarrow> world \<Rightarrow> world \<Rightarrow> bool"
  for E G where
  served_none: "served E G [] s s"
| served_next:
    "serve E G S c s = (Ok (Inr a), t) \<Longrightarrow> warnings t = warnings s \<Longrightarrow> served E G cs t u \<Longrightarrow>
     served E G ((S, c) # cs) s u"
| served_refused:
    "serve E G S c s = (Ok (Inl (Invalid_Argument m)), t) \<Longrightarrow> served E G cs t u \<Longrightarrow>
     served E G ((S, c) # cs) s u"

lemma served_signs_in_order:
  assumes "served E G calls s t" "ibc_codec_laws E" "node_id_laws (node_format E)" "notifier E"
    and "good_database (node_format E) (w_db s)"
  shows "signs_in_order E s t"
  using assms(1,5)
proof (induction rule: served.induct)
  case (served_next S c s a t cs u)
  have "good_database (node_format E) (w_db t)"
    using keepsD [OF keeps_refines_serve [OF assms(2,3)] served_next.hyps(1)] served_next.prems
      db_steps_good by (auto simp: refines_def)
  with served_next.IH serve_signs_in_order [OF served_next.hyps(1,2) assms(2,4)
      good_keyed [OF served_next.prems]]
  show ?case
    by (blast intro: signs_in_order_trans)
next
  case (served_refused S c s m t cs u)
  have "t = s"
    using gentle_serve served_refused.hyps(1) by (fastforce simp: gentle_def)
  with served_refused show ?case
    by simp
qed (rule signs_in_order_refl)

text \<open>C7: A server whose calls are answered without a warning, or refused for their arguments, never
  signs twice with one sequence and never skips one: whatever the calls, their order and the
  chains they are for, the proofs it has signed since are, for each chain, one for every sequence
  from the one the chain had to the one before it has now, in this order, each under the
  diversifier of its chain.\<close>

theorem answered_calls_sign_in_order:
  assumes "served E G calls s t" "ibc_codec_laws E" "node_id_laws (node_format E)" "notifier E"
    and "good_database (node_format E) (w_db s)"
  shows "\<exists>given ledger. proofs t = proofs s @ given \<and>
    list_all2 (entered E (w_db t)) ledger given \<and>
    (\<forall>k. sequences_for k ledger = [next_sequence (w_db s) k .. next_sequence (w_db t) k - 1])"
  using served_signs_in_order [OF assms] unfolding signs_in_order_def by blast

text \<open>A connected chain with everything its details name, and a server that mints on it twice.\<close>

definition ex_ready_world :: world where
  "ex_ready_world =
     \<lparr>w_db = empty_database\<lparr>chains := [''testnet-1'' \<mapsto> ex_row (Some ex_details)],
        ibc_data := (\<lambda>path. Some [])\<rparr>,
      w_tx = None, w_ticks = 0, w_log = []\<rparr>"

fun is_answer :: "(status + 'a) outcome \<Rightarrow> bool" where
  "is_answer (Ok (Inr a)) = True"
| "is_answer _ = False"

lemma ex_two_mints:
  "case serve (ex_env 0) ex_front ex_signer (Rpc_Mint (ex_mint_request ''5'')) ex_ready_world of
     (r, w) \<Rightarrow> is_answer r \<and> warnings w = [] \<and>
       (case serve (ex_env 0) ex_front ex_signer (Rpc_Mint (ex_mint_request ''7'')) w of
          (r', w') \<Rightarrow> is_answer r' \<and> warnings w' = [] \<and>
            map_option raw_sequence (chains (w_db w') ''testnet-1'') = Some 3)"
  by code_simp

lemma ex_ready_good: "good_database (node_format (ex_env 0)) (w_db ex_ready_world)"
proof -
  have "is_ok (chain_of_raw ex_format (ex_row (Some ex_details)))"
    by code_simp
  then have "decodes ex_format (ex_row (Some ex_details))"
    by (auto simp: decodes_def is_ok_iff)
  then show ?thesis
    by (auto simp: good_database_def good_chains_def good_keys_def well_numbered_def anchored_def
        ex_ready_world_def ex_row_def empty_database_def ex_env_def split: option.splits)
qed

lemma ex_served:
  obtains w where "served (ex_env 0) ex_front [(ex_signer, Rpc_Mint (ex_mint_request ''5'')),
      (ex_signer, Rpc_Mint (ex_mint_request ''7''))] ex_ready_world w"
    "map_option raw_sequence (chains (w_db w) ''testnet-1'') = Some 3"
proof -
  have "warnings ex_ready_world = []"
    by (simp add: warnings_def ex_ready_world_def map_filter_simps)
  then show thesis
    using ex_two_mints that
    by (fastforce elim!: is_answer.elims intro: served_next served_none split: prod.splits)
qed

theorem answered_calls_sign_in_order_witness:
  "\<exists>w ledger. list_all2 (entered (ex_env 0) (w_db w)) ledger (proofs w) \<and>
     sequences_for ''testnet-1'' ledger = [1, 2]"
proof (rule ex_served)
  fix w
  assume run: "served (ex_env 0) ex_front [(ex_signer, Rpc_Mint (ex_mint_request ''5'')),
      (ex_signer, Rpc_Mint (ex_mint_request ''7''))] ex_ready_world w"
    and last: "map_option raw_sequence (chains (w_db w) ''testnet-1'') = Some 3"
  have laws: "node_id_laws (node_format (ex_env 0))" "notifier (ex_env 0)"
    by (simp_all add: ex_env_def ex_format_laws)
  have "next_sequence (w_db w) ''testnet-1'' = 3"
    using last by (auto simp: next_sequence_def)
  moreover have "next_sequence (w_db ex_ready_world) ''testnet-1'' = 1" "proofs ex_ready_world = []"
    by (simp_all add: next_sequence_def ex_ready_world_def ex_row_def proofs_def map_filter_simps)
  ultimately have "\<exists>ledger. list_all2 (entered (ex_env 0) (w_db w)) ledger (proofs w) \<and>
      sequences_for ''testnet-1'' ledger = [1 .. 2]"
    using answered_calls_sign_in_order [OF run ex_env_codec laws ex_ready_good] by fastforce
  then show ?thesis
    by (auto simp: upto_rec1)
qed

end
