(* ===== verification/Build_Scripts.thy ===== *)
theory Build_Scripts
  imports SM_Prelude
begin

text \<open>
  The build scripts \<open>solo-machine-core/build.rs\<close> and \<open>solo-machine/build.rs\<close>: which protobuf
  files are compiled, and how the generator is configured. The file system is a tree as
  \<open>read_dir\<close> shows it; the generator itself (\<open>tonic_build\<close>) is a parameter.
\<close>

section \<open>Directories\<close>

text \<open>
  Every access may fail, with an error of its own: opening a directory, reading its next entry,
  and asking an entry for its type. What is not a file is opened as a directory.
\<close>

datatype dir_entry =
    File_Entry string
  | Other_Entry string "string + (string + dir_entry) list"
  | Untyped_Entry string string

type_synonym listing = "(string + dir_entry) list"

function get_files :: "dir_entry \<Rightarrow> string + string list"
  and get_all_files :: "listing \<Rightarrow> string + string list" where
  "get_files (File_Entry path) = Inr [path]"
| "get_files (Untyped_Entry path e) = Inl e"
| "get_files (Other_Entry path (Inl e)) = Inl e"
| "get_files (Other_Entry path (Inr entries)) = get_all_files entries"
| "get_all_files [] = Inr []"
| "get_all_files (Inl e # entries) = Inl e"
| "get_all_files (Inr entry # entries) =
     (case get_files entry of
        Inl e \<Rightarrow> Inl e
      | Inr files \<Rightarrow>
          (case get_all_files entries of
             Inl e \<Rightarrow> Inl e
           | Inr more \<Rightarrow> Inr (files @ more)))"
  by pat_completeness auto
termination
  by (relation "measure (\<lambda>x. case x of
        Inl entry \<Rightarrow> 2 * size entry
      | Inr entries \<Rightarrow> 2 * size_list (size_sum (\<lambda>_. 0) size) entries + 1)") auto

section \<open>The scripts\<close>

record generator_config =
  extern_paths :: "(string \<times> string) list"
  builds_server :: bool
  builds_client :: bool
  protoc_args :: "string list"

definition default_generator :: generator_config where
  "default_generator =
     \<lparr>extern_paths = [], builds_server = True, builds_client = True, protoc_args = []\<rparr>"

type_synonym generator =
  "generator_config \<Rightarrow> string list \<Rightarrow> string list \<Rightarrow> string + unit"

definition core_generator :: generator_config where
  "core_generator = default_generator\<lparr>
     extern_paths :=
       [(''.cosmos.auth.v1beta1'', ''::ibc_proto::cosmos::auth::v1beta1''),
        (''.ibc.core.connection.v1'', ''::ibc_proto::ibc::core::connection::v1''),
        (''.ibc.core.channel.v1'', ''::ibc_proto::ibc::core::channel::v1'')],
     builds_server := False\<rparr>"

definition core_build :: "(string \<Rightarrow> string + listing) \<Rightarrow> generator \<Rightarrow> string + unit" where
  "core_build read_dir compile =
     (case read_dir ''./proto'' of
        Inl e \<Rightarrow> Inl e
      | Inr paths \<Rightarrow>
          (case get_all_files paths of
             Inl e \<Rightarrow> Inl e
           | Inr files \<Rightarrow> compile core_generator files [''proto'']))"

definition program_generator :: generator_config where
  "program_generator = default_generator\<lparr>
     builds_client := False,
     protoc_args := [''--experimental_allow_proto3_optional'']\<rparr>"

definition program_build :: "(string \<Rightarrow> string + listing) \<Rightarrow> generator \<Rightarrow> string + unit" where
  "program_build read_dir compile =
     (case read_dir ''./proto'' of
        Inl e \<Rightarrow> Inl e
      | Inr paths \<Rightarrow>
          (case get_all_files paths of
             Inl e \<Rightarrow> Inl e
           | Inr files \<Rightarrow> compile program_generator files [''proto'']))"

section \<open>Which files are compiled\<close>

text \<open>What is meant: every entry below can be read, and the files are those of the tree.\<close>

inductive readable :: "dir_entry \<Rightarrow> bool" where
  readable_file: "readable (File_Entry path)"
| readable_other: "(\<And>x. x \<in> set entries \<Longrightarrow> \<exists>entry. x = Inr entry \<and> readable entry) \<Longrightarrow>
     readable (Other_Entry path (Inr entries))"

inductive_simps readable_simps [simp]:
  "readable (File_Entry path)"
  "readable (Other_Entry path (Inl e))"
  "readable (Other_Entry path (Inr entries))"
  "readable (Untyped_Entry path e)"

inductive file_below :: "string \<Rightarrow> dir_entry \<Rightarrow> bool" where
  below_file: "file_below path (File_Entry path)"
| below_other: "Inr entry \<in> set entries \<Longrightarrow> file_below f entry \<Longrightarrow>
     file_below f (Other_Entry path (Inr entries))"

inductive_simps file_below_simps [simp]:
  "file_below f (File_Entry path)"
  "file_below f (Other_Entry path (Inl e))"
  "file_below f (Other_Entry path (Inr entries))"
  "file_below f (Untyped_Entry path e)"

lemma get_files_total:
  "(\<exists>files. get_files entry = Inr files) \<longleftrightarrow> readable entry"
  "(\<exists>files. get_all_files entries = Inr files) \<longleftrightarrow>
     (\<forall>x \<in> set entries. \<exists>entry. x = Inr entry \<and> readable entry)"
  by (induction entry and entries rule: get_files_get_all_files.induct)
    (auto split: sum.splits)

lemma get_files_set:
  "get_files entry = Inr files \<Longrightarrow> set files = {f. file_below f entry}"
  "get_all_files entries = Inr files \<Longrightarrow>
     set files = {f. \<exists>entry. Inr entry \<in> set entries \<and> file_below f entry}"
  by (induction entry and entries arbitrary: files and files rule: get_files_get_all_files.induct)
    (auto split: sum.splits)

text \<open>
  A build hands the generator every file below \<open>proto\<close> and nothing else; a single unreadable
  entry stops it before the generator runs.
\<close>

lemma core_build_compiles:
  assumes "read_dir ''./proto'' = Inr paths" "get_all_files paths = Inr files"
  shows "core_build read_dir compile = compile core_generator files [''proto'']"
    "program_build read_dir compile = compile program_generator files [''proto'']"
    "set files = {f. \<exists>entry. Inr entry \<in> set paths \<and> file_below f entry}"
  using assms get_files_set(2) [OF assms(2)] by (simp_all add: core_build_def program_build_def)

lemma unreadable_entry_stops_build:
  assumes "read_dir ''./proto'' = Inr paths" "x \<in> set paths"
    and "\<nexists>entry. x = Inr entry \<and> readable entry"
  shows "\<exists>e. \<forall>compile. core_build read_dir compile = Inl e"
proof -
  have "\<nexists>files. get_all_files paths = Inr files"
    using assms(2,3) get_files_total(2) by blast
  then obtain e where "get_all_files paths = Inl e"
    by (cases "get_all_files paths") auto
  with assms(1) show ?thesis
    by (simp add: core_build_def)
qed

end
