(* ===== verification/Spec2Isabelle.thy ===== *)
theory Spec2Isabelle
  imports Host_Properties Key_Properties Store_Properties Service_Properties Command_Properties
    Front_Ends Signer_Properties Session_Liveness Concurrency Signing_Order Build_Scripts
begin

text \<open>
  The IBC solo machine, verified: the core library \<open>solo-machine-core\<close>, the program
  \<open>solo-machine\<close> around it (command line and gRPC server), and the signer and the event hook that
  come with it.

  The program. A solo machine is one signer that takes part in IBC as if it were a chain: it
  keeps, in a database, its side of clients, connections and channels with \<open>IBC enabled
  chains\<close>, and where a chain would prove its state it signs. Its services mint tokens on a
  chain (by delivering a packet to it), burn them (by a transfer back, whose packets it then
  acknowledges), set connections up, and hand over to a new key. Every signature uses up one
  number of the chain's \<open>sequence\<close>; the chain keeps the same count, so the two must agree. The
  program reads requests from the command line or over gRPC, loads a signer and event handlers
  from shared libraries, runs the core's services and shows what they return and notify.

  Layout of the core, bottom up (paths under \<open>src/solo-machine-core/src\<close>):

  \<^item> \<open>SM_Prelude\<close>: machine integers and bytes; \<open>outcome\<close>, the result of a fallible function (a
    value, an \<open>anyhow::Error\<close>, or a panic); the monad of computations over a world; the locale
    \<open>frame_relation\<close>, relations between the worlds before and after that a computation keeps.
  \<^item> \<open>Rust_Text\<close>: the string and integer functions of the standard library the program uses;
    the locale \<open>text_codec\<close>, the contract of \<open>Display\<close> and \<open>FromStr\<close>.
  \<^item> \<open>Pattern\<close>, \<open>Identifier\<close>, \<open>Height\<close>, \<open>Host_Path\<close>: \<open>ibc/core/ics24_host\<close> and \<open>ics02_client\<close>.
  \<^item> \<open>Protobuf\<close>: the messages the program builds and reads, field by field, the type URLs, and
    the libraries as a record of parameters (codecs, hashes, elliptic curves, hex, JSON).
  \<^item> \<open>Bit_Array\<close>, \<open>Public_Key\<close>, \<open>Multisig\<close>, \<open>Account\<close>: \<open>cosmos/\<close>.
  \<^item> \<open>Chain_Model\<close>, \<open>Operation_Model\<close>, \<open>Event\<close>: the types of \<open>model/\<close> and \<open>event.rs\<close>, and their
    conversions from and to rows.
  \<^item> \<open>Abci\<close>: reading the response of a transaction (end of \<open>service/ibc_service.rs\<close>).
  \<^item> \<open>World\<close>: the state, \<open>world\<close>: the committed database, the open transaction, a tick counter
    and the log of what left the process (signatures, broadcasts, events, commits); the
    environment, \<open>env\<close>: peers, clock, random numbers and faults, each a function of the tick at
    which it is asked, so that every behaviour of the peers is some environment; the primitive
    steps and transactions with rollback (\<open>signer.rs\<close> is here too).
  \<^item> \<open>Sql_Table\<close>, \<open>Chain_Store\<close>, \<open>Ibc_Store\<close>, \<open>Operation_Store\<close>: the queries of \<open>model/\<close>; the
    locale \<open>keyed_table\<close> is the contract of a table with a primary key.
  \<^item> \<open>Tx_Sign\<close>, \<open>Tx_Messages\<close>: \<open>transaction_builder.rs\<close>.
  \<^item> \<open>Ibc_Steps\<close>, \<open>Ibc_Service\<close>, \<open>Chain_Service\<close>: \<open>service/\<close>, whole handlers in the order of
    their calls.
  \<^item> \<open>Ibc_Effects\<close>, \<open>Transfer_Effects\<close>, \<open>Connect_Effects\<close>: what a successful run of each
    builder and service has done to the tables, the log and the signatures.
  \<^item> \<open>Machine_Spec\<close>: an abstract state machine on the database with six transitions, its
    invariant and its progress order; \<open>Refinement\<close>: every run of every service, whatever its
    outcome, is a sequence of these transitions.

  Layout of the program (paths under \<open>src/solo-machine/src\<close>):

  \<^item> \<open>Grpc_Status\<close>: handlers, computations that answer or refuse with a status; what a refusal
    leaves behind. \<open>Grpc_Chain\<close>, \<open>Grpc_Ibc\<close>: \<open>server/chain.rs\<close> and \<open>server/ibc.rs\<close>, every remote
    procedure with its messages of \<open>proto/\<close>; \<open>Grpc_Server\<close>: all calls as one datatype and \<open>serve\<close>.
  \<^item> \<open>Terminal\<close>: \<open>output.rs\<close> and the printing of \<open>command.rs\<close>; the state is a \<open>screen\<close>, what was
    printed so far, and each operation on the terminal may fail. \<open>Event_Handlers\<close>: \<open>event/\<close>, the
    example hook, and the registrar of \<open>event.rs\<close> with the task that handles the events.
  \<^item> \<open>Cli\<close>: \<open>command/chain.rs\<close> and \<open>command/ibc.rs\<close>, the commands; \<open>Cli_Arguments\<close>: how their
    fields are read from arguments, environment and defaults; \<open>Command\<close>: \<open>signer.rs\<close>, \<open>server.rs\<close>
    and \<open>command.rs\<close>, a whole command from its checks to its error message, with the database
    functions of the core's \<open>lib.rs\<close>.
  \<^item> \<open>Mnemonic_Signer\<close>: \<open>src/signers/mnemonic-signer\<close>, an instance of the core's signers.
  \<^item> \<open>Panic_Free\<close>: which computations cannot panic.
  \<^item> \<open>Example_World\<close>: a concrete environment in which the services run in the kernel, for the
    witnesses; \<open>Host_Properties\<close>, \<open>Key_Properties\<close>, \<open>Store_Properties\<close>, \<open>Service_Properties\<close>,
    \<open>Grpc_Properties\<close>, \<open>Command_Properties\<close>, \<open>Front_Ends\<close>, \<open>Signer_Properties\<close>: the properties;
    \<open>Liveness\<close>, \<open>Handshake_Liveness\<close>, \<open>Session_Liveness\<close>: that requests succeed when the peers
    cooperate, with the calculus of runs that return (\<open>returns\<close>, \<open>yields\<close>).
  \<^item> \<open>Deadlines\<close>: a call that is over by the server's deadline is served as if it had none; runs in
    the cut environment are followed step by step (\<open>follows\<close>).
  \<^item> \<open>Concurrency\<close>: the tasks of a server that handles requests at the same time. A mint and a burn
    are cut where other requests can get between two of their accesses to the database
    (\<open>advance\<close>), and any interleaving of the pieces is a run (\<open>server_step\<close>).
  \<^item> \<open>Signing_Order\<close>: ledgers, which say for which chain each proof was signed, and the relation
    \<open>signs_in_order\<close>, kept by every service and by every answered call.
  \<^item> \<open>Build_Scripts\<close>: the two \<open>build.rs\<close>, over the file system as a tree.

  Conventions. An \<open>async fn\<close> is a \<open>run\<close>; \<open>?\<close> is \<open>bindM\<close>; a \<open>Transaction\<close> that goes out of
  scope without a commit is rolled back (\<open>scoped\<close>). A request is a computation of its own;
  requests that run at the same time are interleaved in \<open>Concurrency\<close>. A gRPC method is a
  \<open>handler\<close>, whose result is a status or an answer and which can still panic; a command is a
  \<open>cli\<close>, a computation on the world and the screen. The databases the program can reach
  (\<open>reached\<close>) are those after any commands from an empty database. What differs between runs
  and is not the program's, the libraries, the plugins and the calls that come in, is a
  \<open>process\<close>. Strings are their UTF-8 bytes. The dialect is SQLite, the features are
  \<open>ethermint\<close> and \<open>solomachine\<close> version 3; the release profile keeps overflow checks, so an
  arithmetic overflow is a panic.

  Bounds and fuel. Only unpacking a public key uses fuel, since its recursion follows bytes a
  peer sent: \<open>Suc (size k)\<close> is enough for a key \<open>k\<close> (\<open>public_key_any_roundtrip\<close>). Every loop
  of the program is over a list and is structural; verification recurses on the key and ends.

  Assumed of code outside the repository, always as named hypotheses: decoding undoes encoding
  (\<open>ibc_codec_laws\<close>, \<open>stored_decode\<close>, \<open>key_codec_laws\<close>, \<open>account_codec_laws\<close>), a node id is
  parsed from its text (\<open>node_id_laws\<close>), the random source yields letters and digits
  (\<open>alphanumeric_source\<close>), texts of decimals, ratios, hex and durations are read back
  (\<open>config_text_laws\<close>), the duration texts that are defaults mean what they say
  (\<open>duration_text_laws\<close>), an ECDSA signature has 64 bytes and is accepted by its key
  (\<open>ecdsa_laws\<close>); and, where a request is shown to succeed, that nobody fails or refuses it
  (\<open>nodes_answer\<close>, \<open>peers_answer\<close>, \<open>libraries_encode\<close>, \<open>signer_signs\<close>, \<open>clients_served\<close>,
  \<open>chain_connects\<close>, \<open>chain_mints\<close>, \<open>clock_runs\<close>), and that the libraries take the
  configuration of the chain (\<open>acceptable_config\<close>); where two signatures are shown to differ,
  that different packet data and sign bytes have different texts (\<open>distinct_texts\<close>). What a
  chain reports about a packet is stated by \<open>announces\<close>: the eight attributes the program
  reads, among any others. Hash functions and signatures are arbitrary: what would need
  collision resistance is stated with the collision as an alternative.

  What the properties show. The host layer: identifiers, revisions, heights and paths are
  accepted exactly as specified, read back as written, and paths tell all objects apart. Keys:
  a multisignature is accepted only with threshold many valid signatures at the marked keys.
  Stores: rows are read back, nothing is added twice, sequences never wrap. Services: what a
  mint, a burn, a connect, a key rotation and an added chain do, and that failures leave the
  database alone. Program: every command and every call refines the specification, so that
  every reachable database is good, and so does any interleaving of concurrent requests; a
  refused call touches nothing; what was added is shown, what was minted is in the history and
  is announced; both front ends read a request alike, and run it alike when it is over by the
  server's deadline; with cooperating peers (\<open>session_peers\<close>) a machine that starts from an
  empty database adds a chain, connects to it and mints any number of times; and as long as
  calls are answered one after another, every sequence number of every chain is signed with
  exactly once and in order. The development also proves defects: closing a channel never
  succeeds; connecting to a chain that was added with a trust level the light client rejects
  panics; an answer that the chain refuses still uses up a sequence number; a multisignature
  with too few signatures panics; a forced reconnect panics; a failed command exits like a
  successful one; a mint after a refused one signs its sequence again, and two mints at the
  same time sign different packets with one sequence; a mint that times out after its
  broadcast is forgotten; the ethermint signatures of the mnemonic signer are refused by the
  core's own verification.

  Not modelled: the transport of gRPC (a call dropped after the server's 60 seconds is
  modelled, \<open>serve_within\<close>); opening shared libraries; the tokenizing of the command line,
  help texts and completion scripts (structopt); colours and table borders; the log lines of
  refused gRPC calls; serde's JSON texts; key derivation and the curves; what sqlx and its
  migrations do; the asynchronous runtime and the environment file of \<open>main.rs\<close>; the protobuf
  code generator the build scripts run.
\<close>

end
